(* ===== verification/Prelude.thy ===== *)
theory Prelude
  imports Main
begin

text \<open>
  The prelude of the development: what every component theory shares.

  \<^item> The control flow of a service method.  A method either raises or returns, so its result
    is a sum with the exception on the left; \<open>raise_if\<close>, \<open>some_or\<close> and \<open>let_ok\<close> are the three
    shapes the services are written in (\<open>if c: raise e\<close>, \<open>x = get(..); if x is None: raise e\<close>,
    \<open>x = await f(..)\<close>).  Their elimination rules are collected in \<open>flow\<close>.
  \<^item> Tables.  A relational table is a list of rows in primary-key order together with the
    sequence that hands out the next key.  \<open>tget\<close>, \<open>tins\<close>, \<open>tupd\<close>, \<open>tdel\<close> and \<open>tsel\<close> are what the
    services use of it (\<open>db.get\<close>, \<open>db.add\<close> and \<open>flush\<close>, an attribute assignment, \<open>db.delete\<close>,
    \<open>select .. where\<close>).  The contract the services rely on is the locale \<open>keyed_store\<close>,
    interpreted on these operations.
  \<^item> Optional values as Python tests them, and ordering of query results.
\<close>

section \<open>Named collections\<close>

named_theorems flow \<open>how a method that returned must have run\<close>
named_theorems op_defs \<open>definitions of the operations of the services\<close>

section \<open>Control flow of a method that may raise\<close>

definition raise_if :: "bool \<Rightarrow> 'e \<Rightarrow> 'e + 'a \<Rightarrow> 'e + 'a" where
  "raise_if c e k = (if c then Inl e else k)"

definition some_or :: "'a option \<Rightarrow> 'e \<Rightarrow> ('a \<Rightarrow> 'e + 'b) \<Rightarrow> 'e + 'b" where
  "some_or x e k = (case x of None \<Rightarrow> Inl e | Some y \<Rightarrow> k y)"

definition let_ok :: "'e + 'a \<Rightarrow> ('a \<Rightarrow> 'e + 'b) \<Rightarrow> 'e + 'b" where
  "let_ok x k = (case x of Inl e \<Rightarrow> Inl e | Inr y \<Rightarrow> k y)"

lemma raise_if_simps [simp]:
  "raise_if True e k = Inl e"
  "raise_if False e k = k"
  by (simp_all add: raise_if_def)

lemma some_or_simps [simp]:
  "some_or None e k = Inl e"
  "some_or (Some y) e k = k y"
  by (simp_all add: some_or_def)

lemma let_ok_simps [simp]:
  "let_ok (Inl e) k = Inl e"
  "let_ok (Inr y) k = k y"
  by (simp_all add: let_ok_def)

lemma raise_if_Inr [flow]: "raise_if c e k = Inr y \<longleftrightarrow> \<not> c \<and> k = Inr y"
  by (simp add: raise_if_def)

lemma some_or_Inr [flow]: "some_or x e k = Inr y \<longleftrightarrow> (\<exists>z. x = Some z \<and> k z = Inr y)"
  by (cases x) simp_all

lemma let_ok_Inr [flow]: "let_ok x k = Inr y \<longleftrightarrow> (\<exists>z. x = Inr z \<and> k z = Inr y)"
  by (cases x) simp_all

lemma raise_if_Inl: "raise_if c e k = Inl x \<longleftrightarrow> (c \<and> x = e) \<or> (\<not> c \<and> k = Inl x)"
  by (auto simp: raise_if_def)

lemma some_or_Inl:
  "some_or v e k = Inl x \<longleftrightarrow> (v = None \<and> x = e) \<or> (\<exists>z. v = Some z \<and> k z = Inl x)"
  by (cases v) auto

lemma let_ok_Inl: "let_ok v k = Inl x \<longleftrightarrow> v = Inl x \<or> (\<exists>z. v = Inr z \<and> k z = Inl x)"
  by (cases v) auto

lemmas flow_errors = raise_if_Inl some_or_Inl let_ok_Inl

text \<open>A method that did not raise returned a result and a state.\<close>

lemma returned: "\<not> isl x \<Longrightarrow> \<exists>a b. x = Inr (a, b)"
  by (cases x) auto

lemma raise_if_cong [cong]:
  "c = c' \<Longrightarrow> e = e' \<Longrightarrow> (\<not> c' \<Longrightarrow> k = k') \<Longrightarrow> raise_if c e k = raise_if c' e' k'"
  by (simp add: raise_if_def)

section \<open>Optional values\<close>

text \<open>\<open>x or d\<close> on an optional number or string treats 0 and the empty string as absent.\<close>

definition or_default :: "int option \<Rightarrow> int \<Rightarrow> int" where
  "or_default x d = (case x of None \<Rightarrow> d | Some v \<Rightarrow> if v = 0 then d else v)"

definition truthy :: "'a list option \<Rightarrow> bool" where
  "truthy s = (case s of None \<Rightarrow> False | Some v \<Rightarrow> v \<noteq> [])"

definition or_str :: "'a list option \<Rightarrow> 'a list \<Rightarrow> 'a list" where
  "or_str x d = (case x of None \<Rightarrow> d | Some v \<Rightarrow> if v = [] then d else v)"

text \<open>The update idiom \<open>if req.f is not None: row.f = req.f\<close>.\<close>

definition keep :: "'a option \<Rightarrow> 'a \<Rightarrow> 'a" where
  "keep new old = (case new of None \<Rightarrow> old | Some v \<Rightarrow> v)"

definition keep_opt :: "'a option \<Rightarrow> 'a option \<Rightarrow> 'a option" where
  "keep_opt new old = (case new of None \<Rightarrow> old | Some v \<Rightarrow> Some v)"

lemma keep_simps [simp]: "keep None x = x" "keep (Some y) x = y"
  by (simp_all add: keep_def)

lemma keep_opt_simps [simp]: "keep_opt None x = x" "keep_opt (Some y) x = Some y"
  by (simp_all add: keep_opt_def)

text \<open>A filter that is only added to a query when its argument was given.\<close>

definition opt_filter :: "'k option \<Rightarrow> ('k \<Rightarrow> 'a \<Rightarrow> bool) \<Rightarrow> 'a \<Rightarrow> bool" where
  "opt_filter k p x = (case k of None \<Rightarrow> True | Some v \<Rightarrow> p v x)"

lemma opt_filter_simps [simp]:
  "opt_filter None p x"
  "opt_filter (Some v) p x = p v x"
  by (simp_all add: opt_filter_def)

section \<open>Lists\<close>

text \<open>\<open>List.map_filter\<close> keeps the results of a partial function, as an inner join does.\<close>

lemma set_map_filter: "y \<in> set (List.map_filter f xs) \<longleftrightarrow> (\<exists>x \<in> set xs. f x = Some y)"
  by (induction xs) (auto simp: List.map_filter_simps split: option.splits)

lemma map_filter_append: "List.map_filter f (xs @ ys) = List.map_filter f xs @ List.map_filter f ys"
  by (induction xs) (auto simp: List.map_filter_simps split: option.splits)

lemma map_filter_map: "List.map_filter f (map g xs) = List.map_filter (f \<circ> g) xs"
  by (induction xs) (auto simp: List.map_filter_simps split: option.splits)

lemma map_map_filter: "map g (List.map_filter f xs) = List.map_filter (map_option g \<circ> f) xs"
  by (induction xs) (auto simp: List.map_filter_simps split: option.splits)

lemma map_filter_Some: "(\<And>x. x \<in> set xs \<Longrightarrow> f x = Some (g x)) \<Longrightarrow> List.map_filter f xs = map g xs"
  by (induction xs) (auto simp: List.map_filter_simps)

lemma map_filter_cong: "(\<And>x. x \<in> set xs \<Longrightarrow> f x = g x) \<Longrightarrow> List.map_filter f xs = List.map_filter g xs"
  by (induction xs) (auto simp: List.map_filter_simps split: option.splits)

section \<open>Tables\<close>

record 'r table =
  rows :: "(int \<times> 'r) list"
  next_id :: int

definition empty_table :: "'r table" where
  "empty_table = \<lparr>rows = [], next_id = 1\<rparr>"

definition tget :: "'r table \<Rightarrow> int \<Rightarrow> 'r option" where
  "tget t i = map_of (rows t) i"

definition tins :: "'r \<Rightarrow> 'r table \<Rightarrow> 'r table" where
  "tins r t = \<lparr>rows = rows t @ [(next_id t, r)], next_id = next_id t + 1\<rparr>"

definition tupd :: "int \<Rightarrow> 'r \<Rightarrow> 'r table \<Rightarrow> 'r table" where
  "tupd i r t = t\<lparr>rows := map (\<lambda>(k, x). if k = i then (k, r) else (k, x)) (rows t)\<rparr>"

definition tdel :: "int \<Rightarrow> 'r table \<Rightarrow> 'r table" where
  "tdel i t = t\<lparr>rows := filter (\<lambda>(k, x). k \<noteq> i) (rows t)\<rparr>"

text \<open>Rows matching a condition, in key order; \<open>tdel_where\<close> is a cascading delete.\<close>

definition tsel :: "(int \<Rightarrow> 'r \<Rightarrow> bool) \<Rightarrow> 'r table \<Rightarrow> (int \<times> 'r) list" where
  "tsel p t = filter (\<lambda>(k, x). p k x) (rows t)"

definition tdel_where :: "(int \<Rightarrow> 'r \<Rightarrow> bool) \<Rightarrow> 'r table \<Rightarrow> 'r table" where
  "tdel_where p t = t\<lparr>rows := filter (\<lambda>(k, x). \<not> p k x) (rows t)\<rparr>"

text \<open>Keys are unique, ascending and below the sequence.\<close>

definition table_ok :: "'r table \<Rightarrow> bool" where
  "table_ok t \<longleftrightarrow> sorted_wrt (<) (map fst (rows t)) \<and> (\<forall>(k, x) \<in> set (rows t). k < next_id t)"

lemma map_of_update_row:
  "map_of (map (\<lambda>(k, x). if k = i then (k, r) else (k, x)) xs) j =
     (if j = i \<and> map_of xs i \<noteq> None then Some r else map_of xs j)"
  by (induction xs) auto

lemma map_of_drop_key:
  "map_of (filter (\<lambda>(k, x). k \<noteq> i) xs) j = (if j = i then None else map_of xs j)"
  by (induction xs) auto

lemma keys_update_row:
  "map fst (map (\<lambda>(k, x). if k = i then (k, r) else (k, x)) xs) = map fst xs"
  by (induction xs) auto

lemma table_okD:
  assumes "table_ok t"
  shows "distinct (map fst (rows t))" and "(k, x) \<in> set (rows t) \<Longrightarrow> k < next_id t"
  using assms by (auto simp: table_ok_def strict_sorted_iff)

lemma tget_in: "tget t i = Some r \<Longrightarrow> (i, r) \<in> set (rows t)"
  by (auto simp: tget_def dest: map_of_SomeD)

lemma tget_iff: "table_ok t \<Longrightarrow> tget t i = Some r \<longleftrightarrow> (i, r) \<in> set (rows t)"
  by (auto simp: tget_def dest: table_okD(1) map_of_SomeD)

lemma tget_lt: "table_ok t \<Longrightarrow> tget t i = Some r \<Longrightarrow> i < next_id t"
  by (auto dest: tget_in table_okD(2))

lemma tget_next [simp]: "table_ok t \<Longrightarrow> tget t (next_id t) = None"
  using tget_lt by (metis less_irrefl not_None_eq)

lemma tget_empty [simp]: "tget empty_table i = None"
  by (simp add: tget_def empty_table_def)

lemma tget_tins:
  "table_ok t \<Longrightarrow> tget (tins r t) i = (if i = next_id t then Some r else tget t i)"
  using tget_next [of t] by (auto simp: tget_def tins_def map_add_def split: option.splits)

lemma rows_fold_tins:
  "rows (fold tins xs t) = rows t @ map (\<lambda>k. (next_id t + int k, xs ! k)) [0..<length xs]"
proof (induction xs arbitrary: t)
  case (Cons x xs)
  have "[0..<length (x # xs)] = 0 # map Suc [0..<length xs]"
    by (simp add: upt_conv_Cons map_Suc_upt del: upt_Suc)
  then show ?case using Cons [of "tins x t"] by (simp add: tins_def comp_def algebra_simps del: upt_Suc)
qed simp

lemma tget_tins_old: "tget t i = Some x \<Longrightarrow> tget (tins r t) i = Some x"
  by (simp add: tget_def tins_def)

lemma tget_tupd:
  "tget (tupd i r t) j = (if j = i \<and> tget t i \<noteq> None then Some r else tget t j)"
  by (simp add: tget_def tupd_def map_of_update_row)

lemma tget_tdel [simp]: "tget (tdel i t) j = (if j = i then None else tget t j)"
  by (simp add: tget_def tdel_def map_of_drop_key)

lemma next_id_tins [simp]: "next_id (tins r t) = next_id t + 1"
  by (simp add: tins_def)

lemma next_id_tupd [simp]: "next_id (tupd i r t) = next_id t"
  by (simp add: tupd_def)

lemma next_id_tdel [simp]: "next_id (tdel i t) = next_id t"
  by (simp add: tdel_def)

lemma table_ok_empty [simp]: "table_ok empty_table"
  by (simp add: table_ok_def empty_table_def)

lemma table_ok_tins [simp]: "table_ok t \<Longrightarrow> table_ok (tins r t)"
  by (auto simp: table_ok_def tins_def sorted_wrt_append)

lemma set_update_row:
  "set (map (\<lambda>(k, x). if k = i then (k, r) else (k, x)) xs) \<subseteq>
     {(k, x). (k, x) \<in> set xs \<or> (k = i \<and> x = r \<and> i \<in> fst ` set xs)}"
  by (force split: if_splits)

lemma table_ok_tupd [simp]: "table_ok t \<Longrightarrow> table_ok (tupd i r t)"
  by (auto simp: table_ok_def tupd_def keys_update_row split: if_splits simp del: map_map)

lemma sorted_wrt_keys_filter:
  "sorted_wrt (<) (map fst xs) \<Longrightarrow> sorted_wrt (<) (map fst (filter p xs))"
  by (induction xs) auto

lemma table_ok_tdel [simp]: "table_ok t \<Longrightarrow> table_ok (tdel i t)"
  by (auto simp: table_ok_def tdel_def sorted_wrt_keys_filter)

lemma table_ok_tdel_where [simp]: "table_ok t \<Longrightarrow> table_ok (tdel_where p t)"
  by (auto simp: table_ok_def tdel_where_def sorted_wrt_keys_filter)

lemma tsel_tins:
  "tsel p (tins r t) = tsel p t @ (if p (next_id t) r then [(next_id t, r)] else [])"
  by (simp add: tsel_def tins_def)

lemma filter_map_update:
  assumes "\<And>s. (i, s) \<in> set xs \<Longrightarrow> p i s = p i r"
  shows "filter (\<lambda>(k, x). p k x) (map (\<lambda>(k, x). if k = i then (k, r) else (k, x)) xs) =
    map (\<lambda>(k, x). if k = i then (k, r) else (k, x)) (filter (\<lambda>(k, x). p k x) xs)"
  using assms by (induction xs) (auto split: if_splits)

lemma tsel_tupd:
  "(\<And>s. (i, s) \<in> set (rows t) \<Longrightarrow> p i s = p i r) \<Longrightarrow>
   tsel p (tupd i r t) = map (\<lambda>(k, x). if k = i then (k, r) else (k, x)) (tsel p t)"
  by (simp add: tsel_def tupd_def filter_map_update)

section \<open>Row conditions and unique constraints\<close>

text \<open>
  \<open>all_rows\<close> is a CHECK constraint: a condition on every row.  \<open>unique_on q key\<close> is a (partial)
  UNIQUE constraint: two rows that both satisfy \<open>q\<close> and agree on \<open>key\<close> are the same row.
\<close>

definition all_rows :: "(int \<Rightarrow> 'r \<Rightarrow> bool) \<Rightarrow> 'r table \<Rightarrow> bool" where
  "all_rows p t \<longleftrightarrow> (\<forall>(i, r) \<in> set (rows t). p i r)"

definition unique_on :: "('r \<Rightarrow> bool) \<Rightarrow> ('r \<Rightarrow> 'k) \<Rightarrow> 'r table \<Rightarrow> bool" where
  "unique_on q key t \<longleftrightarrow>
     (\<forall>(i, r) \<in> set (rows t). \<forall>(j, s) \<in> set (rows t). q r \<and> q s \<and> key r = key s \<longrightarrow> i = j)"

lemma all_rows_empty [simp]: "all_rows p empty_table"
  by (simp add: all_rows_def empty_table_def)

lemma all_rows_tins [simp]: "all_rows p (tins r t) \<longleftrightarrow> all_rows p t \<and> p (next_id t) r"
  by (auto simp: all_rows_def tins_def)

lemma all_rows_tupd: "all_rows p t \<Longrightarrow> p i r \<Longrightarrow> all_rows p (tupd i r t)"
  by (auto simp: all_rows_def tupd_def split: if_splits)

lemma all_rows_tdel: "all_rows p t \<Longrightarrow> all_rows p (tdel i t)"
  by (auto simp: all_rows_def tdel_def)

lemma all_rows_tget: "all_rows p t \<Longrightarrow> tget t i = Some r \<Longrightarrow> p i r"
  by (auto simp: all_rows_def dest: tget_in)

lemma all_rows_change:
  "all_rows p t \<Longrightarrow> tget t i = Some r \<Longrightarrow> (p i r \<Longrightarrow> p i r') \<Longrightarrow> all_rows p (tupd i r' t)"
  by (blast intro: all_rows_tupd dest: all_rows_tget)

lemma all_rowsI: "(\<And>i r. (i, r) \<in> set (rows t) \<Longrightarrow> p i r) \<Longrightarrow> all_rows p t"
  by (auto simp: all_rows_def)

lemma unique_onD:
  "unique_on q key t \<Longrightarrow> (i, r) \<in> set (rows t) \<Longrightarrow> (j, s) \<in> set (rows t) \<Longrightarrow> q r \<Longrightarrow> q s
   \<Longrightarrow> key r = key s \<Longrightarrow> i = j"
  by (auto simp: unique_on_def)

lemma unique_onI:
  "(\<And>i r j s. (i, r) \<in> set (rows t) \<Longrightarrow> (j, s) \<in> set (rows t) \<Longrightarrow> q r \<Longrightarrow> q s
     \<Longrightarrow> key r = key s \<Longrightarrow> i = j) \<Longrightarrow> unique_on q key t"
  unfolding unique_on_def by blast

lemma unique_on_empty [simp]: "unique_on q key empty_table"
  by (simp add: unique_on_def empty_table_def)

lemma rows_tins: "set (rows (tins r t)) = insert (next_id t, r) (set (rows t))"
  by (auto simp: tins_def)

lemma rows_tupd: "(j, s) \<in> set (rows (tupd i r t)) \<Longrightarrow>
    (j \<noteq> i \<and> (j, s) \<in> set (rows t)) \<or> (j = i \<and> s = r)"
  by (auto simp: tupd_def split: if_splits)

lemma rows_tdel: "set (rows (tdel i t)) = {(j, s). (j, s) \<in> set (rows t) \<and> j \<noteq> i}"
  by (auto simp: tdel_def)

lemma unique_on_tins:
  assumes "unique_on q key t"
    and "\<And>i s. (i, s) \<in> set (rows t) \<Longrightarrow> q s \<Longrightarrow> q r \<Longrightarrow> key s \<noteq> key r"
  shows "unique_on q key (tins r t)"
proof (rule unique_onI)
  fix i x j s
  assume "(i, x) \<in> set (rows (tins r t))" "(j, s) \<in> set (rows (tins r t))" "q x" "q s" "key x = key s"
  then show "i = j"
    using unique_onD [OF assms(1), of i x j s] assms(2) [of i x] assms(2) [of j s]
    by (auto simp: rows_tins)
qed

lemma unique_on_tupd:
  assumes u: "unique_on q key t"
    and new: "\<And>j s. (j, s) \<in> set (rows t) \<Longrightarrow> j \<noteq> i \<Longrightarrow> q s \<Longrightarrow> q r \<Longrightarrow> key s \<noteq> key r"
  shows "unique_on q key (tupd i r t)"
proof (rule unique_onI)
  fix j s k x
  assume js: "(j, s) \<in> set (rows (tupd i r t))" and kx: "(k, x) \<in> set (rows (tupd i r t))"
    and q: "q s" "q x"
    and eq: "key s = key x"
  from rows_tupd [OF js] rows_tupd [OF kx] show "j = k"
  proof (elim disjE conjE)
    assume "(j, s) \<in> set (rows t)" "(k, x) \<in> set (rows t)"
    then show ?thesis using unique_onD [OF u] q eq by blast
  next
    assume "j \<noteq> i" "(j, s) \<in> set (rows t)" "x = r"
    then show ?thesis using new [of j s] q eq by simp
  next
    assume "k \<noteq> i" "(k, x) \<in> set (rows t)" "s = r"
    then show ?thesis using new [of k x] q eq by simp
  qed simp
qed

lemma unique_on_tupd_same:
  assumes "unique_on q key t" "(i, r) \<in> set (rows t)" "q r' \<Longrightarrow> q r \<and> key r' = key r"
  shows "unique_on q key (tupd i r' t)"
proof (rule unique_on_tupd [OF assms(1)])
  fix j s assume js: "(j, s) \<in> set (rows t)" "j \<noteq> i" "q s" "q r'"
  show "key s \<noteq> key r'"
  proof
    assume "key s = key r'"
    with js(4) assms(3) have "q r" "key s = key r" by simp_all
    with unique_onD [OF assms(1) js(1) assms(2) js(3)] js(2) show False by simp
  qed
qed

lemma unique_on_tdel: "unique_on q key t \<Longrightarrow> unique_on q key (tdel i t)"
  by (rule unique_onI) (auto simp: rows_tdel dest: unique_onD)

section \<open>Selecting rows\<close>

lemma tsel_iff: "(i, r) \<in> set (tsel p t) \<longleftrightarrow> (i, r) \<in> set (rows t) \<and> p i r"
  by (auto simp: tsel_def)

lemma tsel_keys:
  "table_ok t \<Longrightarrow> k \<in> fst ` set (tsel p t) \<longleftrightarrow> (\<exists>x. tget t k = Some x \<and> p k x)"
  by (force simp: tget_iff tsel_def)

lemma tget_tdel_where:
  assumes "table_ok t"
  shows "tget (tdel_where p t) i = Some r \<longleftrightarrow> tget t i = Some r \<and> \<not> p i r"
proof -
  have "table_ok (tdel_where p t)" using assms by simp
  then show ?thesis using assms by (auto simp: tget_iff tdel_where_def)
qed

lemma tsel_empty_iff: "tsel p t = [] \<longleftrightarrow> (\<forall>(i, r) \<in> set (rows t). \<not> p i r)"
  by (auto simp: tsel_def filter_empty_conv)

lemma distinct_tsel: "table_ok t \<Longrightarrow> distinct (map fst (tsel p t))"
  by (auto simp: tsel_def dest!: table_okD(1) intro: distinct_map_filter)

lemma length_le_1_if_same_key:
  assumes "distinct (map fst xs)" "\<And>i r j s. (i, r) \<in> set xs \<Longrightarrow> (j, s) \<in> set xs \<Longrightarrow> i = j"
  shows "length xs \<le> 1"
proof (rule ccontr)
  assume "\<not> length xs \<le> 1"
  then obtain x y ys where xs: "xs = x # y # ys"
    by (cases xs; cases "tl xs") auto
  with assms(2) [of "fst x" "snd x" "fst y" "snd y"] have "fst x = fst y" by simp
  with assms(1) xs show False by simp
qed

lemma tsel_unique:
  assumes "table_ok t" "unique_on q key t" "\<And>i r. p i r \<Longrightarrow> q r \<and> key r = k"
  shows "length (tsel p t) \<le> 1"
proof (rule length_le_1_if_same_key [OF distinct_tsel [OF assms(1)]])
  fix i r j s assume "(i, r) \<in> set (tsel p t)" "(j, s) \<in> set (tsel p t)"
  then have "(i, r) \<in> set (rows t)" "(j, s) \<in> set (rows t)" "p i r" "p j s"
    by (simp_all add: tsel_iff)
  then show "i = j" using unique_onD [OF assms(2)] assms(3) by metis
qed

section \<open>The persistence contract\<close>

text \<open>
  What a service relies on when it stores a row and reads it back: keys handed out are fresh,
  a row is read back as written, and writing one row leaves the others alone.
\<close>

locale keyed_store =
  fixes get :: "'t \<Rightarrow> int \<Rightarrow> 'r option"
    and ins :: "'r \<Rightarrow> 't \<Rightarrow> 't"
    and upd :: "int \<Rightarrow> 'r \<Rightarrow> 't \<Rightarrow> 't"
    and del :: "int \<Rightarrow> 't \<Rightarrow> 't"
    and fresh :: "'t \<Rightarrow> int"
    and ok :: "'t \<Rightarrow> bool"
  assumes get_fresh: "ok t \<Longrightarrow> get t (fresh t) = None"
    and get_ins: "ok t \<Longrightarrow> get (ins r t) i = (if i = fresh t then Some r else get t i)"
    and get_upd: "get (upd i r t) j = (if j = i \<and> get t i \<noteq> None then Some r else get t j)"
    and get_del: "get (del i t) j = (if j = i then None else get t j)"
    and ok_ins: "ok t \<Longrightarrow> ok (ins r t)"
    and ok_upd: "ok t \<Longrightarrow> ok (upd i r t)"
    and ok_del: "ok t \<Longrightarrow> ok (del i t)"
begin

lemma read_back_insert: "ok t \<Longrightarrow> get (ins r t) (fresh t) = Some r"
  by (simp add: get_ins)

lemma insert_keeps: "ok t \<Longrightarrow> get t i = Some x \<Longrightarrow> get (ins r t) i = Some x"
  using get_fresh by (auto simp: get_ins)

lemma read_back_update: "get t i = Some x \<Longrightarrow> get (upd i r t) i = Some r"
  by (simp add: get_upd)

lemma update_keeps_others: "j \<noteq> i \<Longrightarrow> get (upd i r t) j = get t j"
  by (simp add: get_upd)

lemma delete_forgets: "get (del i t) i = None"
  by (simp add: get_del)

lemma delete_keeps_others: "j \<noteq> i \<Longrightarrow> get (del i t) j = get t j"
  by (simp add: get_del)

lemma keys_only_grow_by_insert:
  "ok t \<Longrightarrow> {i. get (ins r t) i \<noteq> None} = insert (fresh t) {i. get t i \<noteq> None}"
  by (auto simp: get_ins)

lemma insert_then_delete: "ok t \<Longrightarrow> get (del (fresh t) (ins r t)) i = get t i"
  using get_fresh by (auto simp: get_ins get_del)

end

interpretation tbl: keyed_store tget tins tupd tdel next_id table_ok
  by unfold_locales (auto simp: tget_tins tget_tupd)

end
