(* ===== verification/Text.thy ===== *)
theory Text
  imports Prelude "HOL-Library.Sublist"
begin

text \<open>
  The string operations of Python's standard library that the program uses.  A Python string is a
  list of characters, one per code point; an Isabelle character has 256 values, so the code points
  above U+00FF are outside the model.  On U+0000..U+00FF the functions below are Python's:
  \<open>py_strip\<close> is \<open>str.strip()\<close>, \<open>py_lower\<close> is \<open>str.lower()\<close>, \<open>remove_prefix\<close> is
  \<open>str.removeprefix\<close>, \<open>split_once\<close> is \<open>str.split(sep, 1)\<close>, \<open>str_of_int\<close> is \<open>str(n)\<close> of an
  integer and \<open>py_int\<close> is \<open>int(s)\<close>, with \<open>None\<close> for \<open>ValueError\<close> (CPython's limit of 4300 digits
  is not modelled).
\<close>

section \<open>Characters\<close>

abbreviation code :: "char \<Rightarrow> nat" where
  "code c \<equiv> of_char c"

definition py_space :: "char \<Rightarrow> bool" where
  "py_space c \<longleftrightarrow> (9 \<le> code c \<and> code c \<le> 13) \<or> (28 \<le> code c \<and> code c \<le> 32)
     \<or> code c = 133 \<or> code c = 160"

definition is_digit :: "char \<Rightarrow> bool" where
  "is_digit c \<longleftrightarrow> 48 \<le> code c \<and> code c \<le> 57"

definition lower_char :: "char \<Rightarrow> char" where
  "lower_char c = (if (65 \<le> code c \<and> code c \<le> 90) \<or> (192 \<le> code c \<and> code c \<le> 222 \<and> code c \<noteq> 215)
     then char_of (code c + 32) else c)"

lemma code_digit: "(d::nat) < 10 \<Longrightarrow> code (char_of (48 + d)) = 48 + d"
  by simp

section \<open>Strings\<close>

definition py_strip :: "string \<Rightarrow> string" where
  "py_strip s = rev (dropWhile py_space (rev (dropWhile py_space s)))"

definition py_lower :: "string \<Rightarrow> string" where
  "py_lower s = map lower_char s"

definition starts_with :: "string \<Rightarrow> string \<Rightarrow> bool" where
  "starts_with s p \<longleftrightarrow> take (length p) s = p"

definition remove_prefix :: "string \<Rightarrow> string \<Rightarrow> string" where
  "remove_prefix p s = (if starts_with s p then drop (length p) s else s)"

fun split_once :: "char \<Rightarrow> string \<Rightarrow> string list" where
  "split_once c [] = [[]]"
| "split_once c (x # xs) =
     (if x = c then [[], xs]
      else case split_once c xs of [] \<Rightarrow> [[x]] | y # ys \<Rightarrow> (x # y) # ys)"

lemma starts_with_append [simp]: "starts_with (p @ s) p"
  by (simp add: starts_with_def)

lemma starts_with_iff: "starts_with s p \<longleftrightarrow> (\<exists>t. s = p @ t)"
  by (metis append_eq_conv_conj append_take_drop_id starts_with_def)

lemma remove_prefix_append [simp]: "remove_prefix p (p @ s) = s"
  by (simp add: remove_prefix_def)

lemma dropWhile_idem_hd: "s = [] \<or> \<not> p (hd s) \<Longrightarrow> dropWhile p s = s"
  by (cases s) auto

lemma py_strip_id:
  assumes "s = [] \<or> (\<not> py_space (hd s) \<and> \<not> py_space (last s))"
  shows "py_strip s = s"
proof -
  have "dropWhile py_space s = s" using assms by (intro dropWhile_idem_hd) auto
  moreover have "dropWhile py_space (rev s) = rev s"
    using assms by (intro dropWhile_idem_hd) (auto simp: hd_rev)
  ultimately show ?thesis by (simp add: py_strip_def)
qed

lemma hd_dropWhile_not: "dropWhile p s \<noteq> [] \<Longrightarrow> \<not> p (hd (dropWhile p s))"
  by (rule hd_dropWhile)

lemma suffix_dropWhile_rev: "\<exists>t. xs = rev (dropWhile p (rev xs)) @ t"
  by (metis rev_append rev_rev_ident takeWhile_dropWhile_id)

lemma py_strip_last: "py_strip s \<noteq> [] \<Longrightarrow> \<not> py_space (last (py_strip s))"
  using hd_dropWhile_not [of py_space "rev (dropWhile py_space s)"]
  by (simp add: py_strip_def last_rev del: dropWhile_eq_Nil_conv)

lemma py_strip_hd:
  assumes "py_strip s \<noteq> []"
  shows "\<not> py_space (hd (py_strip s))"
proof -
  obtain t where t: "dropWhile py_space s = py_strip s @ t"
    using suffix_dropWhile_rev [of "dropWhile py_space s" py_space] by (auto simp: py_strip_def)
  with assms have "hd (py_strip s) = hd (dropWhile py_space s)" and "dropWhile py_space s \<noteq> []"
    by auto
  then show ?thesis using hd_dropWhile_not by metis
qed

lemma py_strip_idem [simp]: "py_strip (py_strip s) = py_strip s"
  using py_strip_hd py_strip_last by (intro py_strip_id) blast

lemma set_py_strip: "set (py_strip s) \<subseteq> set s"
  by (auto simp: py_strip_def dest!: set_dropWhileD)

lemma length_py_strip: "length (py_strip s) \<le> length s"
  using length_dropWhile_le [of py_space s]
    length_dropWhile_le [of py_space "rev (dropWhile py_space s)"]
  by (simp add: py_strip_def)

lemma concat_split_once:
  "split_once c s = [a, b] \<Longrightarrow> s = a @ c # b"
  by (induction s arbitrary: a) (auto split: if_splits list.splits)

section \<open>JSON values\<close>

text \<open>A decoded JSON value; an object is the list of its members, as in a Python dict.\<close>

datatype json =
    JNull | JBool bool | JNum int | JStr string | JArr "json list" | JObj "(string \<times> json) list"

type_synonym jobject = "(string \<times> json) list"

section \<open>Decimal numbers\<close>

fun str_of_nat :: "nat \<Rightarrow> string" where
  "str_of_nat n =
     (if n < 10 then [char_of (48 + n)] else str_of_nat (n div 10) @ [char_of (48 + n mod 10)])"

declare str_of_nat.simps [simp del]

definition str_of_int :: "int \<Rightarrow> string" where
  "str_of_int i = (if i < 0 then CHR ''-'' # str_of_nat (nat (- i)) else str_of_nat (nat i))"

fun parse_digits :: "nat \<Rightarrow> string \<Rightarrow> nat option" where
  "parse_digits acc [] = Some acc"
| "parse_digits acc (c # cs) =
     (if is_digit c then parse_digits (10 * acc + (code c - 48)) cs
      else if c = CHR ''_'' \<and> cs \<noteq> [] \<and> is_digit (hd cs) then parse_digits acc cs
      else None)"

definition parse_nat :: "string \<Rightarrow> nat option" where
  "parse_nat s = (if s \<noteq> [] \<and> is_digit (hd s) then parse_digits 0 s else None)"

definition py_int :: "string \<Rightarrow> int option" where
  "py_int s =
     (case py_strip s of
        [] \<Rightarrow> None
      | c # cs \<Rightarrow>
          if c = CHR ''-'' then map_option (\<lambda>n. - int n) (parse_nat cs)
          else if c = CHR ''+'' then map_option int (parse_nat cs)
          else map_option int (parse_nat (c # cs)))"

lemma is_digit_char_of: "(d::nat) < 10 \<Longrightarrow> is_digit (char_of (48 + d))"
  by (simp add: is_digit_def)

lemma str_of_nat_digits: "s = str_of_nat n \<Longrightarrow> s \<noteq> [] \<and> list_all is_digit s"
proof (induction n arbitrary: s rule: str_of_nat.induct)
  case (1 n)
  then show ?case
    by (subst (asm) str_of_nat.simps) (auto simp: is_digit_char_of split: if_splits)
qed

lemma parse_digits_append:
  "list_all is_digit xs \<Longrightarrow> parse_digits acc (xs @ ys) = Option.bind (parse_digits acc xs) (\<lambda>a. parse_digits a ys)"
  by (induction xs arbitrary: acc) auto

lemma parse_str_of_nat: "parse_digits 0 (str_of_nat n) = Some n"
proof (induction n rule: str_of_nat.induct)
  case (1 n)
  show ?case
  proof (cases "n < 10")
    case True
    then show ?thesis by (subst str_of_nat.simps) (simp add: is_digit_char_of)
  next
    case False
    have "list_all is_digit (str_of_nat (n div 10))" using str_of_nat_digits by blast
    with 1 False show ?thesis
      by (subst str_of_nat.simps) (simp add: parse_digits_append is_digit_char_of)
  qed
qed

lemma parse_nat_str_of_nat: "parse_nat (str_of_nat n) = Some n"
proof -
  have "str_of_nat n \<noteq> []" "is_digit (hd (str_of_nat n))"
    using str_of_nat_digits [OF refl, of n] by (auto simp: list_all_iff)
  then show ?thesis by (simp add: parse_nat_def parse_str_of_nat)
qed

lemma is_digit_not_space: "is_digit c \<Longrightarrow> \<not> py_space c"
  by (auto simp: is_digit_def py_space_def)

lemma is_digit_not_sign: "is_digit c \<Longrightarrow> c \<noteq> CHR ''-'' \<and> c \<noteq> CHR ''+''"
  by (auto simp: is_digit_def)

lemma last_str_of_nat: "is_digit (last (str_of_nat n))"
  using str_of_nat_digits [OF refl, of n] by (auto simp: list_all_iff)

lemma hd_str_of_nat: "is_digit (hd (str_of_nat n))"
  using str_of_nat_digits [OF refl, of n] by (auto simp: list_all_iff)

lemma py_strip_str_of_int: "py_strip (str_of_int i) = str_of_int i"
proof (rule py_strip_id)
  have "\<not> py_space (CHR ''-'')" by (simp add: py_space_def)
  then show "str_of_int i = [] \<or> \<not> py_space (hd (str_of_int i)) \<and> \<not> py_space (last (str_of_int i))"
    using str_of_nat_digits [OF refl, of "nat (- i)"]
    by (auto simp: str_of_int_def hd_str_of_nat last_str_of_nat is_digit_not_space)
qed

lemma py_int_str_of_int: "py_int (str_of_int i) = Some i"
proof (cases "i < 0")
  case True
  then show ?thesis
    unfolding py_int_def py_strip_str_of_int
    by (simp add: str_of_int_def parse_nat_str_of_nat)
next
  case False
  obtain c cs where c: "str_of_nat (nat i) = c # cs"
    using str_of_nat_digits [OF refl, of "nat i"] by (cases "str_of_nat (nat i)") auto
  with hd_str_of_nat [of "nat i"] have "is_digit c" by simp
  with False c show ?thesis
    unfolding py_int_def py_strip_str_of_int
    by (simp add: str_of_int_def is_digit_not_sign parse_nat_str_of_nat [of "nat i", unfolded c])
qed

lemma str_of_int_inj: "str_of_int a = str_of_int b \<Longrightarrow> a = b"
  by (metis option.inject py_int_str_of_int)

end
