(* ===== verification/Errors.thy ===== *)
theory Errors
  imports Text
begin

text \<open>
  The errors of the application (app/core/exceptions.py): the error codes with their HTTP status,
  the exception a service raises, and the handlers that turn an exception into an RFC 7807
  problem document.

  A message whose text is not ASCII (the Korean texts of the source) is a constructor of
  \<open>message\<close>, with the values the text interpolates; \<open>Default c\<close> is the default message of the error
  code \<open>c\<close>, and \<open>Text s\<close> is a text that the code has as a string.
\<close>

section \<open>Error codes\<close>

datatype error_code =
    INVALID_INPUT | METHOD_NOT_ALLOWED | RESOURCE_NOT_FOUND | CONFLICT | UNPROCESSABLE | READ_ONLY
  | AUTH_INVALID_CREDENTIALS | AUTH_TOKEN_EXPIRED | AUTH_TOKEN_INVALID | AUTH_REFRESH_NOT_FOUND
  | AUTH_FORBIDDEN | AUTH_ACCOUNT_DISABLED
  | USER_NOT_FOUND | USER_USERNAME_DUPLICATED | USER_EMAIL_DUPLICATED
  | COMPANY_NOT_FOUND
  | WORKER_NOT_FOUND | WORKER_ALREADY_HIRED
  | CAREGIVER_NOT_FOUND | CAREGIVER_RELATION_DUPLICATED
  | JOB_STANDARD_NOT_FOUND | JOB_PROCESS_NOT_FOUND | JOB_WORKER_NOT_FOUND
  | JOB_WORKER_ALREADY_ASSIGNED
  | WORK_SCHEDULE_NOT_FOUND | WORK_RECORD_NOT_FOUND | WORK_RECORD_OUT_OF_RANGE
  | DOCUMENT_NOT_FOUND | DOCUMENT_TYPE_NOT_FOUND
  | STORAGE_UPLOAD_FAILED | STORAGE_FILE_TOO_LARGE
  | BOARD_NOT_FOUND
  | NOTIFICATION_SEND_FAILED
  | INTERNAL_ERROR

fun status_code :: "error_code \<Rightarrow> int" where
  "status_code INVALID_INPUT = 400"
| "status_code METHOD_NOT_ALLOWED = 405"
| "status_code RESOURCE_NOT_FOUND = 404"
| "status_code CONFLICT = 409"
| "status_code UNPROCESSABLE = 422"
| "status_code READ_ONLY = 503"
| "status_code AUTH_INVALID_CREDENTIALS = 401"
| "status_code AUTH_TOKEN_EXPIRED = 401"
| "status_code AUTH_TOKEN_INVALID = 401"
| "status_code AUTH_REFRESH_NOT_FOUND = 401"
| "status_code AUTH_FORBIDDEN = 403"
| "status_code AUTH_ACCOUNT_DISABLED = 403"
| "status_code USER_NOT_FOUND = 404"
| "status_code USER_USERNAME_DUPLICATED = 409"
| "status_code USER_EMAIL_DUPLICATED = 409"
| "status_code COMPANY_NOT_FOUND = 404"
| "status_code WORKER_NOT_FOUND = 404"
| "status_code WORKER_ALREADY_HIRED = 409"
| "status_code CAREGIVER_NOT_FOUND = 404"
| "status_code CAREGIVER_RELATION_DUPLICATED = 409"
| "status_code JOB_STANDARD_NOT_FOUND = 404"
| "status_code JOB_PROCESS_NOT_FOUND = 404"
| "status_code JOB_WORKER_NOT_FOUND = 404"
| "status_code JOB_WORKER_ALREADY_ASSIGNED = 409"
| "status_code WORK_SCHEDULE_NOT_FOUND = 404"
| "status_code WORK_RECORD_NOT_FOUND = 404"
| "status_code WORK_RECORD_OUT_OF_RANGE = 422"
| "status_code DOCUMENT_NOT_FOUND = 404"
| "status_code DOCUMENT_TYPE_NOT_FOUND = 404"
| "status_code STORAGE_UPLOAD_FAILED = 500"
| "status_code STORAGE_FILE_TOO_LARGE = 413"
| "status_code BOARD_NOT_FOUND = 404"
| "status_code NOTIFICATION_SEND_FAILED = 502"
| "status_code INTERNAL_ERROR = 500"

fun code_name :: "error_code \<Rightarrow> string" where
  "code_name INVALID_INPUT = ''INVALID_INPUT''"
| "code_name METHOD_NOT_ALLOWED = ''METHOD_NOT_ALLOWED''"
| "code_name RESOURCE_NOT_FOUND = ''RESOURCE_NOT_FOUND''"
| "code_name CONFLICT = ''CONFLICT''"
| "code_name UNPROCESSABLE = ''UNPROCESSABLE''"
| "code_name READ_ONLY = ''READ_ONLY''"
| "code_name AUTH_INVALID_CREDENTIALS = ''AUTH_INVALID_CREDENTIALS''"
| "code_name AUTH_TOKEN_EXPIRED = ''AUTH_TOKEN_EXPIRED''"
| "code_name AUTH_TOKEN_INVALID = ''AUTH_TOKEN_INVALID''"
| "code_name AUTH_REFRESH_NOT_FOUND = ''AUTH_REFRESH_NOT_FOUND''"
| "code_name AUTH_FORBIDDEN = ''AUTH_FORBIDDEN''"
| "code_name AUTH_ACCOUNT_DISABLED = ''AUTH_ACCOUNT_DISABLED''"
| "code_name USER_NOT_FOUND = ''USER_NOT_FOUND''"
| "code_name USER_USERNAME_DUPLICATED = ''USER_USERNAME_DUPLICATED''"
| "code_name USER_EMAIL_DUPLICATED = ''USER_EMAIL_DUPLICATED''"
| "code_name COMPANY_NOT_FOUND = ''COMPANY_NOT_FOUND''"
| "code_name WORKER_NOT_FOUND = ''WORKER_NOT_FOUND''"
| "code_name WORKER_ALREADY_HIRED = ''WORKER_ALREADY_HIRED''"
| "code_name CAREGIVER_NOT_FOUND = ''CAREGIVER_NOT_FOUND''"
| "code_name CAREGIVER_RELATION_DUPLICATED = ''CAREGIVER_RELATION_DUPLICATED''"
| "code_name JOB_STANDARD_NOT_FOUND = ''JOB_STANDARD_NOT_FOUND''"
| "code_name JOB_PROCESS_NOT_FOUND = ''JOB_PROCESS_NOT_FOUND''"
| "code_name JOB_WORKER_NOT_FOUND = ''JOB_WORKER_NOT_FOUND''"
| "code_name JOB_WORKER_ALREADY_ASSIGNED = ''JOB_WORKER_ALREADY_ASSIGNED''"
| "code_name WORK_SCHEDULE_NOT_FOUND = ''WORK_SCHEDULE_NOT_FOUND''"
| "code_name WORK_RECORD_NOT_FOUND = ''WORK_RECORD_NOT_FOUND''"
| "code_name WORK_RECORD_OUT_OF_RANGE = ''WORK_RECORD_OUT_OF_RANGE''"
| "code_name DOCUMENT_NOT_FOUND = ''DOCUMENT_NOT_FOUND''"
| "code_name DOCUMENT_TYPE_NOT_FOUND = ''DOCUMENT_TYPE_NOT_FOUND''"
| "code_name STORAGE_UPLOAD_FAILED = ''STORAGE_UPLOAD_FAILED''"
| "code_name STORAGE_FILE_TOO_LARGE = ''STORAGE_FILE_TOO_LARGE''"
| "code_name BOARD_NOT_FOUND = ''BOARD_NOT_FOUND''"
| "code_name NOTIFICATION_SEND_FAILED = ''NOTIFICATION_SEND_FAILED''"
| "code_name INTERNAL_ERROR = ''INTERNAL_ERROR''"

section \<open>Messages and exceptions\<close>

datatype message =
    Default error_code
  | Text string
  | Token_type_mismatch string "json option"
  | Required_role "string list" "string list"
  | Account_disabled
  | Refresh_expired_or_revoked
  | User_missing_id int
  | User_missing_username string
  | Username_taken string
  | Email_taken string
  | No_company_assigned
  | End_before_start
  | Leave_missing
  | Open_record_exists int
  | Date_range_exceeds int
  | Kiosk_exists
  | Kiosk_missing
  | Company_name_taken
  | Charger_missing
  | Email_schedule_missing
  | Empty_file
  | File_too_large int
  | Unsupported_type string
  | Bad_filename

text \<open>
  What a method can raise: a \<open>BusinessException\<close>, or an exception the service does not handle
  (a query that expects at most one row and finds several, a failed \<open>assert\<close>, a violated
  constraint at the flush, \<open>ValueError\<close>, or anything an external call raises).
\<close>

datatype exn =
    Business error_code message
  | MultipleResultsFound
  | AssertionError
  | IntegrityError
  | ValueError string
  | Read_only_violation
  | External string

text \<open>\<open>BusinessException.__init__\<close>: \<open>message or error_code.default_message\<close>.\<close>

fun message_or_default :: "error_code \<Rightarrow> message option \<Rightarrow> message" where
  "message_or_default c None = Default c"
| "message_or_default c (Some (Text s)) = (if s = [] then Default c else Text s)"
| "message_or_default c (Some m) = m"

definition business :: "error_code \<Rightarrow> message option \<Rightarrow> exn" where
  "business c m = Business c (message_or_default c m)"

abbreviation err :: "error_code \<Rightarrow> exn" where
  "err c \<equiv> Business c (Default c)"

lemma business_None [simp]: "business c None = err c"
  by (simp add: business_def)

text \<open>The named exceptions of the module.\<close>

definition auth_invalid_credentials :: exn where
  "auth_invalid_credentials = business AUTH_INVALID_CREDENTIALS None"

definition auth_account_disabled :: exn where
  "auth_account_disabled = business AUTH_ACCOUNT_DISABLED (Some Account_disabled)"

definition auth_refresh_not_found :: exn where
  "auth_refresh_not_found = business AUTH_REFRESH_NOT_FOUND (Some Refresh_expired_or_revoked)"

definition auth_token_invalid :: "string \<Rightarrow> exn" where
  "auth_token_invalid detail = business AUTH_TOKEN_INVALID (Some (Text detail))"

definition auth_token_expired :: exn where
  "auth_token_expired = business AUTH_TOKEN_EXPIRED (Some (Text ''Token expired''))"

definition auth_forbidden :: "message option \<Rightarrow> exn" where
  "auth_forbidden detail = business AUTH_FORBIDDEN detail"

definition user_not_found :: "int option \<Rightarrow> string option \<Rightarrow> exn" where
  "user_not_found uid username =
     business USER_NOT_FOUND
       (Some (case uid of
                Some i \<Rightarrow> User_missing_id i
              | None \<Rightarrow> (case username of Some u \<Rightarrow> User_missing_username u
                                        | None \<Rightarrow> Default USER_NOT_FOUND)))"

definition username_duplicated :: "string \<Rightarrow> exn" where
  "username_duplicated u = business USER_USERNAME_DUPLICATED (Some (Username_taken u))"

definition email_duplicated :: "string \<Rightarrow> exn" where
  "email_duplicated e = business USER_EMAIL_DUPLICATED (Some (Email_taken e))"

lemmas named_exn_defs = auth_invalid_credentials_def auth_account_disabled_def
  auth_refresh_not_found_def auth_token_invalid_def auth_token_expired_def auth_forbidden_def
  user_not_found_def username_duplicated_def email_duplicated_def business_def

section \<open>Problem documents\<close>

record problem =
  p_type :: string
  p_title :: string
  p_status :: int
  p_detail :: message
  p_instance :: string
  p_code :: string
  p_extras :: "(string \<times> string) list"

definition docs_base :: string where
  "docs_base = ''https://docs.rooti.io/errors''"

definition build_problem_detail ::
    "error_code \<Rightarrow> message \<Rightarrow> string \<Rightarrow> (string \<times> string) list \<Rightarrow> problem" where
  "build_problem_detail c detail inst extras =
     \<lparr>p_type = docs_base @ ''/'' @ py_lower (code_name c), p_title = code_name c,
      p_status = status_code c, p_detail = detail, p_instance = inst, p_code = code_name c,
      p_extras = extras\<rparr>"

text \<open>\<open>_http_handler\<close>: an HTTP status of the framework, matched to the nearest error code.\<close>

definition http_code :: "int \<Rightarrow> error_code" where
  "http_code n =
     (if n = 400 then INVALID_INPUT
      else if n = 401 then AUTH_TOKEN_INVALID
      else if n = 403 then AUTH_FORBIDDEN
      else if n = 404 then RESOURCE_NOT_FOUND
      else if n = 405 then METHOD_NOT_ALLOWED
      else if n = 409 then CONFLICT
      else if n = 413 then STORAGE_FILE_TOO_LARGE
      else if n = 422 then UNPROCESSABLE
      else INTERNAL_ERROR)"

definition http_handler :: "int \<Rightarrow> string option \<Rightarrow> string \<Rightarrow> problem" where
  "http_handler n detail path =
     (let c = http_code n
      in build_problem_detail c (case detail of Some d \<Rightarrow> Text d | None \<Rightarrow> Default c) path [])"

text \<open>
  \<open>_validation_handler\<close>: one entry per error location; a later error at the same location
  overwrites the earlier message in place, as a Python dict does.  A location is the list of its
  parts, of which \<open>body\<close> is dropped.
\<close>

fun join_dots :: "string list \<Rightarrow> string" where
  "join_dots [] = []"
| "join_dots [p] = p"
| "join_dots (p # q # ps) = p @ ''.'' @ join_dots (q # ps)"

fun dict_set :: "'k \<Rightarrow> 'v \<Rightarrow> ('k \<times> 'v) list \<Rightarrow> ('k \<times> 'v) list" where
  "dict_set k v [] = [(k, v)]"
| "dict_set k v ((k', v') # kvs) = (if k' = k then (k, v) # kvs else (k', v') # dict_set k v kvs)"

fun validation_fields :: "(string list \<times> string) list \<Rightarrow> (string \<times> string) list \<Rightarrow> (string \<times> string) list"
  where
  "validation_fields [] acc = acc"
| "validation_fields ((loc, msg) # errs) acc =
     (let l = join_dots (filter (\<lambda>p. p \<noteq> ''body'') loc)
      in validation_fields errs (if l \<noteq> [] then dict_set l msg acc else acc))"

definition validation_handler :: "(string list \<times> string) list \<Rightarrow> string \<Rightarrow> problem" where
  "validation_handler errs path =
     build_problem_detail INVALID_INPUT (Default INVALID_INPUT) path (validation_fields errs [])"

text \<open>
  \<open>_is_read_only_violation\<close> follows the chain of wrapped exceptions, remembering the objects it has
  seen so that a cyclic chain ends.  The chain is a heap of exception objects: each has an optional
  SQLSTATE and an optional next object (\<open>orig\<close> or \<open>__cause__\<close>).
\<close>

record exn_object =
  xo_sqlstate :: "string option"
  xo_next :: "nat option"

function chain_read_only :: "(nat \<times> exn_object) list \<Rightarrow> nat list \<Rightarrow> nat option \<Rightarrow> bool" where
  "chain_read_only heap seen None = False"
| "chain_read_only heap seen (Some a) =
     (if a \<in> set seen then False
      else case map_of heap a of
             None \<Rightarrow> False
           | Some x \<Rightarrow>
               if xo_sqlstate x = Some ''25006'' then True
               else chain_read_only heap (a # seen) (xo_next x))"
  by pat_completeness auto
termination
proof (relation "measure (\<lambda>(heap, seen, cur). card (fst ` set heap - set seen))", simp)
  fix heap :: "(nat \<times> exn_object) list" and seen :: "nat list" and a x
  assume "a \<notin> set seen" and x: "map_of heap a = Some x"
  then have "a \<in> fst ` set heap - set seen" by (force dest: map_of_SomeD)
  moreover have "finite (fst ` set heap - set seen)" by simp
  ultimately have "card (fst ` set heap - set (a # seen)) < card (fst ` set heap - set seen)"
    by (intro psubset_card_mono) auto
  then show "((heap, a # seen, xo_next x), (heap, seen, Some a))
      \<in> measure (\<lambda>(heap, seen, cur). card (fst ` set heap - set seen))"
    by simp
qed

text \<open>The chain of an exception: the objects and the exception itself.\<close>

type_synonym exn_chain = "(nat \<times> exn_object) list \<times> nat"

definition is_read_only_violation :: "exn_chain \<Rightarrow> bool" where
  "is_read_only_violation ch = chain_read_only (fst ch) [] (Some (snd ch))"

text \<open>
  \<open>_unhandled_handler\<close>, the last net: a read-only violation is a 503, anything else a 500 whose
  detail is hidden in production.  \<open>shown\<close> is the diagnostic text (class name and message) of the
  other environments.
\<close>

definition unhandled_handler :: "exn_chain \<Rightarrow> string \<Rightarrow> string \<Rightarrow> string \<Rightarrow> problem" where
  "unhandled_handler ch env shown path =
     (if is_read_only_violation ch then build_problem_detail READ_ONLY (Default READ_ONLY) path []
      else build_problem_detail INTERNAL_ERROR
             (if env = ''prod'' then Default INTERNAL_ERROR else Text shown) path [])"

fun exn_text :: "exn \<Rightarrow> string" where
  "exn_text MultipleResultsFound = ''MultipleResultsFound''"
| "exn_text AssertionError = ''AssertionError''"
| "exn_text IntegrityError = ''IntegrityError''"
| "exn_text (ValueError s) = ''ValueError: '' @ s"
| "exn_text (External s) = s"
| "exn_text Read_only_violation = ''DBAPIError''"
| "exn_text (Business c m) = code_name c"

text \<open>
  \<open>str(e)\<close>.  The texts of business errors are Korean and those of the database driver are not known
  here: the name of the code and the name of the class stand for them.
\<close>

fun exn_str :: "exn \<Rightarrow> string" where
  "exn_str (ValueError s) = s"
| "exn_str AssertionError = []"
| "exn_str (Business c (Text s)) = s"
| "exn_str e = exn_text e"

text \<open>Which handler answers an exception (\<open>register_exception_handlers\<close>), given its chain.\<close>

fun handle :: "string \<Rightarrow> string \<Rightarrow> exn_chain \<Rightarrow> exn \<Rightarrow> problem" where
  "handle env path ch (Business c m) = build_problem_detail c m path []"
| "handle env path ch e = unhandled_handler ch env (exn_text e) path"

section \<open>Lemmas\<close>

lemma status_is_error: "400 \<le> status_code c \<and> status_code c < 600"
  by (cases c) simp_all

lemma code_name_nonempty [simp]: "code_name c \<noteq> []"
  by (cases c) simp_all

lemma http_code_status: "n \<in> {400, 401, 403, 404, 405, 409, 413, 422} \<Longrightarrow> status_code (http_code n) = n"
  by (auto simp: http_code_def)

lemma keys_dict_set: "fst ` set (dict_set k v kvs) = insert k (fst ` set kvs)"
proof (induction kvs)
  case (Cons kv kvs)
  then show ?case by (cases kv) auto
qed simp

lemma distinct_dict_set: "distinct (map fst kvs) \<Longrightarrow> distinct (map fst (dict_set k v kvs))"
proof (induction kvs)
  case (Cons kv kvs)
  then show ?case by (cases kv) (auto simp: keys_dict_set)
qed simp

lemma map_of_dict_set: "map_of (dict_set k v kvs) = (map_of kvs)(k \<mapsto> v)"
  by (induction kvs rule: dict_set.induct) auto

text \<open>The message of a location is the last one reported for it; the empty location is left out.\<close>

lemma map_of_validation_fields:
  "map_of (validation_fields errs acc) l =
     (if l = [] then map_of acc l
      else map_of (rev (map (\<lambda>(loc, msg). (join_dots (filter (\<lambda>p. p \<noteq> ''body'') loc), msg)) errs) @ acc) l)"
  by (induction errs acc rule: validation_fields.induct)
     (auto simp: Let_def map_of_dict_set map_add_def split: option.splits)

lemma validation_fields_distinct:
  "distinct (map fst acc) \<Longrightarrow> distinct (map fst (validation_fields errs acc))"
  by (induction errs acc rule: validation_fields.induct) (auto simp: Let_def distinct_dict_set)

text \<open>
  The objects on the chain of an exception, and the search over it: it answers whether some object
  of the chain carries the SQLSTATE, also when the chain is cyclic.
\<close>

inductive on_chain :: "(nat \<times> exn_object) list \<Rightarrow> nat option \<Rightarrow> exn_object \<Rightarrow> bool" for heap where
  here: "map_of heap a = Some x \<Longrightarrow> on_chain heap (Some a) x"
| later: "map_of heap a = Some y \<Longrightarrow> on_chain heap (xo_next y) x \<Longrightarrow> on_chain heap (Some a) x"

inductive_cases on_chain_NoneE: "on_chain heap None x"
inductive_cases on_chain_SomeE: "on_chain heap (Some a) x"

lemma chain_read_only_sound:
  "chain_read_only heap seen c \<Longrightarrow> \<exists>x. on_chain heap c x \<and> xo_sqlstate x = Some ''25006''"
  by (induction heap seen c rule: chain_read_only.induct)
     (auto split: if_splits option.splits intro: on_chain.intros)

lemma on_chain_closed:
  assumes "on_chain heap c x" and "\<forall>a. c = Some a \<longrightarrow> a \<in> S"
    and "\<And>a y b. a \<in> S \<Longrightarrow> map_of heap a = Some y \<Longrightarrow> xo_next y = Some b \<Longrightarrow> b \<in> S"
  shows "\<exists>a \<in> S. map_of heap a = Some x"
  using assms by (induction rule: on_chain.induct) auto

lemma chain_read_only_complete:
  assumes "\<And>a y. a \<in> set seen \<Longrightarrow> map_of heap a = Some y \<Longrightarrow>
      xo_sqlstate y \<noteq> Some ''25006'' \<and>
      (xo_next y = None \<or> xo_next y = c \<or> (\<exists>b. xo_next y = Some b \<and> b \<in> set seen))"
    and "\<not> chain_read_only heap seen c"
    and "on_chain heap c x"
  shows "xo_sqlstate x \<noteq> Some ''25006''"
  using assms
proof (induction heap seen c rule: chain_read_only.induct)
  case (1 heap seen)
  then show ?case by (auto elim: on_chain_NoneE)
next
  case (2 heap seen a)
  show ?case
  proof (cases "a \<in> set seen")
    case True
    have "\<exists>b \<in> set seen. map_of heap b = Some x"
      using True "2.prems"(1) by (intro on_chain_closed [OF "2.prems"(3)]) fastforce+
    then show ?thesis using "2.prems"(1) by blast
  next
    case False
    from "2.prems"(3) obtain y where y: "map_of heap a = Some y"
      and x: "x = y \<or> on_chain heap (xo_next y) x"
      by (auto elim: on_chain_SomeE)
    from "2.prems"(2) False y have sq: "xo_sqlstate y \<noteq> Some ''25006''"
      and rec: "\<not> chain_read_only heap (a # seen) (xo_next y)"
      by (auto split: if_splits)
    have inv: "xo_sqlstate z \<noteq> Some ''25006'' \<and>
        (xo_next z = None \<or> xo_next z = xo_next y \<or> (\<exists>b. xo_next z = Some b \<and> b \<in> set (a # seen)))"
      if "b \<in> set (a # seen)" "map_of heap b = Some z" for b z
      using that sq y "2.prems"(1) [of b z] by auto
    show ?thesis
      using x sq "2.IH" [OF False y sq inv rec] by auto
  qed
qed

lemma chain_search:
  "chain_read_only heap [] c \<longleftrightarrow> (\<exists>x. on_chain heap c x \<and> xo_sqlstate x = Some ''25006'')"
  using chain_read_only_sound chain_read_only_complete [of "[]" heap c] by fastforce

section \<open>Properties\<close>

text \<open>C37: the search for a read-only violation ends on every chain of exceptions, cyclic ones included,
  and answers yes exactly when some exception of the chain carries the SQLSTATE 25006.\<close>

theorem read_only_search_spec:
  "chain_read_only heap [] c \<longleftrightarrow> (\<exists>x. on_chain heap c x \<and> xo_sqlstate x = Some ''25006'')"
  by (rule chain_search)

end
