(* ===== verification/Schema.thy ===== *)
theory Schema
  imports Errors
begin

text \<open>
  The data model (app/models): the enumerations with their column representation
  (\<open>StrEnumType\<close>), one record per table, and the database as the record of all tables.

  A primary key is not a field of a row: a row is stored under its key (theory Prelude).  A naive
  \<open>datetime\<close> is the number of microseconds since 0001-01-01T00:00, a \<open>date\<close> the number of days; so
  \<open>datetime.combine(d, time.min)\<close> is \<open>day_start d\<close>.  A \<open>time\<close> is microseconds since midnight.  JSONB
  values are \<open>json\<close>.  The audit columns \<open>created_at\<close>, \<open>updated_at\<close>, \<open>created_by\<close>, \<open>updated_by\<close> are kept
  where a service or a response reads or writes them.
\<close>

section \<open>Dates\<close>

type_synonym datetime = int
type_synonym date = int

definition day_us :: int where
  "day_us = 86400000000"

definition day_start :: "date \<Rightarrow> datetime" where
  "day_start d = d * day_us"

definition day_end :: "date \<Rightarrow> datetime" where
  "day_end d = d * day_us + (day_us - 1)"

definition date_of :: "datetime \<Rightarrow> date" where
  "date_of t = t div day_us"

lemma date_of_day_start [simp]: "date_of (day_start d) = d"
  by (simp add: date_of_def day_start_def day_us_def)

lemma date_of_day_end [simp]: "date_of (day_end d) = d"
  by (simp add: date_of_def day_end_def day_us_def)

lemma div_eq_iff_bounds:
  fixes n :: int
  assumes "0 < n"
  shows "t div n = d \<longleftrightarrow> d * n \<le> t \<and> t \<le> d * n + (n - 1)"
proof
  assume "t div n = d"
  then have "d * n + t mod n = t" using div_mult_mod_eq [of t n] by simp
  moreover have "0 \<le> t mod n" "t mod n < n" using assms by simp_all
  ultimately show "d * n \<le> t \<and> t \<le> d * n + (n - 1)" by linarith
next
  assume "d * n \<le> t \<and> t \<le> d * n + (n - 1)"
  then show "t div n = d"
    by (intro int_div_pos_eq [of t n d "t - d * n"]) (auto simp: mult.commute)
qed

lemma date_of_eq_iff: "date_of t = d \<longleftrightarrow> day_start d \<le> t \<and> t \<le> day_end d"
  unfolding date_of_def day_start_def day_end_def
  by (rule div_eq_iff_bounds) (simp add: day_us_def)

section \<open>Enumerations\<close>

datatype user_role = ADMIN | CHARGER | WORKER | CAREGIVER
datatype work_record_type = ON | WORK | REST | OFF
datatype request_on = NOTHING | REGISTER
datatype doc_action = UPLOAD | DOWNLOAD | DELETE
datatype leave_type = ANNUAL | MONTHLY | SICK | OTHER
datatype leave_status = PENDING | APPROVED | REJECTED

fun role_value :: "user_role \<Rightarrow> string" where
  "role_value ADMIN = ''ADMIN''"
| "role_value CHARGER = ''CHARGER''"
| "role_value WORKER = ''WORKER''"
| "role_value CAREGIVER = ''CAREGIVER''"

definition role_authority :: "user_role \<Rightarrow> string" where
  "role_authority r = ''ROLE_'' @ role_value r"

fun record_type_value :: "work_record_type \<Rightarrow> string" where
  "record_type_value ON = ''ON''"
| "record_type_value WORK = ''WORK''"
| "record_type_value REST = ''REST''"
| "record_type_value OFF = ''OFF''"

fun request_on_value :: "request_on \<Rightarrow> string" where
  "request_on_value NOTHING = ''NOTHING''"
| "request_on_value REGISTER = ''REGISTER''"

fun doc_action_value :: "doc_action \<Rightarrow> string" where
  "doc_action_value UPLOAD = ''UPLOAD''"
| "doc_action_value DOWNLOAD = ''DOWNLOAD''"
| "doc_action_value DELETE = ''DELETE''"

fun leave_type_value :: "leave_type \<Rightarrow> string" where
  "leave_type_value ANNUAL = ''ANNUAL''"
| "leave_type_value MONTHLY = ''MONTHLY''"
| "leave_type_value SICK = ''SICK''"
| "leave_type_value OTHER = ''OTHER''"

fun leave_status_value :: "leave_status \<Rightarrow> string" where
  "leave_status_value PENDING = ''PENDING''"
| "leave_status_value APPROVED = ''APPROVED''"
| "leave_status_value REJECTED = ''REJECTED''"

text \<open>
  \<open>StrEnumType\<close>, the column type bound to one enumeration, given by the list of its members with
  their values.  A bound parameter is a member or a string; a string is checked by looking the
  member up, which raises \<open>ValueError\<close> when there is none.
\<close>

datatype 'e bind_value = Member 'e | Raw string

definition enum_of_string :: "('e \<times> string) list \<Rightarrow> string \<Rightarrow> exn + 'e" where
  "enum_of_string members s =
     (case find (\<lambda>(m, v). v = s) members of Some (m, v) \<Rightarrow> Inr m | None \<Rightarrow> Inl (ValueError s))"

fun process_bind_param :: "('e \<times> string) list \<Rightarrow> ('e \<Rightarrow> string) \<Rightarrow> 'e bind_value option \<Rightarrow>
    exn + string option" where
  "process_bind_param members val None = Inr None"
| "process_bind_param members val (Some (Member m)) = Inr (Some (val m))"
| "process_bind_param members val (Some (Raw s)) =
     let_ok (enum_of_string members s) (\<lambda>m. Inr (Some (val m)))"

fun process_result_value :: "('e \<times> string) list \<Rightarrow> string option \<Rightarrow> exn + 'e option" where
  "process_result_value members None = Inr None"
| "process_result_value members (Some s) =
     let_ok (enum_of_string members s) (\<lambda>m. Inr (Some m))"

definition role_members :: "(user_role \<times> string) list" where
  "role_members = map (\<lambda>r. (r, role_value r)) [ADMIN, CHARGER, WORKER, CAREGIVER]"

definition record_type_members :: "(work_record_type \<times> string) list" where
  "record_type_members = map (\<lambda>r. (r, record_type_value r)) [ON, WORK, REST, OFF]"

section \<open>Rows\<close>

record user =
  u_username :: string
  u_email :: "string option"
  u_password_hash :: string
  u_name :: string
  u_phone :: "string option"
  u_role :: user_role
  u_enabled :: bool
  u_last_login_at :: "datetime option"

definition mark_logged_in :: "datetime \<Rightarrow> user \<Rightarrow> user" where
  "mark_logged_in now u = u\<lparr>u_last_login_at := Some now\<rparr>"

definition set_password :: "string \<Rightarrow> user \<Rightarrow> user" where
  "set_password new_hash u = u\<lparr>u_password_hash := new_hash\<rparr>"

record company =
  co_name :: string
  co_location :: "string option"
  co_use_flag :: bool
  co_image_path :: "string option"
  co_template_id :: "string option"
  co_template_data :: "jobject option"
  co_created_by :: "int option"
  co_updated_by :: "int option"

record company_charger =
  ch_user_id :: int
  ch_company_id :: int
  ch_is_hired :: bool
  ch_fcm_token :: "string option"

record challenged_worker =
  w_user_id :: int
  w_fcm_token :: "string option"
  w_retired_at :: "datetime option"

definition update_fcm_token :: "string \<Rightarrow> challenged_worker \<Rightarrow> challenged_worker" where
  "update_fcm_token token w = w\<lparr>w_fcm_token := Some token\<rparr>"

record company_worker =
  cw_company_id :: int
  cw_worker_id :: int
  cw_is_hired :: bool

record caregiver =
  cg_user_id :: int

record caregiver_relation =
  rel_caregiver_id :: int
  rel_worker_id :: int

record job_standard =
  js_company_id :: int
  js_name :: string
  js_use_flag :: bool
  js_routine_start_time :: "int option"
  js_work_time :: int
  js_rest_time :: int
  js_start_message :: "string option"
  js_end_message :: "string option"
  js_context :: "jobject option"
  js_for_journal :: bool

record job_process =
  jp_standard_id :: int
  jp_name :: string
  jp_sequence :: int
  jp_video_path :: "string option"
  jp_start_message :: "string option"
  jp_end_message :: "string option"
  jp_context :: "jobject option"
  jp_process_time :: int

record job_worker =
  jw_company_worker_id :: int
  jw_standard_id :: int
  jw_use_flag :: bool
  jw_context :: "jobject option"

record work_schedule =
  ws_job_worker_id :: int
  ws_charger_id :: "int option"
  ws_standard_id :: int
  ws_start_at :: datetime
  ws_end_at :: "datetime option"
  ws_doc_path :: "string option"
  ws_make_doc :: bool

record work_record =
  wr_schedule_id :: int
  wr_type :: work_record_type
  wr_start_at :: datetime
  wr_end_at :: "datetime option"

definition schedule_is_open :: "work_schedule \<Rightarrow> bool" where
  "schedule_is_open s \<longleftrightarrow> ws_end_at s = None"

definition record_is_open :: "work_record \<Rightarrow> bool" where
  "record_is_open r \<longleftrightarrow> wr_end_at r = None"

record work_process_record =
  wp_schedule_id :: int
  wp_process_id :: int
  wp_type :: string
  wp_start_at :: "datetime option"
  wp_end_at :: "datetime option"
  wp_start_condition :: "int option"
  wp_end_condition :: "int option"
  wp_start_answer :: "string option"
  wp_end_answer :: "string option"
  wp_start_voice :: "string option"
  wp_end_voice :: "string option"
  wp_process :: "jobject option"

record document_type =
  dt_name :: string
  dt_description :: "string option"
  dt_request_on :: request_on

record document =
  d_relation_id :: int
  d_type_id :: int
  d_filename :: string
  d_file_size :: "int option"
  d_content_type :: "string option"
  d_created_at :: datetime
  d_created_by :: "int option"
  d_updated_by :: "int option"

record document_log =
  dl_document_id :: int
  dl_user_id :: int
  dl_action :: doc_action
  dl_at :: datetime

record board =
  b_author_id :: int
  b_title :: string
  b_body :: string
  b_published :: bool
  b_created_at :: datetime
  b_updated_at :: datetime
  b_created_by :: "int option"
  b_updated_by :: "int option"

record kiosk =
  k_company_id :: int
  k_kiosk_id :: string
  k_name :: "string option"
  k_location :: "string option"
  k_capacity :: int
  k_current :: int
  k_status :: string
  k_assignee :: "string option"
  k_last_reported_at :: "datetime option"

record option_variable =
  ov_name :: string
  ov_for_what :: "string option"
  ov_value :: "string option"

record leave =
  lv_worker_id :: int
  lv_company_id :: int
  lv_type :: leave_type
  lv_start :: date
  lv_end :: date
  lv_days :: int
  lv_status :: leave_status
  lv_reason :: "string option"
  lv_created_by :: "int option"
  lv_created_at :: datetime

record email_schedule =
  es_company_id :: int
  es_recipient :: string
  es_frequency :: string
  es_weekday :: "string option"
  es_day_of_month :: "int option"
  es_send_time :: string
  es_format :: string
  es_enabled :: bool
  es_next_run_at :: "datetime option"
  es_last_run_at :: "datetime option"
  es_created_at :: datetime

record bulk_job =
  bj_company_id :: int
  bj_recipient :: string
  bj_target_date :: date
  bj_format :: string
  bj_status :: string
  bj_schedule_count :: int
  bj_truncated :: bool
  bj_message_id :: "string option"
  bj_error_message :: "string option"
  bj_requested_by :: "int option"
  bj_started_at :: "datetime option"
  bj_finished_at :: "datetime option"
  bj_created_at :: datetime

section \<open>The database\<close>

record db =
  users :: "user table"
  companies :: "company table"
  chargers :: "company_charger table"
  workers :: "challenged_worker table"
  company_workers :: "company_worker table"
  caregivers :: "caregiver table"
  relations :: "caregiver_relation table"
  standards :: "job_standard table"
  processes :: "job_process table"
  job_workers :: "job_worker table"
  schedules :: "work_schedule table"
  records :: "work_record table"
  process_records :: "work_process_record table"
  document_types :: "document_type table"
  documents :: "document table"
  document_logs :: "document_log table"
  boards :: "board table"
  kiosks :: "kiosk table"
  option_variables :: "option_variable table"
  leaves :: "leave table"
  email_schedules :: "email_schedule table"
  bulk_jobs :: "bulk_job table"

definition empty_db :: db where
  "empty_db = \<lparr>users = empty_table, companies = empty_table, chargers = empty_table,
     workers = empty_table, company_workers = empty_table, caregivers = empty_table,
     relations = empty_table, standards = empty_table, processes = empty_table,
     job_workers = empty_table, schedules = empty_table, records = empty_table,
     process_records = empty_table, document_types = empty_table, documents = empty_table,
     document_logs = empty_table, boards = empty_table, kiosks = empty_table,
     option_variables = empty_table, leaves = empty_table, email_schedules = empty_table,
     bulk_jobs = empty_table\<rparr>"

text \<open>
  The constraints the models declare: keys, UNIQUE and CHECK constraints.  \<open>schema_ok\<close> says that the
  database satisfies them.
\<close>

definition users_ok :: "user table \<Rightarrow> bool" where
  "users_ok t \<longleftrightarrow> table_ok t \<and> unique_on (\<lambda>_. True) u_username t"

definition chargers_ok :: "company_charger table \<Rightarrow> bool" where
  "chargers_ok t \<longleftrightarrow> table_ok t \<and> unique_on (\<lambda>_. True) ch_user_id t"

definition workers_ok :: "challenged_worker table \<Rightarrow> bool" where
  "workers_ok t \<longleftrightarrow> table_ok t \<and> unique_on (\<lambda>_. True) w_user_id t"

definition company_workers_ok :: "company_worker table \<Rightarrow> bool" where
  "company_workers_ok t \<longleftrightarrow>
     table_ok t \<and> unique_on (\<lambda>_. True) (\<lambda>r. (cw_company_id r, cw_worker_id r)) t"

definition caregivers_ok :: "caregiver table \<Rightarrow> bool" where
  "caregivers_ok t \<longleftrightarrow> table_ok t \<and> unique_on (\<lambda>_. True) cg_user_id t"

definition relations_ok :: "caregiver_relation table \<Rightarrow> bool" where
  "relations_ok t \<longleftrightarrow>
     table_ok t \<and> unique_on (\<lambda>_. True) (\<lambda>r. (rel_caregiver_id r, rel_worker_id r)) t"

definition processes_ok :: "job_process table \<Rightarrow> bool" where
  "processes_ok t \<longleftrightarrow>
     table_ok t \<and> unique_on (\<lambda>_. True) (\<lambda>r. (jp_standard_id r, jp_sequence r)) t"

definition job_workers_ok :: "job_worker table \<Rightarrow> bool" where
  "job_workers_ok t \<longleftrightarrow>
     table_ok t \<and> unique_on (\<lambda>_. True) (\<lambda>r. (jw_company_worker_id r, jw_standard_id r)) t"

definition document_types_ok :: "document_type table \<Rightarrow> bool" where
  "document_types_ok t \<longleftrightarrow> table_ok t \<and> unique_on (\<lambda>_. True) dt_name t"

definition kiosk_statuses :: "string list" where
  "kiosk_statuses = [''IN_USE'', ''FULL'', ''OFFLINE'']"

definition kiosks_ok :: "kiosk table \<Rightarrow> bool" where
  "kiosks_ok t \<longleftrightarrow> table_ok t \<and> unique_on (\<lambda>_. True) (\<lambda>r. (k_company_id r, k_kiosk_id r)) t
     \<and> all_rows (\<lambda>_ r. k_status r \<in> set kiosk_statuses) t"

definition option_variables_ok :: "option_variable table \<Rightarrow> bool" where
  "option_variables_ok t \<longleftrightarrow> table_ok t \<and> unique_on (\<lambda>_. True) ov_name t"

definition leaves_ok :: "leave table \<Rightarrow> bool" where
  "leaves_ok t \<longleftrightarrow> table_ok t \<and> all_rows (\<lambda>_ l. lv_start l \<le> lv_end l) t"

definition frequencies :: "string list" where
  "frequencies = [''DAILY'', ''WEEKLY'', ''MONTHLY'']"

definition weekdays :: "string list" where
  "weekdays = [''SUN'', ''MON'', ''TUE'', ''WED'', ''THU'', ''FRI'', ''SAT'']"

definition formats :: "string list" where
  "formats = [''PDF'', ''HWP'', ''XLSX'']"

definition email_schedules_ok :: "email_schedule table \<Rightarrow> bool" where
  "email_schedules_ok t \<longleftrightarrow> table_ok t
     \<and> all_rows (\<lambda>_ s. es_frequency s \<in> set frequencies \<and> es_format s \<in> set formats
         \<and> (\<forall>w \<in> set_option (es_weekday s). w \<in> set weekdays)) t"

definition job_statuses :: "string list" where
  "job_statuses = [''QUEUED'', ''SENDING'', ''SUCCESS'', ''FAILED'']"

definition bulk_jobs_ok :: "bulk_job table \<Rightarrow> bool" where
  "bulk_jobs_ok t \<longleftrightarrow> table_ok t
     \<and> all_rows (\<lambda>_ j. bj_status j \<in> set job_statuses \<and> bj_format j \<in> set formats) t"

definition schema_ok :: "db \<Rightarrow> bool" where
  "schema_ok d \<longleftrightarrow>
     users_ok (users d) \<and> table_ok (companies d) \<and> chargers_ok (chargers d)
     \<and> workers_ok (workers d) \<and> company_workers_ok (company_workers d)
     \<and> caregivers_ok (caregivers d) \<and> relations_ok (relations d)
     \<and> table_ok (standards d) \<and> processes_ok (processes d) \<and> job_workers_ok (job_workers d)
     \<and> table_ok (schedules d) \<and> table_ok (records d) \<and> table_ok (process_records d)
     \<and> document_types_ok (document_types d) \<and> table_ok (documents d)
     \<and> table_ok (document_logs d) \<and> table_ok (boards d) \<and> kiosks_ok (kiosks d)
     \<and> option_variables_ok (option_variables d) \<and> leaves_ok (leaves d)
     \<and> email_schedules_ok (email_schedules d) \<and> bulk_jobs_ok (bulk_jobs d)"

lemmas table_constraint_defs = users_ok_def chargers_ok_def workers_ok_def company_workers_ok_def
  caregivers_ok_def relations_ok_def processes_ok_def job_workers_ok_def document_types_ok_def
  kiosks_ok_def option_variables_ok_def leaves_ok_def email_schedules_ok_def bulk_jobs_ok_def

lemma schema_ok_empty: "schema_ok empty_db"
  by (simp add: schema_ok_def empty_db_def table_constraint_defs)

lemma schema_ok_tables:
  assumes "schema_ok d"
  shows "table_ok (users d)" "table_ok (companies d)" "table_ok (chargers d)" "table_ok (workers d)"
    "table_ok (company_workers d)" "table_ok (caregivers d)" "table_ok (relations d)"
    "table_ok (standards d)" "table_ok (processes d)" "table_ok (job_workers d)"
    "table_ok (schedules d)" "table_ok (records d)" "table_ok (process_records d)"
    "table_ok (document_types d)" "table_ok (documents d)" "table_ok (document_logs d)"
    "table_ok (boards d)" "table_ok (kiosks d)" "table_ok (leaves d)"
    "table_ok (email_schedules d)" "table_ok (bulk_jobs d)"
  using assms by (simp_all add: schema_ok_def table_constraint_defs)

section \<open>Results of a query\<close>

text \<open>\<open>scalar_one_or_none()\<close> and \<open>first()\<close> of a result.\<close>

fun scalar_one_or_none :: "'a list \<Rightarrow> exn + 'a option" where
  "scalar_one_or_none [] = Inr None"
| "scalar_one_or_none [x] = Inr (Some x)"
| "scalar_one_or_none (x # y # xs) = Inl MultipleResultsFound"

definition first_row :: "'a list \<Rightarrow> 'a option" where
  "first_row xs = (case xs of [] \<Rightarrow> None | x # _ \<Rightarrow> Some x)"

text \<open>
  \<open>ORDER BY k\<close> and \<open>ORDER BY k DESC\<close>.  SQL leaves the order of equal keys open; the model keeps them
  in primary-key order.
\<close>

definition order_by :: "('a \<Rightarrow> int) \<Rightarrow> 'a list \<Rightarrow> 'a list" where
  "order_by k xs = sort_key k xs"

definition order_by_desc :: "('a \<Rightarrow> int) \<Rightarrow> 'a list \<Rightarrow> 'a list" where
  "order_by_desc k xs = sort_key (\<lambda>x. - k x) xs"

lemma set_order_by [simp]: "set (order_by k xs) = set xs" "set (order_by_desc k xs) = set xs"
  by (simp_all add: order_by_def order_by_desc_def)

lemma length_order_by [simp]:
  "length (order_by k xs) = length xs" "length (order_by_desc k xs) = length xs"
  by (simp_all add: order_by_def order_by_desc_def)

lemma sorted_order_by: "sorted (map k (order_by k xs))"
  by (simp add: order_by_def)

lemma sorted_order_by_desc: "sorted (map (\<lambda>x. - k x) (order_by_desc k xs))"
  by (simp add: order_by_desc_def)

lemma scalar_le_1: "length xs \<le> 1 \<Longrightarrow> scalar_one_or_none xs = Inr (first_row xs)"
  by (cases xs rule: scalar_one_or_none.cases) (simp_all add: first_row_def)

lemma scalar_Some: "scalar_one_or_none xs = Inr (Some x) \<Longrightarrow> xs = [x]"
  by (cases xs rule: scalar_one_or_none.cases) simp_all

lemma scalar_in: "scalar_one_or_none xs = Inr (Some x) \<Longrightarrow> x \<in> set xs"
  by (drule scalar_Some) simp

lemma scalar_None: "scalar_one_or_none xs = Inr None \<longleftrightarrow> xs = []"
  by (cases xs rule: scalar_one_or_none.cases) simp_all

lemma first_row_None: "first_row xs = None \<longleftrightarrow> xs = []"
  by (simp add: first_row_def split: list.splits)

lemma first_row_in: "first_row xs = Some x \<Longrightarrow> x \<in> set xs"
  by (auto simp: first_row_def split: list.splits)

end
