(* ===== verification/Paging.thy ===== *)
theory Paging
  imports Schema
begin

text \<open>
  Pagination (app/core/pagination.py) and the response envelopes (app/core/response.py).

  \<open>math.ceil(total / size)\<close> divides floating-point numbers in the code; \<open>ceil_div\<close> is the exact
  quotient, which the code computes as long as the count stays below \<open>2 ^ 45\<close>.
\<close>

section \<open>Page parameters\<close>

definition max_page_size :: int where "max_page_size = 100"
definition default_page_size :: int where "default_page_size = 20"

record page_params =
  pp_page :: int
  pp_size :: int

definition valid_page_params :: "page_params \<Rightarrow> bool" where
  "valid_page_params p \<longleftrightarrow> 0 \<le> pp_page p \<and> 1 \<le> pp_size p \<and> pp_size p \<le> max_page_size"

definition page_offset :: "page_params \<Rightarrow> int" where
  "page_offset p = pp_page p * pp_size p"

definition page_limit :: "page_params \<Rightarrow> int" where
  "page_limit p = pp_size p"

text \<open>\<open>get_page_params\<close>: the query dependency, with its defaults; out-of-range values are refused.\<close>

definition get_page_params :: "int option \<Rightarrow> int option \<Rightarrow> page_params option" where
  "get_page_params page sz =
     (let p = \<lparr>pp_page = (case page of None \<Rightarrow> 0 | Some n \<Rightarrow> n),
               pp_size = (case sz of None \<Rightarrow> default_page_size | Some n \<Rightarrow> n)\<rparr>
      in if valid_page_params p then Some p else None)"

section \<open>Pages\<close>

record 'a page =
  pg_content :: "'a list"
  pg_page :: int
  pg_size :: int
  pg_total_elements :: int
  pg_total_pages :: int
  pg_has_next :: bool
  pg_has_previous :: bool

definition ceil_div :: "int \<Rightarrow> int \<Rightarrow> int" where
  "ceil_div a b = - ((- a) div b)"

definition page_build :: "'a list \<Rightarrow> page_params \<Rightarrow> int \<Rightarrow> 'a page" where
  "page_build content params cnt =
     (let total_pages = (if pp_size params \<noteq> 0 then max 1 (ceil_div cnt (pp_size params)) else 0)
      in \<lparr>pg_content = content, pg_page = pp_page params, pg_size = pp_size params,
          pg_total_elements = cnt, pg_total_pages = total_pages,
          pg_has_next = pp_page params + 1 < total_pages,
          pg_has_previous = 0 < pp_page params\<rparr>)"

definition page_response_of :: "'a list \<Rightarrow> int \<Rightarrow> int \<Rightarrow> int \<Rightarrow> 'a page" where
  "page_response_of content page sz cnt =
     (let total_pages = (if 0 < sz then max 1 (ceil_div cnt sz) else 0)
      in \<lparr>pg_content = content, pg_page = page, pg_size = sz, pg_total_elements = cnt,
          pg_total_pages = total_pages, pg_has_next = page + 1 < total_pages,
          pg_has_previous = 0 < page\<rparr>)"

text \<open>What every list endpoint does with the page a service built.\<close>

definition to_page_response :: "'a page \<Rightarrow> 'a page" where
  "to_page_response p = page_response_of (pg_content p) (pg_page p) (pg_size p) (pg_total_elements p)"

text \<open>\<open>ApiResponse\<close>: the success envelope.\<close>

record 'a api_response =
  ar_success :: bool
  ar_data :: "'a option"

definition api_ok :: "'a option \<Rightarrow> 'a api_response" where
  "api_ok d = \<lparr>ar_success = True, ar_data = d\<rparr>"

section \<open>A paginated query\<close>

text \<open>
  The shape of every search: count the selected rows, fetch one slice of them
  (\<open>offset(..).limit(..)\<close>) and turn its rows into responses.
\<close>

definition slice :: "page_params \<Rightarrow> 'a list \<Rightarrow> 'a list" where
  "slice p xs = take (nat (page_limit p)) (drop (nat (page_offset p)) xs)"

definition paged :: "('a \<Rightarrow> 'b) \<Rightarrow> page_params \<Rightarrow> 'a list \<Rightarrow> 'b page" where
  "paged f p xs = page_build (map f (slice p xs)) p (int (length xs))"

section \<open>Search helpers\<close>

text \<open>
  The keyword of a search becomes the pattern \<open>%keyword%\<close> of PostgreSQL's \<open>ILIKE\<close>, which is a
  parameter (\<open>ilike text pattern\<close>); a NULL column never matches.  \<open>max_len\<close> is the \<open>max_length\<close> of an
  optional field of a request.
\<close>

definition like_pattern :: "string \<Rightarrow> string" where
  "like_pattern kw = ''%'' @ py_strip kw @ ''%''"

definition ilike_opt :: "(string \<Rightarrow> string \<Rightarrow> bool) \<Rightarrow> string option \<Rightarrow> string \<Rightarrow> bool" where
  "ilike_opt ilike v p = (case v of None \<Rightarrow> False | Some s \<Rightarrow> ilike s p)"

definition keyword_match :: "string option \<Rightarrow> (string \<Rightarrow> bool) \<Rightarrow> bool" where
  "keyword_match kw p = (case kw of None \<Rightarrow> True | Some k \<Rightarrow> k = [] \<or> p (like_pattern k))"

definition len_between :: "nat \<Rightarrow> nat \<Rightarrow> 'a list \<Rightarrow> bool" where
  "len_between lo hi s \<longleftrightarrow> lo \<le> length s \<and> length s \<le> hi"

definition max_len :: "nat \<Rightarrow> 'a list option \<Rightarrow> bool" where
  "max_len n s = (case s of None \<Rightarrow> True | Some v \<Rightarrow> length v \<le> n)"

section \<open>Lemmas\<close>

lemma get_page_params_valid: "get_page_params page sz = Some p \<Longrightarrow> valid_page_params p"
  by (auto simp: get_page_params_def Let_def split: if_splits)

lemma ceil_div_bounds:
  assumes "0 < b"
  shows "a \<le> ceil_div a b * b" and "ceil_div a b * b < a + b"
proof -
  have e: "(- a) div b * b + (- a) mod b = - a" by (rule div_mult_mod_eq)
  have c: "ceil_div a b * b = - ((- a) div b * b)" by (simp add: ceil_div_def)
  have "0 \<le> (- a) mod b" "(- a) mod b < b" using assms by simp_all
  with e c show "a \<le> ceil_div a b * b" "ceil_div a b * b < a + b" by linarith+
qed

lemma ceil_div_gt_iff:
  assumes "0 < b"
  shows "k < ceil_div a b \<longleftrightarrow> k * b < a"
proof
  assume "k < ceil_div a b"
  then have "k + 1 \<le> ceil_div a b" by simp
  then have "(k + 1) * b \<le> ceil_div a b * b" using assms by (intro mult_right_mono) auto
  with ceil_div_bounds(2) [OF assms, of a] show "k * b < a" by (simp add: distrib_right)
next
  assume "k * b < a"
  show "k < ceil_div a b"
  proof (rule ccontr)
    assume "\<not> k < ceil_div a b"
    then have "ceil_div a b * b \<le> k * b" using assms by (intro mult_right_mono) auto
    with ceil_div_bounds(1) [OF assms, of a] \<open>k * b < a\<close> show False by simp
  qed
qed

lemma page_build_response: "0 \<le> pp_size p \<Longrightarrow> to_page_response (page_build c p t) = page_build c p t"
  by (auto simp: to_page_response_def page_response_of_def page_build_def Let_def)

lemma length_slice:
  "valid_page_params p \<Longrightarrow> length (slice p xs) \<le> nat max_page_size"
  by (auto simp: slice_def page_limit_def valid_page_params_def max_page_size_def)

lemma set_slice: "set (slice p xs) \<subseteq> set xs"
  unfolding slice_def by (meson in_set_dropD in_set_takeD subsetI)

lemma content_paged [simp]: "pg_content (paged f p xs) = map f (slice p xs)"
  by (simp add: paged_def page_build_def Let_def)

lemma total_paged [simp]: "pg_total_elements (paged f p xs) = int (length xs)"
  by (simp add: paged_def page_build_def Let_def)

text \<open>The slices of the pages, one after the other, are the whole result.\<close>

lemma take_slices:
  assumes "0 < s"
  shows "concat (map (\<lambda>i. take s (drop (i * s) xs)) [0..<k]) = take (k * s) xs"
proof (induction k)
  case (Suc k)
  have "take (k * s) xs @ take s (drop (k * s) xs) = take (k * s + s) xs"
    by (simp add: take_add)
  with Suc show ?case by (simp add: add.commute)
qed simp

lemma slice_nat:
  "0 < s \<Longrightarrow> slice \<lparr>pp_page = int i, pp_size = int s\<rparr> xs = take s (drop (i * s) xs)"
  by (simp add: slice_def page_limit_def page_offset_def nat_mult_distrib)

lemma pages_partition:
  assumes s: "0 < s" and k: "int (length xs) \<le> int k * int s"
  shows "concat (map (\<lambda>i. slice \<lparr>pp_page = int i, pp_size = int s\<rparr> xs) [0..<k]) = xs"
proof -
  have "length xs \<le> k * s" using k by (metis of_nat_le_iff of_nat_mult)
  then show ?thesis using take_slices [OF s, of xs k] by (simp add: slice_nat [OF s])
qed

section \<open>Properties\<close>

text \<open>A page holds at most 100 of the selected rows, reports how many there are in all, has a next page
  exactly when rows are left after it and a previous one exactly when it is not the first; and the
  envelope that an endpoint builds from it says the same.\<close>

lemma page_spec:
  assumes "get_page_params page sz = Some p"
  shows "length (pg_content (paged f p xs)) \<le> 100 \<and> set (pg_content (paged f p xs)) \<subseteq> f ` set xs
    \<and> pg_total_elements (paged f p xs) = int (length xs)
    \<and> (pg_has_next (paged f p xs) \<longleftrightarrow> drop (nat (page_offset p + page_limit p)) xs \<noteq> [])
    \<and> (pg_has_previous (paged f p xs) \<longleftrightarrow> pp_page p \<noteq> 0)
    \<and> 1 \<le> pg_total_pages (paged f p xs) \<and> to_page_response (paged f p xs) = paged f p xs"
proof -
  have v: "0 \<le> pp_page p" "1 \<le> pp_size p" using get_page_params_valid [OF assms] by (simp_all add: valid_page_params_def)
  have len: "length (pg_content (paged f p xs)) \<le> 100"
    using length_slice [OF get_page_params_valid [OF assms], of xs] by (simp add: max_page_size_def)
  have "pg_has_next (paged f p xs) \<longleftrightarrow> pp_page p + 1 < ceil_div (int (length xs)) (pp_size p)"
    using v by (auto simp: paged_def page_build_def Let_def)
  also have "\<dots> \<longleftrightarrow> (pp_page p + 1) * pp_size p < int (length xs)"
    using v by (intro ceil_div_gt_iff) simp
  also have "\<dots> \<longleftrightarrow> drop (nat (page_offset p + page_limit p)) xs \<noteq> []"
    using v by (simp add: page_offset_def page_limit_def nat_less_iff not_le distrib_right nat_le_iff)
  finally show ?thesis using len v set_slice [of p xs]
    by (auto simp: paged_def page_build_def Let_def page_build_response [symmetric] to_page_response_def
        page_response_of_def)
qed

lemma page_spec_witness:
  "pg_has_next (paged id \<lparr>pp_page = 1, pp_size = 2\<rparr> [1, 2, 3, 4, 5 :: int]) \<longleftrightarrow>
     drop (nat (page_offset \<lparr>pp_page = 1, pp_size = 2\<rparr> + page_limit \<lparr>pp_page = 1, pp_size = 2\<rparr>)) [1, 2, 3, 4, 5 :: int] \<noteq> []"
proof -
  have "get_page_params (Some 1) (Some 2) = Some \<lparr>pp_page = 1, pp_size = 2\<rparr>"
    by (simp add: get_page_params_def valid_page_params_def max_page_size_def)
  from page_spec [OF this] show ?thesis by blast
qed

text \<open>Walking through the pages from the first to the last one the response announces visits every
  selected row exactly once, in order.\<close>

lemma pages_cover_all_rows:
  assumes "0 < s"
  shows "concat (map (\<lambda>i. pg_content (paged f \<lparr>pp_page = int i, pp_size = int s\<rparr> xs))
      [0 ..< nat (pg_total_pages (paged f \<lparr>pp_page = 0, pp_size = int s\<rparr> xs))]) = map f xs"
proof -
  let ?k = "nat (pg_total_pages (paged f \<lparr>pp_page = 0, pp_size = int s\<rparr> xs))"
  have "ceil_div (int (length xs)) (int s) \<le> int ?k"
    using assms by (auto simp: paged_def page_build_def Let_def max_def)
  then have "ceil_div (int (length xs)) (int s) * int s \<le> int ?k * int s"
    using assms by (intro mult_right_mono) auto
  then have "int (length xs) \<le> int ?k * int s"
    using ceil_div_bounds(1) [of "int s" "int (length xs)"] assms by linarith
  from pages_partition [OF assms this]
  have "map f (concat (map (\<lambda>i. slice \<lparr>pp_page = int i, pp_size = int s\<rparr> xs) [0..<?k])) = map f xs" by simp
  then show ?thesis by (simp add: map_concat comp_def)
qed

lemma pages_cover_all_rows_witness:
  "concat (map (\<lambda>i. pg_content (paged id \<lparr>pp_page = int i, pp_size = int 2\<rparr> [10, 20, 30 :: int]))
      [0 ..< nat (pg_total_pages (paged id \<lparr>pp_page = 0, pp_size = int 2\<rparr> [10, 20, 30 :: int]))]) = [10, 20, 30]"
  using pages_cover_all_rows [of 2 id "[10, 20, 30 :: int]"] by simp

end
