(* ===== verification/Tenant.thy ===== *)
theory Tenant
  imports Paging
begin

text \<open>
  Who may do what: the authenticated principal and its roles (app/core/security.py), the role
  guards and the company scope of app/api/deps.py, and the tenant guards of app/core/tenant.py.

  A scope is \<open>None\<close> for an administrator (every company) or \<open>Some c\<close> for the charger of company \<open>c\<close>.
\<close>

section \<open>Principals\<close>

record principal =
  pr_user_id :: int
  pr_username :: string
  pr_roles :: "string list"
  pr_enabled :: bool
  pr_non_locked :: bool

definition authorities :: "principal \<Rightarrow> string list" where
  "authorities p = map (\<lambda>r. if starts_with r ''ROLE_'' then r else ''ROLE_'' @ r) (pr_roles p)"

definition has_role :: "principal \<Rightarrow> string \<Rightarrow> bool" where
  "has_role p role =
     (let bare = remove_prefix ''ROLE_'' role
      in list_ex (\<lambda>r. remove_prefix ''ROLE_'' r = bare) (pr_roles p))"

section \<open>Role guards\<close>

definition require_roles :: "user_role list \<Rightarrow> principal \<Rightarrow> exn + principal" where
  "require_roles roles me =
     (let allowed = map role_value roles
      in if \<not> list_ex (\<lambda>r. r \<in> set allowed) (pr_roles me)
         then Inl (auth_forbidden (Some (Required_role allowed (pr_roles me))))
         else Inr me)"

definition require_admin :: "principal \<Rightarrow> exn + principal" where
  "require_admin = require_roles [ADMIN]"

definition require_admin_or_charger :: "principal \<Rightarrow> exn + principal" where
  "require_admin_or_charger = require_roles [ADMIN, CHARGER]"

definition require_caregiver :: "principal \<Rightarrow> exn + principal" where
  "require_caregiver = require_roles [CAREGIVER]"

section \<open>Company scope\<close>

type_synonym scope = "int option"

definition get_company_scope :: "principal \<Rightarrow> db \<Rightarrow> exn + scope" where
  "get_company_scope me d =
     let_ok (require_admin_or_charger me) (\<lambda>me.
       if has_role me (role_value ADMIN) then Inr None
       else let_ok (scalar_one_or_none
              (map (\<lambda>(i, c). ch_company_id c) (tsel (\<lambda>i c. ch_user_id c = pr_user_id me) (chargers d))))
            (\<lambda>company_id. some_or company_id (auth_forbidden (Some No_company_assigned))
              (\<lambda>c. Inr (Some c))))"

definition resolve_company_filter :: "scope \<Rightarrow> int option \<Rightarrow> exn + int option" where
  "resolve_company_filter scope requested =
     (case scope of
        None \<Rightarrow> Inr requested
      | Some s \<Rightarrow>
          (case requested of
             None \<Rightarrow> Inr scope
           | Some r \<Rightarrow> if r \<noteq> s then Inl (auth_forbidden None) else Inr scope))"

definition assert_company :: "scope \<Rightarrow> int option \<Rightarrow> exn + unit" where
  "assert_company scope company_id =
     (if scope \<noteq> None \<and> company_id \<noteq> scope then Inl (auth_forbidden None) else Inr ())"

section \<open>Lemmas\<close>

lemma assert_company_Inr [flow]:
  "assert_company scope c = Inr u \<longleftrightarrow> scope = None \<or> c = scope"
  by (auto simp: assert_company_def)

lemma assert_company_Some:
  "assert_company (Some s) (Some c) = (if c = s then Inr () else Inl (auth_forbidden None))"
  by (auto simp: assert_company_def)

lemma assert_company_None [simp]: "assert_company None c = Inr ()"
  by (simp add: assert_company_def)

lemma resolve_Inr:
  "resolve_company_filter scope req = Inr f \<Longrightarrow>
     (scope = None \<and> f = req) \<or> (\<exists>s. scope = Some s \<and> f = Some s \<and> (req = None \<or> req = Some s))"
  by (auto simp: resolve_company_filter_def split: option.splits if_splits)

lemma resolve_within_scope:
  "resolve_company_filter (Some s) req = Inr f \<Longrightarrow> f = Some s"
  by (auto dest: resolve_Inr)

lemma require_roles_Inr [flow]:
  "require_roles rs me = Inr me' \<longleftrightarrow> me' = me \<and> (\<exists>r \<in> set rs. role_value r \<in> set (pr_roles me))"
  by (auto simp: require_roles_def Let_def list_ex_iff)

lemma require_admin_or_charger_Inr [flow]:
  "require_admin_or_charger me = Inr me' \<longleftrightarrow>
     me' = me \<and> (''ADMIN'' \<in> set (pr_roles me) \<or> ''CHARGER'' \<in> set (pr_roles me))"
  by (auto simp: require_admin_or_charger_def flow)

lemma require_admin_Inr [flow]:
  "require_admin me = Inr me' \<longleftrightarrow> me' = me \<and> ''ADMIN'' \<in> set (pr_roles me)"
  by (auto simp: require_admin_def flow)

lemma require_caregiver_Inr [flow]:
  "require_caregiver me = Inr me' \<longleftrightarrow> me' = me \<and> ''CAREGIVER'' \<in> set (pr_roles me)"
  by (auto simp: require_caregiver_def flow)

lemma role_value_inj: "role_value a = role_value b \<Longrightarrow> a = b"
  by (cases a; cases b) simp_all

lemma role_value_no_prefix [simp]: "remove_prefix ''ROLE_'' (role_value r) = role_value r"
  by (cases r) (simp_all add: remove_prefix_def starts_with_def)

lemma role_value_has_role: "role_value r \<in> set (pr_roles p) \<Longrightarrow> has_role p (role_value r)"
  by (auto simp: has_role_def Let_def list_ex_iff intro!: bexI)

text \<open>
  The scope of a principal that has the plain role names of the program: an administrator is
  unrestricted, a charger is restricted to the one company it is assigned to.
\<close>

lemma scope_admin:
  "''ADMIN'' \<in> set (pr_roles me) \<Longrightarrow> get_company_scope me d = Inr None"
  using role_value_has_role [of ADMIN me]
  by (auto simp: get_company_scope_def require_admin_or_charger_def require_roles_def Let_def list_ex_iff)

lemma scope_charger:
  assumes "chargers_ok (chargers d)" and "\<not> has_role me ''ADMIN''"
    and "get_company_scope me d = Inr sc"
  shows "\<exists>i c. (i, c) \<in> set (rows (chargers d)) \<and> ch_user_id c = pr_user_id me \<and> sc = Some (ch_company_id c)"
proof -
  let ?sel = "tsel (\<lambda>i c. ch_user_id c = pr_user_id me) (chargers d)"
  from assms(2,3) obtain c where
    "scalar_one_or_none (map (\<lambda>(i, c). ch_company_id c) ?sel) = Inr (Some c)" and sc: "sc = Some c"
    by (auto simp: get_company_scope_def flow split: if_splits)
  then have "map (\<lambda>(i, c). ch_company_id c) ?sel = [c]" by (simp add: scalar_Some)
  then obtain i r where "?sel = [(i, r)]" "ch_company_id r = c" by (auto simp: map_eq_Cons_conv)
  then have "(i, r) \<in> set ?sel" by simp
  with sc \<open>ch_company_id r = c\<close> show ?thesis by (auto simp: tsel_iff)
qed

lemma scope_no_multiple:
  assumes "chargers_ok (chargers d)"
  shows "get_company_scope me d \<noteq> Inl MultipleResultsFound"
proof -
  let ?sel = "tsel (\<lambda>i c. ch_user_id c = pr_user_id me) (chargers d)"
  have "length ?sel \<le> 1"
    using assms by (intro tsel_unique [where q = "\<lambda>_. True" and key = ch_user_id]) (auto simp: chargers_ok_def)
  then have "length (map (\<lambda>(i, c). ch_company_id c) ?sel) \<le> 1" by simp
  then show ?thesis
    by (auto simp: get_company_scope_def scalar_le_1 flow_errors require_admin_or_charger_def
        require_roles_def auth_forbidden_def business_def Let_def split: if_splits)
qed

section \<open>The tenant contract\<close>

text \<open>
  \<open>run_step\<close> is one request against the database: a method that raises leaves it as it was (the
  session rolls back), a method that returns has its changes committed.
\<close>

definition run_step :: "('o \<Rightarrow> db \<Rightarrow> exn + ('x \<times> db)) \<Rightarrow> 'o \<Rightarrow> db \<Rightarrow> db" where
  "run_step f x d = (case f x d of Inl e \<Rightarrow> d | Inr (y, d') \<Rightarrow> d')"

definition run_steps :: "('o \<Rightarrow> db \<Rightarrow> exn + ('x \<times> db)) \<Rightarrow> 'o list \<Rightarrow> db \<Rightarrow> db" where
  "run_steps f xs d = foldl (\<lambda>d x. run_step f x d) d xs"

text \<open>The rows of a table that do not belong to company \<open>c\<close>.\<close>

definition foreign_rows :: "('r \<Rightarrow> int) \<Rightarrow> int \<Rightarrow> 'r table \<Rightarrow> (int \<times> 'r) list" where
  "foreign_rows owner c t = filter (\<lambda>(i, r). owner r \<noteq> c) (rows t)"

text \<open>
  A resource whose rows belong to companies.  The provider promises that an operation issued under
  the scope of a charger leaves the rows of the other companies as they are; \<open>inv\<close> is the invariant
  of the table that every operation keeps.
\<close>

locale tenant_resource =
  fixes tbl :: "db \<Rightarrow> 'r table"
    and owner :: "'r \<Rightarrow> int"
    and exec :: "scope \<Rightarrow> 'o \<Rightarrow> db \<Rightarrow> exn + ('x \<times> db)"
    and inv :: "'r table \<Rightarrow> bool"
  assumes keeps_foreign:
    "inv (tbl d) \<Longrightarrow> exec (Some c) x d = Inr (y, d') \<Longrightarrow>
       foreign_rows owner c (tbl d') = foreign_rows owner c (tbl d)"
    and keeps_inv: "inv (tbl d) \<Longrightarrow> exec sc x d = Inr (y, d') \<Longrightarrow> inv (tbl d')"
begin

lemma step_keeps_inv: "inv (tbl d) \<Longrightarrow> inv (tbl (run_step (exec sc) x d))"
  using keeps_inv by (auto simp: run_step_def split: sum.splits)

lemma steps_keep_inv: "inv (tbl d) \<Longrightarrow> inv (tbl (run_steps (exec sc) xs d))"
  by (induction xs rule: rev_induct) (simp_all add: run_steps_def step_keeps_inv)

lemma step_keeps_foreign:
  "inv (tbl d) \<Longrightarrow>
   foreign_rows owner c (tbl (run_step (exec (Some c)) x d)) = foreign_rows owner c (tbl d)"
  using keeps_foreign by (auto simp: run_step_def split: sum.splits)

lemma steps_keep_foreign:
  assumes "inv (tbl d)"
  shows "foreign_rows owner c (tbl (run_steps (exec (Some c)) xs d)) = foreign_rows owner c (tbl d)"
proof (induction xs rule: rev_induct)
  case (snoc x xs)
  then show ?case
    using step_keeps_foreign [OF steps_keep_inv [OF assms]]
    by (simp add: run_steps_def)
qed (simp add: run_steps_def)

lemma foreign_row_survives:
  assumes "inv (tbl d)" and "(i, r) \<in> set (rows (tbl d))" and "owner r \<noteq> c"
  shows "(i, r) \<in> set (rows (tbl (run_steps (exec (Some c)) xs d)))"
proof -
  have "(i, r) \<in> set (foreign_rows owner c (tbl d))" using assms by (simp add: foreign_rows_def)
  then have "(i, r) \<in> set (foreign_rows owner c (tbl (run_steps (exec (Some c)) xs d)))"
    by (simp only: steps_keep_foreign [OF assms(1)])
  then show ?thesis by (simp add: foreign_rows_def)
qed

lemma no_foreign_row_appears:
  assumes "inv (tbl d)" and "(i, r) \<in> set (rows (tbl (run_steps (exec (Some c)) xs d)))"
    and "owner r \<noteq> c"
  shows "(i, r) \<in> set (rows (tbl d))"
proof -
  have "(i, r) \<in> set (foreign_rows owner c (tbl (run_steps (exec (Some c)) xs d)))"
    using assms by (simp add: foreign_rows_def)
  then have "(i, r) \<in> set (foreign_rows owner c (tbl d))" by (simp only: steps_keep_foreign [OF assms(1)])
  then show ?thesis by (simp add: foreign_rows_def)
qed

end

text \<open>How the table operations act on the foreign rows.\<close>

lemma foreign_rows_tins [simp]:
  "owner r = c \<Longrightarrow> foreign_rows owner c (tins r t) = foreign_rows owner c t"
  by (simp add: foreign_rows_def tins_def)

lemma filter_update_row:
  assumes "\<And>s. (i, s) \<in> set xs \<Longrightarrow> \<not> q s" and "\<not> q r"
  shows "filter (\<lambda>(k, x). q x) (map (\<lambda>(k, x). if k = i then (k, r) else (k, x)) xs)
    = filter (\<lambda>(k, x). q x) xs"
  using assms(1)
proof (induction xs)
  case (Cons kx xs)
  then show ?case using assms(2) by (cases kx) auto
qed simp

lemma table_row_unique:
  "table_ok t \<Longrightarrow> tget t i = Some r \<Longrightarrow> (i, s) \<in> set (rows t) \<Longrightarrow> s = r"
  by (simp add: tget_iff [symmetric])

lemma foreign_rows_tupd:
  assumes "table_ok t" "tget t i = Some r" "owner r = c" "owner r' = c"
  shows "foreign_rows owner c (tupd i r' t) = foreign_rows owner c t"
proof -
  have "\<And>s. (i, s) \<in> set (rows t) \<Longrightarrow> \<not> owner s \<noteq> c"
    using table_row_unique [OF assms(1,2)] assms(3) by auto
  then show ?thesis
    using assms(4) by (simp add: foreign_rows_def tupd_def filter_update_row)
qed

lemma foreign_rows_tdel:
  assumes "table_ok t" "tget t i = Some r" "owner r = c"
  shows "foreign_rows owner c (tdel i t) = foreign_rows owner c t"
proof -
  have "\<And>s. (i, s) \<in> set (rows t) \<Longrightarrow> owner s = c"
    using table_row_unique [OF assms(1,2)] assms(3) by auto
  then show ?thesis
    by (auto simp: foreign_rows_def tdel_def intro!: filter_cong)
qed

lemma first_company:
  "first_row (map (\<lambda>(i, c). ch_company_id c) (tsel (\<lambda>i c. ch_user_id c = u) (t :: company_charger table))) =
   map_of (map (\<lambda>(i, c). (ch_user_id c, ch_company_id c)) (rows t)) u"
proof -
  have "first_row (map (\<lambda>(i, c). ch_company_id c) (filter (\<lambda>(i, c). ch_user_id c = u) xs)) =
    map_of (map (\<lambda>(i, c). (ch_user_id c, ch_company_id c)) xs) u" for xs :: "(int \<times> company_charger) list"
    by (induction xs) (auto simp: first_row_def)
  then show ?thesis by (simp add: tsel_def)
qed

section \<open>Properties\<close>



text \<open>The role guard compares the bare names, \<open>has_role\<close> drops a \<open>ROLE_\<close> prefix: whoever passes the guard
  has the role, but a principal whose role is written \<open>ROLE_ADMIN\<close> has the role and is turned away by
  the guard.\<close>

lemma role_guard_ignores_prefix:
  "(require_admin me = Inr me' \<longrightarrow> has_role me ''ADMIN'' \<and> ''ROLE_ADMIN'' \<in> set (authorities me))
   \<and> has_role (me\<lparr>pr_roles := [''ROLE_ADMIN'']\<rparr>) ''ADMIN''
   \<and> authorities (me\<lparr>pr_roles := [''ROLE_ADMIN'']\<rparr>) = [''ROLE_ADMIN'']
   \<and> isl (require_admin (me\<lparr>pr_roles := [''ROLE_ADMIN'']\<rparr>))"
proof -
  have "has_role me ''ADMIN'' \<and> ''ROLE_ADMIN'' \<in> set (authorities me)" if "require_admin me = Inr me'"
    using that role_value_has_role [of ADMIN me]
    by (auto simp: flow authorities_def starts_with_def image_iff intro!: bexI [of _ "''ADMIN''"])
  then show ?thesis
    by (simp add: has_role_def remove_prefix_def starts_with_def authorities_def require_admin_def require_roles_def)
qed

lemma role_guard_ignores_prefix_witness:
  "has_role \<lparr>pr_user_id = 1, pr_username = ''a'', pr_roles = [''ADMIN''], pr_enabled = True, pr_non_locked = True\<rparr> ''ADMIN''"
  using role_guard_ignores_prefix [of
      "\<lparr>pr_user_id = 1, pr_username = ''a'', pr_roles = [''ADMIN''], pr_enabled = True, pr_non_locked = True\<rparr>"
      "\<lparr>pr_user_id = 1, pr_username = ''a'', pr_roles = [''ADMIN''], pr_enabled = True, pr_non_locked = True\<rparr>"]
  by (simp add: require_admin_def require_roles_def)

end
