(* ===== verification/Sample.thy ===== *)
theory Sample
  imports Schema
begin

text \<open>
  A small database on which the witnesses of the properties are evaluated: two companies, a charger
  of the first one, one worker employed there with a job and an open schedule, and a caregiver of
  that worker.  It satisfies every constraint of the schema.
\<close>

definition sample_user :: "string \<Rightarrow> user_role \<Rightarrow> user" where
  "sample_user n r = \<lparr>u_username = n, u_email = None, u_password_hash = ''h:'' @ n, u_name = n,
     u_phone = None, u_role = r, u_enabled = True, u_last_login_at = None\<rparr>"

definition sample_company :: "string \<Rightarrow> company" where
  "sample_company n = \<lparr>co_name = n, co_location = None, co_use_flag = True, co_image_path = None,
     co_template_id = None, co_template_data = None, co_created_by = None, co_updated_by = None\<rparr>"

definition sample_standard :: job_standard where
  "sample_standard = \<lparr>js_company_id = 1, js_name = ''clean'', js_use_flag = True,
     js_routine_start_time = None, js_work_time = 0, js_rest_time = 0, js_start_message = None,
     js_end_message = None, js_context = None, js_for_journal = False\<rparr>"

definition sample_process :: "int \<Rightarrow> job_process" where
  "sample_process n = \<lparr>jp_standard_id = 1, jp_name = ''step'', jp_sequence = n, jp_video_path = None,
     jp_start_message = None, jp_end_message = None, jp_context = None, jp_process_time = 60\<rparr>"

definition sample_schedule :: work_schedule where
  "sample_schedule = \<lparr>ws_job_worker_id = 1, ws_charger_id = Some 1, ws_standard_id = 1, ws_start_at = 0,
     ws_end_at = None, ws_doc_path = None, ws_make_doc = False\<rparr>"

definition sample_db :: db where
  "sample_db = empty_db\<lparr>
     users := \<lparr>rows = [(1, sample_user ''admin'' ADMIN), (2, sample_user ''charger'' CHARGER),
                       (3, sample_user ''worker'' WORKER), (4, sample_user ''carer'' CAREGIVER)],
               next_id = 5\<rparr>,
     companies := \<lparr>rows = [(1, sample_company ''one''), (2, sample_company ''two'')], next_id = 3\<rparr>,
     chargers := \<lparr>rows = [(1, \<lparr>ch_user_id = 2, ch_company_id = 1, ch_is_hired = True, ch_fcm_token = None\<rparr>)],
                  next_id = 2\<rparr>,
     workers := \<lparr>rows = [(1, \<lparr>w_user_id = 3, w_fcm_token = None, w_retired_at = None\<rparr>)], next_id = 2\<rparr>,
     company_workers := \<lparr>rows = [(1, \<lparr>cw_company_id = 1, cw_worker_id = 1, cw_is_hired = True\<rparr>)], next_id = 2\<rparr>,
     caregivers := \<lparr>rows = [(1, \<lparr>cg_user_id = 4\<rparr>)], next_id = 2\<rparr>,
     relations := \<lparr>rows = [(1, \<lparr>rel_caregiver_id = 1, rel_worker_id = 1\<rparr>)], next_id = 2\<rparr>,
     standards := \<lparr>rows = [(1, sample_standard)], next_id = 2\<rparr>,
     processes := \<lparr>rows = [(1, sample_process 0), (2, sample_process 1)], next_id = 3\<rparr>,
     job_workers := \<lparr>rows = [(1, \<lparr>jw_company_worker_id = 1, jw_standard_id = 1, jw_use_flag = True,
                                 jw_context = None\<rparr>)], next_id = 2\<rparr>,
     schedules := \<lparr>rows = [(1, sample_schedule)], next_id = 2\<rparr>,
     document_types := \<lparr>rows = [(1, \<lparr>dt_name = ''id'', dt_description = None, dt_request_on = REGISTER\<rparr>)],
                        next_id = 2\<rparr>\<rparr>"

lemmas sample_defs = sample_db_def empty_db_def sample_user_def sample_company_def sample_standard_def
  sample_process_def sample_schedule_def empty_table_def

lemmas table_eval = tget_def tins_def tupd_def tdel_def tsel_def tdel_where_def

lemma sample_schema_ok: "schema_ok sample_db"
  by (simp add: schema_ok_def table_constraint_defs table_ok_def unique_on_def all_rows_def sample_defs)

end
