(* ===== verification/Security.thy ===== *)
theory Security
  imports Tenant Sample "HOL-Library.Countable"
begin

text \<open>
  Settings, passwords and tokens: app/core/config.py, app/core/security.py, and the bucket key of
  app/core/rate\_limit.py.  bcrypt and PyJWT are libraries: the record \<open>libs\<close> holds the functions the
  code calls, and the named hypotheses below (\<open>bcrypt_verifies\<close>, \<open>jwt_round_trip\<close>, ..) state what
  their documentation promises.  Times are seconds since the epoch.
\<close>

section \<open>Settings\<close>

datatype app_env = Env_local | Env_dev | Env_prod | Env_test

record settings =
  st_app_env :: app_env
  st_db_host :: string
  st_db_port :: int
  st_db_name :: string
  st_db_username :: string
  st_db_password :: string
  st_db_ssl_required :: bool
  st_app_read_only :: bool
  st_redis_host :: string
  st_redis_port :: int
  st_redis_password :: "string option"
  st_jwt_secret :: string
  st_jwt_access_ttl_minutes :: int
  st_jwt_refresh_ttl_days :: int
  st_jwt_issuer :: string
  st_jwt_algorithm :: string
  st_cors_allowed_origins :: string
  st_storage_driver :: string
  st_storage_local_root :: string
  st_storage_public_url :: string
  st_firebase_credential_json_path :: string
  st_resend_enabled :: bool
  st_resend_api_key :: "string option"
  st_resend_from :: string

text \<open>UTF-8 of the characters up to U+00FF.\<close>

definition utf8_char :: "char \<Rightarrow> nat list" where
  "utf8_char c = (if code c < 128 then [code c] else [192 + code c div 64, 128 + code c mod 64])"

definition utf8_encode :: "string \<Rightarrow> nat list" where
  "utf8_encode s = concat (map utf8_char s)"

definition validate_jwt_secret_entropy :: "string \<Rightarrow> exn + string" where
  "validate_jwt_secret_entropy v =
     (if length (utf8_encode v) < 32 then Inl (ValueError ''JWT_SECRET'') else Inr v)"

definition database_url :: "settings \<Rightarrow> string" where
  "database_url s =
     (let ssl = (if st_db_ssl_required s then ''?ssl=require'' else [])
      in ''postgresql+asyncpg://'' @ st_db_username s @ '':'' @ st_db_password s @ ''@'' @ st_db_host s
         @ '':'' @ str_of_int (st_db_port s) @ ''/'' @ st_db_name s @ ssl)"

definition redis_url :: "settings \<Rightarrow> string" where
  "redis_url s =
     (let auth = (if truthy (st_redis_password s) then '':'' @ the (st_redis_password s) @ ''@'' else [])
      in ''redis://'' @ auth @ st_redis_host s @ '':'' @ str_of_int (st_redis_port s) @ ''/0'')"

fun split_all :: "char \<Rightarrow> string \<Rightarrow> string list" where
  "split_all c [] = [[]]"
| "split_all c (x # xs) =
     (if x = c then [] # split_all c xs
      else case split_all c xs of [] \<Rightarrow> [[x]] | y # ys \<Rightarrow> (x # y) # ys)"

definition cors_origins :: "settings \<Rightarrow> string list" where
  "cors_origins s =
     filter (\<lambda>o'. o' \<noteq> []) (map py_strip (split_all (CHR '','') (st_cors_allowed_origins s)))"

definition firebase_enabled :: "settings \<Rightarrow> bool" where
  "firebase_enabled s \<longleftrightarrow> st_firebase_credential_json_path s \<noteq> []"

section \<open>Libraries\<close>

datatype jwt_error = Expired_signature | Jwt_error string

text \<open>
  \<open>hashpw bytes salt\<close>, \<open>checkpw bytes hash\<close> (which raises on a malformed hash), \<open>jwt_encode claims secret
  algorithm\<close>, \<open>jwt_decode token secret algorithm issuer required now\<close>, the decode without verification,
  and \<open>str()\<close> of a JSON list or object.
\<close>

record libs =
  hashpw :: "nat list \<Rightarrow> string \<Rightarrow> string"
  checkpw :: "nat list \<Rightarrow> string \<Rightarrow> exn + bool"
  jwt_encode :: "jobject \<Rightarrow> string \<Rightarrow> string \<Rightarrow> string"
  jwt_decode :: "string \<Rightarrow> string \<Rightarrow> string \<Rightarrow> string \<Rightarrow> string list \<Rightarrow> int \<Rightarrow> jwt_error + jobject"
  jwt_unverified :: "string \<Rightarrow> jobject option"
  json_repr :: "json \<Rightarrow> string"

section \<open>Passwords\<close>

definition bcrypt_max_bytes :: nat where "bcrypt_max_bytes = 72"

definition to_bcrypt_input :: "string \<Rightarrow> nat list" where
  "to_bcrypt_input plain = take bcrypt_max_bytes (utf8_encode plain)"

definition hash_password :: "libs \<Rightarrow> string \<Rightarrow> string \<Rightarrow> string" where
  "hash_password L plain salt = hashpw L (to_bcrypt_input plain) salt"

definition verify_password :: "libs \<Rightarrow> string \<Rightarrow> string \<Rightarrow> bool" where
  "verify_password L plain hashed =
     (case checkpw L (to_bcrypt_input plain) hashed of Inr b \<Rightarrow> b | Inl _ \<Rightarrow> False)"

text \<open>What bcrypt documents: a hash made with any salt is matched by its own input.\<close>

definition bcrypt_verifies :: "libs \<Rightarrow> bool" where
  "bcrypt_verifies L \<longleftrightarrow> (\<forall>b salt. length b \<le> bcrypt_max_bytes \<longrightarrow> checkpw L b (hashpw L b salt) = Inr True)"

section \<open>Tokens\<close>

datatype token_type = ACCESS | REFRESH

fun token_type_value :: "token_type \<Rightarrow> string" where
  "token_type_value ACCESS = ''ACCESS''"
| "token_type_value REFRESH = ''REFRESH''"

record jwt_payload =
  pl_user_id :: int
  pl_username :: string
  pl_roles :: "string list"
  pl_token_type :: token_type
  pl_issued_at :: int
  pl_expires_at :: int

definition token_ttl :: "settings \<Rightarrow> token_type \<Rightarrow> int" where
  "token_ttl s t = (case t of ACCESS \<Rightarrow> st_jwt_access_ttl_minutes s * 60
                            | REFRESH \<Rightarrow> st_jwt_refresh_ttl_days s * 86400)"

definition token_claims :: "settings \<Rightarrow> int \<Rightarrow> string \<Rightarrow> string list \<Rightarrow> token_type \<Rightarrow> int \<Rightarrow> jobject" where
  "token_claims s user_id username roles t now =
     [(''iss'', JStr (st_jwt_issuer s)), (''sub'', JStr (str_of_int user_id)), (''iat'', JNum now),
      (''exp'', JNum (now + token_ttl s t)), (''usn'', JStr username),
      (''roles'', JArr (map JStr roles)), (''typ'', JStr (token_type_value t))]"

definition create_token ::
    "settings \<Rightarrow> libs \<Rightarrow> int \<Rightarrow> string \<Rightarrow> string list \<Rightarrow> token_type \<Rightarrow> int \<Rightarrow> string" where
  "create_token s L user_id username roles t now =
     jwt_encode L (token_claims s user_id username roles t now) (st_jwt_secret s) (st_jwt_algorithm s)"

definition create_access_token :: "settings \<Rightarrow> libs \<Rightarrow> int \<Rightarrow> string \<Rightarrow> string list \<Rightarrow> int \<Rightarrow> string" where
  "create_access_token s L user_id username roles now = create_token s L user_id username roles ACCESS now"

definition create_refresh_token :: "settings \<Rightarrow> libs \<Rightarrow> int \<Rightarrow> string \<Rightarrow> string list \<Rightarrow> int \<Rightarrow> string" where
  "create_refresh_token s L user_id username roles now = create_token s L user_id username roles REFRESH now"

definition access_ttl_seconds :: "settings \<Rightarrow> int" where
  "access_ttl_seconds s = st_jwt_access_ttl_minutes s * 60"

definition refresh_ttl_seconds :: "settings \<Rightarrow> int" where
  "refresh_ttl_seconds s = st_jwt_refresh_ttl_days s * 86400"

text \<open>\<open>int(v)\<close>, \<open>str(v)\<close> and \<open>list(v)\<close> of a claim.\<close>

fun json_int :: "json \<Rightarrow> int option" where
  "json_int (JNum n) = Some n"
| "json_int (JStr s) = py_int s"
| "json_int (JBool b) = Some (if b then 1 else 0)"
| "json_int _ = None"

fun json_str :: "libs \<Rightarrow> json \<Rightarrow> string" where
  "json_str L (JStr s) = s"
| "json_str L (JNum n) = str_of_int n"
| "json_str L (JBool b) = (if b then ''True'' else ''False'')"
| "json_str L JNull = ''None''"
| "json_str L j = json_repr L j"

text \<open>
  A list of roles whose elements are not all strings, or a value \<open>list()\<close> refuses, does not occur in a
  token this program signs; it is an unhandled error here.
\<close>

fun json_strings :: "json list \<Rightarrow> string list option" where
  "json_strings [] = Some []"
| "json_strings (JStr s # js) = map_option (Cons s) (json_strings js)"
| "json_strings (_ # js) = None"

fun json_roles :: "json \<Rightarrow> exn + string list" where
  "json_roles (JArr js) = some_or (json_strings js) (External ''roles'') Inr"
| "json_roles (JStr s) = Inr (map (\<lambda>c. [c]) s)"
| "json_roles (JObj kvs) = Inr (map fst kvs)"
| "json_roles _ = Inl (External ''TypeError'')"

definition claim :: "jobject \<Rightarrow> string \<Rightarrow> json \<Rightarrow> json" where
  "claim claims k d = (case map_of claims k of Some v \<Rightarrow> v | None \<Rightarrow> d)"

definition required_claims :: "string list" where
  "required_claims = [''exp'', ''iat'', ''sub'', ''typ'']"

definition parse_token ::
    "settings \<Rightarrow> libs \<Rightarrow> string \<Rightarrow> token_type option \<Rightarrow> int \<Rightarrow> exn + jwt_payload" where
  "parse_token s L token expected now =
     (case jwt_decode L token (st_jwt_secret s) (st_jwt_algorithm s) (st_jwt_issuer s) required_claims now of
        Inl Expired_signature \<Rightarrow> Inl auth_token_expired
      | Inl (Jwt_error e) \<Rightarrow> Inl (auth_token_invalid e)
      | Inr claims \<Rightarrow>
          raise_if (case expected of None \<Rightarrow> False
                     | Some t \<Rightarrow> map_of claims ''typ'' \<noteq> Some (JStr (token_type_value t)))
            (business AUTH_TOKEN_INVALID
              (Some (Token_type_mismatch (token_type_value (the expected)) (map_of claims ''typ''))))
          (some_or (Option.bind (map_of claims ''sub'') json_int)
            (auth_token_invalid (''missing or invalid '' @ [CHR 39] @ ''sub'' @ [CHR 39] @ '' claim'')) (\<lambda>user_id.
           let_ok (json_roles (claim claims ''roles'' (JArr []))) (\<lambda>roles.
           some_or (json_int (claim claims ''iat'' (JNum 0))) (External ''iat'') (\<lambda>iat.
           some_or (json_int (claim claims ''exp'' (JNum 0))) (External ''exp'') (\<lambda>expires.
             Inr \<lparr>pl_user_id = user_id, pl_username = json_str L (claim claims ''usn'' (JStr [])),
                  pl_roles = roles,
                  pl_token_type = (if map_of claims ''typ'' = Some (JStr ''REFRESH'') then REFRESH else ACCESS),
                  pl_issued_at = iat, pl_expires_at = expires\<rparr>))))))"

text \<open>
  What PyJWT documents of a token it encoded with the same secret and algorithm, for a claim set with
  the required claims, the expected issuer and an issue time that is not in the future: the claims come
  back while \<open>exp\<close> lies ahead, and \<open>ExpiredSignatureError\<close> is raised from then on.
\<close>

definition jwt_round_trip :: "libs \<Rightarrow> bool" where
  "jwt_round_trip L \<longleftrightarrow> (\<forall>claims secret alg iss req now iat expires.
     map_of claims ''iss'' = Some (JStr iss) \<longrightarrow> set req \<subseteq> fst ` set claims
     \<longrightarrow> map_of claims ''iat'' = Some (JNum iat) \<longrightarrow> map_of claims ''exp'' = Some (JNum expires)
     \<longrightarrow> iat \<le> now \<longrightarrow>
     jwt_decode L (jwt_encode L claims secret alg) secret alg iss req now =
       (if now < expires then Inr claims else Inl Expired_signature))"

section \<open>The current user\<close>

record http_request =
  hr_authorization :: "string option"
  hr_accesstoken :: "string option"
  hr_cookie_access_token :: "string option"
  hr_remote_address :: string
  hr_path :: string

definition bearer_prefix :: string where "bearer_prefix = ''Bearer ''"

definition legacy_token :: "http_request \<Rightarrow> string option" where
  "legacy_token r =
     (if truthy (hr_accesstoken r) then Some (py_strip (the (hr_accesstoken r)))
      else if truthy (hr_cookie_access_token r) then Some (py_strip (the (hr_cookie_access_token r)))
      else None)"

definition resolve_bearer_token :: "http_request \<Rightarrow> string option" where
  "resolve_bearer_token r =
     (case hr_authorization r of
        Some auth \<Rightarrow>
          if auth \<noteq> [] \<and> starts_with auth bearer_prefix
          then Some (py_strip (drop (length bearer_prefix) auth))
          else legacy_token r
      | None \<Rightarrow> legacy_token r)"

definition current_user_optional ::
    "settings \<Rightarrow> libs \<Rightarrow> http_request \<Rightarrow> int \<Rightarrow> exn + principal option" where
  "current_user_optional s L r now =
     (if truthy (resolve_bearer_token r)
      then let_ok (parse_token s L (the (resolve_bearer_token r)) (Some ACCESS) now) (\<lambda>p.
             Inr (Some \<lparr>pr_user_id = pl_user_id p, pr_username = pl_username p, pr_roles = pl_roles p,
                        pr_enabled = True, pr_non_locked = True\<rparr>))
      else Inr None)"

definition current_user :: "settings \<Rightarrow> libs \<Rightarrow> http_request \<Rightarrow> int \<Rightarrow> exn + principal" where
  "current_user s L r now =
     let_ok (current_user_optional s L r now) (\<lambda>p. some_or p (auth_token_invalid ''missing bearer token'') Inr)"

section \<open>The bucket of the rate limiter\<close>

fun json_truthy :: "json \<Rightarrow> bool" where
  "json_truthy JNull \<longleftrightarrow> False"
| "json_truthy (JBool b) \<longleftrightarrow> b"
| "json_truthy (JNum n) \<longleftrightarrow> n \<noteq> 0"
| "json_truthy (JStr s) \<longleftrightarrow> s \<noteq> []"
| "json_truthy (JArr xs) \<longleftrightarrow> xs \<noteq> []"
| "json_truthy (JObj xs) \<longleftrightarrow> xs \<noteq> []"

definition rate_limit_identifier :: "libs \<Rightarrow> http_request \<Rightarrow> string" where
  "rate_limit_identifier L r =
     (let auth = or_str (hr_authorization r) [];
          by_ip = ''ip:'' @ hr_remote_address r
      in if starts_with auth bearer_prefix
         then (case jwt_unverified L (py_strip (drop 7 auth)) of
                 None \<Rightarrow> by_ip
               | Some payload \<Rightarrow>
                   (case map_of payload ''sub'' of
                      Some sub \<Rightarrow> if json_truthy sub then ''user:'' @ json_str L sub else by_ip
                    | None \<Rightarrow> by_ip))
         else by_ip)"

section \<open>Lemmas\<close>

lemma hash_verifies: "bcrypt_verifies L \<Longrightarrow> verify_password L p (hash_password L p salt)"
  by (simp add: bcrypt_verifies_def verify_password_def hash_password_def to_bcrypt_input_def)

lemma utf8_append: "utf8_encode (a @ b) = utf8_encode a @ utf8_encode b"
  by (simp add: utf8_encode_def)

lemma utf8_bytes: "b \<in> set (utf8_encode s) \<Longrightarrow> b < 256"
proof -
  assume "b \<in> set (utf8_encode s)"
  then obtain c where c: "b \<in> set (utf8_char c)" by (auto simp: utf8_encode_def)
  have "code c < 256" using nat_of_char_less_256 [of c] by simp
  then have "code c div 64 < 4" by (simp add: less_mult_imp_div_less)
  with c \<open>code c < 256\<close> show ?thesis by (auto simp: utf8_char_def split: if_splits)
qed

lemma json_strings_map [simp]: "json_strings (map JStr xs) = Some xs"
  by (induction xs) simp_all

lemma token_type_value_inj [simp]: "token_type_value a = token_type_value b \<longleftrightarrow> a = b"
  by (cases a; cases b) simp_all

lemma token_type_values [simp]:
  "''ACCESS'' = token_type_value t \<longleftrightarrow> t = ACCESS" "token_type_value t = ''ACCESS'' \<longleftrightarrow> t = ACCESS"
  "''REFRESH'' = token_type_value t \<longleftrightarrow> t = REFRESH" "token_type_value t = ''REFRESH'' \<longleftrightarrow> t = REFRESH"
  by (cases t; simp)+

lemma decode_created:
  assumes "jwt_round_trip L" and "iat \<le> now"
  shows "jwt_decode L (create_token s L u n rs t iat) (st_jwt_secret s) (st_jwt_algorithm s)
     (st_jwt_issuer s) required_claims now =
    (if now < iat + token_ttl s t then Inr (token_claims s u n rs t iat) else Inl Expired_signature)"
  using assms(1) unfolding jwt_round_trip_def create_token_def
  by (rule allE [of _ "token_claims s u n rs t iat"])
     (use assms(2) in \<open>simp add: token_claims_def required_claims_def\<close>)

lemma parse_created:
  assumes "jwt_round_trip L" and "iat \<le> now"
  shows "parse_token s L (create_token s L u n rs t iat) expected now =
    (if iat + token_ttl s t \<le> now then Inl auth_token_expired
     else if expected \<noteq> None \<and> expected \<noteq> Some t
     then Inl (Business AUTH_TOKEN_INVALID
            (Token_type_mismatch (token_type_value (the expected)) (Some (JStr (token_type_value t)))))
     else Inr \<lparr>pl_user_id = u, pl_username = n, pl_roles = rs, pl_token_type = t,
               pl_issued_at = iat, pl_expires_at = iat + token_ttl s t\<rparr>)"
proof (cases "iat + token_ttl s t \<le> now")
  case True
  then show ?thesis by (simp add: parse_token_def decode_created [OF assms])
next
  case False
  have tt: "(JStr (token_type_value t) = JStr ''REFRESH'') \<longleftrightarrow> t = REFRESH" by (cases t) simp_all
  from False show ?thesis
    by (cases t)
       (auto simp: parse_token_def decode_created [OF assms] token_claims_def claim_def business_def
          py_int_str_of_int raise_if_def split: option.splits)
qed

section \<open>Properties\<close>

text \<open>C23: parsing a token the program created gives back its user, name, roles, type and times until it
  expires, and from then on the expired error; a token of the other type is refused with the types
  named, so an access token never serves as a refresh token nor the other way round.\<close>

theorem token_round_trip:
  assumes jwt: "jwt_round_trip L" and age: "iat \<le> now"
  shows "parse_token s L (create_token s L u n rs t iat) (Some e) now =
    (if iat + token_ttl s t \<le> now then Inl auth_token_expired
     else if e \<noteq> t
     then Inl (Business AUTH_TOKEN_INVALID
            (Token_type_mismatch (token_type_value e) (Some (JStr (token_type_value t)))))
     else Inr \<lparr>pl_user_id = u, pl_username = n, pl_roles = rs, pl_token_type = t,
               pl_issued_at = iat, pl_expires_at = iat + token_ttl s t\<rparr>)"
  by (simp add: parse_created [OF jwt age])

text \<open>A library that satisfies the hypotheses: a token is the number of its claims, secret and
  algorithm; a hash is the input after its salt.\<close>

instance json :: countable by countable_datatype

definition sample_encode :: "jobject \<Rightarrow> string \<Rightarrow> string \<Rightarrow> string" where
  "sample_encode c s a = str_of_nat (to_nat (c, s, a))"

definition sample_parts :: "string \<Rightarrow> (jobject \<times> string \<times> string) option" where
  "sample_parts tok = map_option from_nat (parse_nat tok)"

definition sample_decode ::
    "string \<Rightarrow> string \<Rightarrow> string \<Rightarrow> string \<Rightarrow> string list \<Rightarrow> int \<Rightarrow> jwt_error + jobject" where
  "sample_decode tok s a iss req now =
     (case sample_parts tok of
        None \<Rightarrow> Inl (Jwt_error ''malformed'')
      | Some (c, s', a') \<Rightarrow>
          if s' \<noteq> s \<or> a' \<noteq> a then Inl (Jwt_error ''signature'')
          else if \<not> set req \<subseteq> fst ` set c \<or> map_of c ''iss'' \<noteq> Some (JStr iss) then Inl (Jwt_error ''claims'')
          else (case map_of c ''exp'' of
                  Some (JNum e) \<Rightarrow> if now < e then Inr c else Inl Expired_signature
                | _ \<Rightarrow> Inl (Jwt_error ''exp'')))"

definition sample_libs :: libs where
  "sample_libs = \<lparr>hashpw = \<lambda>b salt. salt @ CHR ''$'' # map char_of b,
     checkpw = \<lambda>b h. Inr (drop (length h - Suc (length b)) h = CHR ''$'' # map char_of b),
     jwt_encode = sample_encode, jwt_decode = sample_decode,
     jwt_unverified = \<lambda>tok. map_option fst (sample_parts tok), json_repr = \<lambda>_. []\<rparr>"

lemma sample_parts_encode [simp]: "sample_parts (sample_encode c s a) = Some (c, s, a)"
  by (simp add: sample_parts_def sample_encode_def parse_nat_str_of_nat)

lemma sample_jwt: "jwt_round_trip sample_libs"
  by (auto simp: jwt_round_trip_def sample_libs_def sample_decode_def)

lemma sample_bcrypt: "bcrypt_verifies sample_libs"
  by (simp add: bcrypt_verifies_def sample_libs_def)

definition sample_settings :: settings where
  "sample_settings = \<lparr>st_app_env = Env_test, st_db_host = ''db'', st_db_port = 5432, st_db_name = ''rooti'',
     st_db_username = ''u'', st_db_password = ''p'', st_db_ssl_required = True, st_app_read_only = False,
     st_redis_host = ''localhost'', st_redis_port = 6379, st_redis_password = None,
     st_jwt_secret = replicate 32 CHR ''s'', st_jwt_access_ttl_minutes = 15, st_jwt_refresh_ttl_days = 14,
     st_jwt_issuer = ''rooti'', st_jwt_algorithm = ''HS256'', st_cors_allowed_origins = ''http://localhost:5173'',
     st_storage_driver = ''local'', st_storage_local_root = ''./var/storage'',
     st_storage_public_url = ''http://localhost:8080/files'', st_firebase_credential_json_path = [],
     st_resend_enabled = False, st_resend_api_key = None, st_resend_from = ''noreply''\<rparr>"

theorem token_round_trip_witness:
  "parse_token sample_settings sample_libs (create_token sample_settings sample_libs 7 ''kim'' [''WORKER''] ACCESS 100)
     (Some ACCESS) 200 =
   Inr \<lparr>pl_user_id = 7, pl_username = ''kim'', pl_roles = [''WORKER''], pl_token_type = ACCESS,
        pl_issued_at = 100, pl_expires_at = 1000\<rparr>"
  by (subst token_round_trip [OF sample_jwt]) (simp_all add: token_ttl_def sample_settings_def)

text \<open>Only the first 72 bytes of a password count: two passwords with the same first 72 bytes open
  the same account, and a password always matches its own hash.\<close>

lemma password_first_72_bytes:
  assumes b: "bcrypt_verifies L" and p: "72 \<le> length (utf8_encode p)"
  shows "verify_password L (p @ x) (hash_password L (p @ y) salt) \<and> verify_password L z (hash_password L z salt)"
proof -
  have "to_bcrypt_input (p @ x) = to_bcrypt_input (p @ y)"
    using p by (simp add: to_bcrypt_input_def bcrypt_max_bytes_def utf8_append)
  then have "verify_password L (p @ x) = verify_password L (p @ y)"
    by (simp add: verify_password_def fun_eq_iff)
  with hash_verifies [OF b] show ?thesis by metis
qed

lemma password_first_72_bytes_witness:
  "verify_password sample_libs (replicate 72 CHR ''a'' @ ''1'')
     (hash_password sample_libs (replicate 72 CHR ''a'' @ ''2'') ''salt'')
   \<and> verify_password sample_libs ''pw'' (hash_password sample_libs ''pw'' ''salt'')"
proof (rule password_first_72_bytes [OF sample_bcrypt])
  have "length (utf8_encode (replicate n CHR ''a'')) = n" for n
    by (induction n) (simp_all add: utf8_encode_def utf8_char_def)
  then show "72 \<le> length (utf8_encode (replicate 72 CHR ''a''))" by simp
qed

text \<open>What the encoder documents of a token: it is not empty and has no space at its ends.\<close>

definition jwt_compact :: "libs \<Rightarrow> bool" where
  "jwt_compact L \<longleftrightarrow> (\<forall>c s a. jwt_encode L c s a \<noteq> [] \<and> py_strip (jwt_encode L c s a) = jwt_encode L c s a)"

lemma sample_compact: "jwt_compact sample_libs"
proof -
  have "sample_encode c s a \<noteq> [] \<and> py_strip (sample_encode c s a) = sample_encode c s a" for c s a
    using py_strip_str_of_int [of "int (to_nat (c, s, a))"] str_of_nat_digits [OF refl]
    by (simp add: sample_encode_def str_of_int_def)
  then show ?thesis by (simp add: jwt_compact_def sample_libs_def)
qed

lemma bearer_user:
  assumes jwt: "jwt_round_trip L" and compact: "jwt_compact L" and age: "iat \<le> now"
    and h: "hr_authorization r = Some (bearer_prefix @ create_token s L u n rs t iat)"
  shows "current_user s L r now =
    (if iat + token_ttl s t \<le> now then Inl auth_token_expired
     else if t = REFRESH
     then Inl (Business AUTH_TOKEN_INVALID (Token_type_mismatch ''ACCESS'' (Some (JStr ''REFRESH''))))
     else Inr \<lparr>pr_user_id = u, pr_username = n, pr_roles = rs, pr_enabled = True, pr_non_locked = True\<rparr>)"
proof -
  let ?tok = "create_token s L u n rs t iat"
  have tok: "?tok \<noteq> []" "py_strip ?tok = ?tok" using compact by (simp_all add: jwt_compact_def create_token_def)
  then have "resolve_bearer_token r = Some ?tok"
    by (simp add: resolve_bearer_token_def h bearer_prefix_def starts_with_def)
  with tok show ?thesis
    by (cases t) (simp_all add: current_user_def current_user_optional_def truthy_def parse_created [OF jwt age])
qed

text \<open>C24: a request with a bearer header that carries an access token of the program is served as the
  token's user with the token's roles, until the token expires; the same header with a refresh token is
  refused, whatever the other headers and cookies say.\<close>

theorem bearer_authentication:
  assumes jwt: "jwt_round_trip L" and compact: "jwt_compact L" and age: "iat \<le> now"
    and h: "hr_authorization r = Some (bearer_prefix @ create_token s L u n rs t iat)"
  shows "current_user s L r now =
    (if iat + token_ttl s t \<le> now then Inl auth_token_expired
     else if t = REFRESH
     then Inl (Business AUTH_TOKEN_INVALID (Token_type_mismatch ''ACCESS'' (Some (JStr ''REFRESH''))))
     else Inr \<lparr>pr_user_id = u, pr_username = n, pr_roles = rs, pr_enabled = True, pr_non_locked = True\<rparr>)"
  by (rule bearer_user [OF assms])

theorem bearer_authentication_witness:
  "current_user sample_settings sample_libs
     \<lparr>hr_authorization = Some (bearer_prefix @ create_token sample_settings sample_libs 7 ''kim'' [''WORKER''] ACCESS 100),
      hr_accesstoken = Some ''old'', hr_cookie_access_token = None, hr_remote_address = ''1.2.3.4'', hr_path = ''/''\<rparr> 200 =
   Inr \<lparr>pr_user_id = 7, pr_username = ''kim'', pr_roles = [''WORKER''], pr_enabled = True, pr_non_locked = True\<rparr>"
  by (subst bearer_authentication [OF sample_jwt sample_compact, where iat = 100 and u = 7 and n = "''kim''"
        and rs = "[''WORKER'']" and t = ACCESS])
     (simp_all add: token_ttl_def sample_settings_def)

text \<open>The bucket of the rate limiter is the subject of whatever the bearer header decodes to without
  verification, so a client that sends a different forged subject with every request is never counted
  in the same bucket twice, although the very same tokens are refused as credentials.\<close>

lemma rate_limit_bucket_is_forgeable:
  assumes strip: "py_strip tok = tok" and unv: "jwt_unverified L tok = Some claims"
    and sub: "map_of claims ''sub'' = Some (JStr (str_of_int u))"
    and bad: "\<And>now. jwt_decode L tok (st_jwt_secret s) (st_jwt_algorithm s) (st_jwt_issuer s) required_claims now
                = Inl (Jwt_error e)"
    and h: "hr_authorization r = Some (bearer_prefix @ tok)" and ne: "tok \<noteq> []"
  shows "rate_limit_identifier L r = ''user:'' @ str_of_int u \<and> isl (current_user s L r now)"
proof -
  have "str_of_int u \<noteq> []" using str_of_nat_digits [OF refl] by (auto simp: str_of_int_def)
  then have "rate_limit_identifier L r = ''user:'' @ str_of_int u"
    using strip unv sub by (simp add: rate_limit_identifier_def h or_str_def bearer_prefix_def starts_with_def Let_def)
  moreover have "resolve_bearer_token r = Some tok"
    using strip by (simp add: resolve_bearer_token_def h bearer_prefix_def starts_with_def)
  then have "isl (current_user s L r now)"
    using ne bad by (simp add: current_user_def current_user_optional_def truthy_def parse_token_def)
  ultimately show ?thesis by simp
qed

lemma rate_limit_bucket_is_forgeable_witness:
  "let r = \<lparr>hr_authorization = Some (bearer_prefix @ sample_encode [(''sub'', JStr (str_of_int 41))] ''forged'' ''HS256''),
        hr_accesstoken = None, hr_cookie_access_token = None, hr_remote_address = ''1.2.3.4'', hr_path = ''/''\<rparr>
   in rate_limit_identifier sample_libs r = ''user:'' @ str_of_int 41 \<and> isl (current_user sample_settings sample_libs r 0)"
proof -
  let ?tok = "sample_encode [(''sub'', JStr (str_of_int 41))] ''forged'' ''HS256''"
  have c: "jwt_encode sample_libs x y z \<noteq> [] \<and> py_strip (jwt_encode sample_libs x y z) = jwt_encode sample_libs x y z"
    for x y z using sample_compact unfolding jwt_compact_def by blast
  have c: "?tok \<noteq> [] \<and> py_strip ?tok = ?tok"
    using c [of "[(''sub'', JStr (str_of_int 41))]" "''forged''" "''HS256''"] by (simp add: sample_libs_def)
  have s: "''forged'' \<noteq> st_jwt_secret sample_settings" by (simp add: sample_settings_def numeral_eq_Suc)
  show ?thesis unfolding Let_def using c s
    by (intro rate_limit_bucket_is_forgeable [where tok = ?tok and claims = "[(''sub'', JStr (str_of_int 41))]"
          and e = "''signature''"])
       (simp_all add: sample_libs_def sample_decode_def)
qed

end
