(* ===== verification/Auth.thy ===== *)
theory Auth
  imports Security
begin

text \<open>
  Authentication: app/services/auth.py (the refresh token store, the issuer, login, refresh, logout,
  password change, caregiver signup, the own profile) with its DTOs (app/schemas/auth.py) and
  endpoints (app/api/v1/auth.py).

  The refresh tokens live in Redis, which is not rolled back with the database session: a method
  returns its result or exception together with the store it leaves.  \<open>now\<close> is the time in seconds
  that tokens carry, \<open>at\<close> the naive local time of \<open>datetime.now()\<close>; \<open>salt\<close> is the random salt.
\<close>

section \<open>Requests and responses\<close>

record login_request =
  lq_username :: string
  lq_password :: string
  lq_fcm_token :: "string option"

record signup_request =
  sq_username :: string
  sq_email :: string
  sq_password :: string
  sq_name :: string
  sq_phone :: "string option"

record change_password_request =
  pq_current :: string
  pq_next :: string

record update_me_request =
  um_name :: string
  um_email :: "string option"
  um_phone :: "string option"

record token_response =
  tr_access_token :: string
  tr_refresh_token :: string
  tr_access_ttl :: int
  tr_refresh_ttl :: int
  tr_token_type :: string

record me_response =
  me_id :: int
  me_username :: string
  me_email :: "string option"
  me_name :: string
  me_phone :: "string option"
  me_role :: user_role

definition valid_login :: "login_request \<Rightarrow> bool" where
  "valid_login r \<longleftrightarrow> len_between 1 150 (lq_username r) \<and> len_between 1 100 (lq_password r)"

definition valid_signup :: "signup_request \<Rightarrow> bool" where
  "valid_signup r \<longleftrightarrow> len_between 1 150 (sq_username r) \<and> length (sq_email r) \<le> 255
     \<and> len_between 8 100 (sq_password r) \<and> len_between 1 100 (sq_name r) \<and> max_len 32 (sq_phone r)"

definition valid_change_password :: "change_password_request \<Rightarrow> bool" where
  "valid_change_password r \<longleftrightarrow> pq_current r \<noteq> [] \<and> len_between 8 100 (pq_next r)"

definition valid_update_me :: "update_me_request \<Rightarrow> bool" where
  "valid_update_me r \<longleftrightarrow> len_between 1 100 (um_name r) \<and> max_len 255 (um_email r) \<and> max_len 32 (um_phone r)"

section \<open>The refresh token store\<close>

type_synonym store = "string \<Rightarrow> string option"

definition refresh_key :: "int \<Rightarrow> string" where
  "refresh_key user_id = ''rooti:refresh:'' @ str_of_int user_id"

definition store_save :: "int \<Rightarrow> string \<Rightarrow> store \<Rightarrow> store" where
  "store_save user_id token st = st(refresh_key user_id \<mapsto> token)"

definition store_find :: "int \<Rightarrow> store \<Rightarrow> string option" where
  "store_find user_id st = st (refresh_key user_id)"

definition store_remove :: "int \<Rightarrow> store \<Rightarrow> store" where
  "store_remove user_id st = st(refresh_key user_id := None)"

definition store_matches :: "int \<Rightarrow> string \<Rightarrow> store \<Rightarrow> bool" where
  "store_matches user_id token st \<longleftrightarrow>
     (case store_find user_id st of None \<Rightarrow> False | Some stored \<Rightarrow> stored = token)"

section \<open>Issuing tokens\<close>

definition issue_token_pair :: "settings \<Rightarrow> libs \<Rightarrow> int \<Rightarrow> user \<Rightarrow> int \<Rightarrow> store \<Rightarrow> token_response \<times> store" where
  "issue_token_pair s L uid u now st =
     (let roles = [role_value (u_role u)];
          access = create_access_token s L uid (u_username u) roles now;
          refresh = create_refresh_token s L uid (u_username u) roles now
      in (\<lparr>tr_access_token = access, tr_refresh_token = refresh, tr_access_ttl = access_ttl_seconds s,
           tr_refresh_ttl = refresh_ttl_seconds s, tr_token_type = ''Bearer''\<rparr>,
          store_save uid refresh st))"

section \<open>The service\<close>

definition fetch_by_username :: "string \<Rightarrow> db \<Rightarrow> exn + (int \<times> user) option" where
  "fetch_by_username n d = scalar_one_or_none (tsel (\<lambda>_ u. u_username u = n) (users d))"

definition exists_username :: "string \<Rightarrow> db \<Rightarrow> bool" where
  "exists_username n d \<longleftrightarrow> first_row (tsel (\<lambda>_ u. u_username u = n) (users d)) \<noteq> None"

definition exists_email :: "string \<Rightarrow> db \<Rightarrow> bool" where
  "exists_email e d \<longleftrightarrow> first_row (tsel (\<lambda>_ u. u_email u = Some e) (users d)) \<noteq> None"

definition sync_fcm :: "int \<Rightarrow> user \<Rightarrow> string \<Rightarrow> db \<Rightarrow> exn + db" where
  "sync_fcm uid u token d =
     (if u_role u \<noteq> WORKER then Inr d
      else let_ok (scalar_one_or_none (tsel (\<lambda>_ w. w_user_id w = uid) (workers d))) (\<lambda>found.
        (case found of
           None \<Rightarrow> Inr d
         | Some (i, w) \<Rightarrow> Inr (d\<lparr>workers := tupd i (update_fcm_token token w) (workers d)\<rparr>))))"

definition login_writes :: "settings \<Rightarrow> int \<Rightarrow> user \<Rightarrow> login_request \<Rightarrow> datetime \<Rightarrow> db \<Rightarrow> exn + db" where
  "login_writes s uid u req at d =
     (if st_app_read_only s then Inr d
      else let_ok (if truthy (lq_fcm_token req) \<and> py_strip (the (lq_fcm_token req)) \<noteq> []
                   then sync_fcm uid u (py_strip (the (lq_fcm_token req))) d else Inr d) (\<lambda>d1.
             Inr (d1\<lparr>users := tupd uid (mark_logged_in at u) (users d1)\<rparr>)))"

definition login ::
    "settings \<Rightarrow> libs \<Rightarrow> login_request \<Rightarrow> int \<Rightarrow> datetime \<Rightarrow> db \<Rightarrow> store
     \<Rightarrow> (exn + (token_response \<times> db)) \<times> store" where
  "login s L req now at d st =
     (case fetch_by_username (lq_username req) d of
        Inl e \<Rightarrow> (Inl e, st)
      | Inr None \<Rightarrow> (Inl auth_invalid_credentials, st)
      | Inr (Some (uid, u)) \<Rightarrow>
          if \<not> u_enabled u then (Inl auth_account_disabled, st)
          else if \<not> verify_password L (lq_password req) (u_password_hash u)
          then (Inl auth_invalid_credentials, st)
          else (case login_writes s uid u req at d of
                  Inl e \<Rightarrow> (Inl e, st)
                | Inr d' \<Rightarrow> (let (t, st') = issue_token_pair s L uid u now st in (Inr (t, d'), st'))))"

definition refresh ::
    "settings \<Rightarrow> libs \<Rightarrow> string \<Rightarrow> int \<Rightarrow> db \<Rightarrow> store \<Rightarrow> (exn + (token_response \<times> db)) \<times> store" where
  "refresh s L token now d st =
     (case parse_token s L token (Some REFRESH) now of
        Inl e \<Rightarrow> (Inl e, st)
      | Inr payload \<Rightarrow>
          (let uid = pl_user_id payload
           in if \<not> store_matches uid token st then (Inl auth_refresh_not_found, store_remove uid st)
              else case tget (users d) uid of
                     None \<Rightarrow> (Inl (user_not_found (Some uid) None), st)
                   | Some u \<Rightarrow>
                       if \<not> u_enabled u then (Inl auth_refresh_not_found, store_remove uid st)
                       else (let (t, st') = issue_token_pair s L uid u now st in (Inr (t, d), st'))))"

definition logout :: "int \<Rightarrow> store \<Rightarrow> store" where
  "logout user_id st = store_remove user_id st"

definition change_password ::
    "libs \<Rightarrow> int \<Rightarrow> string \<Rightarrow> string \<Rightarrow> string \<Rightarrow> db \<Rightarrow> store \<Rightarrow> (exn + (unit \<times> db)) \<times> store" where
  "change_password L uid current new_password salt d st =
     (case tget (users d) uid of
        None \<Rightarrow> (Inl (user_not_found (Some uid) None), st)
      | Some u \<Rightarrow>
          if \<not> verify_password L current (u_password_hash u) then (Inl auth_invalid_credentials, st)
          else (Inr ((), d\<lparr>users := tupd uid (set_password (hash_password L new_password salt) u) (users d)\<rparr>),
                store_remove uid st))"

definition new_caregiver_user :: "libs \<Rightarrow> signup_request \<Rightarrow> string \<Rightarrow> user" where
  "new_caregiver_user L req salt =
     \<lparr>u_username = sq_username req, u_email = Some (sq_email req),
      u_password_hash = hash_password L (sq_password req) salt, u_name = sq_name req,
      u_phone = sq_phone req, u_role = CAREGIVER, u_enabled = True, u_last_login_at = None\<rparr>"

definition signup_as_caregiver ::
    "settings \<Rightarrow> libs \<Rightarrow> signup_request \<Rightarrow> string \<Rightarrow> int \<Rightarrow> db \<Rightarrow> store
     \<Rightarrow> (exn + (token_response \<times> db)) \<times> store" where
  "signup_as_caregiver s L req salt now d st =
     (if exists_username (sq_username req) d then (Inl (username_duplicated (sq_username req)), st)
      else if exists_email (sq_email req) d then (Inl (email_duplicated (sq_email req)), st)
      else
        (let u = new_caregiver_user L req salt;
             uid = next_id (users d);
             d' = d\<lparr>users := tins u (users d), caregivers := tins \<lparr>cg_user_id = uid\<rparr> (caregivers d)\<rparr>;
             (t, st') = issue_token_pair s L uid u now st
         in (Inr (t, d'), st')))"

definition me_response_of :: "int \<Rightarrow> user \<Rightarrow> me_response" where
  "me_response_of i u = \<lparr>me_id = i, me_username = u_username u, me_email = u_email u, me_name = u_name u,
     me_phone = u_phone u, me_role = u_role u\<rparr>"

definition me :: "principal \<Rightarrow> db \<Rightarrow> exn + me_response" where
  "me p d = some_or (tget (users d) (pr_user_id p)) (user_not_found (Some (pr_user_id p)) None)
     (\<lambda>u. Inr (me_response_of (pr_user_id p) u))"

definition update_profile :: "int \<Rightarrow> update_me_request \<Rightarrow> db \<Rightarrow> exn + (me_response \<times> db)" where
  "update_profile uid req d =
     some_or (tget (users d) uid) (user_not_found (Some uid) None) (\<lambda>u.
     (let new_email = (um_email req \<noteq> None \<and> um_email req \<noteq> u_email u)
      in raise_if (new_email \<and> first_row (tsel (\<lambda>i v. u_email v = um_email req \<and> i \<noteq> uid) (users d)) \<noteq> None)
           (email_duplicated (the (um_email req)))
         (let u' = u\<lparr>u_email := (if new_email then um_email req else u_email u),
                     u_phone := keep_opt (um_phone req) (u_phone u), u_name := um_name req\<rparr>
          in Inr (me_response_of uid u', d\<lparr>users := tupd uid u' (users d)\<rparr>))))"

section \<open>Lemmas\<close>

lemma refresh_key_inj [simp]: "refresh_key a = refresh_key b \<longleftrightarrow> a = b"
  by (auto simp: refresh_key_def dest: str_of_int_inj)

lemma store_matches_save [simp]:
  "store_matches u t (store_save v t' st) \<longleftrightarrow> (if u = v then t = t' else store_matches u t st)"
  by (auto simp: store_matches_def store_find_def store_save_def)

lemma store_matches_remove [simp]:
  "store_matches u t (store_remove v st) \<longleftrightarrow> u \<noteq> v \<and> store_matches u t st"
  by (auto simp: store_matches_def store_find_def store_remove_def)

lemma issue_fields:
  "issue_token_pair s L uid u now st = (t, st') \<Longrightarrow>
   tr_access_token t = create_token s L uid (u_username u) [role_value (u_role u)] ACCESS now
   \<and> tr_refresh_token t = create_token s L uid (u_username u) [role_value (u_role u)] REFRESH now
   \<and> st' = store_save uid (tr_refresh_token t) st"
  by (auto simp: issue_token_pair_def Let_def create_access_token_def create_refresh_token_def)

lemma fetch_by_username_ok:
  assumes "users_ok (users d)"
  shows "fetch_by_username n d = Inr (first_row (tsel (\<lambda>_ u. u_username u = n) (users d)))"
  unfolding fetch_by_username_def
  by (rule scalar_le_1, rule tsel_unique [where q = "\<lambda>_. True" and key = u_username])
     (use assms in \<open>auto simp: users_ok_def\<close>)

lemma fetch_by_username_in:
  "fetch_by_username n d = Inr (Some (i, u)) \<Longrightarrow> (i, u) \<in> set (rows (users d)) \<and> u_username u = n"
  unfolding fetch_by_username_def by (drule scalar_in) (simp add: tsel_iff)

lemma fetch_by_username_Some:
  assumes ok: "users_ok (users d)" and u: "tget (users d) i = Some u" "u_username u = n"
  shows "fetch_by_username n d = Inr (Some (i, u))"
proof -
  let ?sel = "tsel (\<lambda>_ u. u_username u = n) (users d)"
  have "(i, u) \<in> set ?sel" using u by (simp add: tsel_iff tget_in)
  moreover have "length ?sel \<le> 1"
    by (rule tsel_unique [where q = "\<lambda>_. True" and key = u_username]) (use ok in \<open>auto simp: users_ok_def\<close>)
  ultimately have "?sel = [(i, u)]" by (cases ?sel) auto
  then show ?thesis by (simp add: fetch_by_username_def)
qed

lemma login_writes_total:
  assumes "workers_ok (workers d)"
  shows "\<not> isl (login_writes s uid u req at d)"
proof -
  have "length (tsel (\<lambda>_ w. w_user_id w = uid) (workers d)) \<le> 1"
    by (rule tsel_unique [where q = "\<lambda>_. True" and key = w_user_id]) (use assms in \<open>auto simp: workers_ok_def\<close>)
  then show ?thesis
    by (auto simp: login_writes_def sync_fcm_def scalar_le_1 split: option.splits)
qed

lemma login_writes_effect:
  assumes "login_writes s uid u req at d = Inr d'"
  shows "(st_app_read_only s \<longrightarrow> d' = d)
    \<and> (\<not> st_app_read_only s \<longrightarrow> users d' = tupd uid (mark_logged_in at u) (users d))
    \<and> d'\<lparr>users := users d, workers := workers d\<rparr> = d"
  using assms
  by (auto simp: login_writes_def sync_fcm_def flow split: if_splits option.splits)

lemma sync_fcm_workers:
  assumes ok: "workers_ok (workers d)" and s: "sync_fcm uid u token d = Inr d'"
  shows "tget (workers d') k = map_option (\<lambda>w. if u_role u = WORKER \<and> w_user_id w = uid
            then w\<lparr>w_fcm_token := Some token\<rparr> else w) (tget (workers d) k)"
proof (cases "u_role u = WORKER")
  case True
  let ?sel = "tsel (\<lambda>_ w. w_user_id w = uid) (workers d)"
  have t: "table_ok (workers d)" using ok by (simp add: workers_ok_def)
  have "length ?sel \<le> 1"
    by (rule tsel_unique [where q = "\<lambda>_. True" and key = w_user_id]) (use ok in \<open>auto simp: workers_ok_def\<close>)
  then consider "?sel = []" | i w where "?sel = [(i, w)]"
    by (cases ?sel rule: scalar_one_or_none.cases) auto
  then show ?thesis
  proof cases
    case 1
    then have "w_user_id w \<noteq> uid" if "tget (workers d) k = Some w" for w
      using that by (auto simp: tsel_empty_iff tget_iff [OF t])
    then show ?thesis using s True 1 by (cases "tget (workers d) k") (auto simp: sync_fcm_def)
  next
    case (2 i w)
    have iff: "tget (workers d) k = Some v \<and> w_user_id v = uid \<longleftrightarrow> k = i \<and> v = w" for v
      using 2 tsel_iff [of k v "\<lambda>_ w. w_user_id w = uid" "workers d"] by (auto simp: tget_iff [OF t])
    have d': "d' = d\<lparr>workers := tupd i (w\<lparr>w_fcm_token := Some token\<rparr>) (workers d)\<rparr>"
      using s True 2 by (auto simp: sync_fcm_def update_fcm_token_def)
    show ?thesis
    proof (cases "k = i")
      case True
      then show ?thesis using iff [of w] d' \<open>u_role u = WORKER\<close> by (simp add: tget_tupd)
    next
      case False
      then show ?thesis using iff d' by (cases "tget (workers d) k") (auto simp: tget_tupd)
    qed
  qed
qed (use s in \<open>auto simp: sync_fcm_def option.map_ident\<close>)

lemma login_writes_workers:
  assumes ok: "workers_ok (workers d)" and w: "login_writes s uid u req at d = Inr d'"
  shows "tget (workers d') k =
    map_option (\<lambda>w. if \<not> st_app_read_only s \<and> u_role u = WORKER \<and> w_user_id w = uid
        \<and> (\<exists>tok. lq_fcm_token req = Some tok \<and> py_strip tok \<noteq> [])
      then w\<lparr>w_fcm_token := Some (py_strip (the (lq_fcm_token req)))\<rparr> else w) (tget (workers d) k)"
proof (cases "\<not> st_app_read_only s \<and> (\<exists>tok. lq_fcm_token req = Some tok \<and> py_strip tok \<noteq> [])")
  case True
  then have "truthy (lq_fcm_token req)" by (auto simp: truthy_def py_strip_def)
  with True w obtain d1 where "sync_fcm uid u (py_strip (the (lq_fcm_token req))) d = Inr d1"
    "workers d' = workers d1"
    by (auto simp: login_writes_def flow)
  then show ?thesis using sync_fcm_workers [OF ok, of uid u _ d1 k] True by simp
next
  case False
  then have "workers d' = workers d"
    using w by (auto simp: login_writes_def truthy_def flow split: if_splits option.splits)
  then show ?thesis using False by (cases "tget (workers d) k") auto
qed

lemma login_success:
  assumes "login s L req now at d st = (Inr (t, d'), st')"
  shows "\<exists>uid u. fetch_by_username (lq_username req) d = Inr (Some (uid, u)) \<and> u_enabled u
    \<and> verify_password L (lq_password req) (u_password_hash u)
    \<and> login_writes s uid u req at d = Inr d' \<and> issue_token_pair s L uid u now st = (t, st')"
  using assms
  by (auto simp: login_def split: sum.splits option.splits if_splits prod.splits)

lemma login_failure:
  "login s L req now at d st = (Inl e, st') \<Longrightarrow> st' = st"
  by (auto simp: login_def Let_def split: sum.splits option.splits if_splits prod.splits)

lemma refresh_success:
  assumes "refresh s L tok now d st = (Inr (t, d'), st')"
  shows "\<exists>p u. parse_token s L tok (Some REFRESH) now = Inr p \<and> store_matches (pl_user_id p) tok st
    \<and> tget (users d) (pl_user_id p) = Some u \<and> u_enabled u \<and> d' = d
    \<and> issue_token_pair s L (pl_user_id p) u now st = (t, st')"
  using assms by (auto simp: refresh_def Let_def split: sum.splits option.splits if_splits prod.splits)

lemma refresh_reuse:
  assumes "parse_token s L tok (Some REFRESH) now = Inr p" and "\<not> store_matches (pl_user_id p) tok st"
  shows "refresh s L tok now d st = (Inl auth_refresh_not_found, store_remove (pl_user_id p) st)"
  using assms by (simp add: refresh_def)

section \<open>Properties\<close>

text \<open>C2: a refresh that succeeds changes no database row and leaves the new refresh token as the only
  one of its user: every other refresh token of that user that still verifies is then refused, and
  presenting it revokes the user's session, so that even the new token is refused afterwards.\<close>

theorem refresh_rotation:
  assumes ok: "refresh s L tok now d st = (Inr (r, d'), st')"
    and old: "parse_token s L tok (Some REFRESH) now = Inr p"
    and other: "parse_token s L tok2 (Some REFRESH) now2 = Inr p2" "pl_user_id p2 = pl_user_id p"
      "tok2 \<noteq> tr_refresh_token r"
    and new: "parse_token s L (tr_refresh_token r) (Some REFRESH) now3 = Inr p3" "pl_user_id p3 = pl_user_id p"
  shows "d' = d \<and> store_find (pl_user_id p) st' = Some (tr_refresh_token r)
    \<and> (\<forall>u. u \<noteq> pl_user_id p \<longrightarrow> store_find u st' = store_find u st)
    \<and> (let (res2, st2) = refresh s L tok2 now2 d2 st'
       in res2 = Inl auth_refresh_not_found \<and> store_find (pl_user_id p) st2 = None
          \<and> fst (refresh s L (tr_refresh_token r) now3 d3 st2) = Inl auth_refresh_not_found)"
proof -
  from refresh_success [OF ok] old obtain u where d': "d' = d"
    and i: "issue_token_pair s L (pl_user_id p) u now st = (r, st')" by auto
  have st': "st' = store_save (pl_user_id p) (tr_refresh_token r) st" using issue_fields [OF i] by simp
  have two: "refresh s L tok2 now2 d2 st' = (Inl auth_refresh_not_found, store_remove (pl_user_id p) st')"
    using refresh_reuse [OF other(1)] other(2,3) by (simp add: st')
  have three: "fst (refresh s L (tr_refresh_token r) now3 d3 (store_remove (pl_user_id p) st')) = Inl auth_refresh_not_found"
    using refresh_reuse [OF new(1)] new(2) by simp
  show ?thesis using d' two three by (simp add: st' store_find_def store_save_def store_remove_def)
qed

text \<open>A refresh in the same second as the issue returns the very same refresh token, because a token
  depends on the user, the role and the second only: the rotation does not invalidate the old token.\<close>

lemma refresh_same_second:
  assumes jwt: "jwt_round_trip L" and ttl: "0 < st_jwt_refresh_ttl_days s"
    and u: "tget (users d) uid = Some u" "u_enabled u"
    and i: "issue_token_pair s L uid u now st = (r, st1)"
  shows "refresh s L (tr_refresh_token r) now d st1 = (Inr (r, d), st1)"
proof -
  note f = issue_fields [OF i]
  have p: "parse_token s L (tr_refresh_token r) (Some REFRESH) now =
      Inr \<lparr>pl_user_id = uid, pl_username = u_username u, pl_roles = [role_value (u_role u)], pl_token_type = REFRESH,
           pl_issued_at = now, pl_expires_at = now + token_ttl s REFRESH\<rparr>"
    using f ttl by (simp add: parse_created [OF jwt] token_ttl_def)
  have m: "store_matches uid (tr_refresh_token r) st1" using f by simp
  have "issue_token_pair s L uid u now st1 = (r, st1)"
    using i by (auto simp: issue_token_pair_def Let_def store_save_def)
  then show ?thesis using u m by (simp add: refresh_def p)
qed

lemma sample_admin: "tget (users sample_db) 1 = Some (sample_user ''admin'' ADMIN)"
  by (simp add: sample_db_def tget_def)

lemma refresh_same_second_witness:
  "refresh sample_settings sample_libs
     (tr_refresh_token (fst (issue_token_pair sample_settings sample_libs 1 (sample_user ''admin'' ADMIN) 100 (\<lambda>_. None))))
     100 sample_db (snd (issue_token_pair sample_settings sample_libs 1 (sample_user ''admin'' ADMIN) 100 (\<lambda>_. None)))
   = (Inr (fst (issue_token_pair sample_settings sample_libs 1 (sample_user ''admin'' ADMIN) 100 (\<lambda>_. None)), sample_db),
      snd (issue_token_pair sample_settings sample_libs 1 (sample_user ''admin'' ADMIN) 100 (\<lambda>_. None)))"
  by (rule refresh_same_second [OF sample_jwt _ sample_admin])
     (simp_all add: sample_settings_def sample_user_def)

text \<open>C6: a login succeeds exactly for the enabled user of that name with a matching password.  It changes
  no row in read-only mode, and otherwise only the login time of that user and, where the user is a worker
  and the device token is not blank, the device token of the user's worker row; the pair it returns
  authenticates that user, and a failed login changes nothing.\<close>

theorem login_spec:
  assumes ok: "users_ok (users d)" and jwt: "jwt_round_trip L"
    and ttl: "0 < st_jwt_access_ttl_minutes s" "0 < st_jwt_refresh_ttl_days s"
    and workers: "workers_ok (workers d)"
  shows "case login s L req now at d st of
      (Inl e, st') \<Rightarrow> st' = st \<and> e \<in> {auth_invalid_credentials, auth_account_disabled}
        \<and> \<not> (\<exists>uid u. tget (users d) uid = Some u \<and> u_username u = lq_username req \<and> u_enabled u
               \<and> verify_password L (lq_password req) (u_password_hash u))
    | (Inr (t, d'), st') \<Rightarrow> \<exists>uid u. tget (users d) uid = Some u \<and> u_username u = lq_username req \<and> u_enabled u
        \<and> verify_password L (lq_password req) (u_password_hash u)
        \<and> map_sum id pl_user_id (parse_token s L (tr_access_token t) (Some ACCESS) now) = Inr uid
        \<and> map_sum id pl_user_id (parse_token s L (tr_refresh_token t) (Some REFRESH) now) = Inr uid
        \<and> st' = store_save uid (tr_refresh_token t) st
        \<and> (st_app_read_only s \<longrightarrow> d' = d) \<and> d'\<lparr>users := users d, workers := workers d\<rparr> = d
        \<and> (\<forall>j. j \<noteq> uid \<longrightarrow> tget (users d') j = tget (users d) j)
        \<and> (\<not> st_app_read_only s \<longrightarrow> tget (users d') uid = Some (u\<lparr>u_last_login_at := Some at\<rparr>))
        \<and> (\<forall>k. tget (workers d') k =
              map_option (\<lambda>w. if \<not> st_app_read_only s \<and> u_role u = WORKER \<and> w_user_id w = uid
                  \<and> (\<exists>tok. lq_fcm_token req = Some tok \<and> py_strip tok \<noteq> [])
                then w\<lparr>w_fcm_token := Some (py_strip (the (lq_fcm_token req)))\<rparr> else w)
                (tget (workers d) k))"
proof -
  have t: "table_ok (users d)" using ok by (simp add: users_ok_def)
  obtain res st' where l: "login s L req now at d st = (res, st')" by force
  show ?thesis
  proof (cases res)
    case (Inl e)
    have st': "st' = st" using login_failure l Inl by blast
    have one: "\<And>uid u. tget (users d) uid = Some u \<Longrightarrow> u_username u = lq_username req \<Longrightarrow>
        fetch_by_username (lq_username req) d = Inr (Some (uid, u))"
      by (rule fetch_by_username_Some [OF ok])
    have w: "\<not> isl (login_writes s uid u req at d)" for uid u
      using login_writes_total [OF workers] .
    from l Inl have "e \<in> {auth_invalid_credentials, auth_account_disabled}
        \<and> \<not> (\<exists>uid u. fetch_by_username (lq_username req) d = Inr (Some (uid, u)) \<and> u_enabled u
               \<and> verify_password L (lq_password req) (u_password_hash u))"
      using w by (auto simp: login_def fetch_by_username_ok [OF ok] Let_def isl_def
          split: sum.splits option.splits if_splits prod.splits)
    then show ?thesis using l Inl st' one by auto
  next
    case (Inr td)
    obtain tok d' where td: "td = (tok, d')" by force
    from login_success l Inr td obtain uid u where
      f: "fetch_by_username (lq_username req) d = Inr (Some (uid, u))" and en: "u_enabled u"
      and v: "verify_password L (lq_password req) (u_password_hash u)"
      and w: "login_writes s uid u req at d = Inr d'" and i: "issue_token_pair s L uid u now st = (tok, st')" by blast
    have u: "tget (users d) uid = Some u" "u_username u = lq_username req"
      using fetch_by_username_in [OF f] by (simp_all add: tget_iff [OF t])
    have "tget (users d') j = tget (users d) j" if "j \<noteq> uid" for j
      using login_writes_effect [OF w] that by (cases "st_app_read_only s") (simp_all add: tget_tupd)
    moreover have "map_sum id pl_user_id (parse_token s L (tr_access_token tok) (Some ACCESS) now) = Inr uid"
      "map_sum id pl_user_id (parse_token s L (tr_refresh_token tok) (Some REFRESH) now) = Inr uid"
      using issue_fields [OF i] ttl by (simp_all add: parse_created [OF jwt] token_ttl_def)
    moreover have "tget (users d') uid = Some (u\<lparr>u_last_login_at := Some at\<rparr>)" if "\<not> st_app_read_only s"
      using login_writes_effect [OF w] u that by (simp add: tget_tupd mark_logged_in_def)
    ultimately show ?thesis
      using l Inr td u en v login_writes_effect [OF w] issue_fields [OF i] login_writes_workers [OF workers w] by auto
  qed
qed

text \<open>An account with a known password.\<close>

definition auth_user :: user where
  "auth_user = set_password (hash_password sample_libs ''secret'' ''s'') (sample_user ''admin'' ADMIN)"

definition auth_db :: db where
  "auth_db = empty_db\<lparr>users := \<lparr>rows = [(1, auth_user)], next_id = 2\<rparr>\<rparr>"

lemma auth_db_ok: "users_ok (users auth_db)" "workers_ok (workers auth_db)"
proof -
  show "users_ok (users auth_db)"
    by (simp add: auth_db_def users_ok_def table_ok_def unique_on_def)
  show "workers_ok (workers auth_db)" by (simp add: auth_db_def empty_db_def workers_ok_def)
qed

lemma auth_user_facts: "tget (users auth_db) 1 = Some auth_user" "u_username auth_user = ''admin''" "u_enabled auth_user"
  "verify_password sample_libs ''secret'' (u_password_hash auth_user)"
  by (simp_all add: auth_db_def tget_def auth_user_def sample_user_def set_password_def hash_verifies [OF sample_bcrypt])

theorem login_spec_witness:
  "case login sample_settings sample_libs \<lparr>lq_username = ''admin'', lq_password = ''secret'', lq_fcm_token = None\<rparr>
       100 5 auth_db (\<lambda>_. None) of
      (Inl e, st') \<Rightarrow> False
    | (Inr (t, d'), st') \<Rightarrow> map_sum id pl_user_id
         (parse_token sample_settings sample_libs (tr_access_token t) (Some ACCESS) 100) = Inr 1"
proof -
  let ?req = "\<lparr>lq_username = ''admin'', lq_password = ''secret'', lq_fcm_token = None\<rparr>"
  have ttl: "0 < st_jwt_access_ttl_minutes sample_settings" "0 < st_jwt_refresh_ttl_days sample_settings"
    by (simp_all add: sample_settings_def)
  note spec = login_spec [OF auth_db_ok(1) sample_jwt ttl auth_db_ok(2),
      where req = ?req and now = 100 and at = 5 and st = "\<lambda>_. None"]
  have "tget (users auth_db) uid = Some u \<Longrightarrow> uid = 1" for uid u
    by (simp add: auth_db_def tget_def split: if_splits)
  with spec auth_user_facts show ?thesis
    by (cases "login sample_settings sample_libs ?req 100 5 auth_db (\<lambda>_. None)") (auto split: sum.splits)
qed

definition first_pair :: "token_response \<times> store" where
  "first_pair = issue_token_pair sample_settings sample_libs 1 auth_user 100 (\<lambda>_. None)"

definition second_pair :: "token_response \<times> store" where
  "second_pair = issue_token_pair sample_settings sample_libs 1 auth_user 200 (snd first_pair)"

lemma parse_pair:
  "iat \<le> now \<Longrightarrow> now < iat + 1209600 \<Longrightarrow>
   parse_token sample_settings sample_libs
     (tr_refresh_token (fst (issue_token_pair sample_settings sample_libs 1 auth_user iat st))) (Some REFRESH) now =
   Inr \<lparr>pl_user_id = 1, pl_username = ''admin'', pl_roles = [''ADMIN''], pl_token_type = REFRESH,
        pl_issued_at = iat, pl_expires_at = iat + 1209600\<rparr>"
  by (simp add: issue_token_pair_def Let_def create_refresh_token_def parse_created [OF sample_jwt] token_ttl_def
      sample_settings_def auth_user_def sample_user_def set_password_def)

lemma pairs_differ: "tr_refresh_token (fst first_pair) \<noteq> tr_refresh_token (fst second_pair)"
proof
  assume "tr_refresh_token (fst first_pair) = tr_refresh_token (fst second_pair)"
  then have "parse_token sample_settings sample_libs (tr_refresh_token (fst first_pair)) (Some REFRESH) 200 =
      parse_token sample_settings sample_libs (tr_refresh_token (fst second_pair)) (Some REFRESH) 200" by simp
  then show False by (simp add: first_pair_def second_pair_def parse_pair)
qed

lemma second_refresh:
  "refresh sample_settings sample_libs (tr_refresh_token (fst first_pair)) 200 auth_db (snd first_pair) =
     (Inr (fst second_pair, auth_db), snd second_pair)"
proof -
  obtain r st where p: "first_pair = (r, st)" by force
  then have "store_matches 1 (tr_refresh_token r) st"
    using issue_fields [of sample_settings sample_libs 1 auth_user 100 "\<lambda>_. None" r st] by (simp add: first_pair_def)
  moreover have "parse_token sample_settings sample_libs (tr_refresh_token (fst first_pair)) (Some REFRESH) 200 =
      Inr \<lparr>pl_user_id = 1, pl_username = ''admin'', pl_roles = [''ADMIN''], pl_token_type = REFRESH,
        pl_issued_at = 100, pl_expires_at = 100 + 1209600\<rparr>"
    unfolding first_pair_def by (rule parse_pair) simp_all
  ultimately show ?thesis
    using auth_user_facts by (simp add: refresh_def p second_pair_def split: prod.splits)
qed

theorem refresh_rotation_witness:
  "store_find 1 (snd second_pair) = Some (tr_refresh_token (fst second_pair))
   \<and> (let (res, st) = refresh sample_settings sample_libs (tr_refresh_token (fst first_pair)) 300 auth_db (snd second_pair)
      in res = Inl auth_refresh_not_found \<and> store_find 1 st = None
         \<and> fst (refresh sample_settings sample_libs (tr_refresh_token (fst second_pair)) 400 auth_db st)
             = Inl auth_refresh_not_found)"
proof -
  note p1 = parse_pair [of 100 200 "\<lambda>_. None", folded first_pair_def, simplified]
  note p2 = parse_pair [of 100 300 "\<lambda>_. None", folded first_pair_def, simplified]
  note p3 = parse_pair [of 200 400 "snd first_pair", folded second_pair_def, simplified]
  show ?thesis
    using refresh_rotation [OF second_refresh p1 p2 _ pairs_differ p3] by simp
qed

text \<open>C20: after a change of the password the new one opens the account and no refresh token of the user
  is accepted any more; the old password, or any other that does not match the new hash, is refused.
  A wrong current password changes nothing.\<close>

theorem change_password_spec:
  assumes b: "bcrypt_verifies L" and ok: "users_ok (users d)" and w: "workers_ok (workers d)"
    and u: "tget (users d) uid = Some u" "u_enabled u"
  shows "if verify_password L current (u_password_hash u)
    then \<exists>d' st'. change_password L uid current new salt d st = (Inr ((), d'), st')
      \<and> users_ok (users d') \<and> store_find uid st' = None
      \<and> (\<forall>tok now p. parse_token s L tok (Some REFRESH) now = Inr p \<longrightarrow> pl_user_id p = uid \<longrightarrow>
            fst (refresh s L tok now d' st') = Inl auth_refresh_not_found)
      \<and> (\<forall>pw fcm now at. isl (fst (login s L \<lparr>lq_username = u_username u, lq_password = pw, lq_fcm_token = fcm\<rparr>
              now at d' st')) = (\<not> verify_password L pw (hash_password L new salt)))
      \<and> verify_password L new (hash_password L new salt)
    else change_password L uid current new salt d st = (Inl auth_invalid_credentials, st)"
proof (cases "verify_password L current (u_password_hash u)")
  case True
  let ?u = "set_password (hash_password L new salt) u"
  let ?d = "d\<lparr>users := tupd uid ?u (users d)\<rparr>"
  let ?st = "store_remove uid st"
  have c: "change_password L uid current new salt d st = (Inr ((), ?d), ?st)"
    using u True by (simp add: change_password_def)
  have "(uid, u) \<in> set (rows (users d))" using u by (simp add: tget_in)
  then have ok': "users_ok (users ?d)"
    using ok by (auto simp: users_ok_def set_password_def intro!: unique_on_tupd_same [where r = u])
  have refused: "fst (refresh s L tok now ?d ?st) = Inl auth_refresh_not_found"
    if "parse_token s L tok (Some REFRESH) now = Inr p" "pl_user_id p = uid" for tok now p
    using refresh_reuse [OF that(1)] that(2) by simp
  have "tget (users ?d) uid = Some ?u" using u by (simp add: tget_tupd)
  then have f: "fetch_by_username (u_username u) ?d = Inr (Some (uid, ?u))"
    by (rule fetch_by_username_Some [OF ok']) (simp add: set_password_def)
  have "isl (fst (login s L \<lparr>lq_username = u_username u, lq_password = pw, lq_fcm_token = fcm\<rparr> now at ?d ?st))
      = (\<not> verify_password L pw (hash_password L new salt))" for pw fcm now at
    using f u(2) login_writes_total [of ?d s uid ?u "\<lparr>lq_username = u_username u, lq_password = pw, lq_fcm_token = fcm\<rparr>" at] w
    by (auto simp: login_def set_password_def isl_def split: sum.splits prod.splits)
  then show ?thesis
    using True c ok' refused hash_verifies [OF b] by (auto simp: store_find_def store_remove_def)
next
  case False
  then show ?thesis using u by (simp add: change_password_def)
qed

theorem change_password_spec_witness:
  "\<exists>d' st'. change_password sample_libs 1 ''secret'' ''longer-secret'' ''t'' auth_db (snd first_pair) = (Inr ((), d'), st')
     \<and> users_ok (users d') \<and> store_find 1 st' = None"
  using change_password_spec [OF sample_bcrypt auth_db_ok auth_user_facts(1,3),
      where current = "''secret''" and new = "''longer-secret''" and salt = "''t''" and st = "snd first_pair"
        and s = sample_settings]
    auth_user_facts(4)
  by auto

text \<open>C22: a signup takes a name and an address that nobody has and adds two rows under new keys, an enabled
  user of role CAREGIVER with the requested fields and a hash of the password, and the caregiver row of that
  user; every other row of the database stays and both tables' constraints are kept; the new user can log in
  with the password, and a second signup with the name is refused.\<close>

theorem signup_spec:
  assumes b: "bcrypt_verifies L" and ok: "users_ok (users d)" "caregivers_ok (caregivers d)" "workers_ok (workers d)"
    and refs: "\<And>i c. (i, c) \<in> set (rows (caregivers d)) \<Longrightarrow> tget (users d) (cg_user_id c) \<noteq> None"
    and s: "signup_as_caregiver s L req salt now d st = (Inr (t, d'), st')"
  shows "users_ok (users d') \<and> caregivers_ok (caregivers d')
    \<and> (\<forall>k. tget (users d') k = (if k = next_id (users d)
          then Some \<lparr>u_username = sq_username req, u_email = Some (sq_email req),
            u_password_hash = hash_password L (sq_password req) salt, u_name = sq_name req,
            u_phone = sq_phone req, u_role = CAREGIVER, u_enabled = True, u_last_login_at = None\<rparr>
          else tget (users d) k))
    \<and> (\<forall>k. tget (caregivers d') k = (if k = next_id (caregivers d)
          then Some \<lparr>cg_user_id = next_id (users d)\<rparr> else tget (caregivers d) k))
    \<and> tget (users d) (next_id (users d)) = None \<and> tget (caregivers d) (next_id (caregivers d)) = None
    \<and> d'\<lparr>users := users d, caregivers := caregivers d\<rparr> = d
    \<and> verify_password L (sq_password req) (hash_password L (sq_password req) salt)
    \<and> (\<forall>k u. tget (users d) k = Some u \<longrightarrow>
          u_username u \<noteq> sq_username req \<and> u_email u \<noteq> Some (sq_email req))
    \<and> store_find (next_id (users d)) st' = Some (tr_refresh_token t)
    \<and> \<not> isl (fst (login s L \<lparr>lq_username = sq_username req, lq_password = sq_password req, lq_fcm_token = None\<rparr>
              now at d' st'))
    \<and> fst (signup_as_caregiver s L req salt2 now2 d' st') = Inl (username_duplicated (sq_username req))"
proof -
  let ?u = "new_caregiver_user L req salt"
  have tu: "table_ok (users d)" "table_ok (caregivers d)"
    using ok by (simp_all add: users_ok_def caregivers_ok_def)
  from s have no: "\<not> exists_username (sq_username req) d" "\<not> exists_email (sq_email req) d"
    and d': "users d' = tins ?u (users d)" "caregivers d' = tins \<lparr>cg_user_id = next_id (users d)\<rparr> (caregivers d)"
      "workers d' = workers d" "d'\<lparr>users := users d, caregivers := caregivers d\<rparr> = d"
    and i: "issue_token_pair s L (next_id (users d)) ?u now st = (t, st')"
    by (auto simp: signup_as_caregiver_def Let_def split: if_splits prod.splits)
  have "u_username v \<noteq> sq_username req" if "(j, v) \<in> set (rows (users d))" for j v
    using no(1) that by (auto simp: exists_username_def first_row_None tsel_empty_iff)
  then have ok1: "users_ok (users d')"
    using ok by (auto simp: users_ok_def d' new_caregiver_user_def intro!: unique_on_tins)
  have "cg_user_id c \<noteq> next_id (users d)" if "(j, c) \<in> set (rows (caregivers d))" for j c
    using refs [OF that] tget_next [OF tu(1)] by metis
  then have ok2: "caregivers_ok (caregivers d')"
    using ok by (auto simp: caregivers_ok_def d' intro!: unique_on_tins)
  have u: "tget (users d') (next_id (users d)) = Some ?u" by (simp add: d' tget_tins [OF tu(1)])
  then have f: "fetch_by_username (sq_username req) d' = Inr (Some (next_id (users d), ?u))"
    by (rule fetch_by_username_Some [OF ok1]) (simp add: new_caregiver_user_def)
  let ?q = "\<lparr>lq_username = sq_username req, lq_password = sq_password req, lq_fcm_token = None\<rparr>"
  have "\<not> isl (fst (login s L ?q now at d' st'))"
    using f hash_verifies [OF b] login_writes_total [of d' s "next_id (users d)" ?u ?q at] ok(3)
    by (auto simp: login_def new_caregiver_user_def isl_def d' split: sum.splits prod.splits)
  moreover have "exists_username (sq_username req) d'"
    using tget_in [OF u]
    by (auto simp: exists_username_def first_row_None tsel_empty_iff new_caregiver_user_def intro!: bexI)
  then have "fst (signup_as_caregiver s L req salt2 now2 d' st') = Inl (username_duplicated (sq_username req))"
    by (simp add: signup_as_caregiver_def)
  moreover have "store_find (next_id (users d)) st' = Some (tr_refresh_token t)"
    using issue_fields [OF i] by (simp add: store_find_def store_save_def)
  moreover have "u_username u \<noteq> sq_username req" "u_email u \<noteq> Some (sq_email req)"
    if "tget (users d) k = Some u" for k u
    using no that by (auto simp: exists_username_def exists_email_def first_row_None tsel_empty_iff tget_iff [OF tu(1)])
  ultimately show ?thesis
    using ok1 ok2 d'(4) hash_verifies [OF b]
    by (simp add: d'(1,2) tget_tins [OF tu(1)] tget_tins [OF tu(2)] tget_next [OF tu(1)] tget_next [OF tu(2)]
        new_caregiver_user_def)
qed

theorem signup_spec_witness:
  "\<exists>t d' st'. signup_as_caregiver sample_settings sample_libs
       \<lparr>sq_username = ''new'', sq_email = ''n@x.io'', sq_password = ''password'', sq_name = ''New'', sq_phone = None\<rparr>
       ''s'' 100 auth_db (\<lambda>_. None) = (Inr (t, d'), st')
     \<and> users_ok (users d') \<and> caregivers_ok (caregivers d')
     \<and> map_option u_role (tget (users d') 2) = Some CAREGIVER \<and> tget (caregivers d') 1 = Some \<lparr>cg_user_id = 2\<rparr>"
proof -
  let ?req = "\<lparr>sq_username = ''new'', sq_email = ''n@x.io'', sq_password = ''password'', sq_name = ''New'', sq_phone = None\<rparr>"
  have "\<not> exists_username ''new'' auth_db" "\<not> exists_email ''n@x.io'' auth_db"
    by (simp_all add: exists_username_def exists_email_def tsel_def first_row_def auth_db_def auth_user_def
        sample_user_def set_password_def)
  then obtain t d' st' where s: "signup_as_caregiver sample_settings sample_libs ?req ''s'' 100 auth_db (\<lambda>_. None)
      = (Inr (t, d'), st')"
    by (cases "issue_token_pair sample_settings sample_libs (next_id (users auth_db))
          (new_caregiver_user sample_libs ?req ''s'') 100 (\<lambda>_. None)")
       (simp add: signup_as_caregiver_def Let_def)
  have "caregivers_ok (caregivers auth_db)" by (simp add: auth_db_def empty_db_def caregivers_ok_def)
  moreover have "(i, c) \<notin> set (rows (caregivers auth_db))" for i c
    by (simp add: auth_db_def empty_db_def empty_table_def)
  moreover have "next_id (users auth_db) = 2" "next_id (caregivers auth_db) = 1"
    by (simp_all add: auth_db_def empty_db_def empty_table_def)
  ultimately show ?thesis using signup_spec [OF sample_bcrypt auth_db_ok(1) _ auth_db_ok(2) _ s] s by auto
qed

end
