(* ===== verification/Requests.thy ===== *)
theory Requests
  imports Auth
begin

text \<open>
  What surrounds an endpoint: the middlewares (app/core/middleware.py, app/core/metrics.py), the order in
  which app/main.py stacks them, the exception handlers, the answer of the rate limiter
  (app/core/rate_limit.py), the objects of the process with the start-up of app/main.py
  (app/core/database.py, app/core/redis.py, app/integrations/firebase.py), the session of a request, push
  notifications (app/services/notification.py) and the health check (app/api/health.py).

  Starlette, FastAPI, Prometheus, Redis and Firebase are libraries.  What is used of them: a middleware
  sees the response of the next one or the exception that went through it; \<open>add_middleware\<close> puts the new
  one outside; the handler of \<open>Exception\<close> runs outside every middleware, the other handlers run inside
  all of them; the part of a session dependency after its \<open>yield\<close> runs when the answer has been sent
  (FastAPI since 0.118; the lock file has 0.136).
\<close>

section \<open>Responses and headers\<close>

text \<open>Starlette keeps header names in lower case and compares them so.\<close>

type_synonym headers = "(string \<times> string) list"

datatype payload = Problem_body problem "(string \<times> json) list" | Json_body jobject | Raw_body string

record http_response =
  rs_status :: int
  rs_headers :: headers
  rs_body :: payload

definition get_header :: "string \<Rightarrow> headers \<Rightarrow> string option" where
  "get_header k hs = map_of hs (py_lower k)"

definition header_setdefault :: "string \<Rightarrow> string \<Rightarrow> headers \<Rightarrow> headers" where
  "header_setdefault k v hs = (if get_header k hs = None then hs @ [(py_lower k, v)] else hs)"

text \<open>\<open>headers[k] = v\<close> replaces the first entry of the name and drops the others.\<close>

fun header_set :: "string \<Rightarrow> string \<Rightarrow> headers \<Rightarrow> headers" where
  "header_set k v [] = [(py_lower k, v)]"
| "header_set k v ((k', v') # hs) =
     (if k' = py_lower k then (k', v) # filter (\<lambda>(k'', _). k'' \<noteq> py_lower k) hs
      else (k', v') # header_set k v hs)"

definition json_response :: "int \<Rightarrow> jobject \<Rightarrow> http_response" where
  "json_response st body =
     \<lparr>rs_status = st, rs_headers = [(''content-type'', ''application/json'')], rs_body = Json_body body\<rparr>"

definition problem_response :: "problem \<Rightarrow> (string \<times> json) list \<Rightarrow> http_response" where
  "problem_response p extras =
     \<lparr>rs_status = p_status p, rs_headers = [(''content-type'', ''application/problem+json'')],
      rs_body = Problem_body p extras\<rparr>"

section \<open>Middlewares\<close>

record request_info =
  rq_method :: string
  rq_path :: string
  rq_headers :: headers
  rq_route :: "string option"

definition trace_header :: string where "trace_header = ''X-Trace-Id''"

definition trace_id :: "request_info \<Rightarrow> string \<Rightarrow> string" where
  "trace_id rq fresh = or_str (get_header trace_header (rq_headers rq)) fresh"

definition trace_middleware :: "request_info \<Rightarrow> string \<Rightarrow> exn + http_response \<Rightarrow> exn + http_response" where
  "trace_middleware rq fresh next =
     let_ok next (\<lambda>resp. Inr (resp\<lparr>rs_headers := header_set trace_header (trace_id rq fresh) (rs_headers resp)\<rparr>))"

definition security_headers :: "app_env \<Rightarrow> (string \<times> string) list" where
  "security_headers env =
     [(''X-Content-Type-Options'', ''nosniff''),
      (''X-Frame-Options'', ''DENY''),
      (''Referrer-Policy'', ''strict-origin-when-cross-origin''),
      (''Permissions-Policy'',
       ''geolocation=(), microphone=(), camera=(), payment=(), usb=(), magnetometer=()''),
      (''Content-Security-Policy'',
       ''default-src 'self'; img-src 'self' data: https:; ''
       @ ''script-src 'self' 'unsafe-inline' https://cdn.jsdelivr.net https://unpkg.com; ''
       @ ''style-src 'self' 'unsafe-inline' https://cdn.jsdelivr.net https://unpkg.com; ''
       @ ''font-src 'self' data:; frame-ancestors 'none'; base-uri '' @ [CHR 0x27] @ ''self'' @ [CHR 0x27])]
     @ (if env = Env_prod
        then [(''Strict-Transport-Security'', ''max-age=31536000; includeSubDomains'')] else [])"

definition security_middleware :: "app_env \<Rightarrow> exn + http_response \<Rightarrow> exn + http_response" where
  "security_middleware env next =
     let_ok next (\<lambda>resp.
       let hs = fold (\<lambda>(k, v). header_setdefault k v) (security_headers env) (rs_headers resp)
       in Inr (resp\<lparr>rs_headers :=
            (if starts_with (or_str (get_header ''content-type'' hs) []) ''application/json''
             then header_setdefault ''Cache-Control'' ''no-store'' hs else hs)\<rparr>))"

text \<open>The counters: requests by method, route template and status; observed latencies by the first two.\<close>

record metrics =
  mt_requests :: "string \<times> string \<times> int \<Rightarrow> nat"
  mt_latencies :: "string \<times> string \<Rightarrow> nat"

definition route_template :: "request_info \<Rightarrow> string" where
  "route_template rq = or_str (rq_route rq) ''unmatched''"

definition prometheus_path :: string where "prometheus_path = ''/actuator/prometheus''"

definition count_request :: "string \<Rightarrow> string \<Rightarrow> int \<Rightarrow> metrics \<Rightarrow> metrics" where
  "count_request mth path st m =
     m\<lparr>mt_requests := (mt_requests m)((mth, path, st) := Suc (mt_requests m (mth, path, st))),
       mt_latencies := (mt_latencies m)((mth, path) := Suc (mt_latencies m (mth, path)))\<rparr>"

definition prometheus_middleware ::
    "request_info \<Rightarrow> exn + http_response \<Rightarrow> metrics \<Rightarrow> (exn + http_response) \<times> metrics" where
  "prometheus_middleware rq next m =
     (case next of
        Inl e \<Rightarrow> (Inl e, m)
      | Inr resp \<Rightarrow>
          (Inr resp, if route_template rq \<noteq> prometheus_path
                     then count_request (rq_method rq) (route_template rq) (rs_status resp) m else m))"

section \<open>Exceptions and the stack\<close>

text \<open>What an endpoint may raise.\<close>

datatype raised =
    Exn exn
  | Http_exception int "string option"
  | Validation_error "(string list \<times> string) list"
  | Rate_limit_exceeded string

definition env_name :: "app_env \<Rightarrow> string" where
  "env_name e = (case e of Env_local \<Rightarrow> ''local'' | Env_dev \<Rightarrow> ''dev'' | Env_prod \<Rightarrow> ''prod'' | Env_test \<Rightarrow> ''test'')"

definition rate_limit_handler :: "string \<Rightarrow> string \<Rightarrow> http_response" where
  "rate_limit_handler path detail =
     problem_response
       (build_problem_detail UNPROCESSABLE (Text (''rate limit exceeded: '' @ detail)) path [])
       [(''retryAfter'', JNull)]"

text \<open>The handlers that run inside the middlewares; any other exception goes on.\<close>

fun exception_layer :: "app_env \<Rightarrow> string \<Rightarrow> raised + http_response \<Rightarrow> exn + http_response" where
  "exception_layer env path (Inr resp) = Inr resp"
| "exception_layer env path (Inl (Http_exception n d)) = Inr (problem_response (http_handler n d path) [])"
| "exception_layer env path (Inl (Validation_error es)) = Inr (problem_response (validation_handler es path) [])"
| "exception_layer env path (Inl (Rate_limit_exceeded d)) = Inr (rate_limit_handler path d)"
| "exception_layer env path (Inl (Exn (Business c m))) =
     Inr (problem_response (build_problem_detail c m path []) [])"
| "exception_layer env path (Inl (Exn e)) = Inl e"

text \<open>
  \<open>create_app\<close>: from the inside, trace id, security headers, gzip, metrics and CORS.  gzip and CORS are
  Starlette's; what they do to a response is an argument.  A CORS preflight never gets further than CORS,
  which answers it itself: \<open>sk_preflight\<close> is that answer.  The objects behind an exception are made by Python,
  SQLAlchemy and the database driver: \<open>sk_chain\<close> gives them.
\<close>

record stack =
  sk_gzip :: "request_info \<Rightarrow> http_response \<Rightarrow> http_response"
  sk_cors :: "request_info \<Rightarrow> http_response \<Rightarrow> http_response"
  sk_preflight :: "request_info \<Rightarrow> http_response"
  sk_chain :: "exn \<Rightarrow> exn_chain"

definition is_preflight :: "request_info \<Rightarrow> bool" where
  "is_preflight rq \<longleftrightarrow> rq_method rq = ''OPTIONS'' \<and> get_header ''origin'' (rq_headers rq) \<noteq> None
     \<and> get_header ''access-control-request-method'' (rq_headers rq) \<noteq> None"

text \<open>The answer to an exception: that of a handler inside the middlewares, or else of the last net.\<close>

definition last_net :: "app_env \<Rightarrow> stack \<Rightarrow> string \<Rightarrow> exn \<Rightarrow> http_response" where
  "last_net env K path e = problem_response (handle (env_name env) path (sk_chain K e) e) []"

text \<open>What becomes of the outcome of a request that CORS passes on.\<close>

definition serve ::
    "app_env \<Rightarrow> stack \<Rightarrow> request_info \<Rightarrow> string \<Rightarrow> raised + http_response \<Rightarrow> metrics \<Rightarrow> http_response \<times> metrics" where
  "serve env K rq fresh outcome m =
     (let inner = security_middleware env (trace_middleware rq fresh (exception_layer env (rq_path rq) outcome));
          zipped = let_ok inner (\<lambda>resp. Inr (sk_gzip K rq resp));
          (r, m') = prometheus_middleware rq zipped m
      in (case r of
            Inr resp \<Rightarrow> sk_cors K rq resp
          | Inl e \<Rightarrow> last_net env K (rq_path rq) e, m'))"

section \<open>The objects of the process\<close>

record engine =
  eg_url :: string
  eg_read_only :: bool

record process =
  pc_engine :: "engine option"
  pc_redis_url :: "string option"
  pc_firebase :: "string option"

definition new_process :: process where
  "new_process = \<lparr>pc_engine = None, pc_redis_url = None, pc_firebase = None\<rparr>"

text \<open>Every connection of a read-only engine opens its transactions read-only.\<close>

definition init_engine :: "settings \<Rightarrow> process \<Rightarrow> process" where
  "init_engine s p =
     (if pc_engine p \<noteq> None then p
      else p\<lparr>pc_engine := Some \<lparr>eg_url = database_url s, eg_read_only = st_app_read_only s\<rparr>\<rparr>)"

definition dispose_engine :: "process \<Rightarrow> process" where
  "dispose_engine p = p\<lparr>pc_engine := None\<rparr>"

definition get_sessionmaker :: "process \<Rightarrow> exn + engine" where
  "get_sessionmaker p =
     some_or (pc_engine p)
       (External ''RuntimeError: Database not initialised. Call init_engine() in lifespan.'') Inr"

definition init_redis :: "settings \<Rightarrow> process \<Rightarrow> process" where
  "init_redis s p = (if pc_redis_url p \<noteq> None then p else p\<lparr>pc_redis_url := Some (redis_url s)\<rparr>)"

definition dispose_redis :: "process \<Rightarrow> process" where
  "dispose_redis p = p\<lparr>pc_redis_url := None\<rparr>"

definition get_redis :: "process \<Rightarrow> exn + string" where
  "get_redis p =
     some_or (pc_redis_url p) (External ''RuntimeError: Redis not initialised. Call init_redis() in lifespan.'') Inr"

definition init_firebase :: "settings \<Rightarrow> process \<Rightarrow> process" where
  "init_firebase s p =
     (if pc_firebase p \<noteq> None \<or> st_firebase_credential_json_path s = [] then p
      else p\<lparr>pc_firebase := Some (st_firebase_credential_json_path s)\<rparr>)"

text \<open>\<open>lifespan\<close>: what runs before the first and after the last request.\<close>

definition startup :: "settings \<Rightarrow> process \<Rightarrow> process" where
  "startup s p = init_redis s (init_engine s p)"

definition shutdown :: "process \<Rightarrow> process" where
  "shutdown p = dispose_engine (dispose_redis p)"

section \<open>The session of a request\<close>

text \<open>
  \<open>get_db_session\<close>: a handler works on the database and answers, or raises; then the transaction is
  committed, or rolled back in the read-only mode and after an exception.  \<open>flushed\<close> says whether the
  handler's changes were sent to the database before it returned: a connection of a read-only engine
  refuses them.  \<open>commit_ok\<close> says whether the commit succeeds; the answer has been sent by then.
\<close>

definition get_db_session ::
    "engine \<Rightarrow> settings \<Rightarrow> bool \<Rightarrow> bool \<Rightarrow> (db \<Rightarrow> exn + ('a \<times> db)) \<Rightarrow> db \<Rightarrow> (exn + 'a) \<times> db" where
  "get_db_session eg s flushed commit_ok handler d =
     (case handler d of
        Inl e \<Rightarrow> (Inl e, d)
      | Inr (a, d') \<Rightarrow>
          if eg_read_only eg \<and> flushed \<and> d' \<noteq> d then (Inl Read_only_violation, d)
          else if st_app_read_only s then (Inr a, d)
          else if eg_read_only eg \<or> \<not> commit_ok then (Inr a, d)
          else (Inr a, d'))"

section \<open>Push notifications\<close>

record push_request =
  pu_token :: string
  pu_title :: string
  pu_body :: "string option"
  pu_deep_link :: "string option"
  pu_extra :: "jobject option"

definition valid_push :: "push_request \<Rightarrow> bool" where
  "valid_push q \<longleftrightarrow> pu_token q \<noteq> [] \<and> pu_title q \<noteq> []"

record push_message =
  pm_token :: string
  pm_title :: string
  pm_body :: "string option"
  pm_priority :: string
  pm_channel_id :: string
  pm_data :: "(string \<times> string) list"

text \<open>\<open>json.dumps\<close> and the client of Firebase.\<close>

record firebase_sdk =
  fb_dumps :: "json \<Rightarrow> string"
  fb_send :: "push_message \<Rightarrow> exn + string"

definition extra_text :: "firebase_sdk \<Rightarrow> json \<Rightarrow> string" where
  "extra_text F v = (case v of JStr s \<Rightarrow> s | _ \<Rightarrow> fb_dumps F v)"

definition push_data :: "firebase_sdk \<Rightarrow> string option \<Rightarrow> jobject option \<Rightarrow> (string \<times> string) list" where
  "push_data F deep_link extra =
     fold (\<lambda>(k, v). dict_set k (extra_text F v)) (case extra of None \<Rightarrow> [] | Some obj \<Rightarrow> obj)
       (if truthy deep_link then [(''deepLink'', the deep_link)] else [])"

text \<open>The answer and the messages handed to the client.\<close>

definition send_to_token ::
    "firebase_sdk \<Rightarrow> process \<Rightarrow> push_request \<Rightarrow> (exn + string option) \<times> push_message list" where
  "send_to_token F p q =
     (if pc_firebase p = None then (Inr None, [])
      else let msg = \<lparr>pm_token = pu_token q, pm_title = pu_title q, pm_body = pu_body q, pm_priority = ''high'',
                      pm_channel_id = ''rooti_default'', pm_data = push_data F (pu_deep_link q) (pu_extra q)\<rparr>
           in (let_ok (fb_send F msg) (\<lambda>i. Inr (Some i)), [msg]))"

definition send_push :: "firebase_sdk \<Rightarrow> process \<Rightarrow> push_request \<Rightarrow> (exn + unit) \<times> push_message list" where
  "send_push F p q =
     (let (r, sent) = send_to_token F p q
      in (case r of
            Inl e \<Rightarrow> Inl (business NOTIFICATION_SEND_FAILED (Some (Text (exn_str e))))
          | Inr _ \<Rightarrow> Inr (), sent))"

definition api_push ::
    "firebase_sdk \<Rightarrow> process \<Rightarrow> push_request \<Rightarrow> principal \<Rightarrow> (exn + unit) \<times> push_message list" where
  "api_push F p q actor =
     (case require_admin_or_charger actor of Inl e \<Rightarrow> (Inl e, []) | Inr _ \<Rightarrow> send_push F p q)"

section \<open>Health\<close>

text \<open>The arguments are the outcomes of \<open>SELECT 1\<close> and of \<open>PING\<close>.\<close>

definition check_db :: "process \<Rightarrow> exn + unit \<Rightarrow> string" where
  "check_db p select1 =
     (case let_ok (get_sessionmaker p) (\<lambda>_. select1) of Inr _ \<Rightarrow> ''UP'' | Inl _ \<Rightarrow> ''DOWN'')"

definition check_redis :: "exn + bool \<Rightarrow> string" where
  "check_redis ping = (case ping of Inr True \<Rightarrow> ''UP'' | _ \<Rightarrow> ''DOWN'')"

definition health :: "process \<Rightarrow> exn + unit \<Rightarrow> exn + bool \<Rightarrow> http_response" where
  "health p select1 ping =
     (let db_status = check_db p select1;
          redis_status = check_redis ping;
          up = (db_status = ''UP'' \<and> redis_status = ''UP'');
          entry = (\<lambda>st. JObj [(''status'', JStr st)])
      in json_response (if up then 200 else 503)
           [(''status'', JStr (if up then ''UP'' else ''DOWN'')),
            (''components'', JObj [(''db'', entry db_status), (''redis'', entry redis_status)])])"

section \<open>Lemmas on headers\<close>

lemma get_setdefault:
  "get_header k (header_setdefault k' v hs) =
     (case get_header k hs of Some x \<Rightarrow> Some x | None \<Rightarrow> if py_lower k = py_lower k' then Some v else None)"
  by (auto simp: header_setdefault_def get_header_def map_add_def split: option.splits)

lemma get_fold_setdefault:
  "get_header k (fold (\<lambda>(k', v). header_setdefault k' v) ks hs) =
     (case get_header k hs of Some x \<Rightarrow> Some x
      | None \<Rightarrow> map_of (map (\<lambda>(k', v). (py_lower k', v)) ks) (py_lower k))"
  by (induction ks arbitrary: hs) (auto simp: get_setdefault split: option.splits)

lemma map_of_filter_ne: "k \<noteq> k' \<Longrightarrow> map_of (filter (\<lambda>(k'', _). k'' \<noteq> k') xs) k = map_of xs k"
  by (induction xs) auto

lemma get_header_set: "get_header k (header_set k' v hs) = (if py_lower k = py_lower k' then Some v else get_header k hs)"
  by (induction k' v hs rule: header_set.induct) (auto simp: get_header_def map_of_filter_ne)

section \<open>What a client sees\<close>

text \<open>gzip and CORS keep the status and every header but their own, of a request that CORS passes on.\<close>

definition transport_header :: "string \<Rightarrow> bool" where
  "transport_header k \<longleftrightarrow> k \<in> set [''content-encoding'', ''content-length'', ''vary'']
     \<or> starts_with k ''access-control-''"

definition keeps_headers :: "(request_info \<Rightarrow> http_response \<Rightarrow> http_response) \<Rightarrow> bool" where
  "keeps_headers f \<longleftrightarrow> (\<forall>rq resp. \<not> is_preflight rq \<longrightarrow> rs_status (f rq resp) = rs_status resp
     \<and> (\<forall>k. \<not> transport_header (py_lower k) \<longrightarrow>
          get_header k (rs_headers (f rq resp)) = get_header k (rs_headers resp)))"

lemma keeps_status: "keeps_headers f \<Longrightarrow> \<not> is_preflight rq \<Longrightarrow> rs_status (f rq resp) = rs_status resp"
  by (simp add: keeps_headers_def)

lemma keeps_header:
  "keeps_headers f \<Longrightarrow> \<not> is_preflight rq \<Longrightarrow> \<not> transport_header (py_lower k) \<Longrightarrow>
   get_header k (rs_headers (f rq resp)) = get_header k (rs_headers resp)"
  by (simp add: keeps_headers_def)

lemma lower_names:
  "py_lower trace_header = ''x-trace-id''" "py_lower ''X-Content-Type-Options'' = ''x-content-type-options''"
  "py_lower ''X-Frame-Options'' = ''x-frame-options''" "py_lower ''Referrer-Policy'' = ''referrer-policy''"
  "py_lower ''Permissions-Policy'' = ''permissions-policy''"
  "py_lower ''Content-Security-Policy'' = ''content-security-policy''"
  "py_lower ''Strict-Transport-Security'' = ''strict-transport-security''"
  "py_lower ''Cache-Control'' = ''cache-control''" "py_lower ''content-type'' = ''content-type''"
  "py_lower ''Content-Type'' = ''content-type''"
  by code_simp+

lemma security_middleware_header:
  "security_middleware env (Inr resp) = Inr resp' \<Longrightarrow> py_lower k \<noteq> ''cache-control'' \<Longrightarrow>
   get_header k (rs_headers resp') =
     (case get_header k (rs_headers resp) of Some x \<Rightarrow> Some x
      | None \<Rightarrow> map_of (map (\<lambda>(k', v). (py_lower k', v)) (security_headers env)) (py_lower k))"
  by (auto simp: security_middleware_def Let_def get_setdefault get_fold_setdefault lower_names split: option.splits)

lemma json_content:
  "starts_with (or_str (get_header ''content-type'' hs) []) ''application/json'' \<longleftrightarrow>
   (\<exists>ct. get_header ''Content-Type'' hs = Some ct \<and> starts_with ct ''application/json'')"
  by (cases "get_header ''Content-Type'' hs") (auto simp: get_header_def lower_names or_str_def starts_with_def)

lemma get_header_default:
  "get_header k (fold (\<lambda>(k', v). header_setdefault k' v) (security_headers env) hs) = get_header k hs"
  if "py_lower k = ''content-type'' \<or> py_lower k = ''cache-control''"
proof -
  have "map_of (map (\<lambda>(k', v). (py_lower k', v)) (security_headers env)) (py_lower k) = None"
    using that by (auto simp: security_headers_def lower_names)
  then show ?thesis by (simp add: get_fold_setdefault split: option.splits)
qed

lemma security_middleware_no_store:
  "security_middleware env (Inr resp) = Inr resp' \<Longrightarrow> py_lower k = ''cache-control'' \<Longrightarrow>
   get_header k (rs_headers resp') =
     (case get_header k (rs_headers resp) of Some x \<Rightarrow> Some x
      | None \<Rightarrow> if \<exists>ct. get_header ''Content-Type'' (rs_headers resp) = Some ct \<and> starts_with ct ''application/json''
               then Some ''no-store'' else None)"
  by (auto simp: security_middleware_def Let_def get_setdefault get_header_default lower_names json_content
      split: option.splits)

lemma exception_layer_cases:
  "exception_layer env path outcome = Inl e \<longleftrightarrow> outcome = Inl (Exn e) \<and> (\<forall>c m. e \<noteq> Business c m)"
  by (cases "(env, path, outcome)" rule: exception_layer.cases) auto

lemma serve_answered:
  assumes "exception_layer env (rq_path rq) outcome = Inr r0"
  obtains r1 where "security_middleware env (trace_middleware rq fresh (Inr r0)) = Inr r1"
    "rs_status r1 = rs_status r0"
    "serve env K rq fresh outcome m =
       (sk_cors K rq (sk_gzip K rq r1),
        if route_template rq \<noteq> prometheus_path
        then count_request (rq_method rq) (route_template rq) (rs_status (sk_gzip K rq r1)) m else m)"
  using assms that
  by (fastforce simp: serve_def trace_middleware_def security_middleware_def prometheus_middleware_def Let_def)


text \<open>A write that a read-only transaction refused: SQLAlchemy's error, the adapter's and asyncpg's.\<close>

definition refused_write :: exn_chain where
  "refused_write =
     ([(0, \<lparr>xo_sqlstate = None, xo_next = Some 1\<rparr>), (1, \<lparr>xo_sqlstate = Some ''25006'', xo_next = Some 2\<rparr>),
       (2, \<lparr>xo_sqlstate = Some ''25006'', xo_next = None\<rparr>)], 0)"

definition sample_stack :: stack where
  "sample_stack = \<lparr>sk_gzip = \<lambda>rq resp. resp, sk_cors = \<lambda>rq resp. resp,
     sk_preflight = \<lambda>rq. \<lparr>rs_status = 200, rs_headers = [], rs_body = Raw_body ''OK''\<rparr>,
     sk_chain = \<lambda>e. if e = Read_only_violation then refused_write else ([(0, \<lparr>xo_sqlstate = None, xo_next = None\<rparr>)], 0)\<rparr>"

definition sample_get :: request_info where
  "sample_get = \<lparr>rq_method = ''GET'', rq_path = ''/api/v1/kiosks/1'', rq_headers = [(''x-trace-id'', ''t1'')],
     rq_route = Some ''/api/v1/kiosks/{kiosk_id}''\<rparr>"

lemma sample_stack_keeps: "keeps_headers (sk_gzip sample_stack)" "keeps_headers (sk_cors sample_stack)"
  by (simp_all add: keeps_headers_def sample_stack_def)


text \<open>An unexpected exception is answered outside the middlewares: the problem document carries no trace
  id and no security header, and the request is in no metric, although it is answered with a 500, or a 503
  when the database refused a write in the read-only mode.\<close>

lemma unhandled_errors_bypass:
  assumes "\<forall>c msg. e \<noteq> Business c msg"
  shows "\<exists>resp. serve env K rq fresh (Inl (Exn e)) m = (resp, m)
    \<and> rs_status resp = (if is_read_only_violation (sk_chain K e) then 503 else 500)
    \<and> (\<forall>k. py_lower k \<noteq> ''content-type'' \<longrightarrow> get_header k (rs_headers resp) = None)"
proof -
  have "exception_layer env (rq_path rq) (Inl (Exn e)) = Inl e" using assms by (simp add: exception_layer_cases)
  then have "serve env K rq fresh (Inl (Exn e)) m =
      (last_net env K (rq_path rq) e, m)"
    by (simp add: serve_def trace_middleware_def security_middleware_def prometheus_middleware_def Let_def)
  then show ?thesis using assms
    by (cases e) (auto simp: last_net_def problem_response_def get_header_def build_problem_detail_def unhandled_handler_def)
qed

lemma unhandled_errors_bypass_witness:
  "\<exists>resp. serve Env_prod sample_stack sample_get ''f'' (Inl (Exn IntegrityError))
       \<lparr>mt_requests = (\<lambda>_. 0), mt_latencies = (\<lambda>_. 0)\<rparr>
     = (resp, \<lparr>mt_requests = (\<lambda>_. 0), mt_latencies = (\<lambda>_. 0)\<rparr>) \<and> rs_status resp = 500"
  using unhandled_errors_bypass [of IntegrityError Env_prod sample_stack sample_get "''f''"]
  by (fastforce simp: sample_stack_def is_read_only_violation_def)

text \<open>C36: every exception an endpoint can raise is answered with a problem document of an error status for the path
  of the request.  A business exception keeps its code, its status and its message; an HTTP exception keeps the
  status if it is one of the eight that are matched, and is a 500 otherwise; a validation error is a 400 with the
  last message of every location other than the empty one, once; the rate limit is a 422; any other exception is a
  503 exactly when it or an exception of its chain, cyclic or not, carries the SQLSTATE 25006, and a 500 otherwise,
  whose text nobody sees in production.\<close>

theorem problem_documents:
  "\<exists>p extras. (case exception_layer env path (Inl x) of Inr r \<Rightarrow> r | Inl e \<Rightarrow> last_net env K path e) =
      \<lparr>rs_status = p_status p, rs_headers = [(''content-type'', ''application/problem+json'')],
       rs_body = Problem_body p extras\<rparr>
    \<and> 400 \<le> p_status p \<and> p_status p < 600 \<and> p_instance p = path \<and> p_title p = p_code p
    \<and> (case x of
         Exn e \<Rightarrow>
           (case e of
              Business c m \<Rightarrow> p_code p = code_name c \<and> p_status p = status_code c \<and> p_detail p = m
            | _ \<Rightarrow>
                if \<exists>y. on_chain (fst (sk_chain K e)) (Some (snd (sk_chain K e))) y \<and> xo_sqlstate y = Some ''25006''
                then p_status p = 503 \<and> p_detail p = Default READ_ONLY
                else p_status p = 500 \<and> (env = Env_prod \<longrightarrow> p_detail p = Default INTERNAL_ERROR))
       | Http_exception n d \<Rightarrow>
           p_status p = (if n \<in> {400, 401, 403, 404, 405, 409, 413, 422} then n else 500)
           \<and> (\<forall>t. d = Some t \<longrightarrow> p_detail p = Text t)
       | Validation_error errs \<Rightarrow>
           p_status p = 400 \<and> p_detail p = Default INVALID_INPUT \<and> distinct (map fst (p_extras p))
           \<and> (\<forall>l. map_of (p_extras p) l =
                 (if l = [] then None
                  else map_of (rev (map (\<lambda>(loc, msg). (join_dots (filter (\<lambda>q. q \<noteq> ''body'') loc), msg)) errs)) l))
       | Rate_limit_exceeded d \<Rightarrow> p_status p = 422 \<and> p_detail p = Text (''rate limit exceeded: '' @ d))"
proof -
  note docs = problem_response_def build_problem_detail_def status_is_error
  show ?thesis
  proof (cases x)
    case (Exn e)
    have chain: "is_read_only_violation (sk_chain K e) \<longleftrightarrow>
        (\<exists>y. on_chain (fst (sk_chain K e)) (Some (snd (sk_chain K e))) y \<and> xo_sqlstate y = Some ''25006'')"
      unfolding is_read_only_violation_def by (rule chain_search)
    have prod: "env_name Env_prod = ''prod''" by (simp add: env_name_def)
    show ?thesis unfolding Exn raised.case chain [symmetric]
      by (cases e) (auto simp: docs last_net_def unhandled_handler_def prod)
  next
    case (Http_exception n d)
    then show ?thesis by (auto simp: docs http_handler_def http_code_def Let_def)
  next
    case (Validation_error errs)
    then show ?thesis
      by (simp add: docs validation_handler_def map_of_validation_fields validation_fields_distinct)
  next
    case (Rate_limit_exceeded d)
    then show ?thesis by (simp add: docs rate_limit_handler_def)
  qed
qed

theorem problem_documents_witness:
  "\<exists>p extras. last_net Env_prod sample_stack ''/x'' Read_only_violation =
      \<lparr>rs_status = 503, rs_headers = [(''content-type'', ''application/problem+json'')], rs_body = Problem_body p extras\<rparr>"
proof -
  have "on_chain (fst refused_write) (Some (snd refused_write)) \<lparr>xo_sqlstate = Some ''25006'', xo_next = Some 2\<rparr>"
    unfolding refused_write_def by (simp, rule on_chain.later, simp, simp, rule on_chain.here, simp)
  then have "\<exists>y. on_chain (fst (sk_chain sample_stack Read_only_violation)) (Some (snd (sk_chain sample_stack Read_only_violation))) y
      \<and> xo_sqlstate y = Some ''25006''" by (auto simp: sample_stack_def)
  then show ?thesis
    using problem_documents [where env = Env_prod and path = "''/x''" and x = "Exn Read_only_violation" and K = sample_stack]
    by auto
qed

section \<open>The session\<close>

text \<open>A request leaves the database as it was, or as its handler left it; the latter only outside the
  read-only mode, after the handler answered and the commit succeeded.\<close>

lemma session_all_or_nothing:
  "get_db_session eg s flushed commit_ok handler d = (r, d') \<Longrightarrow>
   d' = d \<or> (\<exists>a. handler d = Inr (a, d') \<and> r = Inr a \<and> \<not> st_app_read_only s \<and> \<not> eg_read_only eg \<and> commit_ok)"
  by (auto simp: get_db_session_def split: sum.splits if_splits)

lemma session_read_only:
  "st_app_read_only s \<or> eg_read_only eg \<Longrightarrow> snd (get_db_session eg s flushed commit_ok handler d) = d"
  by (auto simp: get_db_session_def split: sum.splits)

lemma session_answer:
  "fst (get_db_session eg s flushed commit_ok handler d) =
     (case handler d of Inl e \<Rightarrow> Inl e
      | Inr (a, d') \<Rightarrow> if eg_read_only eg \<and> flushed \<and> d' \<noteq> d then Inl Read_only_violation else Inr a)"
  by (auto simp: get_db_session_def split: sum.splits)

section \<open>Push\<close>

text \<open>The states a process can be in: start-up, shut-down and the health check, which connects to Redis.\<close>

inductive process_state :: "settings \<Rightarrow> process \<Rightarrow> bool" for s where
  fresh: "process_state s new_process"
| started: "process_state s p \<Longrightarrow> process_state s (startup s p)"
| stopped: "process_state s p \<Longrightarrow> process_state s (shutdown p)"
| checked: "process_state s p \<Longrightarrow> process_state s (init_redis s p)"

lemma firebase_untouched:
  "pc_firebase (init_engine s p) = pc_firebase p" "pc_firebase (init_redis s p) = pc_firebase p"
  "pc_firebase (startup s p) = pc_firebase p" "pc_firebase (shutdown p) = pc_firebase p"
  by (simp_all add: init_engine_def init_redis_def startup_def shutdown_def dispose_engine_def dispose_redis_def)

lemma firebase_never_starts: "process_state s p \<Longrightarrow> pc_firebase p = None"
  by (induction rule: process_state.induct) (simp_all add: firebase_untouched new_process_def)

text \<open>A push notification is accepted and never sent: nothing calls the initialisation of Firebase, so in
  every state of the process, with or without credentials in the settings, an administrator's push
  answers with success and hands no message to the client.\<close>

lemma push_never_sends:
  assumes "process_state s p" and "require_admin_or_charger actor = Inr actor"
  shows "api_push F p q actor = (Inr (), [])
    \<and> (st_firebase_credential_json_path s \<noteq> [] \<longrightarrow> snd (api_push F (init_firebase s p) q actor) \<noteq> [])"
  using firebase_never_starts [OF assms(1)] assms(2)
  by (auto simp: api_push_def send_push_def send_to_token_def init_firebase_def Let_def)

definition sample_sdk :: firebase_sdk where
  "sample_sdk = \<lparr>fb_dumps = \<lambda>_. [], fb_send = \<lambda>m. Inr (pm_token m)\<rparr>"

lemma push_never_sends_witness:
  "api_push sample_sdk (startup sample_settings new_process)
     \<lparr>pu_token = ''t'', pu_title = ''x'', pu_body = None, pu_deep_link = None, pu_extra = None\<rparr>
     \<lparr>pr_user_id = 1, pr_username = ''a'', pr_roles = [''ADMIN''], pr_enabled = True, pr_non_locked = True\<rparr>
   = (Inr (), [])"
  by (rule push_never_sends [THEN conjunct1, of sample_settings])
     (auto intro: process_state.intros simp: require_admin_or_charger_def require_roles_def)

end
