(* ===== verification/EmailSchedules.thy ===== *)
theory EmailSchedules
  imports Tenant Sample
begin

text \<open>
  Automatic mails of work journals: app/services/journal_schedule.py, its DTOs in
  app/schemas/journal_schedule.py, the formats of app/schemas/document.py, and the endpoints on mail
  schedules in app/api/v1/work_journals.py.  The clock is an argument.
\<close>

section \<open>Formats, frequencies and weekdays\<close>

datatype journal_format = PDF | HWP | XLSX
datatype frequency = DAILY | WEEKLY | MONTHLY
datatype weekday = SUN | MON | TUE | WED | THU | FRI | SAT

fun format_value :: "journal_format \<Rightarrow> string" where
  "format_value PDF = ''PDF''"
| "format_value HWP = ''HWP''"
| "format_value XLSX = ''XLSX''"

fun format_extension :: "journal_format \<Rightarrow> string" where
  "format_extension PDF = ''pdf''"
| "format_extension HWP = ''hwp''"
| "format_extension XLSX = ''xlsx''"

fun format_content_type :: "journal_format \<Rightarrow> string" where
  "format_content_type PDF = ''application/pdf''"
| "format_content_type HWP = ''application/x-hwp''"
| "format_content_type XLSX = ''application/vnd.openxmlformats-officedocument.spreadsheetml.sheet''"

fun frequency_value :: "frequency \<Rightarrow> string" where
  "frequency_value DAILY = ''DAILY''"
| "frequency_value WEEKLY = ''WEEKLY''"
| "frequency_value MONTHLY = ''MONTHLY''"

fun weekday_value :: "weekday \<Rightarrow> string" where
  "weekday_value SUN = ''SUN''"
| "weekday_value MON = ''MON''"
| "weekday_value TUE = ''TUE''"
| "weekday_value WED = ''WED''"
| "weekday_value THU = ''THU''"
| "weekday_value FRI = ''FRI''"
| "weekday_value SAT = ''SAT''"

definition format_members :: "(journal_format \<times> string) list" where
  "format_members = map (\<lambda>f. (f, format_value f)) [PDF, HWP, XLSX]"

definition frequency_members :: "(frequency \<times> string) list" where
  "frequency_members = map (\<lambda>f. (f, frequency_value f)) [DAILY, WEEKLY, MONTHLY]"

definition weekday_members :: "(weekday \<times> string) list" where
  "weekday_members = map (\<lambda>w. (w, weekday_value w)) [SUN, MON, TUE, WED, THU, FRI, SAT]"

section \<open>Requests and responses\<close>

text \<open>\<open>^([01]\d|2[0-3]):[0-5]\d$\<close>\<close>

definition valid_time :: "string \<Rightarrow> bool" where
  "valid_time s =
     (case s of
        [a, b, c, e, f] \<Rightarrow>
          ((a = CHR ''0'' \<or> a = CHR ''1'') \<and> is_digit b \<or> a = CHR ''2'' \<and> is_digit b \<and> code b \<le> 51)
          \<and> c = CHR '':'' \<and> is_digit e \<and> code e \<le> 53 \<and> is_digit f
      | _ \<Rightarrow> False)"

definition dom_max :: int where "dom_max = 28"

record email_schedule_create =
  ec_company_id :: int
  ec_recipient :: string
  ec_frequency :: frequency
  ec_weekday :: "weekday option"
  ec_day_of_month :: "int option"
  ec_time :: string
  ec_format :: journal_format
  ec_enabled :: bool

definition valid_email_create :: "email_schedule_create \<Rightarrow> bool" where
  "valid_email_create r \<longleftrightarrow>
     (\<forall>n \<in> set_option (ec_day_of_month r). 1 \<le> n \<and> n \<le> dom_max) \<and> valid_time (ec_time r)"

record email_schedule_update =
  eu_company_id :: "int option"
  eu_recipient :: "string option"
  eu_frequency :: "frequency option"
  eu_weekday :: "weekday option"
  eu_day_of_month :: "int option"
  eu_time :: "string option"
  eu_format :: "journal_format option"
  eu_enabled :: "bool option"

definition valid_email_update :: "email_schedule_update \<Rightarrow> bool" where
  "valid_email_update r \<longleftrightarrow>
     (\<forall>n \<in> set_option (eu_day_of_month r). 1 \<le> n \<and> n \<le> dom_max) \<and> (\<forall>t \<in> set_option (eu_time r). valid_time t)"

record email_schedule_response =
  er_id :: int
  er_company_id :: int
  er_company_name :: "string option"
  er_recipient :: string
  er_frequency :: frequency
  er_weekday :: "weekday option"
  er_day_of_month :: "int option"
  er_time :: string
  er_format :: journal_format
  er_enabled :: bool
  er_next_run_at :: "datetime option"
  er_last_run_at :: "datetime option"
  er_created_at :: datetime

text \<open>The response validates the stored strings against the enumerations.\<close>

definition email_to_response ::
    "int \<Rightarrow> email_schedule \<Rightarrow> string option \<Rightarrow> exn + email_schedule_response" where
  "email_to_response i s company_name =
     let_ok (enum_of_string frequency_members (es_frequency s)) (\<lambda>fr.
     let_ok (case es_weekday s of None \<Rightarrow> Inr None
             | Some w \<Rightarrow> let_ok (enum_of_string weekday_members w) (\<lambda>w. Inr (Some w))) (\<lambda>wd.
     let_ok (enum_of_string format_members (es_format s)) (\<lambda>fmt.
       Inr \<lparr>er_id = i, er_company_id = es_company_id s, er_company_name = company_name,
            er_recipient = es_recipient s, er_frequency = fr, er_weekday = wd,
            er_day_of_month = es_day_of_month s, er_time = es_send_time s, er_format = fmt,
            er_enabled = es_enabled s, er_next_run_at = es_next_run_at s, er_last_run_at = es_last_run_at s,
            er_created_at = es_created_at s\<rparr>)))"

section \<open>The next run\<close>

text \<open>
  Hour and minute are parsed from the text; a text that does not parse means 09:00.  The call of
  \<open>now.replace\<close> is outside the \<open>try\<close> and raises when they are out of range.
\<close>

definition parse_time :: "string \<Rightarrow> int \<times> int" where
  "parse_time s =
     (case split_once (CHR '':'') s of
        [a, b] \<Rightarrow> (case (py_int a, py_int b) of (Some h, Some m) \<Rightarrow> (h, m) | _ \<Rightarrow> (9, 0))
      | _ \<Rightarrow> (9, 0))"

definition hour_us :: int where "hour_us = 3600000000"
definition minute_us :: int where "minute_us = 60000000"

definition compute_next_run :: "string \<Rightarrow> datetime \<Rightarrow> exn + datetime" where
  "compute_next_run time_str now =
     (let (h, m) = parse_time time_str
      in raise_if (\<not> (0 \<le> h \<and> h < 24 \<and> 0 \<le> m \<and> m < 60)) (ValueError ''hour or minute out of range'')
         (let nxt = day_start (date_of now) + h * hour_us + m * minute_us
          in Inr (if nxt < now then nxt + day_us else nxt)))"

section \<open>The service\<close>

definition company_name_of :: "int \<Rightarrow> db \<Rightarrow> string option" where
  "company_name_of i d = map_option co_name (tget (companies d) i)"

text \<open>All rows must have a response: the first one that fails its validation fails the list.\<close>

fun collect :: "('e + 'a) list \<Rightarrow> 'e + 'a list" where
  "collect [] = Inr []"
| "collect (x # xs) = let_ok x (\<lambda>y. let_ok (collect xs) (\<lambda>ys. Inr (y # ys)))"

definition list_email_schedules :: "int option \<Rightarrow> db \<Rightarrow> exn + email_schedule_response list" where
  "list_email_schedules company_id d =
     collect (map (\<lambda>(i, s). email_to_response i s (company_name_of (es_company_id s) d))
       (order_by_desc fst (tsel (\<lambda>i s. opt_filter company_id (\<lambda>c s. es_company_id s = c) s) (email_schedules d))))"

definition create_email_schedule ::
    "email_schedule_create \<Rightarrow> datetime \<Rightarrow> db \<Rightarrow> exn + (email_schedule_response \<times> db)" where
  "create_email_schedule req now d =
     some_or (tget (companies d) (ec_company_id req)) (err COMPANY_NOT_FOUND) (\<lambda>company.
     let_ok (compute_next_run (ec_time req) now) (\<lambda>nxt.
     (let s = \<lparr>es_company_id = ec_company_id req, es_recipient = ec_recipient req,
               es_frequency = frequency_value (ec_frequency req),
               es_weekday = map_option weekday_value (ec_weekday req),
               es_day_of_month = ec_day_of_month req, es_send_time = ec_time req,
               es_format = format_value (ec_format req), es_enabled = ec_enabled req,
               es_next_run_at = Some nxt, es_last_run_at = None, es_created_at = now\<rparr>
      in let_ok (email_to_response (next_id (email_schedules d)) s (Some (co_name company))) (\<lambda>resp.
           Inr (resp, d\<lparr>email_schedules := tins s (email_schedules d)\<rparr>)))))"

definition move_company :: "email_schedule_update \<Rightarrow> scope \<Rightarrow> db \<Rightarrow> email_schedule \<Rightarrow> exn + email_schedule" where
  "move_company req company_scope d s =
     (case eu_company_id req of
        None \<Rightarrow> Inr s
      | Some c \<Rightarrow>
          if c = es_company_id s then Inr s
          else let_ok (assert_company company_scope (Some c)) (\<lambda>_.
               raise_if (tget (companies d) c = None) (err COMPANY_NOT_FOUND) (Inr (s\<lparr>es_company_id := c\<rparr>))))"

fun apply_frequency :: "email_schedule_update \<Rightarrow> frequency option \<Rightarrow> email_schedule \<Rightarrow> email_schedule" where
  "apply_frequency req None s = s"
| "apply_frequency req (Some DAILY) s =
     s\<lparr>es_frequency := ''DAILY'', es_weekday := None, es_day_of_month := None\<rparr>"
| "apply_frequency req (Some WEEKLY) s =
     s\<lparr>es_frequency := ''WEEKLY'',
       es_weekday := Some (or_str (case eu_weekday req of Some w \<Rightarrow> Some (weekday_value w) | None \<Rightarrow> es_weekday s) ''MON''),
       es_day_of_month := None\<rparr>"
| "apply_frequency req (Some MONTHLY) s =
     s\<lparr>es_frequency := ''MONTHLY'',
       es_day_of_month := Some (or_default (eu_day_of_month req) (or_default (es_day_of_month s) 1)),
       es_weekday := None\<rparr>"

definition apply_time :: "email_schedule_update \<Rightarrow> datetime \<Rightarrow> email_schedule \<Rightarrow> exn + email_schedule" where
  "apply_time req now s =
     (if truthy (eu_time req)
      then let_ok (compute_next_run (the (eu_time req)) now) (\<lambda>nxt.
             Inr (s\<lparr>es_send_time := the (eu_time req), es_next_run_at := Some nxt\<rparr>))
      else Inr s)"

definition update_email_schedule ::
    "int \<Rightarrow> email_schedule_update \<Rightarrow> scope \<Rightarrow> datetime \<Rightarrow> db \<Rightarrow> exn + (email_schedule_response \<times> db)" where
  "update_email_schedule i req company_scope now d =
     some_or (tget (email_schedules d) i) (business RESOURCE_NOT_FOUND (Some Email_schedule_missing)) (\<lambda>s.
     let_ok (assert_company company_scope (Some (es_company_id s))) (\<lambda>_.
     let_ok (move_company req company_scope d (s\<lparr>es_enabled := keep (eu_enabled req) (es_enabled s)\<rparr>)) (\<lambda>s1.
     let_ok (apply_time req now (apply_frequency req (eu_frequency req)
               (s1\<lparr>es_recipient := or_str (eu_recipient req) (es_recipient s1)\<rparr>))) (\<lambda>s2.
     (let s3 = s2\<lparr>es_format := (case eu_format req of None \<Rightarrow> es_format s2 | Some f \<Rightarrow> format_value f)\<rparr>
      in let_ok (email_to_response i s3 (company_name_of (es_company_id s3) d)) (\<lambda>resp.
           Inr (resp, d\<lparr>email_schedules := tupd i s3 (email_schedules d)\<rparr>)))))))"

definition delete_email_schedule :: "int \<Rightarrow> scope \<Rightarrow> db \<Rightarrow> exn + (unit \<times> db)" where
  "delete_email_schedule i company_scope d =
     (case tget (email_schedules d) i of
        None \<Rightarrow> Inr ((), d)
      | Some s \<Rightarrow>
          let_ok (assert_company company_scope (Some (es_company_id s))) (\<lambda>_.
            Inr ((), d\<lparr>email_schedules := tdel i (email_schedules d)\<rparr>)))"

section \<open>Endpoints\<close>

definition api_list_email_schedules :: "scope \<Rightarrow> int option \<Rightarrow> db \<Rightarrow> exn + email_schedule_response list" where
  "api_list_email_schedules scope company_id d =
     let_ok (resolve_company_filter scope company_id) (\<lambda>c. list_email_schedules c d)"

definition api_create_email_schedule ::
    "email_schedule_create \<Rightarrow> scope \<Rightarrow> datetime \<Rightarrow> db \<Rightarrow> exn + (email_schedule_response \<times> db)" where
  "api_create_email_schedule req scope now d =
     let_ok (assert_company scope (Some (ec_company_id req))) (\<lambda>_. create_email_schedule req now d)"

datatype email_schedule_op =
    Create_email_schedule email_schedule_create datetime
  | Update_email_schedule int email_schedule_update datetime
  | Delete_email_schedule int

fun exec_email_schedule ::
    "scope \<Rightarrow> email_schedule_op \<Rightarrow> db \<Rightarrow> exn + (email_schedule_response option \<times> db)" where
  "exec_email_schedule sc (Create_email_schedule req now) d =
     let_ok (api_create_email_schedule req sc now d) (\<lambda>(r, d'). Inr (Some r, d'))"
| "exec_email_schedule sc (Update_email_schedule i req now) d =
     let_ok (update_email_schedule i req sc now d) (\<lambda>(r, d'). Inr (Some r, d'))"
| "exec_email_schedule sc (Delete_email_schedule i) d =
     let_ok (delete_email_schedule i sc d) (\<lambda>(u, d'). Inr (None, d'))"

section \<open>Lemmas\<close>

text \<open>The stored strings are read back as the members they came from.\<close>

lemma frequency_round_trip [simp]: "enum_of_string frequency_members (frequency_value fr) = Inr fr"
  by (cases fr) (simp_all add: enum_of_string_def frequency_members_def)

lemma weekday_round_trip [simp]: "enum_of_string weekday_members (weekday_value wd) = Inr wd"
  by (cases wd) (simp_all add: enum_of_string_def weekday_members_def)

lemma format_round_trip [simp]: "enum_of_string format_members (format_value fmt) = Inr fmt"
  by (cases fmt) (simp_all add: enum_of_string_def format_members_def)

lemma frequency_value_stored [simp]: "frequency_value fr \<in> set frequencies"
  by (cases fr) (simp_all add: frequencies_def)

lemma format_value_stored [simp]: "format_value fmt \<in> set formats"
  by (cases fmt) (simp_all add: formats_def)

lemma weekday_value_stored [simp]: "weekday_value w \<in> set weekdays"
  by (cases w) (simp_all add: weekdays_def)

lemma weekday_kept:
  assumes "\<forall>w \<in> set_option (es_weekday s). w \<in> set weekdays"
  shows "\<forall>w \<in> set_option (es_weekday (apply_frequency req fr s)). w \<in> set weekdays"
proof -
  have "''MON'' \<in> set weekdays" by (simp add: weekdays_def)
  then show ?thesis using assms
    by (cases "(req, fr, s)" rule: apply_frequency.cases) (auto simp: or_str_def split: option.splits)
qed

lemma create_email_effect:
  "create_email_schedule req now d = Inr (r, d') \<Longrightarrow>
   \<exists>s nxt. d' = d\<lparr>email_schedules := tins s (email_schedules d)\<rparr> \<and> es_company_id s = ec_company_id req
     \<and> es_frequency s = frequency_value (ec_frequency req) \<and> es_format s = format_value (ec_format req)
     \<and> compute_next_run (ec_time req) now = Inr nxt \<and> es_next_run_at s = Some nxt \<and> es_send_time s = ec_time req
     \<and> es_weekday s = map_option weekday_value (ec_weekday req) \<and> es_day_of_month s = ec_day_of_month req"
  by (auto simp: create_email_schedule_def Let_def flow)

lemma move_company_effect:
  "move_company req sc d s = Inr s' \<Longrightarrow>
   \<exists>c. s' = s\<lparr>es_company_id := c\<rparr> \<and> (c = es_company_id s \<or> sc = None \<or> sc = Some c)"
  by (auto simp: move_company_def flow split: option.splits if_splits intro!: exI [of _ "es_company_id s'"])

lemma apply_frequency_fields [simp]:
  "es_company_id (apply_frequency req fr s) = es_company_id s"
  "es_format (apply_frequency req fr s) = es_format s"
  "es_enabled (apply_frequency req fr s) = es_enabled s"
  "es_recipient (apply_frequency req fr s) = es_recipient s"
  "es_frequency (apply_frequency req fr s) = (case fr of None \<Rightarrow> es_frequency s | Some f \<Rightarrow> frequency_value f)"
  by (cases fr; simp; cases "the fr"; simp)+

lemma apply_frequency_mode:
  "es_weekday s = es_weekday t \<Longrightarrow> es_day_of_month s = es_day_of_month t \<Longrightarrow>
   es_weekday (apply_frequency req fr s) = es_weekday (apply_frequency req fr t)
   \<and> es_day_of_month (apply_frequency req fr s) = es_day_of_month (apply_frequency req fr t)"
  by (cases "(req, fr, s)" rule: apply_frequency.cases) (simp_all split: option.splits)

lemma apply_time_effect:
  "apply_time req now s = Inr s' \<Longrightarrow> es_company_id s' = es_company_id s \<and> es_frequency s' = es_frequency s
     \<and> es_format s' = es_format s \<and> es_weekday s' = es_weekday s \<and> es_day_of_month s' = es_day_of_month s"
  by (auto simp: apply_time_def flow split: if_splits)

lemma update_email_effect:
  assumes "update_email_schedule i req sc now d = Inr (r, d')"
  shows "\<exists>s s'. tget (email_schedules d) i = Some s \<and> d' = d\<lparr>email_schedules := tupd i s' (email_schedules d)\<rparr>
     \<and> (sc = None \<or> sc = Some (es_company_id s)) \<and> (sc = None \<or> sc = Some (es_company_id s'))
     \<and> es_frequency s' = (case eu_frequency req of None \<Rightarrow> es_frequency s | Some f \<Rightarrow> frequency_value f)
     \<and> es_format s' = (case eu_format req of None \<Rightarrow> es_format s | Some f \<Rightarrow> format_value f)
     \<and> es_weekday s' = es_weekday (apply_frequency req (eu_frequency req) s)
     \<and> es_day_of_month s' = es_day_of_month (apply_frequency req (eu_frequency req) s)"
proof -
  from assms obtain s s1 s2 where s: "tget (email_schedules d) i = Some s" "sc = None \<or> sc = Some (es_company_id s)"
    and m: "move_company req sc d (s\<lparr>es_enabled := keep (eu_enabled req) (es_enabled s)\<rparr>) = Inr s1"
    and t: "apply_time req now (apply_frequency req (eu_frequency req)
               (s1\<lparr>es_recipient := or_str (eu_recipient req) (es_recipient s1)\<rparr>)) = Inr s2"
    and d': "d' = d\<lparr>email_schedules := tupd i
               (s2\<lparr>es_format := (case eu_format req of None \<Rightarrow> es_format s2 | Some f \<Rightarrow> format_value f)\<rparr>) (email_schedules d)\<rparr>"
    by (auto simp: update_email_schedule_def Let_def flow)
  from move_company_effect [OF m] obtain c where
    s1: "s1 = s\<lparr>es_enabled := keep (eu_enabled req) (es_enabled s), es_company_id := c\<rparr>"
    and c: "c = es_company_id s \<or> sc = None \<or> sc = Some c" by auto
  let ?fr = "eu_frequency req" and ?s0 = "s1\<lparr>es_recipient := or_str (eu_recipient req) (es_recipient s1)\<rparr>"
  let ?s3 = "s2\<lparr>es_format := (case eu_format req of None \<Rightarrow> es_format s2 | Some f \<Rightarrow> format_value f)\<rparr>"
  have f: "es_weekday (apply_frequency req ?fr ?s0) = es_weekday (apply_frequency req ?fr s)
      \<and> es_day_of_month (apply_frequency req ?fr ?s0) = es_day_of_month (apply_frequency req ?fr s)"
    by (rule apply_frequency_mode) (simp_all add: s1)
  note t' = apply_time_effect [OF t]
  have "es_company_id ?s3 = c" using t' by (simp add: s1)
  moreover have "es_frequency ?s3 = (case ?fr of None \<Rightarrow> es_frequency s | Some f \<Rightarrow> frequency_value f)"
    using t' by (simp add: s1 split: option.splits)
  moreover have "es_format ?s3 = (case eu_format req of None \<Rightarrow> es_format s | Some f \<Rightarrow> format_value f)"
    using t' by (simp add: s1 split: option.splits)
  moreover have "es_weekday ?s3 = es_weekday (apply_frequency req ?fr s)
      \<and> es_day_of_month ?s3 = es_day_of_month (apply_frequency req ?fr s)"
    using t' f by simp
  moreover have "sc = None \<or> sc = Some c" using c s(2) by auto
  ultimately show ?thesis using s d' by blast
qed

lemma delete_email_effect:
  "delete_email_schedule i sc d = Inr (u, d') \<Longrightarrow>
   (tget (email_schedules d) i = None \<and> d' = d) \<or>
   (\<exists>s. tget (email_schedules d) i = Some s \<and> (sc = None \<or> sc = Some (es_company_id s))
      \<and> d' = d\<lparr>email_schedules := tdel i (email_schedules d)\<rparr>)"
  by (auto simp: delete_email_schedule_def flow split: option.splits)

lemma update_email_ok:
  assumes "email_schedules_ok (email_schedules d)" and "update_email_schedule i req sc now d = Inr (r, d')"
  shows "email_schedules_ok (email_schedules d')"
proof -
  from update_email_effect [OF assms(2)] obtain s s' where s: "tget (email_schedules d) i = Some s"
    and d': "d' = d\<lparr>email_schedules := tupd i s' (email_schedules d)\<rparr>"
    and f: "es_frequency s' = (case eu_frequency req of None \<Rightarrow> es_frequency s | Some f \<Rightarrow> frequency_value f)"
      "es_format s' = (case eu_format req of None \<Rightarrow> es_format s | Some f \<Rightarrow> format_value f)"
    and w: "es_weekday s' = es_weekday (apply_frequency req (eu_frequency req) s)" by blast
  have f': "es_frequency s \<in> set frequencies \<Longrightarrow> es_frequency s' \<in> set frequencies"
    "es_format s \<in> set formats \<Longrightarrow> es_format s' \<in> set formats"
    unfolding f by (simp_all split: option.splits)
  have kept: "es_frequency s' \<in> set frequencies \<and> es_format s' \<in> set formats
      \<and> (\<forall>w \<in> set_option (es_weekday s'). w \<in> set weekdays)"
    if ok: "es_frequency s \<in> set frequencies \<and> es_format s \<in> set formats
      \<and> (\<forall>w \<in> set_option (es_weekday s). w \<in> set weekdays)"
    unfolding w using f' ok weekday_kept by blast
  have "email_schedules_ok (tupd i s' (email_schedules d))"
    using assms(1) unfolding email_schedules_ok_def
    by (elim conjE, intro conjI table_ok_tupd) (assumption, erule all_rows_change [OF _ s], erule kept)
  then show ?thesis by (simp add: d')
qed

lemma create_email_ok:
  assumes "email_schedules_ok (email_schedules d)" and "create_email_schedule req now d = Inr (r, d')"
  shows "email_schedules_ok (email_schedules d')"
proof -
  from create_email_effect [OF assms(2)] obtain s where d': "d' = d\<lparr>email_schedules := tins s (email_schedules d)\<rparr>"
    and s: "es_frequency s = frequency_value (ec_frequency req)" "es_format s = format_value (ec_format req)"
      "es_weekday s = map_option weekday_value (ec_weekday req)" by blast
  then show ?thesis using assms(1) by (auto simp: email_schedules_ok_def)
qed

lemma delete_email_ok:
  "email_schedules_ok (email_schedules d) \<Longrightarrow> delete_email_schedule i sc d = Inr (u, d') \<Longrightarrow>
   email_schedules_ok (email_schedules d')"
  by (auto simp: email_schedules_ok_def dest!: delete_email_effect intro!: all_rows_tdel)

lemma exec_email_inv:
  "email_schedules_ok (email_schedules d) \<Longrightarrow> exec_email_schedule sc x d = Inr (y, d') \<Longrightarrow>
   email_schedules_ok (email_schedules d')"
  by (cases x) (auto simp: flow api_create_email_schedule_def intro: create_email_ok update_email_ok delete_email_ok)

lemma exec_email_foreign:
  assumes "email_schedules_ok (email_schedules d)" and "exec_email_schedule (Some c) x d = Inr (y, d')"
  shows "foreign_rows es_company_id c (email_schedules d') = foreign_rows es_company_id c (email_schedules d)"
  using assms
  by (cases x)
     (auto simp: flow api_create_email_schedule_def email_schedules_ok_def
       dest!: create_email_effect update_email_effect delete_email_effect
       intro!: foreign_rows_tupd foreign_rows_tdel)

interpretation email_tenant: tenant_resource email_schedules es_company_id exec_email_schedule email_schedules_ok
  by unfold_locales (simp_all add: exec_email_foreign exec_email_inv)

text \<open>What \<open>compute_next_run\<close> yields.\<close>

lemma next_run_bounds:
  assumes "0 \<le> h" "h < 24" "0 \<le> m" "m < (60::int)" and "parse_time t = (h, m)"
  shows "\<exists>n. compute_next_run t now = Inr n \<and> now \<le> n \<and> n < now + day_us \<and> n mod day_us = h * hour_us + m * minute_us"
proof -
  let ?o = "h * hour_us + m * minute_us"
  let ?n = "day_start (date_of now) + ?o"
  have o: "0 \<le> ?o" "?o < day_us" using assms(1-4) by (auto simp: hour_us_def minute_us_def day_us_def)
  have now: "day_start (date_of now) \<le> now" "now < day_start (date_of now) + day_us"
    using date_of_eq_iff [of now "date_of now"] by (auto simp: day_start_def day_end_def)
  have m: "?n mod day_us = ?o"
    using mod_mult_self1 [of ?o "date_of now" day_us] mod_pos_pos_trivial [OF o] by (simp add: day_start_def add.commute)
  then have "(?n + day_us) mod day_us = ?o" by simp
  moreover have "compute_next_run t now = Inr (if ?n < now then ?n + day_us else ?n)"
    using assms by (simp add: compute_next_run_def Let_def)
  ultimately show ?thesis using m o now by (cases "?n < now") auto
qed

lemma py_int_two_digits:
  assumes "is_digit a" "is_digit b"
  shows "py_int [a, b] = Some (int (10 * (code a - 48) + (code b - 48)))"
proof -
  have "py_strip [a, b] = [a, b]"
    using assms by (intro py_strip_id) (simp add: is_digit_not_space)
  then show ?thesis using assms is_digit_not_sign [OF assms(1)]
    by (simp add: py_int_def parse_nat_def)
qed

lemma valid_time_digits:
  "valid_time s \<Longrightarrow> \<exists>a b e f. s = [a, b, CHR '':'', e, f] \<and> is_digit a \<and> is_digit b \<and> is_digit e \<and> is_digit f
     \<and> 10 * (code a - 48) + (code b - 48) < 24 \<and> 10 * (code e - 48) + (code f - 48) < (60::nat)"
  by (auto simp: valid_time_def is_digit_def split: list.splits)

lemma digit_of_code:
  assumes "is_digit a"
  shows "''0123456789'' ! (code a - 48) = a"
proof -
  have "code a - 48 \<in> {..< 10}" "a = char_of (48 + (code a - 48))" using assms by (auto simp: is_digit_def)
  moreover have "\<forall>k \<in> {..< 10}. ''0123456789'' ! k = char_of (48 + k)" by code_simp
  ultimately show ?thesis by metis
qed

text \<open>A valid time is two numbers of two digits, and they are what is parsed.\<close>

lemma parse_valid_time:
  assumes "valid_time s"
  shows "\<exists>h m. parse_time s = (int h, int m) \<and> h < 24 \<and> m < 60
     \<and> s = map ((!) ''0123456789'') [h div 10, h mod 10] @ '':'' @ map ((!) ''0123456789'') [m div 10, m mod 10]"
proof -
  from valid_time_digits [OF assms] obtain a b e f where s: "s = [a, b, CHR '':'', e, f]"
    and d: "is_digit a" "is_digit b" "is_digit e" "is_digit f"
    and lt: "10 * (code a - 48) + (code b - 48) < (24::nat)" "10 * (code e - 48) + (code f - 48) < (60::nat)" by blast
  have "a \<noteq> CHR '':''" "b \<noteq> CHR '':''" using d by (auto simp: is_digit_def)
  then have "split_once (CHR '':'') s = [[a, b], [e, f]]" by (simp add: s)
  then have p: "parse_time s = (int (10 * (code a - 48) + (code b - 48)), int (10 * (code e - 48) + (code f - 48)))"
    by (simp add: parse_time_def py_int_two_digits d)
  have "code b - 48 < 10" "code f - 48 < 10" using d by (auto simp: is_digit_def)
  then have "s = map ((!) ''0123456789'') [(10 * (code a - 48) + (code b - 48)) div 10, (10 * (code a - 48) + (code b - 48)) mod 10]
      @ '':'' @ map ((!) ''0123456789'') [(10 * (code e - 48) + (code f - 48)) div 10, (10 * (code e - 48) + (code f - 48)) mod 10]"
    using d by (simp add: s digit_of_code del: nth_Cons_numeral)
  then show ?thesis using p lt by blast
qed

section \<open>Properties\<close>

text \<open>C32: a mail schedule that is created from a valid request with the time HH:MM runs next at hour HH and minute MM,
  not before now and within the next 24 hours.\<close>

theorem next_run_within_a_day:
  assumes "table_ok (email_schedules d)" and "valid_email_create req"
    and "create_email_schedule req now d = Inr (r, d')"
  shows "\<exists>s n h m. tget (email_schedules d') (next_id (email_schedules d)) = Some s \<and> es_next_run_at s = Some n
    \<and> now \<le> n \<and> n < now + day_us
    \<and> h < 24 \<and> m < 60 \<and> ec_time req = map ((!) ''0123456789'') [h div 10, h mod 10] @ '':''
                                @ map ((!) ''0123456789'') [m div 10, m mod 10]
    \<and> n mod day_us = int h * 3600000000 + int m * 60000000"
proof -
  from create_email_effect [OF assms(3)] obtain s n where
    d': "d' = d\<lparr>email_schedules := tins s (email_schedules d)\<rparr>" "compute_next_run (ec_time req) now = Inr n"
      "es_next_run_at s = Some n" by blast
  from assms(2) have "valid_time (ec_time req)" by (simp add: valid_email_create_def)
  from parse_valid_time [OF this] obtain h m where hm: "parse_time (ec_time req) = (int h, int m)" "h < 24" "m < 60"
    and t: "ec_time req = map ((!) ''0123456789'') [h div 10, h mod 10] @ '':''
              @ map ((!) ''0123456789'') [m div 10, m mod 10]" by blast
  have "0 \<le> int h" "int h < 24" "0 \<le> int m" "int m < 60" using hm by simp_all
  from next_run_bounds [OF this hm(1), of now] d' have "tget (email_schedules d') (next_id (email_schedules d)) = Some s"
    "now \<le> n" "n < now + day_us" "n mod day_us = int h * 3600000000 + int m * 60000000"
    by (simp_all add: tget_tins [OF assms(1)] hour_us_def minute_us_def)
  then show ?thesis using d'(3) hm(2,3) t by blast
qed

definition sample_email_request :: email_schedule_create where
  "sample_email_request = \<lparr>ec_company_id = 1, ec_recipient = ''a@x'', ec_frequency = WEEKLY, ec_weekday = None,
     ec_day_of_month = None, ec_time = ''09:30'', ec_format = PDF, ec_enabled = True\<rparr>"

lemma sample_email_valid: "valid_email_create sample_email_request"
  by code_simp

lemma sample_email_returns: "\<not> isl (create_email_schedule sample_email_request 36000000000 sample_db)"
  by code_simp

lemma sample_emails_ok: "email_schedules_ok (email_schedules sample_db)"
  using sample_schema_ok by (simp add: schema_ok_def)

theorem next_run_within_a_day_witness:
  "\<exists>r d' s n. create_email_schedule sample_email_request 36000000000 sample_db = Inr (r, d')
     \<and> tget (email_schedules d') 1 = Some s \<and> es_next_run_at s = Some n \<and> 36000000000 \<le> n
     \<and> n < 36000000000 + day_us"
proof -
  obtain r d' where c: "create_email_schedule sample_email_request 36000000000 sample_db = Inr (r, d')"
    using returned [OF sample_email_returns] by blast
  have "table_ok (email_schedules sample_db)" using sample_emails_ok by (simp add: email_schedules_ok_def)
  moreover have "next_id (email_schedules sample_db) = 1" by (simp add: sample_defs)
  ultimately show ?thesis using next_run_within_a_day [OF _ sample_email_valid c] c by fastforce
qed

text \<open>An update that names a frequency leaves the schedule with the fields of that frequency only: no day
  for daily, a weekday (Monday by default) for weekly, a day of the month (the first by default) for
  monthly.  An update that names none leaves both day fields as they were, also when it carries new
  ones.\<close>

lemma email_schedule_modes:
  assumes "update_email_schedule i req sc now d = Inr (r, d')" and "tget (email_schedules d) i = Some s"
  shows "\<exists>s'. tget (email_schedules d') i = Some s'
    \<and> (eu_frequency req = Some DAILY \<longrightarrow> es_weekday s' = None \<and> es_day_of_month s' = None)
    \<and> (eu_frequency req = Some WEEKLY \<longrightarrow> es_day_of_month s' = None \<and> es_weekday s' \<noteq> None
         \<and> (\<forall>w. eu_weekday req = Some w \<longrightarrow> es_weekday s' = Some (weekday_value w))
         \<and> (eu_weekday req = None \<and> es_weekday s = None \<longrightarrow> es_weekday s' = Some ''MON''))
    \<and> (eu_frequency req = Some MONTHLY \<longrightarrow> es_weekday s' = None \<and> es_day_of_month s' \<noteq> None
         \<and> (eu_day_of_month req = None \<and> es_day_of_month s = None \<longrightarrow> es_day_of_month s' = Some 1))
    \<and> (eu_frequency req = None \<longrightarrow> es_weekday s' = es_weekday s \<and> es_day_of_month s' = es_day_of_month s)"
proof -
  from update_email_effect [OF assms(1)] assms(2) obtain s' where
    d': "d' = d\<lparr>email_schedules := tupd i s' (email_schedules d)\<rparr>"
    and m: "es_weekday s' = es_weekday (apply_frequency req (eu_frequency req) s)"
      "es_day_of_month s' = es_day_of_month (apply_frequency req (eu_frequency req) s)" by auto
  have "weekday_value w \<noteq> []" for w by (cases w) simp_all
  then show ?thesis using assms(2) m
    by (intro exI [of _ s']) (auto simp: d' tget_tupd or_str_def or_default_def)
qed

text \<open>The sample schedule, and an update that carries a weekday but no frequency.\<close>

definition email_db :: db where
  "email_db = snd (projr (create_email_schedule sample_email_request 36000000000 sample_db))"

definition sample_weekday_update :: email_schedule_update where
  "sample_weekday_update = \<lparr>eu_company_id = None, eu_recipient = None, eu_frequency = None, eu_weekday = Some FRI,
     eu_day_of_month = None, eu_time = None, eu_format = None, eu_enabled = None\<rparr>"

lemma email_schedule_modes_witness:
  "\<exists>r d' s. update_email_schedule 1 sample_weekday_update None 0 email_db = Inr (r, d')
     \<and> tget (email_schedules d') 1 = Some s \<and> es_weekday s = None"
proof -
  have "\<not> isl (update_email_schedule 1 sample_weekday_update None 0 email_db)
    \<and> map_option es_weekday (tget (email_schedules email_db) 1) = Some None" by code_simp
  then obtain r d' s where "update_email_schedule 1 sample_weekday_update None 0 email_db = Inr (r, d')"
    "tget (email_schedules email_db) 1 = Some s" "es_weekday s = None"
    using returned [of "update_email_schedule 1 sample_weekday_update None 0 email_db"] by auto
  with email_schedule_modes [OF this(1,2)] show ?thesis by (auto simp: sample_weekday_update_def)
qed

end
