(* ===== verification/Journals.thy ===== *)
theory Journals
  imports EmailSchedules Security
begin

text \<open>
  Rendering a work journal: \<open>WorkJournalRenderService\<close> of app/services/document.py, the table handed to
  app/integrations/xlsx.py and the download endpoints of app/api/v1/work_journals.py.

  Texts that leave the program are modelled by their UTF-8 bytes; the Korean words of the templates
  are byte literals.  WeasyPrint and openpyxl are libraries: \<open>renderers\<close> holds the two functions, from
  an HTML text and from the rows of a sheet to the bytes of a file.
\<close>

section \<open>ISO dates\<close>

text \<open>
  The civil date of a day number (days since 0001-01-01 in the proleptic Gregorian calendar), as
  \<open>datetime.date\<close> has it, and \<open>isoformat()\<close>.
\<close>

definition civil_of_days :: "date \<Rightarrow> int \<times> int \<times> int" where
  "civil_of_days d =
     (let z = d + 306;
          era = z div 146097;
          doe = z mod 146097;
          yoe = (doe - doe div 1460 + doe div 36524 - doe div 146096) div 365;
          doy = doe - (365 * yoe + yoe div 4 - yoe div 100);
          mp = (5 * doy + 2) div 153;
          dd = doy - (153 * mp + 2) div 5 + 1;
          mm = (if mp < 10 then mp + 3 else mp - 9)
      in (yoe + era * 400 + (if mm \<le> 2 then 1 else 0), mm, dd))"

definition zero_pad :: "nat \<Rightarrow> int \<Rightarrow> string" where
  "zero_pad n i = (let s = str_of_int i in replicate (n - length s) (CHR ''0'') @ s)"

definition iso_date :: "date \<Rightarrow> string" where
  "iso_date d = (let (y, m, dd) = civil_of_days d in zero_pad 4 y @ ''-'' @ zero_pad 2 m @ ''-'' @ zero_pad 2 dd)"

definition iso_datetime :: "datetime \<Rightarrow> string" where
  "iso_datetime t =
     (let r = t mod day_us; us = r mod 1000000; secs = r div 1000000
      in iso_date (date_of t) @ ''T'' @ zero_pad 2 (secs div 3600) @ '':'' @ zero_pad 2 (secs div 60 mod 60)
         @ '':'' @ zero_pad 2 (secs mod 60) @ (if us = 0 then [] else ''.'' @ zero_pad 6 us))"

section \<open>The document\<close>

type_synonym bytes = "nat list"

record renderers =
  rd_pdf :: "bytes \<Rightarrow> exn + bytes"
  rd_workbook :: "string \<Rightarrow> string list list \<Rightarrow> exn + bytes"

record journal_row =
  jr_type :: string
  jr_start_at :: string
  jr_end_at :: string

definition journal_row_of :: "work_record \<Rightarrow> journal_row" where
  "journal_row_of r = \<lparr>jr_type = record_type_value (wr_type r), jr_start_at = iso_datetime (wr_start_at r),
     jr_end_at = (case wr_end_at r of None \<Rightarrow> [] | Some t \<Rightarrow> iso_datetime t)\<rparr>"

definition journal_word :: bytes where
  "journal_word = [234, 183, 188, 235, 172, 180, 236, 157, 188, 236, 167, 128]"

definition journal_title :: "int \<Rightarrow> job_standard option \<Rightarrow> bytes" where
  "journal_title schedule_id standard =
     journal_word @ utf8_encode ('' - schedule='' @ str_of_int schedule_id @ '' - ''
       @ (case standard of None \<Rightarrow> [] | Some s \<Rightarrow> js_name s))"

definition journal_html :: "bytes \<Rightarrow> journal_row list \<Rightarrow> bytes" where
  "journal_html title rs =
     (let rows_html = concat (map (\<lambda>r. utf8_encode (''<tr><td>'' @ jr_type r @ ''</td><td>'' @ jr_start_at r
            @ ''</td><td>'' @ jr_end_at r @ ''</td></tr>'')) rs)
      in [10] @ utf8_encode ''        <!doctype html>'' @ [10]
         @ utf8_encode ''        <html lang='' @ [34] @ utf8_encode ''ko'' @ [34] @ utf8_encode ''>'' @ [10]
         @ utf8_encode ''        <head><meta charset='' @ [34] @ utf8_encode ''utf-8'' @ [34]
         @ utf8_encode ''><title>'' @ title @ utf8_encode ''</title>'' @ [10]
         @ utf8_encode ''        <style>body{font-family:sans-serif}table{border-collapse:collapse;width:100%}'' @ [10]
         @ utf8_encode ''        th,td{border:1px solid #999;padding:6px}</style></head>'' @ [10]
         @ utf8_encode ''        <body><h1>'' @ title @ utf8_encode ''</h1>'' @ [10]
         @ utf8_encode ''        <table><thead><tr><th>type</th><th>start</th><th>end</th></tr></thead>'' @ [10]
         @ utf8_encode ''        <tbody>'' @ rows_html @ utf8_encode ''</tbody></table></body></html>'' @ [10]
         @ utf8_encode ''        '')"

text \<open>\<open>render_journal_xlsx\<close>: one sheet, the header and one line per row.\<close>

definition journal_sheet :: "journal_row list \<Rightarrow> string list list" where
  "journal_sheet rs = [''type'', ''start_at'', ''end_at''] # map (\<lambda>r. [jr_type r, jr_start_at r, jr_end_at r]) rs"

definition render_journal_xlsx :: "renderers \<Rightarrow> journal_row list \<Rightarrow> exn + bytes" where
  "render_journal_xlsx R rs = rd_workbook R ''WorkJournal'' (journal_sheet rs)"

text \<open>The placeholder of the format that has no renderer.\<close>

definition hwp_placeholder :: "bytes \<Rightarrow> bytes" where
  "hwp_placeholder title =
     utf8_encode ''[HWP placeholder] '' @ title @ [10]
     @ utf8_encode ''('' @ [235, 160, 140, 235, 141, 148, 235, 159, 172] @ utf8_encode '' ''
     @ [235, 175, 184, 234, 181, 172, 237, 152, 132] @ utf8_encode '')'' @ [10]"

section \<open>The service\<close>

definition owner_company :: "work_schedule \<Rightarrow> db \<Rightarrow> int option" where
  "owner_company s d =
     Option.bind (tget (job_workers d) (ws_job_worker_id s)) (\<lambda>jw.
       map_option cw_company_id (tget (company_workers d) (jw_company_worker_id jw)))"

definition journal_rows :: "int \<Rightarrow> db \<Rightarrow> journal_row list" where
  "journal_rows schedule_id d =
     map (\<lambda>(i, r). journal_row_of r)
       (order_by (\<lambda>(i, r). wr_start_at r) (tsel (\<lambda>i r. wr_schedule_id r = schedule_id) (records d)))"

definition render_document :: "renderers \<Rightarrow> bytes \<Rightarrow> journal_row list \<Rightarrow> journal_format \<Rightarrow> exn + bytes" where
  "render_document R title rs fmt =
     (case fmt of
        PDF \<Rightarrow> rd_pdf R (journal_html title rs)
      | XLSX \<Rightarrow> render_journal_xlsx R rs
      | HWP \<Rightarrow> Inr (hwp_placeholder title))"

definition render_journal :: "renderers \<Rightarrow> int \<Rightarrow> journal_format \<Rightarrow> scope \<Rightarrow> db \<Rightarrow> exn + bytes" where
  "render_journal R schedule_id fmt company_scope d =
     some_or (tget (schedules d) schedule_id) (err WORK_SCHEDULE_NOT_FOUND) (\<lambda>s.
     let_ok (if company_scope = None then Inr () else assert_company company_scope (owner_company s d)) (\<lambda>_.
       render_document R (journal_title schedule_id (tget (standards d) (ws_standard_id s)))
         (journal_rows schedule_id d) fmt))"

section \<open>Endpoints\<close>

record journal_file =
  jf_content :: bytes
  jf_media_type :: string
  jf_disposition :: string

definition file_response_of :: "bytes \<Rightarrow> int \<Rightarrow> journal_format \<Rightarrow> journal_file" where
  "file_response_of body schedule_id fmt =
     \<lparr>jf_content = body, jf_media_type = format_content_type fmt,
      jf_disposition = ''attachment; filename='' @ [CHR 0x22] @ ''work-journal-'' @ str_of_int schedule_id @ ''.''
        @ format_extension fmt @ [CHR 0x22]\<rparr>"

definition api_download_file :: "renderers \<Rightarrow> int \<Rightarrow> journal_format \<Rightarrow> scope \<Rightarrow> db \<Rightarrow> exn + journal_file" where
  "api_download_file R schedule_id fmt scope d =
     let_ok (render_journal R schedule_id fmt scope d) (\<lambda>body. Inr (file_response_of body schedule_id fmt))"

definition api_download_pdf :: "renderers \<Rightarrow> int \<Rightarrow> scope \<Rightarrow> db \<Rightarrow> exn + journal_file" where
  "api_download_pdf R schedule_id scope d = api_download_file R schedule_id PDF scope d"

section \<open>Lemmas\<close>

text \<open>Some days of the calendar.\<close>

lemma calendar_examples:
  "civil_of_days 0 = (1, 1, 1)" "civil_of_days 58 = (1, 2, 28)" "civil_of_days 719162 = (1970, 1, 1)"
  "civil_of_days 730178 = (2000, 2, 29)" "civil_of_days 738884 = (2023, 12, 31)"
  "civil_of_days 3652058 = (9999, 12, 31)"
  by code_simp+

lemma render_scope:
  "render_journal R i fmt (Some c) d = Inr b \<Longrightarrow>
   \<exists>s. tget (schedules d) i = Some s \<and> owner_company s d = Some c \<and> render_journal R i fmt None d = Inr b"
  by (auto simp: render_journal_def flow)

end
