(* ===== verification/BulkMail.thy ===== *)
theory BulkMail
  imports Journals "HOL-Library.Multiset"
begin

text \<open>
  Bulk mail of work journals: \<open>WorkJournalBulkEmailService\<close> and the background runners of
  app/services/document.py, the mail integration app/integrations/email.py, the DTOs in
  app/schemas/document.py and the endpoints on bulk mail in app/api/v1/work_journals.py.

  \<open>mailer\<close> holds the libraries: the ZIP writer, the Resend client (its answer is \<open>None\<close> when it is not
  a dictionary) and the order of PostgreSQL's collation.  A commit of the runner's own session may
  fail; whether the two commits succeed is an argument.
\<close>

section \<open>Mail\<close>

record attachment =
  at_filename :: string
  at_content :: bytes
  at_content_type :: string

text \<open>The payload of the Resend client; the content of an attachment is base64 text.\<close>

record mail =
  ml_from :: string
  ml_to :: "string list"
  ml_subject :: bytes
  ml_html :: bytes
  ml_attachments :: "(string \<times> string \<times> string) list"

record mailer =
  mx_zip :: "(string \<times> bytes) list \<Rightarrow> bytes"
  mx_send :: "mail \<Rightarrow> exn + jobject option"
  mx_rank :: "string \<Rightarrow> int"

text \<open>\<open>base64.b64encode\<close> of a list of bytes.\<close>

definition b64_char :: "nat \<Rightarrow> char" where
  "b64_char n = (if n < 26 then char_of (65 + n) else if n < 52 then char_of (71 + n)
     else if n < 62 then char_of (n - 4) else if n = 62 then CHR ''+'' else CHR ''/'')"

fun b64_encode :: "bytes \<Rightarrow> string" where
  "b64_encode [] = []"
| "b64_encode [a] = [b64_char (a div 4), b64_char (a mod 4 * 16), CHR ''='', CHR ''='']"
| "b64_encode [a, b] =
     [b64_char (a div 4), b64_char (a mod 4 * 16 + b div 16), b64_char (b mod 16 * 4), CHR ''='']"
| "b64_encode (a # b # c # bs) =
     b64_char (a div 4) # b64_char (a mod 4 * 16 + b div 16) # b64_char (b mod 16 * 4 + c div 64)
       # b64_char (c mod 64) # b64_encode bs"

definition send_email ::
    "settings \<Rightarrow> libs \<Rightarrow> mailer \<Rightarrow> string \<Rightarrow> bytes \<Rightarrow> bytes \<Rightarrow> attachment list \<Rightarrow> exn + string option" where
  "send_email s L X recipient subject html attachments =
     (if \<not> st_resend_enabled s \<or> \<not> truthy (st_resend_api_key s) then Inr None
      else let_ok (mx_send X
             \<lparr>ml_from = st_resend_from s, ml_to = [recipient], ml_subject = subject, ml_html = html,
              ml_attachments = map (\<lambda>a. (at_filename a, b64_encode (at_content a), at_content_type a)) attachments\<rparr>)
           (\<lambda>res. Inr (case res of None \<Rightarrow> None
                        | Some obj \<Rightarrow> Some (json_str L (claim obj ''id'' JNull)))))"

section \<open>Requests and responses\<close>

record bulk_email_request =
  bq_company_id :: int
  bq_date :: date
  bq_recipient :: string
  bq_format :: journal_format

record bulk_email_result =
  bs_sent :: bool
  bs_schedule_count :: int
  bs_recipient :: string
  bs_message :: "bytes option"
  bs_job_id :: "int option"

record bulk_job_response =
  jb_id :: int
  jb_company_id :: int
  jb_company_name :: "string option"
  jb_recipient :: string
  jb_target_date :: date
  jb_format :: string
  jb_status :: string
  jb_schedule_count :: int
  jb_truncated :: bool
  jb_message_id :: "string option"
  jb_error_message :: "string option"
  jb_requested_by :: "int option"
  jb_requested_by_name :: "string option"
  jb_started_at :: "datetime option"
  jb_finished_at :: "datetime option"
  jb_created_at :: datetime

record preview_item =
  pi_schedule_id :: int
  pi_worker_id :: int
  pi_worker_name :: string
  pi_standard_id :: int
  pi_standard_name :: string
  pi_start_at :: datetime
  pi_end_at :: "datetime option"
  pi_record_count :: int

record preview_response =
  pv_company_id :: int
  pv_company_name :: string
  pv_date :: date
  pv_journal_count :: int
  pv_items :: "preview_item list"

definition job_to_response :: "int \<Rightarrow> bulk_job \<Rightarrow> string option \<Rightarrow> string option \<Rightarrow> bulk_job_response" where
  "job_to_response i j company_name requester_name =
     \<lparr>jb_id = i, jb_company_id = bj_company_id j, jb_company_name = company_name,
      jb_recipient = bj_recipient j, jb_target_date = bj_target_date j, jb_format = bj_format j,
      jb_status = bj_status j, jb_schedule_count = bj_schedule_count j, jb_truncated = bj_truncated j,
      jb_message_id = bj_message_id j, jb_error_message = bj_error_message j,
      jb_requested_by = bj_requested_by j, jb_requested_by_name = requester_name,
      jb_started_at = bj_started_at j, jb_finished_at = bj_finished_at j, jb_created_at = bj_created_at j\<rparr>"

section \<open>Sending\<close>

definition max_bulk_schedules :: nat where "max_bulk_schedules = 300"

text \<open>The schedules of a company that start on a day, in the order of their start.\<close>

definition schedules_of_day :: "int \<Rightarrow> date \<Rightarrow> db \<Rightarrow> (int \<times> work_schedule) list" where
  "schedules_of_day company_id d db =
     order_by (\<lambda>(i, s). ws_start_at s)
       (tsel (\<lambda>i s. owner_company s db = Some company_id \<and> day_start d \<le> ws_start_at s \<and> ws_start_at s \<le> day_end d)
          (schedules db))"

record sent =
  sn_count :: int
  sn_message_id :: "string option"
  sn_truncated :: bool

definition journal_name :: "journal_format \<Rightarrow> int \<Rightarrow> string" where
  "journal_name fmt i = ''work-journal-'' @ str_of_int i @ ''.'' @ format_extension fmt"

fun render_all :: "renderers \<Rightarrow> journal_format \<Rightarrow> db \<Rightarrow> (int \<times> work_schedule) list \<Rightarrow> exn + (string \<times> bytes) list" where
  "render_all R fmt d [] = Inr []"
| "render_all R fmt d ((i, s) # ss) =
     let_ok (render_journal R i fmt None d) (\<lambda>body.
     let_ok (render_all R fmt d ss) (\<lambda>rest. Inr ((journal_name fmt i, body) # rest)))"

definition count_word :: bytes where "count_word = [234, 177, 180]"

definition truncation_note :: "int \<Rightarrow> int \<Rightarrow> bytes" where
  "truncation_note total_count kept =
     utf8_encode ''<p>'' @ [236, 163, 188, 236, 157, 152] @ utf8_encode '': '' @ [236, 131, 129, 237, 149, 156]
     @ utf8_encode (''('' @ str_of_int (int max_bulk_schedules)) @ count_word @ utf8_encode '')''
     @ [236, 157, 132] @ utf8_encode '' '' @ [236, 180, 136, 234, 179, 188, 237, 149, 180] @ utf8_encode '' ''
     @ [236, 160, 132, 236, 178, 180] @ utf8_encode ('' '' @ str_of_int total_count) @ count_word @ utf8_encode '' ''
     @ [236, 164, 145] @ utf8_encode ('' '' @ str_of_int kept) @ [234, 177, 180, 235, 167, 140] @ utf8_encode '' ''
     @ [236, 178, 168, 235, 182, 128, 237, 150, 136, 236, 138, 181, 235, 139, 136, 235, 139, 164] @ utf8_encode ''. ''
     @ [235, 130, 160, 236, 167, 156, 194, 183, 237, 154, 140, 236, 130, 172] @ utf8_encode '' ''
     @ [235, 178, 148, 236, 156, 132, 235, 165, 188] @ utf8_encode '' '' @ [236, 162, 129, 237, 152, 128] @ utf8_encode '' ''
     @ [235, 139, 164, 236, 139, 156] @ utf8_encode '' ''
     @ [235, 179, 180, 235, 130, 180, 236, 132, 184, 236, 154, 148] @ utf8_encode ''.</p>''"

definition bulk_subject :: "date \<Rightarrow> int \<Rightarrow> bytes" where
  "bulk_subject d n =
     journal_word @ utf8_encode '' '' @ [236, 157, 188, 234, 180, 132] @ utf8_encode ('' ('' @ iso_date d @ '') '')
     @ [226, 128, 148] @ utf8_encode ('' '' @ str_of_int n) @ count_word"

definition bulk_html :: "date \<Rightarrow> int \<Rightarrow> bytes \<Rightarrow> bytes" where
  "bulk_html d n note =
     utf8_encode (''<p>'' @ iso_date d @ '' '') @ [236, 158, 144] @ utf8_encode '' '' @ journal_word
     @ utf8_encode ('' '' @ str_of_int n) @ [234, 177, 180, 236, 157, 132] @ utf8_encode '' ''
     @ [236, 178, 168, 235, 182, 128, 237, 149, 169, 235, 139, 136, 235, 139, 164] @ utf8_encode ''.</p>'' @ note"

definition send_bulk ::
    "settings \<Rightarrow> libs \<Rightarrow> renderers \<Rightarrow> mailer \<Rightarrow> int \<Rightarrow> date \<Rightarrow> string \<Rightarrow> journal_format \<Rightarrow> db \<Rightarrow> exn + sent" where
  "send_bulk s L R X company_id day recipient fmt d =
     (let ss = schedules_of_day company_id day d
      in if ss = [] then Inr \<lparr>sn_count = 0, sn_message_id = None, sn_truncated = False\<rparr>
         else (let truncated = max_bulk_schedules < length ss;
                   kept = take max_bulk_schedules ss;
                   n = int (length kept);
                   note = (if truncated then truncation_note (int (length ss)) n else [])
               in let_ok (render_all R fmt d kept) (\<lambda>files.
                  let_ok (send_email s L X recipient (bulk_subject day n) (bulk_html day n note)
                     [\<lparr>at_filename = ''work-journals-'' @ iso_date day @ ''.zip'', at_content = mx_zip X files,
                       at_content_type = ''application/zip''\<rparr>])
                   (\<lambda>msg_id. Inr \<lparr>sn_count = n, sn_message_id = msg_id, sn_truncated = truncated\<rparr>))))"

section \<open>Preview\<close>

text \<open>The inner joins of the preview, and one item per schedule.\<close>

definition preview_item_of :: "int \<Rightarrow> date \<Rightarrow> db \<Rightarrow> int \<times> work_schedule \<Rightarrow> preview_item option" where
  "preview_item_of company_id day d = (\<lambda>(i, s).
     Option.bind (tget (job_workers d) (ws_job_worker_id s)) (\<lambda>jw.
     Option.bind (tget (company_workers d) (jw_company_worker_id jw)) (\<lambda>cw.
     Option.bind (tget (workers d) (cw_worker_id cw)) (\<lambda>w.
     Option.bind (tget (users d) (w_user_id w)) (\<lambda>u.
     Option.bind (tget (standards d) (ws_standard_id s)) (\<lambda>std.
       if cw_company_id cw = company_id \<and> day_start day \<le> ws_start_at s \<and> ws_start_at s \<le> day_end day
       then Some \<lparr>pi_schedule_id = i, pi_worker_id = cw_worker_id cw, pi_worker_name = u_name u,
                  pi_standard_id = ws_standard_id s, pi_standard_name = js_name std,
                  pi_start_at = ws_start_at s, pi_end_at = ws_end_at s,
                  pi_record_count = int (length (tsel (\<lambda>k r. wr_schedule_id r = i) (records d)))\<rparr>
       else None))))))"

definition preview :: "mailer \<Rightarrow> int \<Rightarrow> date \<Rightarrow> db \<Rightarrow> preview_response" where
  "preview X company_id day d =
     (let items = order_by (\<lambda>p. mx_rank X (pi_worker_name p)) (order_by pi_start_at
            (List.map_filter (preview_item_of company_id day d) (rows (schedules d))))
      in \<lparr>pv_company_id = company_id,
          pv_company_name = (case tget (companies d) company_id of None \<Rightarrow> [] | Some c \<Rightarrow> co_name c),
          pv_date = day, pv_journal_count = int (length items), pv_items = items\<rparr>)"

section \<open>Jobs\<close>

definition create_job ::
    "int \<Rightarrow> date \<Rightarrow> string \<Rightarrow> journal_format \<Rightarrow> int option \<Rightarrow> datetime \<Rightarrow> db \<Rightarrow> exn + (bulk_job_response \<times> db)" where
  "create_job company_id day recipient fmt requested_by now d =
     raise_if (tget (companies d) company_id = None
         \<or> (\<exists>u \<in> set_option requested_by. tget (users d) u = None)) IntegrityError
     (let j = \<lparr>bj_company_id = company_id, bj_recipient = recipient, bj_target_date = day,
               bj_format = format_value fmt, bj_status = ''QUEUED'', bj_schedule_count = 0,
               bj_truncated = False, bj_message_id = None, bj_error_message = None,
               bj_requested_by = requested_by, bj_started_at = None, bj_finished_at = None,
               bj_created_at = now\<rparr>
      in Inr (job_to_response (next_id (bulk_jobs d)) j (company_name_of company_id d) None,
              d\<lparr>bulk_jobs := tins j (bulk_jobs d)\<rparr>))"

definition mark_sending :: "int \<Rightarrow> datetime \<Rightarrow> db \<Rightarrow> db option" where
  "mark_sending job_id now d =
     map_option (\<lambda>j. d\<lparr>bulk_jobs := tupd job_id (j\<lparr>bj_status := ''SENDING'', bj_started_at := Some now\<rparr>) (bulk_jobs d)\<rparr>)
       (tget (bulk_jobs d) job_id)"

fun finish_job :: "exn + sent \<Rightarrow> datetime \<Rightarrow> bulk_job \<Rightarrow> bulk_job" where
  "finish_job (Inr r) now j =
     j\<lparr>bj_status := ''SUCCESS'', bj_schedule_count := sn_count r, bj_truncated := sn_truncated r,
       bj_message_id := sn_message_id r, bj_finished_at := Some now\<rparr>"
| "finish_job (Inl e) now j =
     j\<lparr>bj_status := ''FAILED'', bj_error_message := Some (take 1000 (exn_str e)), bj_finished_at := Some now\<rparr>"

definition complete_job ::
    "settings \<Rightarrow> libs \<Rightarrow> renderers \<Rightarrow> mailer \<Rightarrow> int \<Rightarrow> datetime \<Rightarrow> db \<Rightarrow> db" where
  "complete_job s L R X job_id now d =
     (case tget (bulk_jobs d) job_id of
        None \<Rightarrow> d
      | Some j \<Rightarrow>
          (let res = let_ok (enum_of_string format_members (bj_format j)) (\<lambda>fmt.
                       send_bulk s L R X (bj_company_id j) (bj_target_date j) (bj_recipient j) fmt d)
           in d\<lparr>bulk_jobs := tupd job_id (finish_job res now j) (bulk_jobs d)\<rparr>))"

definition run_job ::
    "settings \<Rightarrow> libs \<Rightarrow> renderers \<Rightarrow> mailer \<Rightarrow> int \<Rightarrow> datetime \<Rightarrow> datetime \<Rightarrow> db \<Rightarrow> db" where
  "run_job s L R X job_id started finished d =
     (case mark_sending job_id started d of None \<Rightarrow> d | Some d' \<Rightarrow> complete_job s L R X job_id finished d')"

definition get_job :: "int \<Rightarrow> scope \<Rightarrow> db \<Rightarrow> exn + bulk_job_response" where
  "get_job job_id company_scope d =
     some_or (Option.bind (tget (bulk_jobs d) job_id) (\<lambda>j.
         map_option (\<lambda>c. (j, co_name c)) (tget (companies d) (bj_company_id j)))) (business RESOURCE_NOT_FOUND None)
       (\<lambda>(j, cname).
       let_ok (assert_company company_scope (Some (bj_company_id j))) (\<lambda>_.
         Inr (job_to_response job_id j (Some cname)
           (Option.bind (bj_requested_by j) (\<lambda>u. map_option u_name (tget (users d) u))))))"

definition list_jobs :: "int option \<Rightarrow> int \<Rightarrow> db \<Rightarrow> bulk_job_response list" where
  "list_jobs company_id limit d =
     take (nat limit) (List.map_filter (\<lambda>(i, j).
         map_option (\<lambda>c. job_to_response i j (Some (co_name c))
             (Option.bind (bj_requested_by j) (\<lambda>u. map_option u_name (tget (users d) u))))
           (tget (companies d) (bj_company_id j)))
       (order_by_desc fst (tsel (\<lambda>i j. opt_filter company_id (\<lambda>c j. bj_company_id j = c) j) (bulk_jobs d))))"

section \<open>The runner\<close>

text \<open>
  \<open>run_bulk_email_job\<close> yields the database states it commits, in order: the first shows \<open>SENDING\<close>, the
  second the outcome.  \<open>first\<close> and \<open>second\<close> say whether the commits succeed; a failed one is rolled back
  and ends the runner.
\<close>

definition run_bulk_email_job ::
    "settings \<Rightarrow> libs \<Rightarrow> renderers \<Rightarrow> mailer \<Rightarrow> bool \<Rightarrow> bool \<Rightarrow> int \<Rightarrow> datetime \<Rightarrow> datetime \<Rightarrow> db \<Rightarrow> db list" where
  "run_bulk_email_job s L R X first second job_id started finished d =
     (case mark_sending job_id started d of
        None \<Rightarrow> []
      | Some d1 \<Rightarrow> if \<not> first then []
                  else d1 # (if second then [complete_job s L R X job_id finished d1] else []))"

text \<open>The runner of the read-only mode sends and records nothing; an error ends the task.\<close>

definition run_bulk_email_inert ::
    "settings \<Rightarrow> libs \<Rightarrow> renderers \<Rightarrow> mailer \<Rightarrow> int \<Rightarrow> date \<Rightarrow> string \<Rightarrow> journal_format \<Rightarrow> db \<Rightarrow> exn + db" where
  "run_bulk_email_inert s L R X company_id day recipient fmt d =
     let_ok (send_bulk s L R X company_id day recipient fmt d) (\<lambda>_. Inr d)"

section \<open>Endpoints\<close>

text \<open>The two messages of the answer, in UTF-8.\<close>

definition read_only_message :: bytes where
  "read_only_message =
     utf8_encode ''read-only '' @ [235, 170, 168, 235, 147, 156] @ utf8_encode '' '' @ [226, 128, 148]
     @ utf8_encode '' '' @ [235, 176, 156, 236, 134, 161, 235, 167, 140] @ utf8_encode '' ''
     @ [237, 129, 144, 236, 158, 137] @ utf8_encode ''('' @ [236, 157, 180, 235, 160, 165]
     @ utf8_encode '' '' @ [234, 184, 176, 235, 161, 157] @ utf8_encode '' ''
     @ [236, 131, 157, 235, 158, 181] @ utf8_encode '').''"

definition queued_message :: bytes where
  "queued_message =
     utf8_encode ''queued '' @ [226, 128, 148] @ utf8_encode '' ''
     @ [235, 176, 177, 234, 183, 184, 235, 157, 188, 236, 154, 180, 235, 147, 156] @ utf8_encode '' ''
     @ [235, 176, 156, 236, 134, 161] @ utf8_encode '' '' @ [236, 139, 156, 236, 158, 145]
     @ utf8_encode ''. '' @ [236, 167, 132, 237, 150, 137] @ utf8_encode '' ''
     @ [236, 131, 129, 237, 131, 156, 235, 138, 148] @ utf8_encode '' '' @ [235, 176, 156, 236, 134, 161]
     @ utf8_encode '' '' @ [236, 157, 180, 235, 160, 165, 236, 151, 144, 236, 132, 156] @ utf8_encode '' ''
     @ [237, 153, 149, 236, 157, 184, 237, 149, 152, 236, 132, 184, 236, 154, 148] @ utf8_encode ''.''"

datatype task = Run_job int | Run_inert int date string journal_format

definition api_bulk_email ::
    "settings \<Rightarrow> bulk_email_request \<Rightarrow> scope \<Rightarrow> principal \<Rightarrow> datetime \<Rightarrow> db \<Rightarrow> exn + (bulk_email_result \<times> task \<times> db)" where
  "api_bulk_email s req scope actor now d =
     let_ok (assert_company scope (Some (bq_company_id req))) (\<lambda>_.
       if st_app_read_only s
       then Inr (\<lparr>bs_sent = False, bs_schedule_count = 0, bs_recipient = bq_recipient req,
                  bs_message = Some read_only_message, bs_job_id = None\<rparr>,
                 Run_inert (bq_company_id req) (bq_date req) (bq_recipient req) (bq_format req), d)
       else let_ok (create_job (bq_company_id req) (bq_date req) (bq_recipient req) (bq_format req)
                      (Some (pr_user_id actor)) now d) (\<lambda>(r, d').
            Inr (\<lparr>bs_sent = False, bs_schedule_count = 0, bs_recipient = bq_recipient req,
                  bs_message = Some queued_message, bs_job_id = Some (jb_id r)\<rparr>, Run_job (jb_id r), d')))"

definition api_list_jobs :: "scope \<Rightarrow> int option \<Rightarrow> int \<Rightarrow> db \<Rightarrow> exn + bulk_job_response list" where
  "api_list_jobs scope company_id limit d =
     let_ok (resolve_company_filter scope company_id) (\<lambda>c. Inr (list_jobs c limit d))"

definition api_preview :: "mailer \<Rightarrow> scope \<Rightarrow> int \<Rightarrow> date \<Rightarrow> db \<Rightarrow> exn + preview_response" where
  "api_preview X scope company_id day d =
     let_ok (assert_company scope (Some company_id)) (\<lambda>_. Inr (preview X company_id day d))"

section \<open>Lemmas\<close>

lemma create_job_effect:
  "create_job c day rcp fmt who now d = Inr (r, d') \<Longrightarrow>
   \<exists>j. d' = d\<lparr>bulk_jobs := tins j (bulk_jobs d)\<rparr> \<and> bj_status j = ''QUEUED'' \<and> bj_company_id j = c
     \<and> bj_format j = format_value fmt \<and> bj_target_date j = day \<and> bj_recipient j = rcp \<and> jb_id r = next_id (bulk_jobs d)
     \<and> tget (companies d) c \<noteq> None"
  by (auto simp: create_job_def Let_def flow job_to_response_def)

lemma mark_sending_effect:
  "mark_sending i now d = Some d' \<Longrightarrow> \<exists>j. tget (bulk_jobs d) i = Some j
     \<and> d' = d\<lparr>bulk_jobs := tupd i (j\<lparr>bj_status := ''SENDING'', bj_started_at := Some now\<rparr>) (bulk_jobs d)\<rparr>"
  by (auto simp: mark_sending_def)

lemma finish_job_fields [simp]:
  "bj_company_id (finish_job res now j) = bj_company_id j" "bj_format (finish_job res now j) = bj_format j"
  "bj_status (finish_job res now j) = (if isl res then ''FAILED'' else ''SUCCESS'')"
  by (cases res; simp)+

lemma complete_job_effect:
  "complete_job s L R X i now d = d \<or> (\<exists>j res. tget (bulk_jobs d) i = Some j
     \<and> complete_job s L R X i now d = d\<lparr>bulk_jobs := tupd i (finish_job res now j) (bulk_jobs d)\<rparr>)"
  by (auto simp: complete_job_def Let_def split: option.splits)

lemma bulk_jobs_ok_create:
  "bulk_jobs_ok (bulk_jobs d) \<Longrightarrow> create_job c day rcp fmt who now d = Inr (r, d') \<Longrightarrow> bulk_jobs_ok (bulk_jobs d')"
  by (auto simp: bulk_jobs_ok_def job_statuses_def dest!: create_job_effect)

lemma bulk_jobs_ok_sending:
  "bulk_jobs_ok (bulk_jobs d) \<Longrightarrow> mark_sending i now d = Some d' \<Longrightarrow> bulk_jobs_ok (bulk_jobs d')"
  by (auto simp: bulk_jobs_ok_def job_statuses_def dest!: mark_sending_effect elim!: all_rows_change)

lemma bulk_jobs_ok_complete:
  assumes "bulk_jobs_ok (bulk_jobs d)"
  shows "bulk_jobs_ok (bulk_jobs (complete_job s L R X i now d))"
  using complete_job_effect [of s L R X i now d]
proof
  assume "\<exists>j res. tget (bulk_jobs d) i = Some j
     \<and> complete_job s L R X i now d = d\<lparr>bulk_jobs := tupd i (finish_job res now j) (bulk_jobs d)\<rparr>"
  then obtain j res where j: "tget (bulk_jobs d) i = Some j"
    and d': "complete_job s L R X i now d = d\<lparr>bulk_jobs := tupd i (finish_job res now j) (bulk_jobs d)\<rparr>" by blast
  have "bj_format j \<in> set formats" using assms j by (auto simp: bulk_jobs_ok_def dest: all_rows_tget)
  then show ?thesis using assms unfolding d'
    by (simp add: bulk_jobs_ok_def job_statuses_def all_rows_tupd)
qed (use assms in simp)

section \<open>The life of a job\<close>

text \<open>The specification: a job is queued once, then sent once, then it has succeeded or failed for good.\<close>

datatype phase = Queued | Sending | Succeeded | Failed

fun phase_rank :: "phase \<Rightarrow> nat" where
  "phase_rank Queued = 0"
| "phase_rank Sending = 1"
| "phase_rank Succeeded = 2"
| "phase_rank Failed = 3"

instantiation phase :: linorder
begin

definition less_eq_phase :: "phase \<Rightarrow> phase \<Rightarrow> bool" where
  "p \<le> q \<longleftrightarrow> phase_rank p \<le> phase_rank q"

definition less_phase :: "phase \<Rightarrow> phase \<Rightarrow> bool" where
  "(p :: phase) < q \<longleftrightarrow> phase_rank p < phase_rank q"

instance
proof
  fix p q :: phase
  assume "p \<le> q" "q \<le> p"
  then show "p = q" unfolding less_eq_phase_def by (cases p; cases q) simp_all
qed (auto simp: less_eq_phase_def less_phase_def)

end

inductive phase_step :: "(int \<Rightarrow> phase option) \<Rightarrow> (int \<Rightarrow> phase option) \<Rightarrow> bool" where
  stay: "phase_step m m"
| request: "m i = None \<Longrightarrow> phase_step m (m(i \<mapsto> Queued))"
| start: "m i = Some Queued \<Longrightarrow> phase_step m (m(i \<mapsto> Sending))"
| success: "m i = Some Sending \<Longrightarrow> phase_step m (m(i \<mapsto> Succeeded))"
| failure: "m i = Some Sending \<Longrightarrow> phase_step m (m(i \<mapsto> Failed))"

definition phase_members :: "(phase \<times> string) list" where
  "phase_members = [(Queued, ''QUEUED''), (Sending, ''SENDING''), (Succeeded, ''SUCCESS''), (Failed, ''FAILED'')]"

definition phase_of :: "string \<Rightarrow> phase option" where
  "phase_of st = map_option fst (find (\<lambda>(p, v). v = st) phase_members)"

text \<open>The phases of the jobs of a database: the abstraction.\<close>

definition phases :: "db \<Rightarrow> int \<Rightarrow> phase option" where
  "phases d = (\<lambda>i. Option.bind (tget (bulk_jobs d) i) (\<lambda>j. phase_of (bj_status j)))"

text \<open>
  The program: the database, the background tasks that wait and the runners between their two commits.
  A request creates a job and leaves a task; a task starts or gives up (no row, or the commit fails); a
  runner completes or gives up; the process may die with everything it had in memory; any other
  request may change the rest of the database.
\<close>

type_synonym runner_state = "db \<times> int list \<times> int list"

inductive bulk_step ::
    "settings \<Rightarrow> libs \<Rightarrow> renderers \<Rightarrow> mailer \<Rightarrow> runner_state \<Rightarrow> runner_state \<Rightarrow> bool"
  for s L R X where
  requested: "create_job c day rcp fmt who now d = Inr (r, d') \<Longrightarrow>
     bulk_step s L R X (d, q, a) (d', q @ [jb_id r], a)"
| started: "i \<in> set q \<Longrightarrow> mark_sending i now d = Some d' \<Longrightarrow>
     bulk_step s L R X (d, q, a) (d', remove1 i q, a @ [i])"
| start_failed: "i \<in> set q \<Longrightarrow> bulk_step s L R X (d, q, a) (d, remove1 i q, a)"
| completed: "i \<in> set a \<Longrightarrow> bulk_step s L R X (d, q, a) (complete_job s L R X i now d, q, remove1 i a)"
| completion_failed: "i \<in> set a \<Longrightarrow> bulk_step s L R X (d, q, a) (d, q, remove1 i a)"
| process_died: "bulk_step s L R X (d, q, a) (d, [], [])"
| other_request: "bulk_jobs d' = bulk_jobs d \<Longrightarrow> bulk_step s L R X (d, q, a) (d', q, a)"

inductive_cases phase_stepE: "phase_step m m'"

text \<open>Waiting jobs are queued, running ones are being sent, and no job is in two places.\<close>

definition bulk_inv :: "runner_state \<Rightarrow> bool" where
  "bulk_inv = (\<lambda>(d, q, a). table_ok (bulk_jobs d) \<and> distinct (q @ a)
     \<and> (\<forall>i \<in> set q. phases d i = Some Queued) \<and> (\<forall>i \<in> set a. phases d i = Some Sending))"

lemma phase_of_status [simp]:
  "phase_of ''QUEUED'' = Some Queued" "phase_of ''SENDING'' = Some Sending"
  "phase_of ''SUCCESS'' = Some Succeeded" "phase_of ''FAILED'' = Some Failed"
  by (simp_all add: phase_of_def phase_members_def)

lemma phases_tins:
  "table_ok (bulk_jobs d) \<Longrightarrow>
   phases (d\<lparr>bulk_jobs := tins j (bulk_jobs d)\<rparr>) = (phases d)(next_id (bulk_jobs d) := phase_of (bj_status j))"
  by (auto simp: phases_def tget_tins)

lemma phases_tupd:
  "tget (bulk_jobs d) i = Some j0 \<Longrightarrow>
   phases (d\<lparr>bulk_jobs := tupd i j (bulk_jobs d)\<rparr>) = (phases d)(i := phase_of (bj_status j))"
  by (auto simp: phases_def tget_tupd)

lemma phases_fresh: "table_ok (bulk_jobs d) \<Longrightarrow> phases d (next_id (bulk_jobs d)) = None"
  by (simp add: phases_def)

lemma phases_create:
  "table_ok (bulk_jobs d) \<Longrightarrow> create_job c day rcp fmt who now d = Inr (r, d') \<Longrightarrow>
   phases d' = (phases d)(jb_id r \<mapsto> Queued) \<and> phases d (jb_id r) = None \<and> table_ok (bulk_jobs d')"
  by (auto simp: phases_tins phases_fresh dest!: create_job_effect)

lemma phases_sending:
  "mark_sending i now d = Some d' \<Longrightarrow>
   phases d' = (phases d)(i \<mapsto> Sending) \<and> (table_ok (bulk_jobs d) \<longrightarrow> table_ok (bulk_jobs d'))"
  by (auto simp: phases_tupd dest!: mark_sending_effect)

lemma phases_complete:
  assumes "phases d i = Some p"
  shows "(phases (complete_job s L R X i now d) = (phases d)(i \<mapsto> Succeeded)
      \<or> phases (complete_job s L R X i now d) = (phases d)(i \<mapsto> Failed))
    \<and> (table_ok (bulk_jobs d) \<longrightarrow> table_ok (bulk_jobs (complete_job s L R X i now d)))"
proof -
  from assms obtain j where j: "tget (bulk_jobs d) i = Some j"
    by (cases "tget (bulk_jobs d) i") (simp_all add: phases_def)
  then obtain res where "complete_job s L R X i now d = d\<lparr>bulk_jobs := tupd i (finish_job res now j) (bulk_jobs d)\<rparr>"
    by (auto simp: complete_job_def Let_def)
  then show ?thesis using phases_tupd [OF j] by simp
qed

lemma bulk_step_inv:
  assumes "bulk_step s L R X st st'" and "bulk_inv st"
  shows "bulk_inv st' \<and> phase_step (phases (fst st)) (phases (fst st'))"
  using assms
proof (induction rule: bulk_step.induct)
  case (requested c day rcp fmt who now d r d' q a)
  then have t: "table_ok (bulk_jobs d)" by (simp add: bulk_inv_def)
  note p = phases_create [OF t requested(1)]
  then have at: "phases d' k = (if k = jb_id r then Some Queued else phases d k)" for k by simp
  have "jb_id r \<notin> set q \<union> set a" using p requested(2) by (auto simp: bulk_inv_def)
  then have "bulk_inv (d', q @ [jb_id r], a)" using p requested(2) by (auto simp: bulk_inv_def at)
  moreover have "phase_step (phases d) (phases d')" using p phase_step.request by metis
  ultimately show ?case by simp
next
  case (started i q now d d' a)
  note p = phases_sending [OF started(2)]
  then have at: "phases d' k = (if k = i then Some Sending else phases d k)" for k by simp
  have i: "phases d i = Some Queued" "i \<notin> set a" using started(1,3) by (auto simp: bulk_inv_def)
  then have "bulk_inv (d', remove1 i q, a @ [i])"
    using p started(3) by (auto simp: bulk_inv_def at)
  moreover have "phase_step (phases d) (phases d')" using p i phase_step.start by metis
  ultimately show ?case by simp
next
  case (start_failed i q d a)
  then show ?case by (auto simp: bulk_inv_def intro: phase_step.stay)
next
  case (completed i a d q now)
  let ?d' = "complete_job s L R X i now d"
  have i: "phases d i = Some Sending" "i \<notin> set q" using completed by (auto simp: bulk_inv_def)
  note p = phases_complete [OF i(1), of s L R X now]
  then have at: "k \<noteq> i \<Longrightarrow> phases ?d' k = phases d k" for k by auto
  have inv: "\<forall>k \<in> set q. phases d k = Some Queued" "\<forall>k \<in> set a. phases d k = Some Sending" "distinct a"
    using completed(2) by (auto simp: bulk_inv_def)
  have "\<forall>k \<in> set q. phases ?d' k = Some Queued" using inv(1) i(2) at by metis
  moreover have "\<forall>k \<in> set (remove1 i a). phases ?d' k = Some Sending"
    using inv(2,3) at by (metis in_set_remove1 set_remove1_eq Diff_iff singletonI)
  ultimately have "bulk_inv (?d', q, remove1 i a)" using p completed(2) by (auto simp: bulk_inv_def)
  moreover have "phase_step (phases d) (phases ?d')"
    using p i(1) phase_step.success phase_step.failure by metis
  ultimately show ?case by simp
next
  case (completion_failed i a d q)
  then show ?case by (auto simp: bulk_inv_def intro: phase_step.stay)
next
  case (process_died d q a)
  then show ?case by (simp add: bulk_inv_def phase_step.stay)
next
  case (other_request d' d q a)
  then have "phases d' = phases d" by (simp add: phases_def)
  then show ?case using other_request by (simp add: bulk_inv_def phase_step.stay)
qed

lemma bulk_reachable_inv:
  assumes "(bulk_step s L R X)\<^sup>*\<^sup>* st st'" and "bulk_inv st"
  shows "bulk_inv st' \<and> phase_step\<^sup>*\<^sup>* (phases (fst st)) (phases (fst st'))"
  using assms
proof (induction rule: rtranclp_induct)
  case (step y z)
  then show ?case using bulk_step_inv [OF step.hyps(2)] by (meson rtranclp.rtrancl_into_rtrancl)
qed simp

lemma phase_finished: "phase_step m m' \<Longrightarrow> m i = Some p \<Longrightarrow> p \<in> {Succeeded, Failed} \<Longrightarrow> m' i = Some p"
  by (erule phase_stepE) (auto split: if_splits)

lemma phase_finished_stays:
  "phase_step\<^sup>*\<^sup>* m m' \<Longrightarrow> m i = Some p \<Longrightarrow> p \<in> {Succeeded, Failed} \<Longrightarrow> m' i = Some p"
  by (induction rule: rtranclp_induct) (auto dest: phase_finished)

lemma phase_grows: "phase_step m m' \<Longrightarrow> m i = Some p \<Longrightarrow> \<exists>q \<ge> p. m' i = Some q"
  by (erule phase_stepE) (auto simp: less_eq_phase_def)

lemma phases_grow: "phase_step\<^sup>*\<^sup>* m m' \<Longrightarrow> m i = Some p \<Longrightarrow> \<exists>q \<ge> p. m' i = Some q"
proof (induction rule: rtranclp_induct)
  case (step y z)
  then show ?case using phase_grows order_trans by metis
qed simp

lemma bulk_inv_start: "table_ok (bulk_jobs d) \<Longrightarrow> bulk_inv (d, [], [])"
  by (simp add: bulk_inv_def)

text \<open>Whatever requests, background tasks, failed commits and crashes do, a bulk mail job moves as the
  specification says: every step of the program is a step (or none) of the machine queued - sending -
  succeeded or failed, seen through the status column; no job disappears or goes back to an earlier
  phase, and a finished job keeps its outcome for good.\<close>

lemma bulk_runner_refines:
  assumes "table_ok (bulk_jobs d0)" and "(bulk_step s L R X)\<^sup>*\<^sup>* (d0, [], []) st"
    and "bulk_step s L R X st st'"
  shows "phase_step (phases (fst st)) (phases (fst st'))
    \<and> (\<forall>st'' i p. (bulk_step s L R X)\<^sup>*\<^sup>* st st'' \<and> phases (fst st) i = Some p \<longrightarrow>
         (\<exists>q \<ge> p. phases (fst st'') i = Some q)
         \<and> (p \<in> {Succeeded, Failed} \<longrightarrow> phases (fst st'') i = Some p))"
proof -
  have inv: "bulk_inv st" using bulk_reachable_inv [OF assms(2)] bulk_inv_start [OF assms(1)] by blast
  have "(bulk_step s L R X)\<^sup>*\<^sup>* st st'' \<Longrightarrow> phase_step\<^sup>*\<^sup>* (phases (fst st)) (phases (fst st''))" for st''
    using bulk_reachable_inv inv by blast
  then show ?thesis using bulk_step_inv [OF assms(3) inv] phases_grow phase_finished_stays by blast
qed

definition sample_renderers :: renderers where
  "sample_renderers = \<lparr>rd_pdf = Inr, rd_workbook = \<lambda>n rs. Inr (utf8_encode n)\<rparr>"

definition sample_mailer :: mailer where
  "sample_mailer = \<lparr>mx_zip = \<lambda>fs. concat (map snd fs), mx_send = \<lambda>m. Inr None, mx_rank = int \<circ> length\<rparr>"

definition bulk_sample_db :: db where
  "bulk_sample_db = sample_db\<lparr>bulk_jobs := tins \<lparr>bj_company_id = 1, bj_recipient = ''a@b'', bj_target_date = 0,
     bj_format = ''HWP'', bj_status = ''QUEUED'', bj_schedule_count = 0, bj_truncated = False, bj_message_id = None,
     bj_error_message = None, bj_requested_by = Some 1, bj_started_at = None, bj_finished_at = None,
     bj_created_at = 5\<rparr> empty_table\<rparr>"

lemma bulk_runner_refines_witness:
  "phase_step (phases sample_db) (phases (sample_db\<lparr>companies := empty_table\<rparr>))"
  using bulk_runner_refines [of sample_db sample_settings sample_libs sample_renderers sample_mailer
      "(sample_db, [], [])" "(sample_db\<lparr>companies := empty_table\<rparr>, [], [])"]
    sample_schema_ok schema_ok_tables(17) by (simp add: bulk_step.other_request table_ok_def sample_defs)

section \<open>Outcomes\<close>

lemma send_bulk_count:
  "send_bulk s L R X c day rcp fmt d = Inr r \<Longrightarrow>
   sn_count r = int (min 300 (length (schedules_of_day c day d)))
   \<and> (sn_truncated r \<longleftrightarrow> 300 < length (schedules_of_day c day d))"
  by (auto simp: send_bulk_def max_bulk_schedules_def Let_def flow split: if_splits)

text \<open>C26: a job that runs through both commits first shows as being sent and then ends: either with
  success, counting the day's schedules up to 300 and marked truncated exactly when there are more, or as
  failed with a reason of at most 1000 characters; nothing else in the database changes.  If the second
  commit fails, the job is left as being sent.\<close>

theorem bulk_job_outcome:
  assumes "tget (bulk_jobs d) i = Some j"
    and d1_def: "d1 = d\<lparr>bulk_jobs := tupd i (j\<lparr>bj_status := ''SENDING'', bj_started_at := Some t1\<rparr>) (bulk_jobs d)\<rparr>"
    and n_def: "n = length (schedules_of_day (bj_company_id j) (bj_target_date j) d)"
  shows "\<exists>d2 j2. run_bulk_email_job s L R X True True i t1 t2 d = [d1, d2]
      \<and> run_bulk_email_job s L R X True False i t1 t2 d = [d1]
      \<and> d2 = d\<lparr>bulk_jobs := tupd i j2 (bulk_jobs d1)\<rparr>
      \<and> bj_company_id j2 = bj_company_id j \<and> bj_finished_at j2 = Some t2
      \<and> (bj_status j2 = ''SUCCESS'' \<and> bj_schedule_count j2 = int (min 300 n) \<and> bj_truncated j2 = (300 < n)
         \<or> bj_status j2 = ''FAILED'' \<and> bj_schedule_count j2 = bj_schedule_count j
           \<and> (\<exists>m. bj_error_message j2 = Some m \<and> length m \<le> 1000))"
proof -
  let ?j1 = "j\<lparr>bj_status := ''SENDING'', bj_started_at := Some t1\<rparr>"
  let ?res = "let_ok (enum_of_string format_members (bj_format j)) (\<lambda>fmt.
                send_bulk s L R X (bj_company_id j) (bj_target_date j) (bj_recipient j) fmt d1)"
  have m: "mark_sending i t1 d = Some d1" using assms(1) by (simp add: mark_sending_def d1_def)
  have g: "tget (bulk_jobs d1) i = Some ?j1" using assms(1) by (simp add: d1_def tget_tupd)
  have c: "complete_job s L R X i t2 d1 = d\<lparr>bulk_jobs := tupd i (finish_job ?res t2 ?j1) (bulk_jobs d1)\<rparr>"
    unfolding complete_job_def g by (simp add: Let_def d1_def)
  have n: "length (schedules_of_day (bj_company_id j) (bj_target_date j) d1) = n"
    by (simp add: d1_def n_def schedules_of_day_def owner_company_def)
  have "bj_status (finish_job ?res t2 ?j1) = ''SUCCESS''
         \<and> bj_schedule_count (finish_job ?res t2 ?j1) = int (min 300 n)
         \<and> bj_truncated (finish_job ?res t2 ?j1) = (300 < n)
       \<or> bj_status (finish_job ?res t2 ?j1) = ''FAILED''
         \<and> bj_schedule_count (finish_job ?res t2 ?j1) = bj_schedule_count j
         \<and> (\<exists>m. bj_error_message (finish_job ?res t2 ?j1) = Some m \<and> length m \<le> 1000)"
  proof (cases ?res)
    case (Inr r)
    then obtain fmt where
      "send_bulk s L R X (bj_company_id j) (bj_target_date j) (bj_recipient j) fmt d1 = Inr r"
      by (auto simp: let_ok_Inr)
    from send_bulk_count [OF this, unfolded n] show ?thesis by (simp add: Inr)
  qed simp
  moreover have "bj_finished_at (finish_job ?res t2 ?j1) = Some t2" by (cases ?res; simp)
  ultimately show ?thesis
    by (intro exI [of _ "complete_job s L R X i t2 d1"] exI [of _ "finish_job ?res t2 ?j1"])
       (simp add: run_bulk_email_job_def m c)
qed

theorem bulk_job_outcome_witness:
  "\<exists>d1 d2. run_bulk_email_job sample_settings sample_libs sample_renderers sample_mailer True True 1 7 9
     bulk_sample_db = [d1, d2]"
proof -
  obtain j where "tget (bulk_jobs bulk_sample_db) 1 = Some j"
    by (simp add: bulk_sample_db_def table_eval empty_table_def)
  from bulk_job_outcome [OF this refl refl, of sample_settings sample_libs sample_renderers sample_mailer 7 9]
  show ?thesis by fast
qed

text \<open>The rows a schedule refers to exist, as the foreign keys of the schema require.\<close>

definition schedule_links :: "db \<Rightarrow> bool" where
  "schedule_links d = all_rows (\<lambda>i s. tget (standards d) (ws_standard_id s) \<noteq> None
     \<and> Option.bind (tget (job_workers d) (ws_job_worker_id s)) (\<lambda>jw.
         Option.bind (tget (company_workers d) (jw_company_worker_id jw)) (\<lambda>cw.
           Option.bind (tget (workers d) (cw_worker_id cw)) (\<lambda>w. tget (users d) (w_user_id w)))) \<noteq> None) (schedules d)"

lemma preview_item_listed:
  assumes "schedule_links d" and "(i, s) \<in> set (rows (schedules d))"
  shows "map_option pi_schedule_id (preview_item_of c day d (i, s)) =
    (if owner_company s d = Some c \<and> day_start day \<le> ws_start_at s \<and> ws_start_at s \<le> day_end day
     then Some i else None)"
  using assms by (force simp: schedule_links_def all_rows_def preview_item_of_def owner_company_def
      split: Option.bind_splits)

lemma map_filter_if: "List.map_filter (\<lambda>x. if P x then Some (f x) else None) xs = map f (filter P xs)"
  by (induction xs) (simp_all add: List.map_filter_simps)

lemma mset_map_order_by: "mset (map f (order_by k xs)) = mset (map f xs)"
  by (simp add: order_by_def)

lemma preview_ids:
  assumes "schedule_links d"
  shows "mset (map pi_schedule_id (pv_items (preview X c day d))) = mset (map fst (schedules_of_day c day d))"
proof -
  let ?P = "\<lambda>(i, s). owner_company s d = Some c \<and> day_start day \<le> ws_start_at s \<and> ws_start_at s \<le> day_end day"
  have "map pi_schedule_id (List.map_filter (preview_item_of c day d) (rows (schedules d)))
      = List.map_filter (\<lambda>x. if ?P x then Some (fst x) else None) (rows (schedules d))"
    unfolding map_map_filter
    by (intro map_filter_cong) (simp only: comp_apply split_paired_all preview_item_listed [OF assms] prod.case fst_conv)
  also have "\<dots> = map fst (filter ?P (rows (schedules d)))" by (rule map_filter_if)
  finally show ?thesis
    by (simp add: preview_def schedules_of_day_def tsel_def Let_def mset_map_order_by del: mset_map)
qed

lemma render_all_files:
  "render_all R fmt d xs = Inr files \<Longrightarrow> length files = length xs
   \<and> (\<forall>k < length xs. fst (files ! k) = journal_name fmt (fst (xs ! k))
         \<and> render_journal R (fst (xs ! k)) fmt None d = Inr (snd (files ! k)))"
proof (induction xs arbitrary: files)
  case (Cons x xs)
  obtain i s where x: "x = (i, s)" by force
  with Cons.prems obtain body rest where "render_journal R i fmt None d = Inr body"
    "render_all R fmt d xs = Inr rest" "files = (journal_name fmt i, body) # rest"
    by (auto simp: let_ok_Inr)
  with Cons.IH show ?case by (auto simp: x nth_Cons split: nat.splits)
qed simp

lemma send_bulk_mail:
  assumes "send_bulk s L R X c day rcp fmt d = Inr r" and "schedules_of_day c day d \<noteq> []"
  shows "\<exists>files html. render_all R fmt d (take 300 (schedules_of_day c day d)) = Inr files
    \<and> send_email s L X rcp (bulk_subject day (int (min 300 (length (schedules_of_day c day d))))) html
        [\<lparr>at_filename = ''work-journals-'' @ iso_date day @ ''.zip'', at_content = mx_zip X files,
          at_content_type = ''application/zip''\<rparr>] = Inr (sn_message_id r)"
  using assms by (auto simp: send_bulk_def Let_def max_bulk_schedules_def let_ok_Inr min.commute)

text \<open>C27: under the schema's foreign keys the preview of a company's day lists exactly the schedules of the
  company that start on that day, each once; the mail carries one file for each of the first 300 of them in
  the order of their start, named after the schedule and rendered from it, nothing is mailed when there is none, and the
  mail counts as truncated exactly when the preview counts more than 300.\<close>

theorem preview_matches_send:
  assumes "schedule_links d"
  shows "\<exists>ss. mset ss = mset (filter (\<lambda>(i, s). owner_company s d = Some c
              \<and> day_start day \<le> ws_start_at s \<and> ws_start_at s \<le> day_end day) (rows (schedules d)))
    \<and> sorted (map (\<lambda>(i, s). ws_start_at s) ss)
    \<and> mset (map pi_schedule_id (pv_items (preview X c day d))) = mset (map fst ss)
    \<and> pv_journal_count (preview X c day d) = int (length ss)
    \<and> sorted (map (\<lambda>p. mx_rank X (pi_worker_name p)) (pv_items (preview X c day d)))
    \<and> (ss = [] \<longrightarrow> send_bulk s L R X c day rcp fmt d = Inr \<lparr>sn_count = 0, sn_message_id = None, sn_truncated = False\<rparr>)
    \<and> (send_bulk s L R X c day rcp fmt d = Inr r \<longrightarrow>
         sn_count r = min 300 (pv_journal_count (preview X c day d))
         \<and> sn_truncated r = (300 < pv_journal_count (preview X c day d))
         \<and> (ss \<noteq> [] \<longrightarrow> (\<exists>files html. length files = min 300 (length ss)
               \<and> (\<forall>k < length files.
                     fst (files ! k) = ''work-journal-'' @ str_of_int (fst (ss ! k)) @ ''.'' @ format_extension fmt
                     \<and> render_journal R (fst (ss ! k)) fmt None d = Inr (snd (files ! k)))
               \<and> send_email s L X rcp (bulk_subject day (int (length files))) html
                    [\<lparr>at_filename = ''work-journals-'' @ iso_date day @ ''.zip'', at_content = mx_zip X files,
                      at_content_type = ''application/zip''\<rparr>] = Inr (sn_message_id r))))"
proof -
  let ?ss = "schedules_of_day c day d"
  have ids: "mset (map pi_schedule_id (pv_items (preview X c day d))) = mset (map fst ?ss)"
    by (rule preview_ids [OF assms])
  from arg_cong [OF this, of size]
  have n: "pv_journal_count (preview X c day d) = int (length ?ss)" by (simp add: preview_def Let_def)
  have day: "mset ?ss = mset (filter (\<lambda>(i, s). owner_company s d = Some c
        \<and> day_start day \<le> ws_start_at s \<and> ws_start_at s \<le> day_end day) (rows (schedules d)))"
    "sorted (map (\<lambda>(i, s). ws_start_at s) ?ss)"
    by (simp_all add: schedules_of_day_def tsel_def sorted_order_by) (simp add: order_by_def)
  have rank: "sorted (map (\<lambda>p. mx_rank X (pi_worker_name p)) (pv_items (preview X c day d)))"
    by (simp add: preview_def Let_def sorted_order_by)
  have none: "send_bulk s L R X c day rcp fmt d = Inr \<lparr>sn_count = 0, sn_message_id = None, sn_truncated = False\<rparr>"
    if "?ss = []" using that by (simp add: send_bulk_def)
  have mail: "\<exists>files html. length files = min 300 (length ?ss)
      \<and> (\<forall>k < length files.
            fst (files ! k) = ''work-journal-'' @ str_of_int (fst (?ss ! k)) @ ''.'' @ format_extension fmt
            \<and> render_journal R (fst (?ss ! k)) fmt None d = Inr (snd (files ! k)))
      \<and> send_email s L X rcp (bulk_subject day (int (length files))) html
           [\<lparr>at_filename = ''work-journals-'' @ iso_date day @ ''.zip'', at_content = mx_zip X files,
             at_content_type = ''application/zip''\<rparr>] = Inr (sn_message_id r)"
    if sent: "send_bulk s L R X c day rcp fmt d = Inr r" and "?ss \<noteq> []"
  proof -
    from send_bulk_mail [OF sent \<open>?ss \<noteq> []\<close>] obtain files html where
      f: "render_all R fmt d (take 300 ?ss) = Inr files"
      and m: "send_email s L X rcp (bulk_subject day (int (min 300 (length ?ss)))) html
        [\<lparr>at_filename = ''work-journals-'' @ iso_date day @ ''.zip'', at_content = mx_zip X files,
          at_content_type = ''application/zip''\<rparr>] = Inr (sn_message_id r)" by blast
    from render_all_files [OF f] m show ?thesis
      by (intro exI [of _ files] exI [of _ html]) (simp add: journal_name_def min.commute)
  qed
  have count: "sn_count r = min 300 (pv_journal_count (preview X c day d))"
    "sn_truncated r = (300 < pv_journal_count (preview X c day d))"
    if "send_bulk s L R X c day rcp fmt d = Inr r"
    using send_bulk_count [OF that] by (simp_all add: n)
  show ?thesis
    by (intro exI [of _ ?ss] conjI impI)
       ((rule day ids n rank | erule none | erule count | erule mail, assumption)+)
qed

theorem preview_matches_send_witness:
  "pv_journal_count (preview sample_mailer 1 0 sample_db) =
     int (length (filter (\<lambda>(i, s). owner_company s sample_db = Some 1
        \<and> day_start 0 \<le> ws_start_at s \<and> ws_start_at s \<le> day_end 0) (rows (schedules sample_db))))"
proof -
  have "schedule_links sample_db" by (simp add: schedule_links_def sample_defs tget_def all_rows_def)
  from preview_matches_send [OF this, where X = sample_mailer and c = 1 and day = 0 and s = sample_settings
      and L = sample_libs and R = sample_renderers and rcp = "''a@b''" and fmt = HWP
      and r = "\<lparr>sn_count = 0, sn_message_id = None, sn_truncated = False\<rparr>"]
  show ?thesis
  proof (elim exE conjE)
    fix ss assume a: "mset ss = mset (filter (\<lambda>(i, s). owner_company s sample_db = Some 1
        \<and> day_start 0 \<le> ws_start_at s \<and> ws_start_at s \<le> day_end 0) (rows (schedules sample_db)))"
      and b: "pv_journal_count (preview sample_mailer 1 0 sample_db) = int (length ss)"
    show ?thesis unfolding b mset_eq_length [OF a] by (rule refl)
  qed
qed

end
