(* ===== verification/Leaves.thy ===== *)
theory Leaves
  imports Tenant Sample
begin

text \<open>
  Leaves: app/services/leave.py, its DTOs in app/schemas/leave.py and its endpoints in
  app/api/v1/leaves.py.  \<open>ilike\<close> is PostgreSQL's case-insensitive pattern match, a parameter.
\<close>

section \<open>Requests and responses\<close>

record leave_create_request =
  lc_worker_id :: int
  lc_company_id :: int
  lc_type :: leave_type
  lc_start_date :: date
  lc_end_date :: date
  lc_reason :: "string option"
  lc_auto_approve :: bool

record leave_decision_request =
  ld_status :: leave_status
  ld_comment :: "string option"

record leave_response =
  lr_id :: int
  lr_worker_id :: int
  lr_worker_name :: "string option"
  lr_company_id :: int
  lr_company_name :: "string option"
  lr_type :: leave_type
  lr_start_date :: date
  lr_end_date :: date
  lr_days :: int
  lr_status :: leave_status
  lr_reason :: "string option"
  lr_created_by :: "int option"
  lr_created_by_name :: "string option"
  lr_created_at :: datetime

definition valid_leave_create :: "leave_create_request \<Rightarrow> bool" where
  "valid_leave_create r = max_len 1000 (lc_reason r)"

definition valid_leave_decision :: "leave_decision_request \<Rightarrow> bool" where
  "valid_leave_decision r = max_len 1000 (ld_comment r)"

section \<open>Queries\<close>

text \<open>
  \<open>_base_query\<close>: a leave joined with its company, with the name of its worker (the worker joined
  with its user), and left-joined with the user who created it.
\<close>

definition worker_name :: "db \<Rightarrow> int \<Rightarrow> string option" where
  "worker_name d i =
     Option.bind (tget (workers d) i) (\<lambda>w. map_option u_name (tget (users d) (w_user_id w)))"

definition creator_name :: "db \<Rightarrow> int option \<Rightarrow> string option" where
  "creator_name d c = Option.bind c (\<lambda>i. map_option u_name (tget (users d) i))"

type_synonym leave_row = "int \<times> leave \<times> string \<times> string \<times> string option"

definition join_leave :: "db \<Rightarrow> int \<times> leave \<Rightarrow> leave_row option" where
  "join_leave d = (\<lambda>(i, l).
     (case (tget (companies d) (lv_company_id l), worker_name d (lv_worker_id l)) of
        (Some c, Some wn) \<Rightarrow> Some (i, l, co_name c, wn, creator_name d (lv_created_by l))
      | _ \<Rightarrow> None))"

definition leave_base_query :: "db \<Rightarrow> leave_row list" where
  "leave_base_query d = List.map_filter (join_leave d) (rows (leaves d))"

fun leave_row_to_response :: "leave_row \<Rightarrow> leave_response" where
  "leave_row_to_response (i, l, cn, wn, crn) =
     \<lparr>lr_id = i, lr_worker_id = lv_worker_id l, lr_worker_name = Some wn,
      lr_company_id = lv_company_id l, lr_company_name = Some cn, lr_type = lv_type l,
      lr_start_date = lv_start l, lr_end_date = lv_end l, lr_days = lv_days l,
      lr_status = lv_status l, lr_reason = lv_reason l, lr_created_by = lv_created_by l,
      lr_created_by_name = crn, lr_created_at = lv_created_at l\<rparr>"

abbreviation row_leave :: "leave_row \<Rightarrow> leave" where
  "row_leave r \<equiv> fst (snd r)"

definition leave_window :: "date option \<Rightarrow> date option \<Rightarrow> leave \<Rightarrow> bool" where
  "leave_window from until l \<longleftrightarrow>
     opt_filter from (\<lambda>f l. f \<le> lv_end l) l \<and> opt_filter until (\<lambda>t l. lv_start l \<le> t) l"

record leave_filter =
  lf_keyword :: "string option"
  lf_company_id :: "int option"
  lf_worker_id :: "int option"
  lf_type :: "leave_type option"
  lf_status :: "leave_status option"
  lf_from :: "date option"
  lf_to :: "date option"

definition leave_keyword :: "(string \<Rightarrow> string \<Rightarrow> bool) \<Rightarrow> string option \<Rightarrow> leave_row \<Rightarrow> bool" where
  "leave_keyword ilike kw = (\<lambda>(i, l, cn, wn, crn).
     keyword_match kw (\<lambda>p. ilike cn p \<or> ilike_opt ilike (lv_reason l) p))"

definition leave_matches :: "(string \<Rightarrow> string \<Rightarrow> bool) \<Rightarrow> leave_filter \<Rightarrow> leave_row \<Rightarrow> bool" where
  "leave_matches ilike f row \<longleftrightarrow>
     opt_filter (lf_company_id f) (\<lambda>c l. lv_company_id l = c) (row_leave row)
     \<and> opt_filter (lf_worker_id f) (\<lambda>w l. lv_worker_id l = w) (row_leave row)
     \<and> opt_filter (lf_type f) (\<lambda>t l. lv_type l = t) (row_leave row)
     \<and> opt_filter (lf_status f) (\<lambda>s l. lv_status l = s) (row_leave row)
     \<and> leave_window (lf_from f) (lf_to f) (row_leave row)
     \<and> leave_keyword ilike (lf_keyword f) row"

definition search_leaves :: "(string \<Rightarrow> string \<Rightarrow> bool) \<Rightarrow> leave_filter \<Rightarrow> page_params \<Rightarrow> db \<Rightarrow> leave_response page"
  where
  "search_leaves ilike f params d =
     paged leave_row_to_response params
       (order_by_desc (\<lambda>r. lv_start (row_leave r)) (filter (leave_matches ilike f) (leave_base_query d)))"

definition list_by_worker ::
    "int \<Rightarrow> date option \<Rightarrow> date option \<Rightarrow> scope \<Rightarrow> db \<Rightarrow> leave_response list" where
  "list_by_worker worker_id from until scope d =
     map leave_row_to_response (order_by_desc (\<lambda>r. lv_start (row_leave r))
       (filter (\<lambda>r. lv_worker_id (row_leave r) = worker_id
            \<and> opt_filter scope (\<lambda>c l. lv_company_id l = c) (row_leave r)
            \<and> leave_window from until (row_leave r)) (leave_base_query d)))"

definition list_approved :: "int option \<Rightarrow> date option \<Rightarrow> date option \<Rightarrow> db \<Rightarrow> leave_response list" where
  "list_approved company_id from until d =
     map leave_row_to_response (order_by_desc (\<lambda>r. lv_start (row_leave r))
       (filter (\<lambda>r. lv_status (row_leave r) = APPROVED
            \<and> opt_filter company_id (\<lambda>c l. lv_company_id l = c) (row_leave r)
            \<and> leave_window from until (row_leave r)) (leave_base_query d)))"

section \<open>Writers\<close>

text \<open>\<open>_get_response\<close>: \<open>.one()\<close> raises unless exactly one row is found.\<close>

definition get_leave_response :: "int \<Rightarrow> db \<Rightarrow> exn + leave_response" where
  "get_leave_response leave_id d =
     (case filter (\<lambda>r. fst r = leave_id) (leave_base_query d) of
        [r] \<Rightarrow> Inr (leave_row_to_response r)
      | [] \<Rightarrow> Inl (External ''NoResultFound'')
      | _ \<Rightarrow> Inl MultipleResultsFound)"

definition create_leave :: "leave_create_request \<Rightarrow> int \<Rightarrow> datetime \<Rightarrow> db \<Rightarrow> exn + (leave_response \<times> db)" where
  "create_leave req actor_user_id now d =
     raise_if (lc_end_date req < lc_start_date req) (business INVALID_INPUT (Some End_before_start))
     (raise_if (tget (workers d) (lc_worker_id req) = None) (err WORKER_NOT_FOUND)
     (raise_if (tget (companies d) (lc_company_id req) = None) (err COMPANY_NOT_FOUND)
     (let days = lc_end_date req - lc_start_date req + 1;
          leave = \<lparr>lv_worker_id = lc_worker_id req, lv_company_id = lc_company_id req,
                   lv_type = lc_type req, lv_start = lc_start_date req, lv_end = lc_end_date req,
                   lv_days = days,
                   lv_status = (if lc_auto_approve req then APPROVED else PENDING),
                   lv_reason = lc_reason req, lv_created_by = Some actor_user_id,
                   lv_created_at = now\<rparr>;
          d' = d\<lparr>leaves := tins leave (leaves d)\<rparr>
      in let_ok (get_leave_response (next_id (leaves d)) d') (\<lambda>resp. Inr (resp, d')))))"

text \<open>The middle dot between the old reason and the comment is U+00B7.\<close>

definition append_comment :: "string option \<Rightarrow> string option \<Rightarrow> string option" where
  "append_comment comment reason =
     (case comment of
        None \<Rightarrow> reason
      | Some c \<Rightarrow> if c = [] then reason
                  else if truthy reason then Some (the reason @ '' '' @ [CHR 0xB7] @ '' '' @ c)
                  else Some c)"

definition decide_leave ::
    "int \<Rightarrow> leave_status \<Rightarrow> string option \<Rightarrow> scope \<Rightarrow> db \<Rightarrow> exn + (leave_response \<times> db)" where
  "decide_leave leave_id status comment company_scope d =
     some_or (tget (leaves d) leave_id) (business RESOURCE_NOT_FOUND (Some Leave_missing)) (\<lambda>leave.
     let_ok (assert_company company_scope (Some (lv_company_id leave))) (\<lambda>_.
     (let leave' = leave\<lparr>lv_status := status, lv_reason := append_comment comment (lv_reason leave)\<rparr>;
          d' = d\<lparr>leaves := tupd leave_id leave' (leaves d)\<rparr>
      in let_ok (get_leave_response leave_id d') (\<lambda>resp. Inr (resp, d')))))"

definition delete_leave :: "int \<Rightarrow> scope \<Rightarrow> db \<Rightarrow> exn + (unit \<times> db)" where
  "delete_leave leave_id company_scope d =
     (case tget (leaves d) leave_id of
        None \<Rightarrow> Inr ((), d)
      | Some leave \<Rightarrow>
          let_ok (assert_company company_scope (Some (lv_company_id leave))) (\<lambda>_.
            Inr ((), d\<lparr>leaves := tdel leave_id (leaves d)\<rparr>)))"

section \<open>Endpoints\<close>

text \<open>
  The scope and the principal come from the dependencies; a request body that fails its
  validation is refused before the endpoint runs.
\<close>

definition api_list_leaves ::
    "(string \<Rightarrow> string \<Rightarrow> bool) \<Rightarrow> scope \<Rightarrow> leave_filter \<Rightarrow> page_params \<Rightarrow> db \<Rightarrow> exn + leave_response page" where
  "api_list_leaves ilike scope f params d =
     let_ok (resolve_company_filter scope (lf_company_id f)) (\<lambda>company_id.
       Inr (to_page_response (search_leaves ilike (f\<lparr>lf_company_id := company_id\<rparr>) params d)))"

definition api_list_approved ::
    "scope \<Rightarrow> int option \<Rightarrow> date option \<Rightarrow> date option \<Rightarrow> db \<Rightarrow> exn + leave_response list" where
  "api_list_approved scope company_id from until d =
     let_ok (resolve_company_filter scope company_id) (\<lambda>c. Inr (list_approved c from until d))"

definition api_create_leave ::
    "leave_create_request \<Rightarrow> principal \<Rightarrow> scope \<Rightarrow> datetime \<Rightarrow> db \<Rightarrow> exn + (leave_response \<times> db)" where
  "api_create_leave req me scope now d =
     let_ok (assert_company scope (Some (lc_company_id req))) (\<lambda>_. create_leave req (pr_user_id me) now d)"

datatype leave_op =
    Create_leave leave_create_request principal datetime
  | Decide_leave int leave_decision_request
  | Delete_leave int

fun exec_leave :: "scope \<Rightarrow> leave_op \<Rightarrow> db \<Rightarrow> exn + (leave_response option \<times> db)" where
  "exec_leave sc (Create_leave req me now) d =
     let_ok (api_create_leave req me sc now d) (\<lambda>(r, d'). Inr (Some r, d'))"
| "exec_leave sc (Decide_leave i req) d =
     let_ok (decide_leave i (ld_status req) (ld_comment req) sc d) (\<lambda>(r, d'). Inr (Some r, d'))"
| "exec_leave sc (Delete_leave i) d = let_ok (delete_leave i sc d) (\<lambda>(_, d'). Inr (None, d'))"

lemmas leave_op_defs = create_leave_def decide_leave_def delete_leave_def api_create_leave_def Let_def

section \<open>Lemmas\<close>

text \<open>What a successful operation does to the database.\<close>

lemma create_leave_effect:
  "create_leave req actor now d = Inr (resp, d') \<Longrightarrow>
   \<exists>l. d' = d\<lparr>leaves := tins l (leaves d)\<rparr> \<and> lc_start_date req \<le> lc_end_date req
     \<and> lv_company_id l = lc_company_id req \<and> lv_worker_id l = lc_worker_id req
     \<and> lv_start l = lc_start_date req \<and> lv_end l = lc_end_date req
     \<and> lv_days l = lc_end_date req - lc_start_date req + 1"
  by (auto simp: create_leave_def Let_def flow)

lemma decide_leave_effect:
  "decide_leave i st cm sc d = Inr (resp, d') \<Longrightarrow>
   \<exists>l. tget (leaves d) i = Some l \<and> (sc = None \<or> sc = Some (lv_company_id l))
     \<and> d' = d\<lparr>leaves := tupd i (l\<lparr>lv_status := st, lv_reason := append_comment cm (lv_reason l)\<rparr>) (leaves d)\<rparr>"
  by (auto simp: decide_leave_def Let_def flow)

lemma delete_leave_effect:
  "delete_leave i sc d = Inr (u, d') \<Longrightarrow>
   (tget (leaves d) i = None \<and> d' = d) \<or>
   (\<exists>l. tget (leaves d) i = Some l \<and> (sc = None \<or> sc = Some (lv_company_id l))
      \<and> d' = d\<lparr>leaves := tdel i (leaves d)\<rparr>)"
  by (auto simp: delete_leave_def flow split: option.splits)

text \<open>The invariant of the table: its CHECK constraint, and the stored number of days.\<close>

definition leaves_inv :: "leave table \<Rightarrow> bool" where
  "leaves_inv t \<longleftrightarrow> leaves_ok t \<and> all_rows (\<lambda>_ l. lv_days l = lv_end l - lv_start l + 1) t"

lemma leaves_inv_ok: "leaves_inv t \<Longrightarrow> leaves_ok t" "leaves_inv t \<Longrightarrow> table_ok t"
  by (simp_all add: leaves_inv_def leaves_ok_def)

lemma leaves_inv_create: "leaves_inv (leaves d) \<Longrightarrow> create_leave req a now d = Inr (r, d') \<Longrightarrow> leaves_inv (leaves d')"
  by (auto simp: leaves_inv_def leaves_ok_def dest!: create_leave_effect)

lemma leaves_inv_decide: "leaves_inv (leaves d) \<Longrightarrow> decide_leave i st cm sc d = Inr (r, d') \<Longrightarrow> leaves_inv (leaves d')"
  by (auto simp: leaves_inv_def leaves_ok_def dest!: decide_leave_effect elim!: all_rows_change)

lemma leaves_inv_delete: "leaves_inv (leaves d) \<Longrightarrow> delete_leave i sc d = Inr (u, d') \<Longrightarrow> leaves_inv (leaves d')"
  by (auto simp: leaves_inv_def leaves_ok_def dest!: delete_leave_effect intro!: all_rows_tdel)

lemma exec_leave_inv:
  "leaves_inv (leaves d) \<Longrightarrow> exec_leave sc x d = Inr (y, d') \<Longrightarrow> leaves_inv (leaves d')"
  by (cases x)
     (auto simp: flow api_create_leave_def dest: leaves_inv_create leaves_inv_decide leaves_inv_delete)

lemma exec_leave_foreign:
  assumes "leaves_inv (leaves d)" and "exec_leave (Some c) x d = Inr (y, d')"
  shows "foreign_rows lv_company_id c (leaves d') = foreign_rows lv_company_id c (leaves d)"
  using assms
  by (cases x)
     (auto simp: flow api_create_leave_def dest!: create_leave_effect decide_leave_effect delete_leave_effect
       intro!: foreign_rows_tupd foreign_rows_tdel dest: leaves_inv_ok)

interpretation leave_tenant: tenant_resource leaves lv_company_id exec_leave leaves_inv
  by unfold_locales (simp_all add: exec_leave_foreign exec_leave_inv)

text \<open>The references of the leaves: their worker, its user and their company exist.\<close>

definition leave_refs :: "db \<Rightarrow> bool" where
  "leave_refs d \<longleftrightarrow> list_all (\<lambda>(i, l). worker_name d (lv_worker_id l) \<noteq> None
     \<and> tget (companies d) (lv_company_id l) \<noteq> None) (rows (leaves d))"

lemma join_leave_ok:
  "leave_refs d \<Longrightarrow> (i, l) \<in> set (rows (leaves d)) \<Longrightarrow> \<exists>cn wn crn. join_leave d (i, l) = Some (i, l, cn, wn, crn)"
  by (fastforce simp: leave_refs_def list_all_iff join_leave_def)

lemma leave_base_query_in:
  "(i, l, x) \<in> set (leave_base_query d) \<Longrightarrow> (i, l) \<in> set (rows (leaves d))"
  by (auto simp: leave_base_query_def set_map_filter join_leave_def split: option.splits)

lemma leave_base_query_of:
  "leave_refs d \<Longrightarrow> (i, l) \<in> set (rows (leaves d)) \<Longrightarrow> \<exists>x. (i, l, x) \<in> set (leave_base_query d)"
  using join_leave_ok [of d i l] by (force simp: leave_base_query_def set_map_filter)

lemma lr_fields [simp]:
  "lr_id (leave_row_to_response r) = fst r" "lr_company_id (leave_row_to_response r) = lv_company_id (row_leave r)"
  "lr_start_date (leave_row_to_response r) = lv_start (row_leave r)"
  "lr_end_date (leave_row_to_response r) = lv_end (row_leave r)"
  "lr_worker_id (leave_row_to_response r) = lv_worker_id (row_leave r)"
  "lr_type (leave_row_to_response r) = lv_type (row_leave r)"
  "lr_reason (leave_row_to_response r) = lv_reason (row_leave r)"
  "lr_days (leave_row_to_response r) = lv_days (row_leave r)"
  "lr_status (leave_row_to_response r) = lv_status (row_leave r)"
  by (cases r; simp)+

lemma get_leave_response_row:
  "get_leave_response i d = Inr resp \<Longrightarrow>
   \<exists>l x. (i, l) \<in> set (rows (leaves d)) \<and> resp = leave_row_to_response (i, l, x)"
proof -
  assume "get_leave_response i d = Inr resp"
  then obtain r where r: "filter (\<lambda>r. fst r = i) (leave_base_query d) = [r]" "resp = leave_row_to_response r"
    by (auto simp: get_leave_response_def split: list.splits)
  then have "r \<in> {r \<in> set (leave_base_query d). fst r = i}"
    by (metis list.set_intros(1) set_filter)
  then obtain l x where lx: "r = (i, l, x)" "(i, l, x) \<in> set (leave_base_query d)" by (cases r) simp
  from leave_base_query_in [OF lx(2)] have "(i, l) \<in> set (rows (leaves d))" .
  with r(2) lx(1) show ?thesis by blast
qed

lemma days_card: "(a::int) \<le> b \<Longrightarrow> b - a + 1 = int (card {a..b})"
  by simp

text \<open>Two periods share a day exactly when neither ends before the other starts.\<close>

lemma periods_overlap:
  "(a::int) \<le> b \<Longrightarrow> f \<le> t \<Longrightarrow> ({a..b} \<inter> {f..t} \<noteq> {}) \<longleftrightarrow> f \<le> b \<and> a \<le> t"
  by auto

section \<open>Properties\<close>

text \<open>C17: a leave that is created is stored under a new key with the worker, the company, the type, the
  period and the reason of the request, the account that made it and the time; it counts every
  day of the period including both ends and starts approved only if asked to; the answer shows the stored
  leave, and nothing else changes.\<close>

theorem create_leave_spec:
  assumes inv: "leaves_inv (leaves d)" and c: "create_leave req actor now d = Inr (resp, d')"
  shows "lr_days resp = int (card {lc_start_date req .. lc_end_date req}) \<and> 1 \<le> lr_days resp
    \<and> lr_status resp = (if lc_auto_approve req then APPROVED else PENDING)
    \<and> lr_id resp = next_id (leaves d) \<and> tget (leaves d) (lr_id resp) = None
    \<and> lr_worker_id resp = lc_worker_id req \<and> lr_company_id resp = lc_company_id req
    \<and> lr_type resp = lc_type req \<and> lr_reason resp = lc_reason req
    \<and> lr_start_date resp = lc_start_date req \<and> lr_end_date resp = lc_end_date req
    \<and> tget (leaves d') (lr_id resp) = Some
        \<lparr>lv_worker_id = lc_worker_id req, lv_company_id = lc_company_id req, lv_type = lc_type req,
         lv_start = lc_start_date req, lv_end = lc_end_date req,
         lv_days = int (card {lc_start_date req .. lc_end_date req}),
         lv_status = (if lc_auto_approve req then APPROVED else PENDING), lv_reason = lc_reason req,
         lv_created_by = Some actor, lv_created_at = now\<rparr>
    \<and> leaves_inv (leaves d') \<and> d' = d\<lparr>leaves := leaves d'\<rparr>
    \<and> (\<forall>i. i \<noteq> lr_id resp \<longrightarrow> tget (leaves d') i = tget (leaves d) i)"
proof -
  define l where "l = \<lparr>lv_worker_id = lc_worker_id req, lv_company_id = lc_company_id req, lv_type = lc_type req,
     lv_start = lc_start_date req, lv_end = lc_end_date req, lv_days = lc_end_date req - lc_start_date req + 1,
     lv_status = (if lc_auto_approve req then APPROVED else PENDING), lv_reason = lc_reason req,
     lv_created_by = Some actor, lv_created_at = now\<rparr>"
  from c have d': "d' = d\<lparr>leaves := tins l (leaves d)\<rparr>" and le: "lc_start_date req \<le> lc_end_date req"
    and resp: "get_leave_response (next_id (leaves d)) d' = Inr resp"
    by (auto simp: create_leave_def Let_def flow l_def)
  from get_leave_response_row [OF resp] obtain m x where
    m: "(next_id (leaves d), m) \<in> set (rows (leaves d'))" "resp = leave_row_to_response (next_id (leaves d), m, x)"
    by blast
  have ok: "table_ok (leaves d)" using inv by (rule leaves_inv_ok)
  have "(next_id (leaves d), m) \<notin> set (rows (leaves d))" using table_okD(2) [OF ok] by blast
  with m(1) d' have "m = l" by (simp add: rows_tins)
  with m(2) have r: "lr_days resp = lv_days l" "lr_status resp = lv_status l" "lr_id resp = next_id (leaves d)"
    "lr_worker_id resp = lv_worker_id l" "lr_company_id resp = lv_company_id l" "lr_type resp = lv_type l"
    "lr_reason resp = lv_reason l" "lr_start_date resp = lv_start l" "lr_end_date resp = lv_end l" by simp_all
  have "int (card {lc_start_date req .. lc_end_date req}) = lc_end_date req - lc_start_date req + 1" using le by simp
  then show ?thesis using r le leaves_inv_create [OF inv c]
    by (simp add: l_def d' tget_tins [OF ok] tget_next [OF ok])
qed

text \<open>A request of the sample company: three days for its worker.\<close>

definition sample_leave_request :: "leave_create_request" where
  "sample_leave_request = \<lparr>lc_worker_id = 1, lc_company_id = 1, lc_type = ANNUAL, lc_start_date = 10,
     lc_end_date = 12, lc_reason = None, lc_auto_approve = True\<rparr>"

lemma sample_leave_returns: "\<not> isl (create_leave sample_leave_request 2 0 sample_db)"
  by code_simp

lemma sample_leaves_inv: "leaves_inv (leaves sample_db)"
  by (simp add: leaves_inv_def leaves_ok_def sample_db_def empty_db_def)

theorem create_leave_spec_witness:
  "\<exists>resp d'. create_leave sample_leave_request 2 0 sample_db = Inr (resp, d') \<and> lr_days resp = 3 \<and> lr_id resp = 1
     \<and> lr_start_date resp = 10"
proof -
  obtain resp d' where c: "create_leave sample_leave_request 2 0 sample_db = Inr (resp, d')"
    using returned [OF sample_leave_returns] by blast
  have "next_id (leaves sample_db) = 1" by (simp add: sample_db_def empty_db_def empty_table_def)
  moreover have "int (card {lc_start_date sample_leave_request .. lc_end_date sample_leave_request}) = 3"
    by (simp add: sample_leave_request_def)
  moreover have "lc_start_date sample_leave_request = 10" by (simp add: sample_leave_request_def)
  ultimately show ?thesis using create_leave_spec [OF sample_leaves_inv c] c by metis
qed

text \<open>C19: the list of approved leaves of a company for a window of dates holds exactly the approved
  leaves of that company that share a day with the window.\<close>

theorem list_approved_overlap:
  assumes ok: "leaves_ok (leaves d)" and refs: "leave_refs d" and ft: "f \<le> t"
  shows "lr_id ` set (list_approved (Some c) (Some f) (Some t) d) =
    {i. \<exists>l. tget (leaves d) i = Some l \<and> lv_status l = APPROVED \<and> lv_company_id l = c
          \<and> {lv_start l .. lv_end l} \<inter> {f .. t} \<noteq> {}}"
proof -
  have t: "table_ok (leaves d)" using ok by (simp add: leaves_ok_def)
  have le: "(i, l) \<in> set (rows (leaves d)) \<Longrightarrow> lv_start l \<le> lv_end l" for i l
    using ok by (auto simp: leaves_ok_def all_rows_def)
  have "i \<in> lr_id ` set (list_approved (Some c) (Some f) (Some t) d) \<longleftrightarrow>
      (\<exists>l. (i, l) \<in> set (rows (leaves d)) \<and> lv_status l = APPROVED \<and> lv_company_id l = c
        \<and> f \<le> lv_end l \<and> lv_start l \<le> t)" (is "?L \<longleftrightarrow> ?R") for i
  proof
    assume ?L
    then obtain r where "r \<in> set (leave_base_query d)" "fst r = i" "lv_status (row_leave r) = APPROVED"
      "lv_company_id (row_leave r) = c" "f \<le> lv_end (row_leave r)" "lv_start (row_leave r) \<le> t"
      by (auto simp: list_approved_def leave_window_def)
    then show ?R using leave_base_query_in [of i "row_leave r" "snd (snd r)" d] by (cases r) auto
  next
    assume ?R
    then obtain l x where "(i, l, x) \<in> set (leave_base_query d)" "lv_status l = APPROVED" "lv_company_id l = c"
      "f \<le> lv_end l" "lv_start l \<le> t" using leave_base_query_of [OF refs] by blast
    then show ?L by (force simp: list_approved_def leave_window_def)
  qed
  moreover have "(f \<le> lv_end l \<and> lv_start l \<le> t) = ({lv_start l .. lv_end l} \<inter> {f .. t} \<noteq> {})"
    if "(i, l) \<in> set (rows (leaves d))" for i l
    using periods_overlap [OF le [OF that] ft] by blast
  ultimately show ?thesis unfolding set_eq_iff mem_Collect_eq tget_iff [OF t] by metis
qed

text \<open>The sample database with the leave of the request.\<close>

definition leave_db :: db where
  "leave_db = snd (projr (create_leave sample_leave_request 2 0 sample_db))"

lemma leave_db_ok: "leaves_ok (leaves leave_db)" and leave_db_refs: "leave_refs leave_db"
proof -
  obtain resp d' where c: "create_leave sample_leave_request 2 0 sample_db = Inr (resp, d')"
    using returned [OF sample_leave_returns] by blast
  then have "leave_db = d'" by (simp add: leave_db_def)
  then show "leaves_ok (leaves leave_db)"
    using leaves_inv_create [OF sample_leaves_inv c] by (simp add: leaves_inv_def)
  show "leave_refs leave_db" by code_simp
qed

theorem list_approved_overlap_witness:
  "lr_id ` set (list_approved (Some 1) (Some 12) (Some 20) leave_db) =
    {i. \<exists>l. tget (leaves leave_db) i = Some l \<and> lv_status l = APPROVED \<and> lv_company_id l = 1
          \<and> {lv_start l .. lv_end l} \<inter> {12 .. 20} \<noteq> {}}
   \<and> list_approved (Some 1) (Some 12) (Some 20) leave_db \<noteq> []
   \<and> list_approved (Some 1) (Some 13) (Some 20) leave_db = []"
proof (intro conjI)
  show "lr_id ` set (list_approved (Some 1) (Some 12) (Some 20) leave_db) =
    {i. \<exists>l. tget (leaves leave_db) i = Some l \<and> lv_status l = APPROVED \<and> lv_company_id l = 1
          \<and> {lv_start l .. lv_end l} \<inter> {12 .. 20} \<noteq> {}}"
    by (rule list_approved_overlap [OF leave_db_ok leave_db_refs]) simp
qed code_simp+

text \<open>A charger who lists or searches leaves sees leaves of the own company only, newest period
  first, and asking for another company is refused.\<close>

lemma leave_lists_within_scope:
  assumes "api_list_leaves ilike (Some c) flt params d = Inr pg"
  shows "(\<forall>r \<in> set (pg_content pg). lr_company_id r = c)
    \<and> sorted (map (\<lambda>r. - lr_start_date r) (pg_content pg)) \<and> lf_company_id flt \<in> {None, Some c}"
proof -
  from assms obtain f where f: "resolve_company_filter (Some c) (lf_company_id flt) = Inr f"
    and pg: "pg = to_page_response (search_leaves ilike (flt\<lparr>lf_company_id := f\<rparr>) params d)"
    by (auto simp: api_list_leaves_def flow)
  from resolve_Inr [OF f] have f': "f = Some c" "lf_company_id flt \<in> {None, Some c}" by auto
  let ?rows = "order_by_desc (\<lambda>r. lv_start (row_leave r))
       (filter (leave_matches ilike (flt\<lparr>lf_company_id := f\<rparr>)) (leave_base_query d))"
  have content: "pg_content pg = map leave_row_to_response (slice params ?rows)"
    by (simp add: pg to_page_response_def page_response_of_def search_leaves_def Let_def)
  have "sorted (map (\<lambda>r. - lv_start (row_leave r)) ?rows)" by (rule sorted_order_by_desc)
  then have "sorted (map (\<lambda>r. - lv_start (row_leave r)) (slice params ?rows))"
    by (simp add: slice_def take_map [symmetric] drop_map [symmetric] sorted_wrt_take sorted_wrt_drop)
  then show ?thesis using f' set_slice [of params ?rows]
    by (auto simp: content comp_def leave_matches_def)
qed

lemma leave_lists_within_scope_witness:
  "\<exists>pg. api_list_leaves (\<lambda>_ _. True) (Some 1) \<lparr>lf_keyword = None, lf_company_id = None, lf_worker_id = None,
      lf_type = None, lf_status = None, lf_from = None, lf_to = None\<rparr> \<lparr>pp_page = 0, pp_size = 20\<rparr> leave_db = Inr pg
    \<and> pg_content pg \<noteq> [] \<and> (\<forall>r \<in> set (pg_content pg). lr_company_id r = 1)"
proof -
  let ?flt = "\<lparr>lf_keyword = None, lf_company_id = None, lf_worker_id = None,
      lf_type = None, lf_status = None, lf_from = None, lf_to = None\<rparr>"
  let ?call = "api_list_leaves (\<lambda>_ _. True) (Some 1) ?flt \<lparr>pp_page = 0, pp_size = 20\<rparr> leave_db"
  have "\<not> isl ?call \<and> pg_content (projr ?call) \<noteq> []" by code_simp
  then obtain pg where pg: "?call = Inr pg" "pg_content pg \<noteq> []" by (cases ?call) auto
  from leave_lists_within_scope [OF pg(1)] pg show ?thesis by blast
qed

end
