(* ===== verification/Kiosks.thy ===== *)
theory Kiosks
  imports Tenant Sample
begin

text \<open>
  Kiosks: app/services/kiosk.py, its DTOs in app/schemas/kiosk.py and its endpoints in
  app/api/v1/kiosks.py.  Every endpoint runs under a company scope.
\<close>

section \<open>Requests and responses\<close>

record kiosk_bind_request =
  kb_company_id :: int
  kb_kiosk_id :: string
  kb_name :: "string option"
  kb_location :: "string option"
  kb_capacity :: int

definition valid_kiosk_bind :: "kiosk_bind_request \<Rightarrow> bool" where
  "valid_kiosk_bind r \<longleftrightarrow> len_between 1 100 (kb_kiosk_id r) \<and> max_len 200 (kb_name r)
     \<and> max_len 500 (kb_location r) \<and> 0 \<le> kb_capacity r \<and> kb_capacity r \<le> 100000"

record kiosk_assignee_request =
  ka_assignee :: "string option"

definition valid_kiosk_assignee :: "kiosk_assignee_request \<Rightarrow> bool" where
  "valid_kiosk_assignee r = max_len 200 (ka_assignee r)"

record kiosk_response =
  kr_id :: int
  kr_company_id :: int
  kr_company_name :: "string option"
  kr_kiosk_id :: string
  kr_name :: "string option"
  kr_location :: "string option"
  kr_capacity :: int
  kr_current :: int
  kr_status :: string
  kr_assignee :: "string option"
  kr_last_reported_at :: "datetime option"

definition kiosk_to_response :: "int \<Rightarrow> kiosk \<Rightarrow> string option \<Rightarrow> kiosk_response" where
  "kiosk_to_response i k company_name =
     \<lparr>kr_id = i, kr_company_id = k_company_id k, kr_company_name = company_name,
      kr_kiosk_id = k_kiosk_id k, kr_name = k_name k, kr_location = k_location k,
      kr_capacity = k_capacity k, kr_current = k_current k, kr_status = k_status k,
      kr_assignee = k_assignee k, kr_last_reported_at = k_last_reported_at k\<rparr>"

section \<open>Queries\<close>

text \<open>A kiosk joined with the name of its company, in key order.\<close>

type_synonym kiosk_row = "int \<times> kiosk \<times> string"

definition join_kiosk :: "db \<Rightarrow> int \<times> kiosk \<Rightarrow> kiosk_row option" where
  "join_kiosk d = (\<lambda>(i, k). map_option (\<lambda>c. (i, k, co_name c)) (tget (companies d) (k_company_id k)))"

definition kiosk_rows :: "db \<Rightarrow> kiosk_row list" where
  "kiosk_rows d = List.map_filter (join_kiosk d) (rows (kiosks d))"

definition kiosk_row_response :: "kiosk_row \<Rightarrow> kiosk_response" where
  "kiosk_row_response = (\<lambda>(i, k, cname). kiosk_to_response i k (Some cname))"

definition list_kiosks_by_company :: "int \<Rightarrow> db \<Rightarrow> kiosk_response list" where
  "list_kiosks_by_company company_id d =
     map kiosk_row_response (filter (\<lambda>(i, k, cname). k_company_id k = company_id) (kiosk_rows d))"

definition kiosk_matches ::
    "(string \<Rightarrow> string \<Rightarrow> bool) \<Rightarrow> string option \<Rightarrow> int option \<Rightarrow> string option \<Rightarrow> kiosk_row \<Rightarrow> bool" where
  "kiosk_matches ilike keyword company_id status = (\<lambda>(i, k, cname).
     opt_filter company_id (\<lambda>c k. k_company_id k = c) k
     \<and> (truthy status \<longrightarrow> Some (k_status k) = status)
     \<and> keyword_match keyword (\<lambda>p. ilike_opt ilike (k_name k) p \<or> ilike (k_kiosk_id k) p \<or> ilike cname p))"

definition search_kiosks ::
    "(string \<Rightarrow> string \<Rightarrow> bool) \<Rightarrow> string option \<Rightarrow> int option \<Rightarrow> string option \<Rightarrow> page_params \<Rightarrow> db
     \<Rightarrow> kiosk_response page" where
  "search_kiosks ilike keyword company_id status params d =
     paged kiosk_row_response params (filter (kiosk_matches ilike keyword company_id status) (kiosk_rows d))"

section \<open>Writers\<close>

definition bind_kiosk :: "kiosk_bind_request \<Rightarrow> db \<Rightarrow> exn + (kiosk_response \<times> db)" where
  "bind_kiosk req d =
     some_or (tget (companies d) (kb_company_id req)) (err COMPANY_NOT_FOUND) (\<lambda>company.
     raise_if (first_row (tsel (\<lambda>i k. k_company_id k = kb_company_id req \<and> k_kiosk_id k = kb_kiosk_id req)
                 (kiosks d)) \<noteq> None)
       (business CONFLICT (Some Kiosk_exists))
     (let kiosk = \<lparr>k_company_id = kb_company_id req, k_kiosk_id = kb_kiosk_id req,
                   k_name = Some (or_str (kb_name req) (kb_kiosk_id req)), k_location = kb_location req,
                   k_capacity = kb_capacity req, k_current = 0, k_status = ''OFFLINE'',
                   k_assignee = None, k_last_reported_at = None\<rparr>
      in Inr (kiosk_to_response (next_id (kiosks d)) kiosk (Some (co_name company)),
              d\<lparr>kiosks := tins kiosk (kiosks d)\<rparr>)))"

definition set_assignee ::
    "int \<Rightarrow> string option \<Rightarrow> scope \<Rightarrow> db \<Rightarrow> exn + (kiosk_response \<times> db)" where
  "set_assignee kiosk_id assignee company_scope d =
     some_or (tget (kiosks d) kiosk_id) (business RESOURCE_NOT_FOUND (Some Kiosk_missing)) (\<lambda>kiosk.
     let_ok (assert_company company_scope (Some (k_company_id kiosk))) (\<lambda>_.
     (let kiosk' = kiosk\<lparr>k_assignee := assignee\<rparr>
      in Inr (kiosk_to_response kiosk_id kiosk' (map_option co_name (tget (companies d) (k_company_id kiosk))),
              d\<lparr>kiosks := tupd kiosk_id kiosk' (kiosks d)\<rparr>))))"

definition unbind_kiosk :: "int \<Rightarrow> scope \<Rightarrow> db \<Rightarrow> exn + (unit \<times> db)" where
  "unbind_kiosk kiosk_id company_scope d =
     (case tget (kiosks d) kiosk_id of
        None \<Rightarrow> Inr ((), d)
      | Some kiosk \<Rightarrow>
          let_ok (assert_company company_scope (Some (k_company_id kiosk))) (\<lambda>_.
            Inr ((), d\<lparr>kiosks := tdel kiosk_id (kiosks d)\<rparr>)))"

section \<open>Endpoints\<close>

definition api_list_kiosks ::
    "(string \<Rightarrow> string \<Rightarrow> bool) \<Rightarrow> scope \<Rightarrow> string option \<Rightarrow> int option \<Rightarrow> string option \<Rightarrow> page_params \<Rightarrow> db
     \<Rightarrow> exn + kiosk_response page" where
  "api_list_kiosks ilike scope keyword company_id status params d =
     let_ok (resolve_company_filter scope company_id) (\<lambda>c.
       Inr (to_page_response (search_kiosks ilike keyword c status params d)))"

definition api_kiosks_by_company :: "scope \<Rightarrow> int \<Rightarrow> db \<Rightarrow> exn + kiosk_response list" where
  "api_kiosks_by_company scope company_id d =
     let_ok (assert_company scope (Some company_id)) (\<lambda>_. Inr (list_kiosks_by_company company_id d))"

definition api_bind_kiosk :: "kiosk_bind_request \<Rightarrow> scope \<Rightarrow> db \<Rightarrow> exn + (kiosk_response \<times> db)" where
  "api_bind_kiosk req scope d =
     let_ok (assert_company scope (Some (kb_company_id req))) (\<lambda>_. bind_kiosk req d)"

datatype kiosk_op = Bind_kiosk kiosk_bind_request | Set_assignee int kiosk_assignee_request | Unbind_kiosk int

fun exec_kiosk :: "scope \<Rightarrow> kiosk_op \<Rightarrow> db \<Rightarrow> exn + (kiosk_response option \<times> db)" where
  "exec_kiosk sc (Bind_kiosk req) d = let_ok (api_bind_kiosk req sc d) (\<lambda>(r, d'). Inr (Some r, d'))"
| "exec_kiosk sc (Set_assignee i req) d =
     let_ok (set_assignee i (ka_assignee req) sc d) (\<lambda>(r, d'). Inr (Some r, d'))"
| "exec_kiosk sc (Unbind_kiosk i) d = let_ok (unbind_kiosk i sc d) (\<lambda>(u, d'). Inr (None, d'))"

section \<open>Lemmas\<close>

lemma bind_kiosk_effect:
  "bind_kiosk req d = Inr (resp, d') \<Longrightarrow>
   \<exists>k. d' = d\<lparr>kiosks := tins k (kiosks d)\<rparr> \<and> resp = kiosk_to_response (next_id (kiosks d)) k
           (map_option co_name (tget (companies d) (kb_company_id req)))
     \<and> k_company_id k = kb_company_id req \<and> k_kiosk_id k = kb_kiosk_id req \<and> k_status k = ''OFFLINE''
     \<and> k_name k = Some (or_str (kb_name req) (kb_kiosk_id req))
     \<and> k_current k = 0 \<and> k_capacity k = kb_capacity req
     \<and> (\<forall>i x. (i, x) \<in> set (rows (kiosks d)) \<longrightarrow>
          (k_company_id x, k_kiosk_id x) \<noteq> (kb_company_id req, kb_kiosk_id req))"
  by (auto simp: bind_kiosk_def Let_def flow first_row_None tsel_empty_iff)

lemma set_assignee_effect:
  "set_assignee i a sc d = Inr (resp, d') \<Longrightarrow>
   \<exists>k. tget (kiosks d) i = Some k \<and> (sc = None \<or> sc = Some (k_company_id k))
     \<and> d' = d\<lparr>kiosks := tupd i (k\<lparr>k_assignee := a\<rparr>) (kiosks d)\<rparr>"
  by (auto simp: set_assignee_def Let_def flow)

lemma unbind_kiosk_effect:
  "unbind_kiosk i sc d = Inr (u, d') \<Longrightarrow>
   (tget (kiosks d) i = None \<and> d' = d) \<or>
   (\<exists>k. tget (kiosks d) i = Some k \<and> (sc = None \<or> sc = Some (k_company_id k))
      \<and> d' = d\<lparr>kiosks := tdel i (kiosks d)\<rparr>)"
  by (auto simp: unbind_kiosk_def flow split: option.splits)

lemma kiosks_ok_bind: "kiosks_ok (kiosks d) \<Longrightarrow> bind_kiosk req d = Inr (r, d') \<Longrightarrow> kiosks_ok (kiosks d')"
  by (auto simp: kiosks_ok_def kiosk_statuses_def dest!: bind_kiosk_effect intro!: unique_on_tins)

lemma kiosks_ok_assignee:
  "kiosks_ok (kiosks d) \<Longrightarrow> set_assignee i a sc d = Inr (r, d') \<Longrightarrow> kiosks_ok (kiosks d')"
  by (auto simp: kiosks_ok_def dest!: set_assignee_effect elim!: all_rows_change
      intro!: unique_on_tupd_same tget_in)

lemma kiosks_ok_unbind:
  "kiosks_ok (kiosks d) \<Longrightarrow> unbind_kiosk i sc d = Inr (u, d') \<Longrightarrow> kiosks_ok (kiosks d')"
  by (auto simp: kiosks_ok_def dest!: unbind_kiosk_effect intro!: all_rows_tdel unique_on_tdel)

lemma exec_kiosk_inv: "kiosks_ok (kiosks d) \<Longrightarrow> exec_kiosk sc x d = Inr (y, d') \<Longrightarrow> kiosks_ok (kiosks d')"
  by (cases x) (auto simp: flow api_bind_kiosk_def dest: kiosks_ok_bind kiosks_ok_assignee kiosks_ok_unbind)

lemma exec_kiosk_foreign:
  assumes "kiosks_ok (kiosks d)" and "exec_kiosk (Some c) x d = Inr (y, d')"
  shows "foreign_rows k_company_id c (kiosks d') = foreign_rows k_company_id c (kiosks d)"
  using assms
  by (cases x)
     (auto simp: flow api_bind_kiosk_def kiosks_ok_def dest!: bind_kiosk_effect set_assignee_effect unbind_kiosk_effect
       intro!: foreign_rows_tupd foreign_rows_tdel)

interpretation kiosk_tenant: tenant_resource kiosks k_company_id exec_kiosk kiosks_ok
  by unfold_locales (simp_all add: exec_kiosk_foreign exec_kiosk_inv)

lemma kiosk_rows_tins:
  "tget (companies d) (k_company_id k) = Some c \<Longrightarrow>
   kiosk_rows (d\<lparr>kiosks := tins k (kiosks d)\<rparr>) = kiosk_rows d @ [(next_id (kiosks d), k, co_name c)]"
  by (simp add: kiosk_rows_def tins_def map_filter_append List.map_filter_simps join_kiosk_def)

lemma rows_insert_delete:
  assumes "table_ok t"
  shows "rows (tdel (next_id t) (tins r t)) = rows t"
proof -
  have "filter (\<lambda>(k, x). k \<noteq> next_id t) (rows t) = rows t"
    using table_okD(2) [OF assms] by (fastforce intro!: filter_True)
  then show ?thesis by (simp add: tdel_def tins_def)
qed

section \<open>Properties\<close>

text \<open>A kiosk that is bound appears once, last, in the list of its company, named after its identifier
  when the request gives no name, offline and empty; binding the same identifier to the company
  again is a conflict, and unbinding it within the scope restores the table as it was.\<close>

lemma kiosk_bind_unbind:
  assumes ok: "kiosks_ok (kiosks d)" and b: "bind_kiosk req d = Inr (resp, d')"
    and sc: "sc = None \<or> sc = Some (kb_company_id req)"
  shows "list_kiosks_by_company (kb_company_id req) d' = list_kiosks_by_company (kb_company_id req) d @ [resp]
    \<and> kr_status resp = ''OFFLINE'' \<and> kr_current resp = 0
    \<and> kr_name resp = Some (if kb_name req = None \<or> kb_name req = Some [] then kb_kiosk_id req else the (kb_name req))
    \<and> bind_kiosk req d' = Inl (business CONFLICT (Some Kiosk_exists))
    \<and> (\<exists>d''. unbind_kiosk (kr_id resp) sc d' = Inr ((), d'') \<and> rows (kiosks d'') = rows (kiosks d))
    \<and> kiosks_ok (kiosks d')"
proof -
  from b obtain c where c: "tget (companies d) (kb_company_id req) = Some c"
    by (auto simp: bind_kiosk_def flow)
  from bind_kiosk_effect [OF b] obtain k where d': "d' = d\<lparr>kiosks := tins k (kiosks d)\<rparr>"
    and resp: "resp = kiosk_to_response (next_id (kiosks d)) k (Some (co_name c))"
    and k: "k_company_id k = kb_company_id req" "k_kiosk_id k = kb_kiosk_id req" "k_status k = ''OFFLINE''"
      "k_current k = 0" "k_name k = Some (or_str (kb_name req) (kb_kiosk_id req))"
    by (auto simp: c)
  have t: "table_ok (kiosks d)" using ok by (simp add: kiosks_ok_def)
  have "list_kiosks_by_company (kb_company_id req) d' = list_kiosks_by_company (kb_company_id req) d @ [resp]"
    using c k by (simp add: d' list_kiosks_by_company_def kiosk_rows_tins kiosk_row_response_def resp)
  moreover have "bind_kiosk req d' = Inl (business CONFLICT (Some Kiosk_exists))"
    using c k by (auto simp: bind_kiosk_def d' first_row_None tsel_tins raise_if_def)
  moreover have "unbind_kiosk (kr_id resp) sc d' = Inr ((), d'\<lparr>kiosks := tdel (next_id (kiosks d)) (kiosks d')\<rparr>)"
    using sc k by (auto simp: unbind_kiosk_def resp kiosk_to_response_def d' tget_tins [OF t] assert_company_Some)
  ultimately show ?thesis
    using kiosks_ok_bind [OF ok b] k
    by (auto simp: resp kiosk_to_response_def d' rows_insert_delete [OF t] or_str_def split: option.splits)
qed

definition sample_kiosk_request :: kiosk_bind_request where
  "sample_kiosk_request = \<lparr>kb_company_id = 1, kb_kiosk_id = ''K-1'', kb_name = None, kb_location = None, kb_capacity = 4\<rparr>"

lemma sample_kiosk_returns: "\<not> isl (bind_kiosk sample_kiosk_request sample_db)"
  by code_simp

lemma kiosk_bind_unbind_witness:
  "\<exists>resp d'. bind_kiosk sample_kiosk_request sample_db = Inr (resp, d') \<and> kr_name resp = Some ''K-1''
    \<and> isl (bind_kiosk sample_kiosk_request d')"
proof -
  obtain resp d' where b: "bind_kiosk sample_kiosk_request sample_db = Inr (resp, d')"
    using returned [OF sample_kiosk_returns] by blast
  have ok: "kiosks_ok (kiosks sample_db)" using sample_schema_ok by (simp add: schema_ok_def)
  from kiosk_bind_unbind [OF ok b, of None] b show ?thesis
    by (auto simp: sample_kiosk_request_def)
qed

end
