(* ===== verification/Workers.thy ===== *)
theory Workers
  imports Security Sample
begin

text \<open>
  Workers and their employment: app/services/worker.py, its DTOs in app/schemas/worker.py and its
  endpoints in app/api/v1/workers.py.  A worker is a row of its own that refers to a user; an
  employment is a row of \<open>company_workers\<close>.  The salt of bcrypt and the clock are arguments.
\<close>

section \<open>Requests and responses\<close>

record worker_create_request =
  nw_username :: string
  nw_email :: string
  nw_password :: string
  nw_name :: string
  nw_phone :: "string option"

definition valid_worker_create :: "worker_create_request \<Rightarrow> bool" where
  "valid_worker_create r \<longleftrightarrow> len_between 1 150 (nw_username r) \<and> length (nw_email r) \<le> 255
     \<and> len_between 8 100 (nw_password r) \<and> len_between 1 100 (nw_name r) \<and> max_len 32 (nw_phone r)"

record worker_hire_request =
  wh_company_id :: int
  wh_worker_id :: int

record worker_response =
  wk_id :: int
  wk_user_id :: int
  wk_username :: string
  wk_name :: string
  wk_email :: "string option"
  wk_phone :: "string option"
  wk_employment_status :: string
  wk_retired_at :: "date option"

record company_worker_response =
  cwr_id :: int
  cwr_company_id :: int
  cwr_company_name :: string
  cwr_worker :: worker_response
  cwr_hired :: bool

definition to_worker_response :: "int \<Rightarrow> challenged_worker \<Rightarrow> user \<Rightarrow> worker_response" where
  "to_worker_response i w u =
     \<lparr>wk_id = i, wk_user_id = w_user_id w, wk_username = u_username u, wk_name = u_name u,
      wk_email = u_email u, wk_phone = u_phone u,
      wk_employment_status = (if w_retired_at w \<noteq> None then ''RETIRED'' else ''ACTIVE''),
      wk_retired_at = map_option date_of (w_retired_at w)\<rparr>"

definition to_company_worker_response ::
    "int \<Rightarrow> company_worker \<Rightarrow> challenged_worker \<Rightarrow> user \<Rightarrow> company \<Rightarrow> company_worker_response" where
  "to_company_worker_response i cw w u c =
     \<lparr>cwr_id = i, cwr_company_id = cw_company_id cw, cwr_company_name = co_name c,
      cwr_worker = to_worker_response (cw_worker_id cw) w u, cwr_hired = cw_is_hired cw\<rparr>"

section \<open>Workers\<close>

definition worker_or_throw :: "int \<Rightarrow> db \<Rightarrow> exn + challenged_worker" where
  "worker_or_throw i d = some_or (tget (workers d) i) (err WORKER_NOT_FOUND) Inr"

text \<open>The worker with its user; a missing user fails the assertion.\<close>

definition worker_and_user :: "int \<Rightarrow> db \<Rightarrow> exn + (challenged_worker \<times> user)" where
  "worker_and_user i d =
     let_ok (worker_or_throw i d) (\<lambda>w.
     some_or (tget (users d) (w_user_id w)) AssertionError (\<lambda>u. Inr (w, u)))"

definition get_worker :: "int \<Rightarrow> db \<Rightarrow> exn + worker_response" where
  "get_worker i d = let_ok (worker_and_user i d) (\<lambda>(w, u). Inr (to_worker_response i w u))"

definition create_worker :: "libs \<Rightarrow> worker_create_request \<Rightarrow> string \<Rightarrow> db \<Rightarrow> exn + (worker_response \<times> db)" where
  "create_worker L req salt d =
     raise_if (first_row (tsel (\<lambda>i u. u_username u = nw_username req) (users d)) \<noteq> None)
       (username_duplicated (nw_username req))
     (let u = \<lparr>u_username = nw_username req, u_email = Some (nw_email req),
               u_password_hash = hash_password L (nw_password req) salt, u_name = nw_name req,
               u_phone = nw_phone req, u_role = WORKER, u_enabled = True, u_last_login_at = None\<rparr>;
          w = \<lparr>w_user_id = next_id (users d), w_fcm_token = None, w_retired_at = None\<rparr>
      in Inr (to_worker_response (next_id (workers d)) w u,
              d\<lparr>users := tins u (users d), workers := tins w (workers d)\<rparr>))"

type_synonym worker_row = "int \<times> challenged_worker \<times> user"

definition worker_rows :: "db \<Rightarrow> worker_row list" where
  "worker_rows d = List.map_filter (\<lambda>(i, w). map_option (\<lambda>u. (i, w, u)) (tget (users d) (w_user_id w)))
     (rows (workers d))"

definition worker_matches ::
    "(string \<Rightarrow> string \<Rightarrow> bool) \<Rightarrow> string option \<Rightarrow> string option \<Rightarrow> worker_row \<Rightarrow> bool" where
  "worker_matches ilike keyword employment_status = (\<lambda>(i, w, u).
     keyword_match keyword (\<lambda>p. ilike (u_username u) p \<or> ilike (u_name u) p \<or> ilike_opt ilike (u_email u) p)
     \<and> (if employment_status = Some ''ACTIVE'' then w_retired_at w = None
        else if employment_status = Some ''RETIRED'' then w_retired_at w \<noteq> None
        else True))"

definition search_workers ::
    "(string \<Rightarrow> string \<Rightarrow> bool) \<Rightarrow> string option \<Rightarrow> page_params \<Rightarrow> string option \<Rightarrow> db \<Rightarrow> worker_response page" where
  "search_workers ilike keyword params employment_status d =
     paged (\<lambda>(i, w, u). to_worker_response i w u) params
       (order_by_desc fst (filter (worker_matches ilike keyword employment_status) (worker_rows d)))"

definition retire_worker :: "int \<Rightarrow> datetime \<Rightarrow> db \<Rightarrow> exn + (worker_response \<times> db)" where
  "retire_worker i now d =
     let_ok (worker_and_user i d) (\<lambda>(w, u).
     (let w' = (if w_retired_at w = None then w\<lparr>w_retired_at := Some now\<rparr> else w)
      in Inr (to_worker_response i w' u, d\<lparr>workers := tupd i w' (workers d)\<rparr>)))"

definition rehire_worker :: "int \<Rightarrow> db \<Rightarrow> exn + (worker_response \<times> db)" where
  "rehire_worker i d =
     let_ok (worker_and_user i d) (\<lambda>(w, u).
     (let w' = w\<lparr>w_retired_at := None\<rparr>
      in Inr (to_worker_response i w' u, d\<lparr>workers := tupd i w' (workers d)\<rparr>)))"

section \<open>Employment\<close>

definition hire_worker :: "int \<Rightarrow> int \<Rightarrow> db \<Rightarrow> exn + (company_worker_response \<times> db)" where
  "hire_worker company_id worker_id d =
     raise_if (first_row (tsel (\<lambda>i c. cw_company_id c = company_id \<and> cw_worker_id c = worker_id)
                 (company_workers d)) \<noteq> None)
       (err WORKER_ALREADY_HIRED)
     (some_or (tget (companies d) company_id) (err COMPANY_NOT_FOUND) (\<lambda>company.
      let_ok (worker_and_user worker_id d) (\<lambda>(w, u).
      (let cw = \<lparr>cw_company_id = company_id, cw_worker_id = worker_id, cw_is_hired = True\<rparr>
       in Inr (to_company_worker_response (next_id (company_workers d)) cw w u company,
               d\<lparr>company_workers := tins cw (company_workers d)\<rparr>)))))"

definition fire_worker :: "int \<Rightarrow> db \<Rightarrow> exn + (unit \<times> db)" where
  "fire_worker company_worker_id d =
     some_or (tget (company_workers d) company_worker_id) (err WORKER_NOT_FOUND) (\<lambda>cw.
       Inr ((), d\<lparr>company_workers := tupd company_worker_id (cw\<lparr>cw_is_hired := False\<rparr>) (company_workers d)\<rparr>))"

text \<open>An employment joined with its worker, the user and the company.\<close>

type_synonym employment_row = "int \<times> company_worker \<times> challenged_worker \<times> user \<times> company"

definition employment_rows :: "db \<Rightarrow> employment_row list" where
  "employment_rows d = List.map_filter
     (\<lambda>(i, cw). Option.bind (tget (workers d) (cw_worker_id cw)) (\<lambda>w.
                 Option.bind (tget (users d) (w_user_id w)) (\<lambda>u.
                 map_option (\<lambda>c. (i, cw, w, u, c)) (tget (companies d) (cw_company_id cw)))))
     (rows (company_workers d))"

definition employment_response :: "employment_row \<Rightarrow> company_worker_response" where
  "employment_response = (\<lambda>(i, cw, w, u, c). to_company_worker_response i cw w u c)"

definition list_workers_by_company :: "int \<Rightarrow> page_params \<Rightarrow> db \<Rightarrow> company_worker_response page" where
  "list_workers_by_company company_id params d =
     paged employment_response params (order_by_desc fst
       (filter (\<lambda>(i, cw, x). cw_company_id cw = company_id) (employment_rows d)))"

definition list_memberships :: "int \<Rightarrow> db \<Rightarrow> exn + company_worker_response list" where
  "list_memberships worker_id d =
     let_ok (worker_or_throw worker_id d) (\<lambda>_.
       Inr (map employment_response (order_by_desc fst
         (filter (\<lambda>(i, cw, x). cw_worker_id cw = worker_id) (employment_rows d)))))"

section \<open>Endpoints\<close>

text \<open>
  The writing endpoints ask for an administrator or a charger; they take no company scope.  The
  reading ones are open to every authenticated user.
\<close>

datatype worker_op =
    Create_worker worker_create_request string
  | Hire_worker worker_hire_request
  | Fire_company_worker int
  | Retire_worker int datetime
  | Rehire_worker int

datatype worker_result = Worker_result worker_response | Employment_result company_worker_response | No_result

fun exec_worker :: "libs \<Rightarrow> principal \<Rightarrow> worker_op \<Rightarrow> db \<Rightarrow> exn + (worker_result \<times> db)" where
  "exec_worker L me (Create_worker req salt) d =
     let_ok (require_admin_or_charger me) (\<lambda>_. let_ok (create_worker L req salt d) (\<lambda>(r, d'). Inr (Worker_result r, d')))"
| "exec_worker L me (Hire_worker req) d =
     let_ok (require_admin_or_charger me) (\<lambda>_.
       let_ok (hire_worker (wh_company_id req) (wh_worker_id req) d) (\<lambda>(r, d'). Inr (Employment_result r, d')))"
| "exec_worker L me (Fire_company_worker i) d =
     let_ok (require_admin_or_charger me) (\<lambda>_. let_ok (fire_worker i d) (\<lambda>(u, d'). Inr (No_result, d')))"
| "exec_worker L me (Retire_worker i now) d =
     let_ok (require_admin_or_charger me) (\<lambda>_. let_ok (retire_worker i now d) (\<lambda>(r, d'). Inr (Worker_result r, d')))"
| "exec_worker L me (Rehire_worker i) d =
     let_ok (require_admin_or_charger me) (\<lambda>_. let_ok (rehire_worker i d) (\<lambda>(r, d'). Inr (Worker_result r, d')))"

definition api_list_workers ::
    "(string \<Rightarrow> string \<Rightarrow> bool) \<Rightarrow> string option \<Rightarrow> string option \<Rightarrow> page_params \<Rightarrow> db \<Rightarrow> worker_response page api_response" where
  "api_list_workers ilike keyword employment_status params d =
     api_ok (Some (to_page_response (search_workers ilike keyword params employment_status d)))"

definition api_workers_by_company :: "int \<Rightarrow> page_params \<Rightarrow> db \<Rightarrow> company_worker_response page api_response" where
  "api_workers_by_company company_id params d =
     api_ok (Some (to_page_response (list_workers_by_company company_id params d)))"

section \<open>Lemmas\<close>

text \<open>What an operation that returned has done.\<close>

lemma create_worker_effect:
  "create_worker L req salt d = Inr (r, d') \<Longrightarrow>
   \<exists>u. d' = d\<lparr>users := tins u (users d),
             workers := tins \<lparr>w_user_id = next_id (users d), w_fcm_token = None, w_retired_at = None\<rparr> (workers d)\<rparr>
     \<and> u_username u = nw_username req \<and> (\<forall>i x. (i, x) \<in> set (rows (users d)) \<longrightarrow> u_username x \<noteq> nw_username req)"
  by (auto simp: create_worker_def Let_def flow first_row_None tsel_empty_iff)

lemma hire_worker_effect:
  "hire_worker c w d = Inr (r, d') \<Longrightarrow>
   d' = d\<lparr>company_workers := tins \<lparr>cw_company_id = c, cw_worker_id = w, cw_is_hired = True\<rparr> (company_workers d)\<rparr>
   \<and> (\<forall>i x. (i, x) \<in> set (rows (company_workers d)) \<longrightarrow> (cw_company_id x, cw_worker_id x) \<noteq> (c, w))"
  by (auto simp: hire_worker_def Let_def flow first_row_None tsel_empty_iff split: prod.splits)

lemma fire_worker_effect:
  "fire_worker i d = Inr (u, d') \<Longrightarrow>
   \<exists>cw. tget (company_workers d) i = Some cw
     \<and> d' = d\<lparr>company_workers := tupd i (cw\<lparr>cw_is_hired := False\<rparr>) (company_workers d)\<rparr>"
  by (auto simp: fire_worker_def flow)

lemma retire_worker_effect:
  "retire_worker i now d = Inr (r, d') \<Longrightarrow> \<exists>w u. tget (workers d) i = Some w \<and> tget (users d) (w_user_id w) = Some u
     \<and> d' = d\<lparr>workers := tupd i (if w_retired_at w = None then w\<lparr>w_retired_at := Some now\<rparr> else w) (workers d)\<rparr>
     \<and> r = to_worker_response i (if w_retired_at w = None then w\<lparr>w_retired_at := Some now\<rparr> else w) u"
  by (auto simp: retire_worker_def worker_and_user_def worker_or_throw_def Let_def flow)

lemma rehire_worker_effect:
  "rehire_worker i d = Inr (r, d') \<Longrightarrow> \<exists>w. tget (workers d) i = Some w
     \<and> d' = d\<lparr>workers := tupd i (w\<lparr>w_retired_at := None\<rparr>) (workers d)\<rparr>"
  by (auto simp: rehire_worker_def worker_and_user_def worker_or_throw_def Let_def flow)

text \<open>How the table of employments may change: not at all, by a new employment of a worker the company
  never employed, or by the end of one.\<close>

inductive employment_step :: "company_worker table \<Rightarrow> company_worker table \<Rightarrow> bool" where
  unchanged: "employment_step t t"
| hired: "(\<And>i e. (i, e) \<in> set (rows t) \<Longrightarrow> (cw_company_id e, cw_worker_id e) \<noteq> (c, w))
    \<Longrightarrow> employment_step t (tins \<lparr>cw_company_id = c, cw_worker_id = w, cw_is_hired = True\<rparr> t)"
| ended: "tget t i = Some e \<Longrightarrow> employment_step t (tupd i (e\<lparr>cw_is_hired := False\<rparr>) t)"

lemma employment_step_ok: "employment_step t t' \<Longrightarrow> company_workers_ok t \<Longrightarrow> company_workers_ok t'"
  by (induction rule: employment_step.induct)
     (auto simp: company_workers_ok_def intro!: unique_on_tins unique_on_tupd_same tget_in)

lemma employment_step_ended:
  "employment_step t t' \<Longrightarrow> tget t i = Some e \<Longrightarrow> \<not> cw_is_hired e \<Longrightarrow> tget t' i = Some e"
  by (induction rule: employment_step.induct) (auto simp: tget_tins_old tget_tupd)

lemma exec_worker_employments:
  assumes "exec_worker L me x d = Inr (y, d')"
  shows "employment_step (company_workers d) (company_workers d')"
  using assms
  by (cases x) (auto simp: flow intro!: employment_step.intros
      dest!: create_worker_effect hire_worker_effect fire_worker_effect retire_worker_effect rehire_worker_effect)

text \<open>The requests of several principals, one after the other.\<close>

definition worker_requests :: "libs \<Rightarrow> (principal \<times> worker_op) list \<Rightarrow> db \<Rightarrow> db" where
  "worker_requests L = run_steps (\<lambda>(me, x). exec_worker L me x)"

lemma worker_request_employments:
  "employment_step (company_workers d) (company_workers (run_step (\<lambda>(me, x). exec_worker L me x) q d))"
  by (cases q) (auto simp: run_step_def intro: exec_worker_employments employment_step.unchanged split: sum.splits)

lemma worker_requests_employments:
  assumes "company_workers_ok (company_workers d)" "tget (company_workers d) i = Some e" "\<not> cw_is_hired e"
  shows "company_workers_ok (company_workers (worker_requests L qs d))
    \<and> tget (company_workers (worker_requests L qs d)) i = Some e"
  unfolding worker_requests_def
proof (induction qs rule: rev_induct)
  case (snoc q qs)
  then show ?case
    using employment_step_ok [OF worker_request_employments] employment_step_ended [OF worker_request_employments]
      assms(3) by (simp add: run_steps_def)
qed (use assms in \<open>simp add: run_steps_def\<close>)

lemma hire_refused:
  "(i, e) \<in> set (rows (company_workers d)) \<Longrightarrow>
   hire_worker (cw_company_id e) (cw_worker_id e) d = Inl (err WORKER_ALREADY_HIRED)"
  by (force simp: hire_worker_def raise_if_def first_row_None tsel_empty_iff)

section \<open>Properties\<close>

text \<open>C28: an employment that was ended stays ended: whatever worker requests follow, by whomever, its row
  is unchanged, and hiring the worker into that company again is refused as already hired.\<close>

theorem fired_stays_fired:
  assumes "company_workers_ok (company_workers d)" and "fire_worker i d = Inr (u, d')"
    and "tget (company_workers d) i = Some e"
  shows "tget (company_workers (worker_requests L qs d')) i = Some (e\<lparr>cw_is_hired := False\<rparr>)
    \<and> hire_worker (cw_company_id e) (cw_worker_id e) (worker_requests L qs d') = Inl (err WORKER_ALREADY_HIRED)"
proof -
  have d': "company_workers d' = tupd i (e\<lparr>cw_is_hired := False\<rparr>) (company_workers d)"
    using assms(2,3) by (auto dest!: fire_worker_effect)
  have "company_workers_ok (company_workers d')" using assms(1,3)
    by (auto simp: company_workers_ok_def d' intro!: unique_on_tupd_same tget_in)
  moreover have "tget (company_workers d') i = Some (e\<lparr>cw_is_hired := False\<rparr>)"
    using assms(3) by (simp add: d' tget_tupd)
  ultimately have "tget (company_workers (worker_requests L qs d')) i = Some (e\<lparr>cw_is_hired := False\<rparr>)"
    using worker_requests_employments by simp
  with hire_refused [OF tget_in [OF this]] show ?thesis by simp
qed

theorem fired_stays_fired_witness:
  "\<exists>d'. fire_worker 1 sample_db = Inr ((), d') \<and> hire_worker 1 1 d' = Inl (err WORKER_ALREADY_HIRED)"
proof -
  let ?e = "\<lparr>cw_company_id = 1, cw_worker_id = 1, cw_is_hired = True\<rparr>"
  have e: "tget (company_workers sample_db) 1 = Some ?e" by (simp add: sample_defs table_eval)
  then obtain d' where f: "fire_worker 1 sample_db = Inr ((), d')" by (simp add: fire_worker_def)
  have ok: "company_workers_ok (company_workers sample_db)" using sample_schema_ok by (simp add: schema_ok_def)
  from fired_stays_fired [OF ok f e, of sample_libs "[]"] f show ?thesis
    by (simp add: worker_requests_def run_steps_def)
qed

text \<open>Retiring a worker marks it retired with the day of the first retirement, and retiring it again
  later changes nothing; rehiring makes it active again.  The searches for active and for retired
  workers split the search over all workers.\<close>

lemma retirement_spec:
  assumes r: "retire_worker i now d = Inr (r, d')"
  shows "wk_employment_status r = ''RETIRED'' \<and> wk_retired_at r \<noteq> None
    \<and> (\<forall>w. tget (workers d) i = Some w \<and> w_retired_at w = None \<longrightarrow> wk_retired_at r = Some (date_of now))
    \<and> retire_worker i later d' = Inr (r, d') \<and> get_worker i d' = Inr r
    \<and> (\<exists>r2 d2. rehire_worker i d' = Inr (r2, d2) \<and> wk_employment_status r2 = ''ACTIVE'' \<and> get_worker i d2 = Inr r2)
    \<and> pg_total_elements (search_workers ilike kw params None d') =
        pg_total_elements (search_workers ilike kw params (Some ''ACTIVE'') d')
        + pg_total_elements (search_workers ilike kw params (Some ''RETIRED'') d')"
proof -
  from retire_worker_effect [OF r] obtain w u where w: "tget (workers d) i = Some w"
    and u: "tget (users d) (w_user_id w) = Some u"
    and d': "d' = d\<lparr>workers := tupd i (if w_retired_at w = None then w\<lparr>w_retired_at := Some now\<rparr> else w) (workers d)\<rparr>"
    and res: "r = to_worker_response i (if w_retired_at w = None then w\<lparr>w_retired_at := Some now\<rparr> else w) u"
    by blast
  obtain w' where w': "w' = (if w_retired_at w = None then w\<lparr>w_retired_at := Some now\<rparr> else w)" by simp
  have f: "w_user_id w' = w_user_id w" "w_retired_at w' \<noteq> None" by (auto simp: w')
  have g: "worker_and_user i d' = Inr (w', u)"
    using w u f by (simp add: worker_and_user_def worker_or_throw_def d' w' [symmetric] tget_tupd)
  have same: "d'\<lparr>workers := tupd i w' (workers d')\<rparr> = d'"
    by (simp add: d' w' [symmetric] tupd_def comp_def case_prod_beta)
  have again: "worker_and_user i (d'\<lparr>workers := tupd i (w'\<lparr>w_retired_at := None\<rparr>) (workers d')\<rparr>) =
      Inr (w'\<lparr>w_retired_at := None\<rparr>, u)"
    using w u f by (simp add: worker_and_user_def worker_or_throw_def d' w' [symmetric] tget_tupd)
  have "length (filter (worker_matches ilike kw None) xs) =
      length (filter (worker_matches ilike kw (Some ''ACTIVE'')) xs)
      + length (filter (worker_matches ilike kw (Some ''RETIRED'')) xs)" for xs
    by (induction xs) (auto simp: worker_matches_def split: prod.splits)
  then have "pg_total_elements (search_workers ilike kw params None d') =
        pg_total_elements (search_workers ilike kw params (Some ''ACTIVE'') d')
        + pg_total_elements (search_workers ilike kw params (Some ''RETIRED'') d')"
    by (simp add: search_workers_def paged_def page_build_def Let_def)
  then show ?thesis using f w g same again
    by (auto simp: res w' [symmetric] retire_worker_def rehire_worker_def get_worker_def to_worker_response_def
        Let_def split: if_splits)
qed

lemma retirement_spec_witness:
  "\<exists>r d'. retire_worker 1 (day_start 9) sample_db = Inr (r, d') \<and> retire_worker 1 (day_start 10) d' = Inr (r, d')
    \<and> wk_employment_status r = ''RETIRED''"
proof -
  have "\<not> isl (retire_worker 1 (day_start 9) sample_db)" by code_simp
  then obtain r d' where "retire_worker 1 (day_start 9) sample_db = Inr (r, d')" using returned by blast
  from retirement_spec [OF this] this show ?thesis by blast
qed

end
