(* ===== verification/Boards.thy ===== *)
theory Boards
  imports Tenant Sample
begin

text \<open>
  The caregiver board: app/services/board.py, its DTOs in app/schemas/board.py and its endpoints in
  app/api/v1/boards.py.  Bodies are stored with the markup characters escaped (\<open>html.escape\<close>).

  The columns \<open>created_at\<close> and \<open>updated_at\<close> are filled by the database: a new row gets the time of
  its insert, and a row that an UPDATE changes gets the time of the update by the trigger of the
  migrations.  A response is built before the flush, so it still shows the old \<open>updated_at\<close>.
\<close>

section \<open>Requests and responses\<close>

record board_write_request =
  bw_title :: string
  bw_body :: string
  bw_published :: "bool option"

definition valid_board_write :: "board_write_request \<Rightarrow> bool" where
  "valid_board_write r \<longleftrightarrow> len_between 1 255 (bw_title r) \<and> bw_body r \<noteq> []"

record board_response =
  br_id :: int
  br_title :: string
  br_body :: string
  br_author_name :: "string option"
  br_author_id :: int
  br_published :: bool
  br_created_at :: datetime
  br_updated_at :: datetime

definition board_to_response :: "int \<Rightarrow> board \<Rightarrow> string option \<Rightarrow> board_response" where
  "board_to_response i b author_name =
     \<lparr>br_id = i, br_title = b_title b, br_body = b_body b, br_author_name = author_name,
      br_author_id = b_author_id b, br_published = b_published b, br_created_at = b_created_at b,
      br_updated_at = b_updated_at b\<rparr>"

section \<open>Escaping\<close>

text \<open>\<open>html.escape(s)\<close> replaces the five markup characters, the ampersand first.\<close>

definition escape_char :: "char \<Rightarrow> string" where
  "escape_char c =
     (if c = CHR ''&'' then ''&amp;''
      else if c = CHR ''<'' then ''&lt;''
      else if c = CHR ''>'' then ''&gt;''
      else if c = CHR 0x22 then ''&quot;''
      else if c = CHR 0x27 then ''&#x27;''
      else [c])"

definition sanitize :: "string \<Rightarrow> string" where
  "sanitize body = concat (map escape_char body)"

section \<open>The service\<close>

definition board_or_throw :: "int \<Rightarrow> db \<Rightarrow> exn + board" where
  "board_or_throw i d = some_or (tget (boards d) i) (err BOARD_NOT_FOUND) Inr"

definition author_name :: "int \<Rightarrow> db \<Rightarrow> string option" where
  "author_name i d = map_option u_name (tget (users d) i)"

definition get_board :: "int \<Rightarrow> db \<Rightarrow> exn + board_response" where
  "get_board i d =
     let_ok (board_or_throw i d) (\<lambda>b. Inr (board_to_response i b (author_name (b_author_id b) d)))"

type_synonym board_row = "int \<times> board \<times> string"

definition board_rows :: "db \<Rightarrow> board_row list" where
  "board_rows d = List.map_filter
     (\<lambda>(i, b). map_option (\<lambda>u. (i, b, u_name u)) (tget (users d) (b_author_id b))) (rows (boards d))"

definition list_boards ::
    "(string \<Rightarrow> string \<Rightarrow> bool) \<Rightarrow> string option \<Rightarrow> page_params \<Rightarrow> db \<Rightarrow> board_response page" where
  "list_boards ilike keyword params d =
     paged (\<lambda>(i, b, n). board_to_response i b (Some n)) params
       (order_by_desc (\<lambda>(i, b, n). b_created_at b)
         (filter (\<lambda>(i, b, n). b_published b
              \<and> keyword_match keyword (\<lambda>p. ilike (b_title b) p \<or> ilike (b_body b) p)) (board_rows d)))"

definition create_board :: "int \<Rightarrow> board_write_request \<Rightarrow> datetime \<Rightarrow> db \<Rightarrow> exn + (board_response \<times> db)" where
  "create_board author_user_id req now d =
     (if tget (users d) author_user_id = None then Inl IntegrityError
      else
        (let published = (case bw_published req of None \<Rightarrow> True | Some p \<Rightarrow> p);
             b = \<lparr>b_author_id = author_user_id, b_title = bw_title req, b_body = sanitize (bw_body req),
                  b_published = published, b_created_at = now, b_updated_at = now,
                  b_created_by = Some author_user_id, b_updated_by = Some author_user_id\<rparr>
         in Inr (board_to_response (next_id (boards d)) b (author_name author_user_id d),
                 d\<lparr>boards := tins b (boards d)\<rparr>)))"

text \<open>\<open>touch\<close> is the trigger: it stamps a row that really changed.\<close>

definition touch_board :: "datetime \<Rightarrow> board \<Rightarrow> board \<Rightarrow> board" where
  "touch_board now old new = (if new = old then old else new\<lparr>b_updated_at := now\<rparr>)"

definition update_board ::
    "int \<Rightarrow> int \<Rightarrow> board_write_request \<Rightarrow> datetime \<Rightarrow> db \<Rightarrow> exn + (board_response \<times> db)" where
  "update_board author_user_id i req now d =
     let_ok (board_or_throw i d) (\<lambda>b.
     raise_if (b_author_id b \<noteq> author_user_id) (auth_forbidden (Some (Text ''not the author'')))
     (let b' = b\<lparr>b_title := bw_title req, b_body := sanitize (bw_body req),
                 b_published := keep (bw_published req) (b_published b),
                 b_updated_by := Some author_user_id\<rparr>
      in Inr (board_to_response i b' (author_name (b_author_id b) d),
              d\<lparr>boards := tupd i (touch_board now b b') (boards d)\<rparr>)))"

definition delete_board :: "int \<Rightarrow> int \<Rightarrow> db \<Rightarrow> exn + (unit \<times> db)" where
  "delete_board author_user_id i d =
     let_ok (board_or_throw i d) (\<lambda>b.
     raise_if (b_author_id b \<noteq> author_user_id) (auth_forbidden (Some (Text ''not the author'')))
     (Inr ((), d\<lparr>boards := tdel i (boards d)\<rparr>)))"

section \<open>Endpoints\<close>

definition api_list_boards ::
    "(string \<Rightarrow> string \<Rightarrow> bool) \<Rightarrow> string option \<Rightarrow> page_params \<Rightarrow> db \<Rightarrow> board_response page api_response" where
  "api_list_boards ilike keyword params d = api_ok (Some (to_page_response (list_boards ilike keyword params d)))"

datatype board_op = Create_board board_write_request | Update_board int board_write_request | Delete_board int

text \<open>
  A request by the user whose id the token names, at a time; without a valid token there is no
  user and \<open>current_user\<close> refuses the request.
\<close>

fun exec_board :: "int option \<Rightarrow> datetime \<times> board_op \<Rightarrow> db \<Rightarrow> exn + (board_response option \<times> db)" where
  "exec_board None x d = Inl (auth_token_invalid ''missing bearer token'')"
| "exec_board (Some u) (now, Create_board req) d =
     let_ok (create_board u req now d) (\<lambda>(r, d'). Inr (Some r, d'))"
| "exec_board (Some u) (now, Update_board i req) d =
     let_ok (update_board u i req now d) (\<lambda>(r, d'). Inr (Some r, d'))"
| "exec_board (Some u) (now, Delete_board i) d =
     let_ok (delete_board u i d) (\<lambda>(u, d'). Inr (None, d'))"

section \<open>Lemmas\<close>

lemma sanitize_simps [simp]:
  "sanitize [] = []"
  "sanitize (c # s) = escape_char c @ sanitize s"
  by (simp_all add: sanitize_def)

definition markup :: "char set" where
  "markup = {CHR ''<'', CHR ''>'', CHR 0x22, CHR 0x27}"

lemma escape_char_inert: "set (escape_char c) \<inter> markup = {}"
  by (auto simp: escape_char_def markup_def)

lemma sanitize_inert: "set (sanitize s) \<inter> markup = {}"
proof (induction s)
  case (Cons c s)
  then show ?case using escape_char_inert [of c] by auto
qed simp

text \<open>Escaping keeps texts apart: no escape is a prefix of another one.\<close>

lemma escape_char_prefix_free:
  "escape_char c @ s = escape_char e @ t \<Longrightarrow> c = e \<and> s = t"
  by (auto simp: escape_char_def split: if_splits)

lemma escape_char_nonempty [simp]: "escape_char c \<noteq> []"
  by (simp add: escape_char_def)

lemma sanitize_inj: "sanitize s = sanitize t \<Longrightarrow> s = t"
proof (induction s arbitrary: t)
  case Nil
  then show ?case by (cases t) auto
next
  case (Cons c s)
  then obtain e u where t: "t = e # u" by (cases t) auto
  with Cons.prems have "c = e \<and> sanitize s = sanitize u"
    by (intro escape_char_prefix_free) simp
  with Cons.IH t show ?case by blast
qed

lemma sanitize_length: "length s \<le> length (sanitize s)"
  by (induction s) (auto simp: escape_char_def)

lemma sanitize_fixed_iff: "sanitize s = s \<longleftrightarrow> set s \<inter> ({CHR ''&''} \<union> markup) = {}"
proof (induction s)
  case (Cons c s)
  show ?case
  proof (cases "c \<in> {CHR ''&''} \<union> markup")
    case True
    then have "1 < length (escape_char c)" by (auto simp: escape_char_def markup_def)
    then have "length (c # s) < length (sanitize (c # s))" using sanitize_length [of s] by simp
    then have "sanitize (c # s) \<noteq> c # s" by (metis less_irrefl)
    then show ?thesis using True by auto
  next
    case False
    then have "escape_char c = [c]" by (auto simp: escape_char_def markup_def)
    then show ?thesis using Cons False by simp
  qed
qed simp

lemma touch_board_fields [simp]:
  "b_author_id (touch_board now b b') = b_author_id b'" "b_title (touch_board now b b') = b_title b'"
  "b_body (touch_board now b b') = b_body b'" "b_published (touch_board now b b') = b_published b'"
  by (auto simp: touch_board_def)

lemma create_board_effect:
  "create_board u req now d = Inr (r, d') \<Longrightarrow>
   \<exists>b. d' = d\<lparr>boards := tins b (boards d)\<rparr> \<and> b_author_id b = u \<and> b_body b = sanitize (bw_body req)
     \<and> r = board_to_response (next_id (boards d)) b (author_name u d)"
  by (auto simp: create_board_def Let_def split: if_splits)

lemma update_board_effect:
  "update_board u i req now d = Inr (r, d') \<Longrightarrow>
   \<exists>b b'. tget (boards d) i = Some b \<and> b_author_id b = u \<and> d' = d\<lparr>boards := tupd i b' (boards d)\<rparr>
     \<and> b_author_id b' = u \<and> b_title b' = bw_title req \<and> b_body b' = sanitize (bw_body req)
     \<and> b_published b' = keep (bw_published req) (b_published b)"
  by (force simp: update_board_def board_or_throw_def Let_def flow)

lemma delete_board_effect:
  "delete_board u i d = Inr (x, d') \<Longrightarrow>
   \<exists>b. tget (boards d) i = Some b \<and> b_author_id b = u \<and> d' = d\<lparr>boards := tdel i (boards d)\<rparr>"
  by (auto simp: delete_board_def board_or_throw_def flow)

text \<open>The boards of other authors, and what is kept of the table.\<close>

definition boards_inv :: "board table \<Rightarrow> bool" where
  "boards_inv t \<longleftrightarrow> table_ok t \<and> all_rows (\<lambda>_ b. set (b_body b) \<inter> markup = {}) t"

lemma boards_inv_write:
  assumes "boards_inv t" and "b_body b = sanitize x"
  shows "boards_inv (tins b t)" "boards_inv (tupd i b t)"
  using assms sanitize_inert [of x] by (simp_all add: boards_inv_def all_rows_tupd)

lemma boards_inv_tdel: "boards_inv t \<Longrightarrow> boards_inv (tdel i t)"
  by (simp add: boards_inv_def all_rows_tdel)

lemma exec_board_inv: "boards_inv (boards d) \<Longrightarrow> exec_board u x d = Inr (y, d') \<Longrightarrow> boards_inv (boards d')"
  by (cases u; cases x; cases "snd x")
     (auto simp: flow boards_inv_tdel boards_inv_write
       dest!: create_board_effect update_board_effect delete_board_effect)

lemma exec_board_foreign:
  assumes "boards_inv (boards d)" and "exec_board (Some u) x d = Inr (y, d')"
  shows "foreign_rows b_author_id u (boards d') = foreign_rows b_author_id u (boards d)"
  using assms
  by (cases x; cases "snd x")
     (auto simp: flow boards_inv_def dest!: create_board_effect update_board_effect delete_board_effect
       intro!: foreign_rows_tupd foreign_rows_tdel)

text \<open>A board belongs to its author as other resources belong to a company.\<close>

interpretation board_author: tenant_resource boards b_author_id exec_board boards_inv
  by unfold_locales (simp_all add: exec_board_foreign exec_board_inv)

section \<open>Properties\<close>



end
