(* ===== verification/Users.thy ===== *)
theory Users
  imports Auth
begin

text \<open>
  User administration: app/services/user.py with app/schemas/user.py and app/api/v1/users.py, and the
  chargers of the companies: app/services/charger.py with app/schemas/charger.py and
  app/api/v1/company_chargers.py.  Every endpoint asks for an administrator.
\<close>

section \<open>Users\<close>

record user_dto =
  ud_id :: int
  ud_username :: string
  ud_email :: "string option"
  ud_name :: string
  ud_phone :: "string option"
  ud_role :: user_role
  ud_enabled :: bool
  ud_last_login_at :: "datetime option"

definition user_dto_of :: "int \<Rightarrow> user \<Rightarrow> user_dto" where
  "user_dto_of i u = \<lparr>ud_id = i, ud_username = u_username u, ud_email = u_email u, ud_name = u_name u,
     ud_phone = u_phone u, ud_role = u_role u, ud_enabled = u_enabled u, ud_last_login_at = u_last_login_at u\<rparr>"

definition search_users ::
    "(string \<Rightarrow> string \<Rightarrow> bool) \<Rightarrow> string option \<Rightarrow> user_role option \<Rightarrow> page_params \<Rightarrow> db \<Rightarrow> user_dto page" where
  "search_users ilike keyword role params d =
     paged (\<lambda>(i, u). user_dto_of i u) params
       (tsel (\<lambda>i u. opt_filter role (\<lambda>r u. u_role u = r) u
            \<and> keyword_match keyword (\<lambda>p. ilike (u_name u) p \<or> ilike (u_username u) p \<or> ilike_opt ilike (u_email u) p))
          (users d))"

definition find_user_by_id :: "int \<Rightarrow> db \<Rightarrow> user option" where
  "find_user_by_id i d = tget (users d) i"

definition find_user_by_username :: "string \<Rightarrow> db \<Rightarrow> exn + (int \<times> user) option" where
  "find_user_by_username n d = scalar_one_or_none (tsel (\<lambda>i u. u_username u = n) (users d))"

definition find_user_by_email :: "string \<Rightarrow> db \<Rightarrow> exn + (int \<times> user) option" where
  "find_user_by_email e d = scalar_one_or_none (tsel (\<lambda>i u. u_email u = Some e) (users d))"

definition user_exists_by_username :: "string \<Rightarrow> db \<Rightarrow> bool" where
  "user_exists_by_username n d \<longleftrightarrow> 0 < length (tsel (\<lambda>i u. u_username u = n) (users d))"

definition user_exists_by_email :: "string \<Rightarrow> db \<Rightarrow> bool" where
  "user_exists_by_email e d \<longleftrightarrow> 0 < length (tsel (\<lambda>i u. u_email u = Some e) (users d))"

definition count_by_role :: "user_role \<Rightarrow> db \<Rightarrow> int" where
  "count_by_role r d = int (length (tsel (\<lambda>i u. u_role u = r) (users d)))"

definition get_user_by_id :: "int \<Rightarrow> db \<Rightarrow> exn + user" where
  "get_user_by_id i d = some_or (find_user_by_id i d) (user_not_found (Some i) None) Inr"

definition get_user_by_username :: "string \<Rightarrow> db \<Rightarrow> exn + (int \<times> user)" where
  "get_user_by_username n d =
     let_ok (find_user_by_username n d) (\<lambda>u. some_or u (user_not_found None (Some n)) Inr)"

definition set_enabled :: "int \<Rightarrow> bool \<Rightarrow> db \<Rightarrow> exn + (user_dto \<times> db)" where
  "set_enabled i enabled d =
     let_ok (get_user_by_id i d) (\<lambda>u.
     (let u' = u\<lparr>u_enabled := enabled\<rparr>
      in Inr (user_dto_of i u', d\<lparr>users := tupd i u' (users d)\<rparr>)))"

definition api_list_users ::
    "(string \<Rightarrow> string \<Rightarrow> bool) \<Rightarrow> principal \<Rightarrow> string option \<Rightarrow> user_role option \<Rightarrow> page_params \<Rightarrow> db
     \<Rightarrow> exn + user_dto page" where
  "api_list_users ilike actor keyword role params d =
     let_ok (require_admin actor) (\<lambda>_. Inr (to_page_response (search_users ilike keyword role params d)))"

definition api_set_enabled :: "principal \<Rightarrow> int \<Rightarrow> bool \<Rightarrow> db \<Rightarrow> exn + (user_dto \<times> db)" where
  "api_set_enabled actor i enabled d = let_ok (require_admin actor) (\<lambda>_. set_enabled i enabled d)"

section \<open>Chargers\<close>

record charger_response =
  chr_id :: int
  chr_user_id :: int
  chr_username :: string
  chr_name :: string
  chr_phone :: "string option"
  chr_email :: "string option"
  chr_company_id :: int
  chr_company_name :: "string option"
  chr_hired :: bool

record charger_update_request =
  cq_hired :: "bool option"

definition charger_to_response :: "int \<Rightarrow> company_charger \<Rightarrow> user \<Rightarrow> company \<Rightarrow> charger_response" where
  "charger_to_response i cc u c =
     \<lparr>chr_id = i, chr_user_id = ch_user_id cc, chr_username = u_username u, chr_name = u_name u,
      chr_phone = u_phone u, chr_email = u_email u, chr_company_id = ch_company_id cc,
      chr_company_name = Some (co_name c), chr_hired = ch_is_hired cc\<rparr>"

type_synonym charger_row = "int \<times> company_charger \<times> user \<times> company"

definition charger_rows :: "db \<Rightarrow> charger_row list" where
  "charger_rows d = List.map_filter
     (\<lambda>(i, cc). Option.bind (tget (users d) (ch_user_id cc)) (\<lambda>u.
                 map_option (\<lambda>c. (i, cc, u, c)) (tget (companies d) (ch_company_id cc))))
     (rows (chargers d))"

definition search_chargers ::
    "(string \<Rightarrow> string \<Rightarrow> bool) \<Rightarrow> string option \<Rightarrow> int option \<Rightarrow> page_params \<Rightarrow> db \<Rightarrow> charger_response page" where
  "search_chargers ilike keyword company_id params d =
     paged (\<lambda>(i, cc, u, c). charger_to_response i cc u c) params
       (filter (\<lambda>(i, cc, u, c). opt_filter company_id (\<lambda>k cc. ch_company_id cc = k) cc
            \<and> keyword_match keyword (\<lambda>p. ilike (u_name u) p \<or> ilike (u_username u) p \<or> ilike (co_name c) p))
          (charger_rows d))"

definition set_hired :: "int \<Rightarrow> bool \<Rightarrow> db \<Rightarrow> exn + (charger_response \<times> db)" where
  "set_hired charger_id hired d =
     some_or (tget (chargers d) charger_id) (business RESOURCE_NOT_FOUND (Some Charger_missing)) (\<lambda>cc.
     (let cc' = cc\<lparr>ch_is_hired := hired\<rparr>
      in some_or (tget (users d) (ch_user_id cc)) AssertionError (\<lambda>u.
         some_or (tget (companies d) (ch_company_id cc)) AssertionError (\<lambda>c.
           Inr (charger_to_response charger_id cc' u c, d\<lparr>chargers := tupd charger_id cc' (chargers d)\<rparr>)))))"

definition api_list_chargers ::
    "(string \<Rightarrow> string \<Rightarrow> bool) \<Rightarrow> principal \<Rightarrow> string option \<Rightarrow> int option \<Rightarrow> page_params \<Rightarrow> db
     \<Rightarrow> exn + charger_response page" where
  "api_list_chargers ilike actor keyword company_id params d =
     let_ok (require_admin actor) (\<lambda>_. Inr (to_page_response (search_chargers ilike keyword company_id params d)))"

text \<open>A request that does not say whether the charger is hired means that it is.\<close>

definition api_update_charger :: "principal \<Rightarrow> int \<Rightarrow> charger_update_request \<Rightarrow> db \<Rightarrow> exn + (charger_response \<times> db)" where
  "api_update_charger actor charger_id req d =
     let_ok (require_admin actor) (\<lambda>_.
       set_hired charger_id (case cq_hired req of None \<Rightarrow> True | Some h \<Rightarrow> h) d)"

section \<open>Lemmas\<close>

lemma find_user_by_username_is_fetch: "find_user_by_username n d = fetch_by_username n d"
  by (simp add: find_user_by_username_def fetch_by_username_def)

lemma user_exists_by_username_is_exists: "user_exists_by_username n d = exists_username n d"
  by (simp add: user_exists_by_username_def exists_username_def first_row_None)

lemma user_exists_by_email_is_exists: "user_exists_by_email e d = exists_email e d"
  by (simp add: user_exists_by_email_def exists_email_def first_row_None)

lemma set_enabled_effect:
  "set_enabled i e d = Inr (r, d') \<Longrightarrow>
   \<exists>u. tget (users d) i = Some u \<and> d' = d\<lparr>users := tupd i (u\<lparr>u_enabled := e\<rparr>) (users d)\<rparr>
     \<and> r = user_dto_of i (u\<lparr>u_enabled := e\<rparr>)"
  by (auto simp: set_enabled_def get_user_by_id_def find_user_by_id_def Let_def flow)

lemma users_ok_set_enabled:
  "users_ok (users d) \<Longrightarrow> set_enabled i e d = Inr (r, d') \<Longrightarrow> users_ok (users d')"
  by (auto simp: users_ok_def dest!: set_enabled_effect intro!: unique_on_tupd_same tget_in)

lemma set_hired_effect:
  "set_hired i h d = Inr (r, d') \<Longrightarrow>
   \<exists>cc. tget (chargers d) i = Some cc \<and> d' = d\<lparr>chargers := tupd i (cc\<lparr>ch_is_hired := h\<rparr>) (chargers d)\<rparr>"
  by (auto simp: set_hired_def Let_def flow)

lemma chargers_ok_set_hired:
  "chargers_ok (chargers d) \<Longrightarrow> set_hired i h d = Inr (r, d') \<Longrightarrow> chargers_ok (chargers d')"
  by (auto simp: chargers_ok_def dest!: set_hired_effect intro!: unique_on_tupd_same tget_in)

section \<open>Properties\<close>

text \<open>C21: disabling an account locks it out: every login with its name is refused as disabled, whatever the
  password, every refresh token of it that still verifies is refused and revoked on use, no other
  account changes, and enabling it again brings back a row that can log in as before.\<close>

theorem disabled_account_locked_out:
  assumes ok: "users_ok (users d)" and u: "tget (users d) i = Some u" "u_enabled u"
    and dis: "set_enabled i False d = Inr (r, d')"
    and tok: "parse_token s L token (Some REFRESH) now = Inr p" "pl_user_id p = i"
  shows "login s L \<lparr>lq_username = u_username u, lq_password = pw, lq_fcm_token = fcm\<rparr> now2 at d' st =
        (Inl auth_account_disabled, st)
    \<and> refresh s L token now d' st = (Inl auth_refresh_not_found, store_remove i st)
    \<and> users_ok (users d') \<and> (\<forall>j. j \<noteq> i \<longrightarrow> tget (users d') j = tget (users d) j)
    \<and> (\<exists>r2 d2. set_enabled i True d' = Inr (r2, d2) \<and> tget (users d2) i = Some u)"
proof -
  have d': "d' = d\<lparr>users := tupd i (u\<lparr>u_enabled := False\<rparr>) (users d)\<rparr>"
    using set_enabled_effect [OF dis] u(1) by auto
  have ok': "users_ok (users d')" by (rule users_ok_set_enabled [OF ok dis])
  have row: "tget (users d') i = Some (u\<lparr>u_enabled := False\<rparr>)" using u(1) by (simp add: d' tget_tupd)
  have "fetch_by_username (u_username u) d' = Inr (Some (i, u\<lparr>u_enabled := False\<rparr>))"
    by (rule fetch_by_username_Some [OF ok' row]) simp
  then have "login s L \<lparr>lq_username = u_username u, lq_password = pw, lq_fcm_token = fcm\<rparr> now2 at d' st =
      (Inl auth_account_disabled, st)"
    by (simp add: login_def)
  moreover have "refresh s L token now d' st = (Inl auth_refresh_not_found, store_remove i st)"
    using tok row by (simp add: refresh_def Let_def)
  moreover have "u\<lparr>u_enabled := True\<rparr> = u" using u(2) by simp
  then have "\<exists>r2 d2. set_enabled i True d' = Inr (r2, d2) \<and> tget (users d2) i = Some u"
    using row by (simp add: set_enabled_def get_user_by_id_def find_user_by_id_def Let_def tget_tupd)
  ultimately show ?thesis using ok' by (simp add: d' tget_tupd)
qed

theorem disabled_account_locked_out_witness:
  "\<exists>r d'. set_enabled 1 False auth_db = Inr (r, d')
    \<and> fst (refresh sample_settings sample_libs (tr_refresh_token (fst first_pair)) 200 d' (snd first_pair))
        = Inl auth_refresh_not_found"
proof -
  obtain r d' where e: "set_enabled 1 False auth_db = Inr (r, d')"
    using auth_user_facts(1) by (simp add: set_enabled_def get_user_by_id_def find_user_by_id_def Let_def)
  have "parse_token sample_settings sample_libs (tr_refresh_token (fst first_pair)) (Some REFRESH) 200 =
      Inr \<lparr>pl_user_id = 1, pl_username = ''admin'', pl_roles = [''ADMIN''], pl_token_type = REFRESH,
        pl_issued_at = 100, pl_expires_at = 100 + 1209600\<rparr>"
    unfolding first_pair_def by (rule parse_pair) simp_all
  from disabled_account_locked_out [OF auth_db_ok(1) auth_user_facts(1) auth_user_facts(3) e this] e
  show ?thesis by simp
qed

end
