(* ===== verification/Uploads.thy ===== *)
theory Uploads
  imports Security
begin

text \<open>
  Uploaded files: their validation (app/core/upload_validation.py) and their storage
  (app/integrations/storage.py and app/integrations/s3_storage.py).

  A file is a list of bytes.  The local disk is a map from resolved absolute paths, given as the list
  of their components, to files; symbolic links and failing system calls are not modelled.  A ULID
  comes from its generator: it is an argument.  The S3 client is a library and a parameter.
\<close>

section \<open>Validation\<close>

definition bad_filename_char :: "char \<Rightarrow> bool" where
  "bad_filename_char c \<longleftrightarrow> code c < 32 \<or> c = CHR ''/'' \<or> c = CHR 0x5C"

definition allowed_document_mime :: "string list" where
  "allowed_document_mime =
     [''image/jpeg'', ''image/png'', ''image/webp'', ''image/heic'', ''image/heif'', ''application/pdf'',
      ''application/x-hwp'', ''application/haansofthwp'', ''application/vnd.hancom.hwp'',
      ''application/vnd.openxmlformats-officedocument.wordprocessingml.document'',
      ''application/vnd.openxmlformats-officedocument.spreadsheetml.sheet'',
      ''application/msword'', ''application/vnd.ms-excel'']"

definition sanitize_filename :: "string option \<Rightarrow> string" where
  "sanitize_filename name =
     (if \<not> truthy name then ''upload''
      else (let cleaned = py_strip (map (\<lambda>c. if bad_filename_char c then CHR ''_'' else c) (the name))
            in if cleaned = [] \<or> set cleaned \<subseteq> {CHR ''.''} then ''upload'' else take 255 cleaned))"

record upload_file =
  uf_filename :: "string option"
  uf_size :: "int option"
  uf_content_type :: "string option"
  uf_content :: "nat list"

definition upload_mime :: "upload_file \<Rightarrow> string" where
  "upload_mime f = py_strip (hd (split_once (CHR '';'') (py_lower (or_str (uf_content_type f) []))))"

text \<open>The limit is the setting \<open>multipart_max_file_bytes\<close>.\<close>

definition validate_document_upload :: "int \<Rightarrow> upload_file \<Rightarrow> exn + unit" where
  "validate_document_upload max_bytes f =
     (let sz = or_default (uf_size f) 0; mime = upload_mime f
      in raise_if (sz \<le> 0) (business INVALID_INPUT (Some Empty_file))
        (raise_if (max_bytes < sz)
           (business STORAGE_FILE_TOO_LARGE (Some (File_too_large (max_bytes div (1024 * 1024)))))
        (raise_if (mime \<notin> set allowed_document_mime)
           (business INVALID_INPUT (Some (Unsupported_type (if mime = [] then ''unknown'' else mime))))
        (raise_if (truthy (uf_filename f) \<and> list_ex bad_filename_char (the (uf_filename f)))
           (business INVALID_INPUT (Some Bad_filename))
        (Inr ())))))"

section \<open>Paths\<close>

text \<open>
  \<open>pathlib.PurePosixPath\<close>: the parts of a path leave out empty parts and single dots; the name is
  the last part; the suffix starts at the last dot of the name, unless that is its first or its last
  character.
\<close>

definition path_parts :: "string \<Rightarrow> string list" where
  "path_parts s = filter (\<lambda>p. p \<noteq> [] \<and> p \<noteq> ''.'') (split_all (CHR ''/'') s)"

definition path_name :: "string \<Rightarrow> string" where
  "path_name s = (if path_parts s = [] then [] else last (path_parts s))"

definition path_suffix :: "string \<Rightarrow> string" where
  "path_suffix s =
     (let name = path_name s; tl = rev (takeWhile (\<lambda>c. c \<noteq> CHR ''.'') (rev name))
      in if CHR ''.'' \<in> set name \<and> length tl + 1 < length name \<and> tl \<noteq> []
         then CHR ''.'' # tl else [])"

text \<open>\<open>Path.resolve()\<close> without symbolic links, and the text of an absolute path.\<close>

fun resolve_steps :: "string list \<Rightarrow> string list \<Rightarrow> string list" where
  "resolve_steps acc [] = acc"
| "resolve_steps acc (p # ps) = resolve_steps (if p = ''..'' then butlast acc else acc @ [p]) ps"

definition path_string :: "string list \<Rightarrow> string" where
  "path_string ps = (if ps = [] then ''/'' else concat (map (\<lambda>p. CHR ''/'' # p) ps))"

section \<open>The storage key\<close>

record uploaded =
  up_key :: string
  up_url :: string
  up_size :: int
  up_content_type :: "string option"

definition safe_prefix_char :: "char \<Rightarrow> bool" where
  "safe_prefix_char c \<longleftrightarrow> (97 \<le> code c \<and> code c \<le> 122) \<or> (65 \<le> code c \<and> code c \<le> 90) \<or> is_digit c
     \<or> c = CHR ''_'' \<or> c = CHR ''/'' \<or> c = CHR ''-''"

definition safe_prefix :: "string \<Rightarrow> string" where
  "safe_prefix pfx = map (\<lambda>c. if safe_prefix_char c then c else CHR ''_'')
     (if pfx = [] then ''misc'' else pfx)"

definition key_name :: "string \<Rightarrow> string \<Rightarrow> string" where
  "key_name ulid original_filename =
     (let ext = dropWhile (\<lambda>c. c = CHR ''.'') (path_suffix original_filename)
      in ulid @ (if ext \<noteq> [] then CHR ''.'' # ext else []))"

definition storage_key :: "string \<Rightarrow> string \<Rightarrow> string \<Rightarrow> string" where
  "storage_key pfx ulid original_filename =
     safe_prefix pfx @ ''/'' @ key_name ulid original_filename"

definition rstrip_slash :: "string \<Rightarrow> string" where
  "rstrip_slash s = rev (dropWhile (\<lambda>c. c = CHR ''/'') (rev s))"

definition uploaded_as :: "string \<Rightarrow> string \<Rightarrow> int \<Rightarrow> string option \<Rightarrow> uploaded" where
  "uploaded_as public_url key sz content_type =
     \<lparr>up_key = key, up_url = rstrip_slash public_url @ ''/'' @ key, up_size = sz, up_content_type = content_type\<rparr>"

section \<open>The local disk\<close>

type_synonym files = "string list \<Rightarrow> nat list option"

text \<open>\<open>while chunk := content.read(64 * 1024): f.write(chunk)\<close>\<close>

definition chunk_size :: nat where "chunk_size = 64 * 1024"

function copy_chunks :: "nat list \<Rightarrow> nat list \<Rightarrow> nat list" where
  "copy_chunks content written =
     (let chunk = take chunk_size content
      in if chunk = [] then written else copy_chunks (drop chunk_size content) (written @ chunk))"
  by pat_completeness auto
termination
  by (relation "measure (\<lambda>(content, written). length content)") (auto simp: chunk_size_def)

declare copy_chunks.simps [simp del]

definition local_store ::
    "string list \<Rightarrow> string \<Rightarrow> string \<Rightarrow> string \<Rightarrow> string \<Rightarrow> nat list \<Rightarrow> int \<Rightarrow> string option \<Rightarrow> files
     \<Rightarrow> uploaded \<times> files" where
  "local_store root public_url ulid pfx original_filename content sz content_type fs =
     (let key = storage_key pfx ulid original_filename;
          base = (if starts_with key ''/'' then [] else root);
          target = resolve_steps base (path_parts key)
      in (uploaded_as public_url key sz content_type, fs(target \<mapsto> copy_chunks content [])))"

text \<open>The message of the \<open>ValueError\<close> quotes the key.\<close>

definition local_resolve :: "string list \<Rightarrow> string \<Rightarrow> exn + string list" where
  "local_resolve root key =
     (let base = (if starts_with key ''/'' then [] else root);
          target = resolve_steps base (path_parts key)
      in raise_if (\<not> starts_with (path_string target) (path_string root))
           (ValueError (''path escape attempt: '' @ key))
           (Inr target))"

definition local_open :: "string list \<Rightarrow> string \<Rightarrow> files \<Rightarrow> exn + nat list" where
  "local_open root key fs =
     let_ok (local_resolve root key) (\<lambda>path. some_or (fs path) (External ''FileNotFoundError'') Inr)"

definition local_delete :: "string list \<Rightarrow> string \<Rightarrow> files \<Rightarrow> exn + files" where
  "local_delete root key fs = let_ok (local_resolve root key) (\<lambda>path. Inr (fs(path := None)))"

section \<open>S3\<close>

text \<open>
  The client, over the state \<open>'b\<close> of the bucket.  Its constructor refuses to start without a bucket.
\<close>

record 'b s3_client =
  s3_upload :: "string \<Rightarrow> nat list \<Rightarrow> string option \<Rightarrow> 'b \<Rightarrow> exn + 'b"
  s3_get :: "string \<Rightarrow> 'b \<Rightarrow> exn + nat list"
  s3_remove :: "string \<Rightarrow> 'b \<Rightarrow> exn + 'b"

definition s3_init :: "string \<Rightarrow> exn + string" where
  "s3_init bucket = raise_if (bucket = []) (External ''RuntimeError'') (Inr bucket)"

definition s3_store ::
    "'b s3_client \<Rightarrow> string \<Rightarrow> string \<Rightarrow> string \<Rightarrow> string \<Rightarrow> nat list \<Rightarrow> int \<Rightarrow> string option \<Rightarrow> 'b
     \<Rightarrow> exn + (uploaded \<times> 'b)" where
  "s3_store C public_url ulid pfx original_filename content sz content_type b =
     (let key = storage_key pfx ulid original_filename
      in let_ok (s3_upload C key content (if truthy content_type then content_type else None) b) (\<lambda>b'.
           Inr (uploaded_as public_url key sz content_type, b')))"

definition s3_open :: "'b s3_client \<Rightarrow> string \<Rightarrow> 'b \<Rightarrow> exn + nat list" where
  "s3_open C key b = s3_get C key b"

definition s3_delete :: "'b s3_client \<Rightarrow> string \<Rightarrow> 'b \<Rightarrow> exn + 'b" where
  "s3_delete C key b = s3_remove C key b"

text \<open>\<open>get_storage\<close> chooses by the setting.\<close>

datatype storage_driver = Local_disk | S3

definition get_storage :: "settings \<Rightarrow> storage_driver" where
  "get_storage s = (if st_storage_driver s = ''s3'' then S3 else Local_disk)"

section \<open>Lemmas\<close>

lemma copy_chunks_all: "copy_chunks content written = written @ content"
proof (induction content written rule: copy_chunks.induct)
  case (1 content written)
  show ?case
  proof (cases "content = []")
    case False
    then have "take chunk_size content \<noteq> []" by (simp add: chunk_size_def)
    with 1 show ?thesis by (subst copy_chunks.simps) (simp add: Let_def)
  qed (simp add: copy_chunks.simps)
qed

lemma split_all_nonempty [simp]: "split_all c s \<noteq> []"
  by (induction s) (auto split: list.splits)

lemma split_all_append: "split_all c (a @ c # b) = split_all c a @ split_all c b"
  by (induction a) (auto split: list.splits)

lemma split_all_single: "c \<notin> set s \<Longrightarrow> split_all c s = [s]"
  by (induction s) auto

lemma split_all_chars: "p \<in> set (split_all c s) \<Longrightarrow> set p \<subseteq> set s \<and> c \<notin> set p"
proof (induction s arbitrary: p)
  case (Cons x xs)
  obtain y ys where y: "split_all c xs = y # ys" by (cases "split_all c xs") auto
  have "set y \<subseteq> set xs \<and> c \<notin> set y" using Cons.IH [of y] y by simp
  then show ?case using Cons.IH [of p] Cons.prems y by (auto split: if_splits)
qed simp

lemma path_parts_slash: "path_parts (a @ ''/'' @ b) = path_parts a @ path_parts b"
  by (simp add: path_parts_def split_all_append)

lemma path_parts_single:
  "CHR ''/'' \<notin> set s \<Longrightarrow> s \<noteq> [] \<Longrightarrow> s \<noteq> ''.'' \<Longrightarrow> path_parts s = [s]"
  by (simp add: path_parts_def split_all_single)

lemma path_parts_chars: "p \<in> set (path_parts s) \<Longrightarrow> set p \<subseteq> set s \<and> CHR ''/'' \<notin> set p \<and> p \<noteq> []"
  using split_all_chars by (auto simp: path_parts_def)

lemma resolve_steps_plain: "''..'' \<notin> set ps \<Longrightarrow> resolve_steps acc ps = acc @ ps"
  by (induction ps arbitrary: acc) auto

lemma safe_prefix_chars: "set (safe_prefix pfx) \<subseteq> {c. safe_prefix_char c}"
  by (auto simp: safe_prefix_def safe_prefix_char_def is_digit_def)

lemma safe_prefix_not_dot: "CHR ''.'' \<notin> set (safe_prefix pfx)"
  using safe_prefix_chars [of pfx] by (auto simp: safe_prefix_char_def is_digit_def)

lemma path_suffix_chars: "CHR ''/'' \<notin> set (path_suffix s)"
proof -
  have "CHR ''/'' \<notin> set (path_name s)"
    using path_parts_chars [of "last (path_parts s)" s] by (auto simp: path_name_def)
  then show ?thesis by (auto simp: path_suffix_def Let_def dest: set_takeWhileD)
qed

text \<open>What a ULID is: letters and digits, at least one.\<close>

definition ulid_ok :: "string \<Rightarrow> bool" where
  "ulid_ok u \<longleftrightarrow> u \<noteq> [] \<and> (\<forall>c \<in> set u. c \<noteq> CHR ''/'' \<and> c \<noteq> CHR ''.'')"

lemma key_name_ok:
  assumes "ulid_ok u"
  shows "CHR ''/'' \<notin> set (key_name u fn)" "key_name u fn \<noteq> []" "key_name u fn \<noteq> ''.''" "key_name u fn \<noteq> ''..''"
proof -
  from assms obtain c cs where u: "u = c # cs" "c \<noteq> CHR ''.''" by (cases u) (auto simp: ulid_ok_def)
  have "\<exists>t. key_name u fn = c # t" by (simp add: key_name_def u(1))
  then show "key_name u fn \<noteq> []" "key_name u fn \<noteq> ''.''" "key_name u fn \<noteq> ''..''" using u(2) by auto
  have "set (key_name u fn) \<subseteq> set u \<union> {CHR ''.''} \<union> set (path_suffix fn)"
    by (auto simp: key_name_def Let_def dest: set_dropWhileD)
  then show "CHR ''/'' \<notin> set (key_name u fn)"
    using assms path_suffix_chars [of fn] by (auto simp: ulid_ok_def)
qed

lemma key_parts:
  assumes "ulid_ok u"
  shows "path_parts (storage_key pfx u fn) = path_parts (safe_prefix pfx) @ [key_name u fn]"
  using path_parts_single [OF key_name_ok(1-3) [OF assms, of fn]]
  by (simp only: storage_key_def path_parts_slash)

lemma key_resolves:
  assumes "ulid_ok u"
  shows "resolve_steps base (path_parts (storage_key pfx u fn)) = base @ path_parts (safe_prefix pfx) @ [key_name u fn]"
proof -
  have "p \<noteq> ''..''" if "p \<in> set (path_parts (safe_prefix pfx))" for p
    using path_parts_chars [OF that] safe_prefix_not_dot [of pfx] by auto
  then show ?thesis unfolding key_parts [OF assms] using key_name_ok(4) [OF assms, of fn]
    by (intro resolve_steps_plain) auto
qed

lemma key_not_absolute:
  assumes "\<not> starts_with pfx ''/''"
  shows "\<not> starts_with (storage_key pfx u fn) ''/''"
  using assms by (cases pfx) (auto simp: storage_key_def safe_prefix_def starts_with_def)

lemma path_string_append: "starts_with (path_string (root @ ps)) (path_string root)"
  by (cases "root = []") (auto simp: path_string_def starts_with_iff neq_Nil_conv)

lemma local_resolve_key:
  assumes "ulid_ok u" and "\<not> starts_with pfx ''/''"
  shows "local_resolve root (storage_key pfx u fn) = Inr (root @ path_parts (safe_prefix pfx) @ [key_name u fn])"
  using path_string_append [of root "path_parts (safe_prefix pfx) @ [key_name u fn]"]
  by (simp add: local_resolve_def key_resolves [OF assms(1)] key_not_absolute [OF assms(2)])

section \<open>The storage contract\<close>

text \<open>
  What the document service relies on: a stored file is read back as it was sent, until it is
  deleted, and the files under other keys are left alone.  \<open>clean\<close> are the prefixes that the service
  asks for; a key is known when it was made from one.
\<close>

definition clean_prefix :: "string \<Rightarrow> bool" where
  "clean_prefix p \<longleftrightarrow> safe_prefix p = p \<and> path_string (path_parts p) = ''/'' @ p"

definition known_key :: "string \<Rightarrow> bool" where
  "known_key k \<longleftrightarrow> (\<exists>p u fn. clean_prefix p \<and> ulid_ok u \<and> k = storage_key p u fn)"

locale document_storage =
  fixes put :: "string \<Rightarrow> string \<Rightarrow> string \<Rightarrow> nat list \<Rightarrow> int \<Rightarrow> string option \<Rightarrow> 'fs \<Rightarrow> exn + (uploaded \<times> 'fs)"
    and read :: "string \<Rightarrow> 'fs \<Rightarrow> exn + nat list"
    and remove :: "string \<Rightarrow> 'fs \<Rightarrow> exn + 'fs"
  assumes put_key: "put u p fn c n ct fs = Inr (up, fs') \<Longrightarrow> up_key up = storage_key p u fn"
    and read_put: "clean_prefix p \<Longrightarrow> ulid_ok u \<Longrightarrow> put u p fn c n ct fs = Inr (up, fs') \<Longrightarrow>
      read (storage_key p u fn) fs' = Inr c"
    and read_put_other: "clean_prefix p \<Longrightarrow> ulid_ok u \<Longrightarrow> put u p fn c n ct fs = Inr (up, fs') \<Longrightarrow>
      known_key k \<Longrightarrow> k \<noteq> storage_key p u fn \<Longrightarrow> read k fs' = read k fs"
    and read_removed: "known_key k \<Longrightarrow> remove k fs = Inr fs' \<Longrightarrow> isl (read k fs')"
    and read_remove_other: "known_key k \<Longrightarrow> remove k fs = Inr fs' \<Longrightarrow> known_key k' \<Longrightarrow> k' \<noteq> k \<Longrightarrow>
      read k' fs' = read k' fs"
begin

lemma put_is_known: "clean_prefix p \<Longrightarrow> ulid_ok u \<Longrightarrow> put u p fn c n ct fs = Inr (up, fs') \<Longrightarrow> known_key (up_key up)"
  using put_key by (auto simp: known_key_def)

lemma put_then_remove:
  assumes "clean_prefix p" "ulid_ok u" "put u p fn c n ct fs = Inr (up, fs')" "remove (up_key up) fs' = Inr fs''"
    and "known_key k" "k \<noteq> up_key up"
  shows "read k fs'' = read k fs"
  using assms read_put_other [OF assms(1-3,5)] read_remove_other [OF put_is_known [OF assms(1-3)] assms(4,5)]
    put_key [OF assms(3)] by simp

end

text \<open>The local disk keeps the contract: known keys are resolved to different files below the root.\<close>

definition local_put ::
    "string list \<Rightarrow> string \<Rightarrow> string \<Rightarrow> string \<Rightarrow> string \<Rightarrow> nat list \<Rightarrow> int \<Rightarrow> string option \<Rightarrow> files
     \<Rightarrow> exn + (uploaded \<times> files)" where
  "local_put root url u p fn c n ct fs = Inr (local_store root url u p fn c n ct fs)"

lemma clean_prefix_relative: "clean_prefix p \<Longrightarrow> \<not> starts_with p ''/''"
proof
  assume c: "clean_prefix p" and s: "starts_with p ''/''"
  then obtain t where p: "p = ''/'' @ t" by (auto simp: starts_with_iff)
  from c p have "path_string (path_parts p) = CHR ''/'' # CHR ''/'' # t" by (simp add: clean_prefix_def)
  moreover have "\<forall>q \<in> set (path_parts p). q \<noteq> [] \<and> CHR ''/'' \<notin> set q" using path_parts_chars by blast
  ultimately show False by (cases "path_parts p") (auto simp: path_string_def neq_Nil_conv)
qed

lemma clean_key_string:
  assumes "clean_prefix p" "ulid_ok u"
  shows "path_string (path_parts (storage_key p u fn)) = ''/'' @ storage_key p u fn"
proof -
  have p: "safe_prefix p = p" "path_string (path_parts p) = ''/'' @ p" using assms(1) by (simp_all add: clean_prefix_def)
  have "p \<noteq> []" using p(1) by (auto simp: safe_prefix_def)
  with p(2) have "path_parts p \<noteq> []" by (auto simp: path_string_def)
  with p show ?thesis unfolding key_parts [OF assms(2)] by (simp add: path_string_def storage_key_def)
qed

lemma known_key_resolves: "known_key k \<Longrightarrow> local_resolve root k = Inr (root @ path_parts k)"
  by (auto simp: known_key_def local_resolve_key key_parts clean_prefix_relative)

lemma known_key_inj: "known_key k \<Longrightarrow> known_key k' \<Longrightarrow> path_parts k = path_parts k' \<Longrightarrow> k = k'"
  unfolding known_key_def using clean_key_string by (metis append_same_eq same_append_eq)

lemma local_put_target:
  assumes "clean_prefix p" "ulid_ok u" "local_put root url u p fn c n ct fs = Inr (up, fs')"
  shows "fs' = fs(root @ path_parts (storage_key p u fn) \<mapsto> c)"
  using assms key_resolves [OF assms(2), of root p fn] key_not_absolute [OF clean_prefix_relative [OF assms(1)]]
  by (auto simp: local_put_def local_store_def Let_def copy_chunks_all key_parts)

interpretation local_disk: document_storage "local_put root url" "local_open root" "local_delete root"
proof (unfold_locales, goal_cases)
  case (1 u p fn c n ct fs up fs')
  then show ?case by (auto simp: local_put_def local_store_def Let_def uploaded_as_def)
next
  case (2 p u fn c n ct fs up fs')
  then have "known_key (storage_key p u fn)" by (auto simp: known_key_def)
  then show ?case by (simp add: local_open_def known_key_resolves local_put_target [OF 2])
next
  case (3 p u fn c n ct fs up fs' k)
  then have "known_key (storage_key p u fn)" by (auto simp: known_key_def)
  with 3 show ?case
    by (auto simp: local_open_def known_key_resolves local_put_target [OF 3(1-3)] dest: known_key_inj)
next
  case (4 k fs fs')
  then show ?case by (auto simp: local_open_def local_delete_def known_key_resolves)
next
  case (5 k fs fs' k')
  then show ?case by (auto simp: local_open_def local_delete_def known_key_resolves dest: known_key_inj)
qed

lemma validate_upload_Inr:
  "validate_document_upload m f = Inr x \<longleftrightarrow>
     0 < or_default (uf_size f) 0 \<and> or_default (uf_size f) 0 \<le> m \<and> upload_mime f \<in> set allowed_document_mime
     \<and> (\<forall>n. uf_filename f = Some n \<longrightarrow> \<not> list_ex bad_filename_char n)"
  by (auto simp: validate_document_upload_def Let_def flow truthy_def split: option.splits)

lemma sanitized_chars: "c \<in> set (sanitize_filename n) \<Longrightarrow> \<not> bad_filename_char c"
  by (auto simp: sanitize_filename_def Let_def bad_filename_char_def
      dest!: in_set_takeD subsetD [OF set_py_strip] split: if_splits)

lemma map_id_no_bad: "\<not> list_ex p s \<Longrightarrow> map (\<lambda>c. if p c then x else c) s = s"
  by (induction s) auto

section \<open>Properties\<close>

text \<open>An upload passes the gate exactly when it is not empty, within the limit, of an accepted type and
  its name holds no control character, slash or backslash; the name the service then stores under is
  never empty, has at most 255 characters, and none of them is such a character.\<close>

lemma upload_gate:
  "(validate_document_upload m f = Inr () \<longleftrightarrow>
      (\<exists>n. uf_size f = Some n \<and> 0 < n \<and> n \<le> m) \<and> upload_mime f \<in> set allowed_document_mime
      \<and> (\<forall>n. uf_filename f = Some n \<longrightarrow> (\<forall>c \<in> set n. 32 \<le> code c \<and> c \<noteq> CHR ''/'' \<and> c \<noteq> CHR 0x5C)))
   \<and> sanitize_filename name \<noteq> [] \<and> length (sanitize_filename name) \<le> 255
   \<and> (\<forall>c \<in> set (sanitize_filename name). 32 \<le> code c \<and> c \<noteq> CHR ''/'' \<and> c \<noteq> CHR 0x5C)"
proof -
  have names: "(\<not> list_ex bad_filename_char n) = (\<forall>c \<in> set n. 32 \<le> code c \<and> c \<noteq> CHR ''/'' \<and> c \<noteq> CHR 0x5C)" for n
    by (simp add: list_ex_iff bad_filename_char_def not_less)
  have sizes: "(\<exists>n. x = Some n \<and> 0 < n \<and> n \<le> m) = (0 < or_default x 0 \<and> or_default x 0 \<le> m)" for x
    by (cases x) (simp_all add: or_default_def)
  have "validate_document_upload m f = Inr () \<longleftrightarrow>
      (\<exists>n. uf_size f = Some n \<and> 0 < n \<and> n \<le> m) \<and> upload_mime f \<in> set allowed_document_mime
      \<and> (\<forall>n. uf_filename f = Some n \<longrightarrow> (\<forall>c \<in> set n. 32 \<le> code c \<and> c \<noteq> CHR ''/'' \<and> c \<noteq> CHR 0x5C))"
    unfolding validate_upload_Inr names [symmetric] sizes conj_assoc ..
  moreover have "\<forall>c \<in> set (sanitize_filename name). 32 \<le> code c \<and> c \<noteq> CHR ''/'' \<and> c \<noteq> CHR 0x5C"
    using sanitized_chars [of _ name] by (auto simp: bad_filename_char_def not_less)
  moreover have "sanitize_filename name \<noteq> [] \<and> length (sanitize_filename name) \<le> 255"
    by (simp add: sanitize_filename_def Let_def)
  ultimately show ?thesis by blast
qed

text \<open>A concrete file that passes.\<close>

lemma upload_gate_witness:
  "validate_document_upload 100 \<lparr>uf_filename = Some ''a.pdf'', uf_size = Some 3,
     uf_content_type = Some ''Application/PDF; x'', uf_content = [1, 2, 3]\<rparr> = Inr ()
   \<and> sanitize_filename (Some '' ../x '') = ''.._x''"
proof -
  have m: "upload_mime \<lparr>uf_filename = Some ''a.pdf'', uf_size = Some 3,
     uf_content_type = Some ''Application/PDF; x'', uf_content = [1, 2, 3]\<rparr> \<in> set allowed_document_mime"
    by code_simp
  have "sanitize_filename (Some '' ../x '') = ''.._x''" by code_simp
  then show ?thesis
    using m by (subst upload_gate [THEN conjunct1]) simp
qed

text \<open>C39: a key that the storage makes from a relative prefix is resolved below the root of the store, whatever
  the name of the file.  The check of \<open>resolve\<close> compares texts, not paths: for every root there is a key
  outside of it that passes.\<close>

theorem local_storage_containment:
  assumes u: "ulid_ok u" and p: "\<not> starts_with pfx ''/''"
  shows "(\<exists>ps. local_resolve root (storage_key pfx u fn) = Inr (root @ ps) \<and> ps \<noteq> [] \<and> ''..'' \<notin> set ps)
    \<and> (\<forall>ds r. root = ds @ [r] \<and> CHR ''/'' \<notin> set r \<longrightarrow>
        local_resolve root (''../'' @ r @ ''x'') = Inr (ds @ [r @ ''x'']) \<and> (\<forall>ps. ds @ [r @ ''x''] \<noteq> root @ ps))"
proof -
  have "''..'' \<notin> set (path_parts (safe_prefix pfx) @ [key_name u fn])"
    using path_parts_chars [of "''..''" "safe_prefix pfx"] safe_prefix_not_dot [of pfx] key_name_ok(4) [OF u, of fn] by auto
  then have "\<exists>ps. local_resolve root (storage_key pfx u fn) = Inr (root @ ps) \<and> ps \<noteq> [] \<and> ''..'' \<notin> set ps"
    using local_resolve_key [OF u p, of root fn] by blast
  moreover have "local_resolve (ds @ [r]) (''../'' @ r @ ''x'') = Inr (ds @ [r @ ''x''])" if "CHR ''/'' \<notin> set r" for ds r
  proof -
    have "path_parts (''..'' @ ''/'' @ (r @ ''x'')) = [''..'', r @ ''x'']"
      using that path_parts_single [of "r @ ''x''"] path_parts_single [of "''..''"]
      by (simp only: path_parts_slash) simp
    then show ?thesis by (simp add: local_resolve_def starts_with_iff path_string_def)
  qed
  ultimately show ?thesis by simp
qed

theorem local_storage_containment_witness:
  "\<exists>ps. local_resolve [''srv''] (storage_key ''caregiver-documents/1'' ''01ARZ3'' ''a.pdf'') = Inr ([''srv''] @ ps)
     \<and> ps \<noteq> [] \<and> ''..'' \<notin> set ps"
  by (rule local_storage_containment [THEN conjunct1]) (simp_all add: ulid_ok_def starts_with_def)

end
