(* ===== verification/Caregivers.thy ===== *)
theory Caregivers
  imports Tenant Sample
begin

text \<open>
  Caregivers and the workers they register: app/services/caregiver.py, its DTOs in
  app/schemas/caregiver.py and its endpoints in app/api/v1/caregivers.py, all behind the role guard
  for caregivers.
\<close>

section \<open>Requests and responses\<close>

record caregiver_response =
  cgr_id :: int
  cgr_user_id :: int

record register_worker_request =
  rw_worker_id :: int

record relation_response =
  rr_id :: int
  rr_caregiver_id :: int
  rr_worker_id :: int

definition relation_response_of :: "int \<Rightarrow> caregiver_relation \<Rightarrow> relation_response" where
  "relation_response_of i r = \<lparr>rr_id = i, rr_caregiver_id = rel_caregiver_id r, rr_worker_id = rel_worker_id r\<rparr>"

section \<open>The service\<close>

definition caregiver_by_user_id :: "int \<Rightarrow> db \<Rightarrow> exn + int" where
  "caregiver_by_user_id user_id d =
     let_ok (scalar_one_or_none (map fst (tsel (\<lambda>i c. cg_user_id c = user_id) (caregivers d))))
       (\<lambda>c. some_or c (err CAREGIVER_NOT_FOUND) Inr)"

definition caregiver_me :: "int \<Rightarrow> db \<Rightarrow> exn + caregiver_response" where
  "caregiver_me user_id d =
     let_ok (caregiver_by_user_id user_id d) (\<lambda>i. Inr \<lparr>cgr_id = i, cgr_user_id = user_id\<rparr>)"

definition register_worker :: "int \<Rightarrow> int \<Rightarrow> db \<Rightarrow> exn + (relation_response \<times> db)" where
  "register_worker user_id worker_id d =
     let_ok (caregiver_by_user_id user_id d) (\<lambda>caregiver_id.
     raise_if (first_row (tsel (\<lambda>i r. rel_caregiver_id r = caregiver_id \<and> rel_worker_id r = worker_id)
                 (relations d)) \<noteq> None)
       (err CAREGIVER_RELATION_DUPLICATED)
     (raise_if (tget (workers d) worker_id = None) (err WORKER_NOT_FOUND)
     (let r = \<lparr>rel_caregiver_id = caregiver_id, rel_worker_id = worker_id\<rparr>
      in Inr (relation_response_of (next_id (relations d)) r, d\<lparr>relations := tins r (relations d)\<rparr>))))"

definition list_relations :: "int \<Rightarrow> db \<Rightarrow> exn + relation_response list" where
  "list_relations user_id d =
     let_ok (caregiver_by_user_id user_id d) (\<lambda>caregiver_id.
       Inr (map (\<lambda>(i, r). relation_response_of i r)
         (order_by_desc fst (tsel (\<lambda>i r. rel_caregiver_id r = caregiver_id) (relations d)))))"

text \<open>Deleting a relation deletes its documents and their logs: both foreign keys cascade.\<close>

definition delete_relation_row :: "int \<Rightarrow> db \<Rightarrow> db" where
  "delete_relation_row relation_id d =
     (let gone = map fst (tsel (\<lambda>i x. d_relation_id x = relation_id) (documents d))
      in d\<lparr>relations := tdel relation_id (relations d),
           documents := tdel_where (\<lambda>i x. d_relation_id x = relation_id) (documents d),
           document_logs := tdel_where (\<lambda>i l. dl_document_id l \<in> set gone) (document_logs d)\<rparr>)"

definition remove_relation :: "int \<Rightarrow> int \<Rightarrow> db \<Rightarrow> exn + (unit \<times> db)" where
  "remove_relation user_id relation_id d =
     let_ok (caregiver_by_user_id user_id d) (\<lambda>caregiver_id.
     some_or (tget (relations d) relation_id) (err CAREGIVER_NOT_FOUND) (\<lambda>r.
     raise_if (rel_caregiver_id r \<noteq> caregiver_id)
       (auth_forbidden (Some (Text ''relation does not belong to caregiver'')))
     (Inr ((), delete_relation_row relation_id d))))"

section \<open>Endpoints\<close>

definition api_caregiver_me :: "principal \<Rightarrow> db \<Rightarrow> exn + caregiver_response" where
  "api_caregiver_me me d = let_ok (require_caregiver me) (\<lambda>me. caregiver_me (pr_user_id me) d)"

definition api_list_relations :: "principal \<Rightarrow> db \<Rightarrow> exn + relation_response list" where
  "api_list_relations me d = let_ok (require_caregiver me) (\<lambda>me. list_relations (pr_user_id me) d)"

definition api_register_worker ::
    "register_worker_request \<Rightarrow> principal \<Rightarrow> db \<Rightarrow> exn + (relation_response \<times> db)" where
  "api_register_worker req me d =
     let_ok (require_caregiver me) (\<lambda>me. register_worker (pr_user_id me) (rw_worker_id req) d)"

definition api_remove_relation :: "int \<Rightarrow> principal \<Rightarrow> db \<Rightarrow> exn + (unit \<times> db)" where
  "api_remove_relation relation_id me d =
     let_ok (require_caregiver me) (\<lambda>me. remove_relation (pr_user_id me) relation_id d)"

section \<open>Lemmas\<close>

lemma caregiver_by_user_id_ok:
  assumes "caregivers_ok (caregivers d)"
  shows "caregiver_by_user_id u d =
    (case first_row (tsel (\<lambda>i c. cg_user_id c = u) (caregivers d)) of
       None \<Rightarrow> Inl (err CAREGIVER_NOT_FOUND) | Some (i, c) \<Rightarrow> Inr i)"
proof -
  have "length (tsel (\<lambda>i c. cg_user_id c = u) (caregivers d)) \<le> 1"
    using assms by (intro tsel_unique [where q = "\<lambda>_. True" and key = cg_user_id]) (auto simp: caregivers_ok_def)
  then show ?thesis
    by (auto simp: caregiver_by_user_id_def scalar_le_1 first_row_def split: list.splits)
qed

lemma caregiver_by_user_id_Inr:
  "caregiver_by_user_id u d = Inr i \<Longrightarrow> \<exists>c. (i, c) \<in> set (rows (caregivers d)) \<and> cg_user_id c = u"
  by (force simp: caregiver_by_user_id_def flow tsel_iff dest!: scalar_in)

lemma register_worker_effect:
  "register_worker u w d = Inr (resp, d') \<Longrightarrow>
   \<exists>c. caregiver_by_user_id u d = Inr c \<and> resp = \<lparr>rr_id = next_id (relations d), rr_caregiver_id = c, rr_worker_id = w\<rparr>
     \<and> d' = d\<lparr>relations := tins \<lparr>rel_caregiver_id = c, rel_worker_id = w\<rparr> (relations d)\<rparr>
     \<and> tget (workers d) w \<noteq> None
     \<and> (\<forall>i r. (i, r) \<in> set (rows (relations d)) \<longrightarrow> (rel_caregiver_id r, rel_worker_id r) \<noteq> (c, w))"
  by (auto simp: register_worker_def relation_response_of_def Let_def flow first_row_None tsel_empty_iff)

lemma remove_relation_effect:
  "remove_relation u i d = Inr (x, d') \<Longrightarrow>
   \<exists>c r. caregiver_by_user_id u d = Inr c \<and> tget (relations d) i = Some r \<and> rel_caregiver_id r = c
     \<and> d' = delete_relation_row i d"
  by (auto simp: remove_relation_def flow)

lemma relations_ok_register:
  "relations_ok (relations d) \<Longrightarrow> register_worker u w d = Inr (resp, d') \<Longrightarrow> relations_ok (relations d')"
  by (auto simp: relations_ok_def dest!: register_worker_effect intro!: unique_on_tins)

lemma relations_ok_remove:
  "relations_ok (relations d) \<Longrightarrow> remove_relation u i d = Inr (x, d') \<Longrightarrow> relations_ok (relations d')"
  by (auto simp: relations_ok_def delete_relation_row_def Let_def dest!: remove_relation_effect intro!: unique_on_tdel)

text \<open>Every document belongs to a relation and every log to a document.\<close>

definition documents_linked :: "db \<Rightarrow> bool" where
  "documents_linked d \<longleftrightarrow>
     list_all (\<lambda>(i, x). tget (relations d) (d_relation_id x) \<noteq> None) (rows (documents d))
     \<and> list_all (\<lambda>(i, l). tget (documents d) (dl_document_id l) \<noteq> None) (rows (document_logs d))"

lemma documents_linked_remove:
  assumes ok: "schema_ok d" and l: "documents_linked d"
  shows "documents_linked (delete_relation_row i d)"
proof -
  have t: "table_ok (documents d)" "table_ok (document_logs d)" using ok by (simp_all add: schema_ok_def)
  let ?d = "delete_relation_row i d"
  have "tget (relations ?d) (d_relation_id x) \<noteq> None" if "(k, x) \<in> set (rows (documents ?d))" for k x
    using l that by (force simp: delete_relation_row_def Let_def documents_linked_def list_all_iff tdel_where_def)
  moreover have "tget (documents ?d) (dl_document_id y) \<noteq> None" if y: "(k, y) \<in> set (rows (document_logs ?d))" for k y
  proof -
    from y have "(k, y) \<in> set (rows (document_logs d))"
      and n: "dl_document_id y \<notin> fst ` set (tsel (\<lambda>j x. d_relation_id x = i) (documents d))"
      by (auto simp: delete_relation_row_def Let_def tdel_where_def)
    then obtain x where x: "tget (documents d) (dl_document_id y) = Some x"
      using l by (fastforce simp: documents_linked_def list_all_iff)
    then have "d_relation_id x \<noteq> i" using n by (simp add: tsel_keys [OF t(1)])
    with x have "tget (documents ?d) (dl_document_id y) = Some x"
      by (simp add: delete_relation_row_def Let_def tget_tdel_where [OF t(1)])
    then show ?thesis by simp
  qed
  ultimately show ?thesis by (auto simp: documents_linked_def list_all_iff)
qed

section \<open>Properties\<close>

text \<open>Removing a relation is for its own caregiver only; it deletes exactly the documents of that relation
  and exactly their logs, leaves every reference intact, and no other relation changes.\<close>

lemma remove_relation_spec:
  assumes ok: "schema_ok d" "documents_linked d"
    and own: "caregiver_by_user_id u d = Inr c" and r: "tget (relations d) i = Some r"
  shows "(rel_caregiver_id r \<noteq> c \<longrightarrow> isl (remove_relation u i d))
    \<and> (rel_caregiver_id r = c \<longrightarrow> (\<exists>d'. remove_relation u i d = Inr ((), d') \<and> documents_linked d'
        \<and> (\<forall>j. tget (relations d') j = (if j = i then None else tget (relations d) j))
        \<and> (\<forall>k x. tget (documents d') k = Some x \<longleftrightarrow> tget (documents d) k = Some x \<and> d_relation_id x \<noteq> i)
        \<and> (\<forall>k y. tget (document_logs d') k = Some y \<longleftrightarrow> tget (document_logs d) k = Some y
              \<and> (\<forall>x. tget (documents d) (dl_document_id y) = Some x \<longrightarrow> d_relation_id x \<noteq> i))))"
proof -
  have t: "table_ok (documents d)" "table_ok (document_logs d)" using ok by (simp_all add: schema_ok_def)
  let ?d = "delete_relation_row i d"
  have "remove_relation u i d = (if rel_caregiver_id r \<noteq> c
      then Inl (auth_forbidden (Some (Text ''relation does not belong to caregiver''))) else Inr ((), ?d))"
    using own r by (simp add: remove_relation_def raise_if_def)
  moreover have "(\<forall>j. tget (relations ?d) j = (if j = i then None else tget (relations d) j))
      \<and> (\<forall>k x. tget (documents ?d) k = Some x \<longleftrightarrow> tget (documents d) k = Some x \<and> d_relation_id x \<noteq> i)"
    by (simp add: delete_relation_row_def Let_def tget_tdel_where [OF t(1)])
  moreover have "dl_document_id y \<in> fst ` set (tsel (\<lambda>j x. d_relation_id x = i) (documents d)) \<longleftrightarrow>
      (\<exists>x. tget (documents d) (dl_document_id y) = Some x \<and> d_relation_id x = i)" for y
    by (rule tsel_keys [OF t(1)])
  then have "\<forall>k y. tget (document_logs ?d) k = Some y \<longleftrightarrow> tget (document_logs d) k = Some y
      \<and> (\<forall>x. tget (documents d) (dl_document_id y) = Some x \<longrightarrow> d_relation_id x \<noteq> i)"
    by (auto simp: delete_relation_row_def Let_def tget_tdel_where [OF t(2)])
  ultimately show ?thesis using documents_linked_remove [OF ok, of i] by auto
qed

lemma remove_relation_spec_witness:
  "\<exists>d'. remove_relation 4 1 sample_db = Inr ((), d') \<and> documents_linked d' \<and> tget (relations d') 1 = None"
proof -
  have l: "documents_linked sample_db" by (simp add: documents_linked_def sample_defs)
  have own: "caregiver_by_user_id 4 sample_db = Inr 1"
    by (simp add: caregiver_by_user_id_def sample_defs table_eval)
  have r: "tget (relations sample_db) 1 = Some \<lparr>rel_caregiver_id = 1, rel_worker_id = 1\<rparr>"
    by (simp add: sample_defs table_eval)
  from remove_relation_spec [OF sample_schema_ok l own r] show ?thesis by auto
qed

end
