(* ===== verification/Documents.thy ===== *)
theory Documents
  imports Uploads Caregivers
begin

text \<open>
  Caregiver documents: the first part of app/services/document.py, its DTO in app/schemas/document.py
  and the endpoints of app/api/v1/documents.py.

  The service works over any storage: \<open>put\<close>, \<open>read\<close> and \<open>remove\<close> are the methods of
  \<open>StorageService\<close> over the state \<open>'fs\<close> (theory Uploads states their contract).  A change of the
  storage is not undone when the method raises, so its state is part of every result.
\<close>

section \<open>Responses\<close>

record document_response =
  dr_id :: int
  dr_relation_id :: int
  dr_type_id :: int
  dr_type_name :: "string option"
  dr_filename :: string
  dr_download_url :: "string option"
  dr_size :: "int option"
  dr_content_type :: "string option"
  dr_created_at :: datetime

definition document_to_response :: "int \<Rightarrow> document \<Rightarrow> string option \<Rightarrow> string option \<Rightarrow> document_response" where
  "document_to_response i x type_name download_url =
     \<lparr>dr_id = i, dr_relation_id = d_relation_id x, dr_type_id = d_type_id x, dr_type_name = type_name,
      dr_filename = d_filename x, dr_download_url = download_url, dr_size = d_file_size x,
      dr_content_type = d_content_type x, dr_created_at = d_created_at x\<rparr>"

section \<open>The gate\<close>

definition relation_or_404 :: "int \<Rightarrow> db \<Rightarrow> exn + caregiver_relation" where
  "relation_or_404 i d = some_or (tget (relations d) i) (err CAREGIVER_NOT_FOUND) Inr"

definition ensure_actor_owns_relation :: "int \<Rightarrow> caregiver_relation \<Rightarrow> db \<Rightarrow> exn + unit" where
  "ensure_actor_owns_relation actor_user_id relation d =
     some_or (tget (users d) actor_user_id) (auth_forbidden None) (\<lambda>actor.
       if u_role actor = ADMIN then Inr ()
       else (case tget (caregivers d) (rel_caregiver_id relation) of
               None \<Rightarrow> Inl (auth_forbidden None)
             | Some c \<Rightarrow> raise_if (cg_user_id c \<noteq> actor_user_id) (auth_forbidden None) (Inr ())))"

definition document_gate :: "int \<Rightarrow> int \<Rightarrow> db \<Rightarrow> exn + unit" where
  "document_gate actor_user_id relation_id d =
     let_ok (relation_or_404 relation_id d) (\<lambda>r. ensure_actor_owns_relation actor_user_id r d)"

section \<open>The service\<close>

definition log_document :: "int \<Rightarrow> int \<Rightarrow> doc_action \<Rightarrow> datetime \<Rightarrow> db \<Rightarrow> db" where
  "log_document user_id document_id action now d =
     d\<lparr>document_logs := tins \<lparr>dl_document_id = document_id, dl_user_id = user_id, dl_action = action,
         dl_at = now\<rparr> (document_logs d)\<rparr>"

definition document_prefix :: "int \<Rightarrow> string" where
  "document_prefix relation_id = ''caregiver-documents/'' @ str_of_int relation_id"

text \<open>The arguments of \<open>upload\<close>.\<close>

record upload_args =
  ua_relation_id :: int
  ua_type_id :: int
  ua_filename :: string
  ua_content :: "nat list"
  ua_size :: int
  ua_content_type :: "string option"

definition upload_document ::
    "(string \<Rightarrow> string \<Rightarrow> string \<Rightarrow> nat list \<Rightarrow> int \<Rightarrow> string option \<Rightarrow> 'fs \<Rightarrow> exn + (uploaded \<times> 'fs)) \<Rightarrow>
     int \<Rightarrow> upload_args \<Rightarrow> string \<Rightarrow> datetime \<Rightarrow> db \<Rightarrow> 'fs \<Rightarrow> (exn + (document_response \<times> db)) \<times> 'fs" where
  "upload_document put actor a ulid now d fs =
     (case document_gate actor (ua_relation_id a) d of
        Inl e \<Rightarrow> (Inl e, fs)
      | Inr _ \<Rightarrow>
          (case tget (document_types d) (ua_type_id a) of
             None \<Rightarrow> (Inl (err DOCUMENT_TYPE_NOT_FOUND), fs)
           | Some ty \<Rightarrow>
               (case put ulid (document_prefix (ua_relation_id a)) (ua_filename a) (ua_content a) (ua_size a)
                       (ua_content_type a) fs of
                  Inl e \<Rightarrow> (Inl (business STORAGE_UPLOAD_FAILED (Some (Text (exn_str e)))), fs)
                | Inr (up, fs') \<Rightarrow>
                    (let x = \<lparr>d_relation_id = ua_relation_id a, d_type_id = ua_type_id a, d_filename = up_key up,
                              d_file_size = Some (up_size up), d_content_type = up_content_type up,
                              d_created_at = now, d_created_by = Some actor, d_updated_by = Some actor\<rparr>;
                         i = next_id (documents d);
                         d' = log_document actor i UPLOAD now (d\<lparr>documents := tins x (documents d)\<rparr>)
                     in (Inr (document_to_response i x (Some (dt_name ty)) (Some (up_url up)), d'), fs')))))"

definition list_documents :: "int \<Rightarrow> int \<Rightarrow> db \<Rightarrow> exn + document_response list" where
  "list_documents actor relation_id d =
     let_ok (document_gate actor relation_id d) (\<lambda>_.
       Inr (List.map_filter (\<lambda>(i, x). map_option (\<lambda>ty. document_to_response i x (Some (dt_name ty)) None)
              (tget (document_types d) (d_type_id x)))
            (order_by_desc fst (tsel (\<lambda>i x. d_relation_id x = relation_id) (documents d)))))"

definition load_for_download :: "int \<Rightarrow> int \<Rightarrow> datetime \<Rightarrow> db \<Rightarrow> exn + (document \<times> db)" where
  "load_for_download actor document_id now d =
     some_or (tget (documents d) document_id) (err DOCUMENT_NOT_FOUND) (\<lambda>x.
     let_ok (document_gate actor (d_relation_id x) d) (\<lambda>_.
       Inr (x, log_document actor document_id DOWNLOAD now d)))"

text \<open>
  \<open>delete\<close>: the log of the deletion is inserted before the row is deleted, and the foreign key of the
  logs cascades.
\<close>

definition delete_document_row :: "int \<Rightarrow> db \<Rightarrow> db" where
  "delete_document_row i d =
     d\<lparr>documents := tdel i (documents d),
       document_logs := tdel_where (\<lambda>j l. dl_document_id l = i) (document_logs d)\<rparr>"

definition delete_document ::
    "(string \<Rightarrow> 'fs \<Rightarrow> exn + 'fs) \<Rightarrow> int \<Rightarrow> int \<Rightarrow> datetime \<Rightarrow> db \<Rightarrow> 'fs \<Rightarrow> (exn + (unit \<times> db)) \<times> 'fs" where
  "delete_document remove actor document_id now d fs =
     (case tget (documents d) document_id of
        None \<Rightarrow> (Inl (err DOCUMENT_NOT_FOUND), fs)
      | Some x \<Rightarrow>
          (case document_gate actor (d_relation_id x) d of
             Inl e \<Rightarrow> (Inl e, fs)
           | Inr _ \<Rightarrow>
               (case remove (d_filename x) fs of
                  Inl e \<Rightarrow> (Inl e, fs)
                | Inr fs' \<Rightarrow>
                    (Inr ((), delete_document_row document_id (log_document actor document_id DELETE now d)), fs'))))"

section \<open>Endpoints\<close>

text \<open>The upload endpoint validates the file before the service sees it.\<close>

definition api_upload_document ::
    "(string \<Rightarrow> string \<Rightarrow> string \<Rightarrow> nat list \<Rightarrow> int \<Rightarrow> string option \<Rightarrow> 'fs \<Rightarrow> exn + (uploaded \<times> 'fs)) \<Rightarrow>
     int \<Rightarrow> principal \<Rightarrow> int \<Rightarrow> int \<Rightarrow> upload_file \<Rightarrow> string \<Rightarrow> datetime \<Rightarrow> db \<Rightarrow> 'fs
     \<Rightarrow> (exn + (document_response \<times> db)) \<times> 'fs" where
  "api_upload_document put max_bytes actor relation_id type_id f ulid now d fs =
     (case validate_document_upload max_bytes f of
        Inl e \<Rightarrow> (Inl e, fs)
      | Inr _ \<Rightarrow>
          upload_document put (pr_user_id actor)
            \<lparr>ua_relation_id = relation_id, ua_type_id = type_id, ua_filename = sanitize_filename (uf_filename f),
             ua_content = uf_content f, ua_size = or_default (uf_size f) 0, ua_content_type = uf_content_type f\<rparr>
            ulid now d fs)"

text \<open>\<open>urllib.parse.quote(name, safe="")\<close>: the UTF-8 bytes, percent-encoded unless unreserved.\<close>

definition hex_digit :: "nat \<Rightarrow> char" where
  "hex_digit n = (if n < 10 then char_of (48 + n) else char_of (55 + n))"

definition unreserved :: "nat \<Rightarrow> bool" where
  "unreserved b \<longleftrightarrow> (97 \<le> b \<and> b \<le> 122) \<or> (65 \<le> b \<and> b \<le> 90) \<or> (48 \<le> b \<and> b \<le> 57) \<or> b \<in> {95, 46, 45, 126}"

definition quote :: "string \<Rightarrow> string" where
  "quote s = concat (map (\<lambda>b. if unreserved b then [char_of b]
     else [CHR ''%'', hex_digit (b div 16), hex_digit (b mod 16)]) (utf8_encode s))"

record file_response =
  fr_content :: "nat list"
  fr_media_type :: string
  fr_disposition :: string

definition api_download_document ::
    "(string \<Rightarrow> 'fs \<Rightarrow> exn + nat list) \<Rightarrow> principal \<Rightarrow> int \<Rightarrow> datetime \<Rightarrow> db \<Rightarrow> 'fs \<Rightarrow> exn + (file_response \<times> db)" where
  "api_download_document read actor document_id now d fs =
     let_ok (load_for_download (pr_user_id actor) document_id now d) (\<lambda>(x, d').
     let_ok (read (d_filename x) fs) (\<lambda>content.
       Inr (\<lparr>fr_content = content, fr_media_type = or_str (d_content_type x) ''application/octet-stream'',
             fr_disposition = ''attachment; filename*=UTF-8'' @ [CHR 0x27, CHR 0x27]
               @ quote (last (split_all (CHR ''/'') (d_filename x)))\<rparr>, d')))"

section \<open>Lemmas\<close>

text \<open>Who may touch the documents of a relation.\<close>

definition may_access :: "int \<Rightarrow> int \<Rightarrow> db \<Rightarrow> bool" where
  "may_access actor relation_id d \<longleftrightarrow>
     (case (tget (users d) actor, tget (relations d) relation_id) of
        (Some u, Some r) \<Rightarrow> u_role u = ADMIN
          \<or> (case tget (caregivers d) (rel_caregiver_id r) of None \<Rightarrow> False | Some c \<Rightarrow> cg_user_id c = actor)
      | _ \<Rightarrow> False)"

lemma document_gate_iff: "document_gate actor rid d = Inr x \<longleftrightarrow> may_access actor rid d"
  by (auto simp: document_gate_def relation_or_404_def ensure_actor_owns_relation_def may_access_def flow
      split: option.splits if_splits)

lemma document_gate_Inl:
  "\<not> may_access actor rid d \<Longrightarrow> document_gate actor rid d =
     Inl (if tget (relations d) rid = None then err CAREGIVER_NOT_FOUND else auth_forbidden None)"
  by (auto simp: document_gate_def relation_or_404_def ensure_actor_owns_relation_def may_access_def
      split: option.splits if_splits)

lemma upload_effect:
  assumes "upload_document put actor a ulid now d fs = (Inr (r, d'), fs')"
  shows "\<exists>up x. may_access actor (ua_relation_id a) d
    \<and> put ulid (document_prefix (ua_relation_id a)) (ua_filename a) (ua_content a) (ua_size a) (ua_content_type a) fs
        = Inr (up, fs')
    \<and> d' = log_document actor (next_id (documents d)) UPLOAD now (d\<lparr>documents := tins x (documents d)\<rparr>)
    \<and> d_relation_id x = ua_relation_id a \<and> d_filename x = up_key up \<and> dr_id r = next_id (documents d)
    \<and> dr_filename r = up_key up"
  using assms
  by (auto simp: upload_document_def Let_def document_to_response_def document_gate_iff
      split: sum.splits option.splits prod.splits)

lemma load_effect:
  "load_for_download actor i now d = Inr (x, d') \<Longrightarrow>
   tget (documents d) i = Some x \<and> may_access actor (d_relation_id x) d \<and> d' = log_document actor i DOWNLOAD now d"
  by (auto simp: load_for_download_def flow document_gate_iff)

lemma delete_effect:
  "delete_document remove actor i now d fs = (Inr (u, d'), fs') \<Longrightarrow>
   \<exists>x. tget (documents d) i = Some x \<and> may_access actor (d_relation_id x) d \<and> remove (d_filename x) fs = Inr fs'
     \<and> d' = delete_document_row i (log_document actor i DELETE now d)"
  by (auto simp: delete_document_def document_gate_iff split: option.splits sum.splits)

lemma log_document_other [simp]:
  "documents (log_document u i a now d) = documents d" "users (log_document u i a now d) = users d"
  "relations (log_document u i a now d) = relations d" "caregivers (log_document u i a now d) = caregivers d"
  by (simp_all add: log_document_def)

lemma may_access_log [simp]: "may_access a r (log_document u i x now d) = may_access a r d"
  by (auto simp: may_access_def split: option.splits)

lemma may_access_documents [simp]: "may_access a r (d\<lparr>documents := t\<rparr>) = may_access a r d"
  by (auto simp: may_access_def split: option.splits)

lemma str_of_nat_chars: "c \<in> set (str_of_nat n) \<Longrightarrow> is_digit c"
  using str_of_nat_digits [OF refl, of n] by (simp add: list_all_iff)

lemma str_of_int_chars:
  assumes "c \<in> set (str_of_int i)"
  shows "is_digit c \<or> c = CHR ''-''"
proof (cases "i < 0")
  case True
  then have "c = CHR ''-'' \<or> c \<in> set (str_of_nat (nat (- i)))" using assms by (simp add: str_of_int_def)
  then show ?thesis using str_of_nat_chars by blast
next
  case False
  then have "c \<in> set (str_of_nat (nat i))" using assms by (simp add: str_of_int_def)
  then show ?thesis using str_of_nat_chars by blast
qed

lemma digit_is_safe: "is_digit c \<or> c = CHR ''-'' \<Longrightarrow> safe_prefix_char c \<and> c \<noteq> CHR ''/'' \<and> c \<noteq> CHR ''.''"
  by (auto simp: safe_prefix_char_def is_digit_def)

lemma str_of_int_nonempty: "str_of_int i \<noteq> []"
  using str_of_nat_digits [OF refl, of "nat i"] by (simp add: str_of_int_def)

lemma document_prefix_clean: "clean_prefix (document_prefix i)"
proof -
  have n: "CHR ''/'' \<notin> set (str_of_int i)" "CHR ''.'' \<notin> set (str_of_int i)"
    "\<forall>c \<in> set (str_of_int i). safe_prefix_char c"
    using str_of_int_chars digit_is_safe by blast+
  have "list_all safe_prefix_char ''caregiver-documents/''"
    by (simp add: safe_prefix_char_def is_digit_def)
  then have "\<forall>c \<in> set (document_prefix i). safe_prefix_char c"
    using n(3) unfolding document_prefix_def list_all_iff set_append by blast
  then have safe: "safe_prefix (document_prefix i) = document_prefix i"
    unfolding safe_prefix_def by (simp add: map_idI document_prefix_def)
  have "str_of_int i \<noteq> ''.''" using n(2) by auto
  then have "path_parts (str_of_int i) = [str_of_int i]"
    using n(1) str_of_int_nonempty by (intro path_parts_single)
  moreover have "path_parts ''caregiver-documents'' = [''caregiver-documents'']"
    by (rule path_parts_single) simp_all
  ultimately have "path_parts (''caregiver-documents'' @ ''/'' @ str_of_int i) = [''caregiver-documents'', str_of_int i]"
    unfolding path_parts_slash by simp
  then have "path_string (path_parts (document_prefix i)) = ''/'' @ document_prefix i"
    by (simp add: document_prefix_def path_string_def)
  with safe show ?thesis by (simp add: clean_prefix_def)
qed

lemma api_download_loaded:
  assumes "tget (documents d) i = Some x" "may_access (pr_user_id p) (d_relation_id x) d" "read (d_filename x) fs = Inr c"
  shows "\<exists>f. api_download_document read p i t d fs = Inr (f, log_document (pr_user_id p) i DOWNLOAD t d) \<and> fr_content f = c"
  using assms document_gate_iff [of "pr_user_id p" "d_relation_id x" d "()"]
  by (simp add: api_download_document_def load_for_download_def)

context document_storage
begin

text \<open>A stored document is downloaded as it was sent, whatever is uploaded in between under another
  key, and is gone from the storage once deleted.\<close>

lemma upload_then_download:
  assumes ok: "table_ok (documents d)" "ulid_ok u"
    and up: "upload_document put (pr_user_id p) a u now d fs = (Inr (r, d'), fs')"
  shows "\<exists>f. api_download_document read p (dr_id r) t d' fs' =
      Inr (f, log_document (pr_user_id p) (dr_id r) DOWNLOAD t d') \<and> fr_content f = ua_content a"
proof -
  from upload_effect [OF up] obtain upl x where acc: "may_access (pr_user_id p) (ua_relation_id a) d"
    and put: "put u (document_prefix (ua_relation_id a)) (ua_filename a) (ua_content a) (ua_size a) (ua_content_type a) fs
        = Inr (upl, fs')"
    and d': "d' = log_document (pr_user_id p) (next_id (documents d)) UPLOAD now (d\<lparr>documents := tins x (documents d)\<rparr>)"
    and x: "d_relation_id x = ua_relation_id a" "d_filename x = up_key upl" "dr_id r = next_id (documents d)" by blast
  have "read (d_filename x) fs' = Inr (ua_content a)"
    using read_put [OF document_prefix_clean ok(2) put] put_key [OF put] x(2) by simp
  then show ?thesis
    using acc x by (intro api_download_loaded [where x = x]) (simp_all add: d' tget_tins [OF ok(1)])
qed

lemma deleted_is_gone:
  assumes "ulid_ok u" and up: "upload_document put actor a u now d fs = (Inr (r, d'), fs')"
    and del: "delete_document remove actor2 (dr_id r) t d' fs' = (Inr (x, d''), fs'')" and ok: "table_ok (documents d)"
  shows "isl (read (dr_filename r) fs'') \<and> tget (documents d'') (dr_id r) = None"
proof -
  from upload_effect [OF up] obtain upl y where put: "put u (document_prefix (ua_relation_id a)) (ua_filename a)
      (ua_content a) (ua_size a) (ua_content_type a) fs = Inr (upl, fs')"
    and d': "documents d' = tins y (documents d)" and y: "d_filename y = up_key upl" "dr_id r = next_id (documents d)"
      "dr_filename r = up_key upl" by force
  from delete_effect [OF del] obtain z where z: "tget (documents d') (dr_id r) = Some z"
    "remove (d_filename z) fs' = Inr fs''" "d'' = delete_document_row (dr_id r) (log_document actor2 (dr_id r) DELETE t d')"
    by blast
  have "z = y" using z(1) by (simp add: d' y(2) tget_tins [OF ok])
  then show ?thesis
    using read_removed [OF put_is_known [OF document_prefix_clean assms(1) put]] z(2,3) y
    by (simp add: delete_document_row_def)
qed

end

section \<open>Properties\<close>

text \<open>C16: the documents of a relation are open to administrators and to the caregiver of the relation only:
  everyone else is refused by every operation, before anything is stored, removed or logged, and those
  two can list them and load every one of them.\<close>

theorem document_access:
  "(\<not> may_access actor (ua_relation_id a) d \<longrightarrow>
      isl (fst (upload_document put actor a ulid now d fs)) \<and> snd (upload_document put actor a ulid now d fs) = fs)
   \<and> (isl (list_documents actor rid d) \<longleftrightarrow> \<not> may_access actor rid d)
   \<and> (\<forall>i x. tget (documents d) i = Some x \<longrightarrow>
        (load_for_download actor i now d =
           (if may_access actor (d_relation_id x) d then Inr (x, log_document actor i DOWNLOAD now d)
            else Inl (if tget (relations d) (d_relation_id x) = None then err CAREGIVER_NOT_FOUND else auth_forbidden None)))
        \<and> (\<not> may_access actor (d_relation_id x) d \<longrightarrow>
             isl (fst (delete_document remove actor i now d fs)) \<and> snd (delete_document remove actor i now d fs) = fs))
   \<and> (may_access actor rid d \<longleftrightarrow> (\<exists>u r. tget (users d) actor = Some u \<and> tget (relations d) rid = Some r
        \<and> (u_role u = ADMIN \<or> map_option cg_user_id (tget (caregivers d) (rel_caregiver_id r)) = Some actor)))"
proof -
  have gate: "document_gate actor i d = (if may_access actor i d then Inr ()
      else Inl (if tget (relations d) i = None then err CAREGIVER_NOT_FOUND else auth_forbidden None))" for i
    using document_gate_iff [of actor i d "()"] document_gate_Inl [of actor i d] by simp
  have "may_access actor rid d \<longleftrightarrow> (\<exists>u r. tget (users d) actor = Some u \<and> tget (relations d) rid = Some r
        \<and> (u_role u = ADMIN \<or> map_option cg_user_id (tget (caregivers d) (rel_caregiver_id r)) = Some actor))"
    by (auto simp: may_access_def split: option.splits)
  then show ?thesis
    by (simp add: upload_document_def list_documents_def load_for_download_def delete_document_def gate)
qed

theorem document_access_witness:
  "load_for_download 4 1 7 (sample_db\<lparr>documents := \<lparr>rows = [(1, \<lparr>d_relation_id = 1, d_type_id = 1, d_filename = ''k'',
      d_file_size = None, d_content_type = None, d_created_at = 0, d_created_by = None, d_updated_by = None\<rparr>)],
      next_id = 2\<rparr>\<rparr>) \<noteq> Inl (err DOCUMENT_NOT_FOUND)
   \<and> isl (list_documents 2 1 sample_db)"
proof -
  have n: "\<not> may_access 2 1 sample_db" by (simp add: may_access_def sample_defs table_eval)
  have "isl (list_documents 2 1 sample_db)"
    using document_access [THEN conjunct2, THEN conjunct1, of 2 1 sample_db] n by simp
  then show ?thesis
    by (auto simp: load_for_download_def document_gate_def relation_or_404_def ensure_actor_owns_relation_def
        sample_defs table_eval)
qed

text \<open>C25: a file that was uploaded to the local disk is downloaded byte for byte as it was sent, by the user
  who sent it; that user can delete it, and then neither the row nor the file is left.\<close>

theorem document_round_trip:
  assumes ok: "table_ok (documents d)" "ulid_ok u"
    and up: "upload_document (local_put root url) (pr_user_id p) a u now d fs = (Inr (r, d'), fs')"
  shows "(\<exists>f d1. api_download_document (local_open root) p (dr_id r) t d' fs' = Inr (f, d1) \<and> fr_content f = ua_content a)
    \<and> (\<exists>d2 fs2. delete_document (local_delete root) (pr_user_id p) (dr_id r) t d' fs' = (Inr ((), d2), fs2)
         \<and> tget (documents d2) (dr_id r) = None \<and> isl (local_open root (dr_filename r) fs2))"
proof -
  from upload_effect [OF up] obtain upl x where acc: "may_access (pr_user_id p) (ua_relation_id a) d"
    and put: "local_put root url u (document_prefix (ua_relation_id a)) (ua_filename a) (ua_content a) (ua_size a)
        (ua_content_type a) fs = Inr (upl, fs')"
    and d': "d' = log_document (pr_user_id p) (next_id (documents d)) UPLOAD now (d\<lparr>documents := tins x (documents d)\<rparr>)"
    and x: "d_relation_id x = ua_relation_id a" "d_filename x = up_key upl" "dr_id r = next_id (documents d)" by blast
  have "known_key (d_filename x)" using local_disk.put_is_known [OF document_prefix_clean ok(2) put] x(2) by simp
  then have rem: "\<exists>fs2. local_delete root (d_filename x) fs' = Inr fs2"
    by (simp add: local_delete_def known_key_resolves)
  have row: "tget (documents d') (dr_id r) = Some x" by (simp add: d' x(3) tget_tins [OF ok(1)])
  have "document_gate (pr_user_id p) (d_relation_id x) d' = Inr ()"
    using acc x(1) by (simp add: document_gate_iff d')
  with rem row obtain d2 fs2 where
    del: "delete_document (local_delete root) (pr_user_id p) (dr_id r) t d' fs' = (Inr ((), d2), fs2)"
    by (auto simp: delete_document_def)
  show ?thesis
    using local_disk.upload_then_download [OF ok up] del local_disk.deleted_is_gone [OF ok(2) up del ok(1)] by blast
qed

definition sample_upload :: upload_args where
  "sample_upload = \<lparr>ua_relation_id = 1, ua_type_id = 1, ua_filename = ''a.pdf'', ua_content = [37, 80],
     ua_size = 2, ua_content_type = Some ''application/pdf''\<rparr>"

definition sample_carer :: principal where
  "sample_carer = \<lparr>pr_user_id = 4, pr_username = ''carer'', pr_roles = [''CAREGIVER''], pr_enabled = True,
     pr_non_locked = True\<rparr>"

lemma sample_upload_returns:
  "\<exists>r d' fs'. upload_document (local_put [''srv''] ''http://x'') (pr_user_id sample_carer) sample_upload ''01AR'' 5
     sample_db (\<lambda>_. None) = (Inr (r, d'), fs')"
  by (simp add: upload_document_def document_gate_def relation_or_404_def ensure_actor_owns_relation_def
      sample_carer_def sample_upload_def local_put_def Let_def sample_defs table_eval split: prod.split)

theorem document_round_trip_witness:
  "\<exists>r d' fs' f d1. upload_document (local_put [''srv''] ''http://x'') (pr_user_id sample_carer) sample_upload ''01AR'' 5
       sample_db (\<lambda>_. None) = (Inr (r, d'), fs')
     \<and> api_download_document (local_open [''srv'']) sample_carer (dr_id r) 6 d' fs' = Inr (f, d1) \<and> fr_content f = [37, 80]"
proof -
  obtain r d' fs' where up: "upload_document (local_put [''srv''] ''http://x'') (pr_user_id sample_carer) sample_upload
      ''01AR'' 5 sample_db (\<lambda>_. None) = (Inr (r, d'), fs')"
    using sample_upload_returns by blast
  have "table_ok (documents sample_db)" using sample_schema_ok by (simp add: schema_ok_def)
  moreover have "ulid_ok ''01AR''" by (simp add: ulid_ok_def)
  ultimately show ?thesis
    using document_round_trip [OF _ _ up, of 6] up by (auto simp: sample_upload_def)
qed

text \<open>An upload and a download each leave one log, appended to the others; a deletion leaves none: the
  logs that remain are exactly the old ones of the other documents, so that neither the deletion nor
  anything that happened to the document before can be told from the table.\<close>

lemma document_audit_trail:
  assumes ok: "table_ok (document_logs d)"
    and del: "delete_document remove actor i now d fs = (Inr (u, d'), fs')"
  shows "(\<forall>k l. tget (document_logs d') k = Some l \<longleftrightarrow> tget (document_logs d) k = Some l \<and> dl_document_id l \<noteq> i)
    \<and> (\<forall>x d1. load_for_download actor i now d = Inr (x, d1) \<longrightarrow> document_logs d1 =
         tins \<lparr>dl_document_id = i, dl_user_id = actor, dl_action = DOWNLOAD, dl_at = now\<rparr> (document_logs d))
    \<and> (\<forall>put a ulid r d1 fs1. upload_document put actor a ulid now d fs = (Inr (r, d1), fs1) \<longrightarrow> document_logs d1 =
         tins \<lparr>dl_document_id = dr_id r, dl_user_id = actor, dl_action = UPLOAD, dl_at = now\<rparr> (document_logs d))"
proof -
  have logs: "document_logs (log_document a j x t e) =
      tins \<lparr>dl_document_id = j, dl_user_id = a, dl_action = x, dl_at = t\<rparr> (document_logs e)" for a j x t e
    by (simp add: log_document_def)
  from delete_effect [OF del] have "d' = delete_document_row i (log_document actor i DELETE now d)" by blast
  then have "document_logs d' = tdel_where (\<lambda>j l. dl_document_id l = i)
      (tins \<lparr>dl_document_id = i, dl_user_id = actor, dl_action = DELETE, dl_at = now\<rparr> (document_logs d))"
    by (simp add: delete_document_row_def logs)
  then have "\<forall>k l. tget (document_logs d') k = Some l \<longleftrightarrow> tget (document_logs d) k = Some l \<and> dl_document_id l \<noteq> i"
    using tget_next [OF ok] by (auto simp: tget_tdel_where [OF table_ok_tins [OF ok]] tget_tins [OF ok])
  moreover have "document_logs d1 =
      tins \<lparr>dl_document_id = i, dl_user_id = actor, dl_action = DOWNLOAD, dl_at = now\<rparr> (document_logs d)"
    if "load_for_download actor i now d = Inr (x, d1)" for x d1
    using load_effect [OF that] by (simp add: logs)
  moreover have "document_logs d1 =
      tins \<lparr>dl_document_id = dr_id r, dl_user_id = actor, dl_action = UPLOAD, dl_at = now\<rparr> (document_logs d)"
    if "upload_document put actor a ulid now d fs = (Inr (r, d1), fs1)" for put a ulid r d1 fs1
    using upload_effect [OF that] by (auto simp: logs)
  ultimately show ?thesis by blast
qed

lemma document_audit_trail_witness:
  "\<exists>d' d''. fst (delete_document (\<lambda>k. Inr) 4 1 9 d' (0::nat)) = Inr ((), d'')
     \<and> (\<exists>l. tget (document_logs d') 1 = Some l \<and> dl_document_id l = 1)
     \<and> (\<forall>k l. tget (document_logs d'') k = Some l \<longrightarrow> dl_document_id l \<noteq> 1)"
proof -
  obtain r d' fs' where up: "upload_document (local_put [''srv''] ''http://x'') 4 sample_upload
      ''01AR'' 5 sample_db (\<lambda>_. None) = (Inr (r, d'), fs')"
    using sample_upload_returns by (auto simp: sample_carer_def)
  obtain upl x where acc: "may_access 4 (ua_relation_id sample_upload) sample_db"
    and d': "d' = log_document 4 (next_id (documents sample_db)) UPLOAD 5 (sample_db\<lparr>documents := tins x (documents sample_db)\<rparr>)"
    and x: "d_relation_id x = ua_relation_id sample_upload" using upload_effect [OF up] by blast
  have t: "table_ok (documents sample_db)" "table_ok (document_logs sample_db)"
    "next_id (documents sample_db) = 1" "next_id (document_logs sample_db) = 1"
    using sample_schema_ok by (simp_all add: schema_ok_def sample_defs)
  have logs: "document_logs d' = tins \<lparr>dl_document_id = 1, dl_user_id = 4, dl_action = UPLOAD, dl_at = 5\<rparr> (document_logs sample_db)"
    by (simp add: d' log_document_def t(3))
  have "tget (documents d') 1 = Some x" using t by (simp add: d' tget_tins)
  moreover have "document_gate 4 (d_relation_id x) d' = Inr ()" using acc x by (simp add: document_gate_iff d')
  ultimately obtain d'' where del: "delete_document (\<lambda>k. Inr) 4 1 9 d' (0::nat) = (Inr ((), d''), 0)"
    by (simp add: delete_document_def)
  have ok: "table_ok (document_logs d')" using t by (simp add: logs)
  have "tget (document_logs d') 1 = Some \<lparr>dl_document_id = 1, dl_user_id = 4, dl_action = UPLOAD, dl_at = 5\<rparr>"
    using t by (simp add: logs tget_tins)
  then show ?thesis using document_audit_trail [OF ok del] del
    by (intro exI [of _ d'] exI [of _ d'']) simp
qed

end
