(* ===== verification/Cache.thy ===== *)
theory Cache
  imports Tenant
begin

text \<open>
  The Redis cache of app/core/cache.py.  A value is stored as the JSON text that
  \<open>model_dump_json(by_alias=True)\<close> produces and read back with \<open>model_validate_json\<close>; both belong to
  pydantic and are parameters (\<open>dump\<close>, \<open>validate\<close>), as is whether Redis answers at the moment.
  Every failure of Redis or of the validation is a cache miss.

  The second half states the cache-aside discipline as the locale \<open>cache_aside\<close>: readers fill the
  cache, writers evict the key they write.
\<close>

section \<open>Redis as the services see it\<close>

text \<open>The client of a service may be absent, and a call may fail; entries expire at any time.\<close>

datatype redis = No_redis | Redis_down | Redis_up

type_synonym 'raw cache = "string \<Rightarrow> 'raw option"

definition cache_prefix :: string where
  "cache_prefix = ''rooti:cache''"

definition cache_key :: "string \<Rightarrow> int \<Rightarrow> string" where
  "cache_key namespace key = cache_prefix @ '':'' @ namespace @ '':'' @ str_of_int key"

definition cache_ttl :: int where
  "cache_ttl = 600"

definition get_model ::
    "('raw \<Rightarrow> 'm option) \<Rightarrow> redis \<Rightarrow> string \<Rightarrow> int \<Rightarrow> 'raw cache \<Rightarrow> 'm option" where
  "get_model validate client namespace key cache =
     (if client \<noteq> Redis_up then None
      else case cache (cache_key namespace key) of None \<Rightarrow> None | Some raw \<Rightarrow> validate raw)"

definition set_model ::
    "('m \<Rightarrow> 'raw) \<Rightarrow> redis \<Rightarrow> 'm \<Rightarrow> string \<Rightarrow> int \<Rightarrow> 'raw cache \<Rightarrow> 'raw cache" where
  "set_model dump client m namespace key cache =
     (if client \<noteq> Redis_up then cache else cache(cache_key namespace key \<mapsto> dump m))"

definition evict :: "redis \<Rightarrow> string \<Rightarrow> int \<Rightarrow> 'raw cache \<Rightarrow> 'raw cache" where
  "evict client namespace key cache =
     (if client \<noteq> Redis_up then cache else cache(cache_key namespace key := None))"

text \<open>An entry that reaches its time to live disappears.\<close>

definition expire :: "string \<Rightarrow> 'raw cache \<Rightarrow> 'raw cache" where
  "expire k cache = cache(k := None)"

text \<open>
  The reading side of a service: a hit is returned as it is, a miss loads the value and stores it.
\<close>

definition cached_get ::
    "('m \<Rightarrow> 'raw) \<Rightarrow> ('raw \<Rightarrow> 'm option) \<Rightarrow> redis \<Rightarrow> string \<Rightarrow> int \<Rightarrow> (exn + 'm) \<Rightarrow> 'raw cache
     \<Rightarrow> exn + ('m \<times> 'raw cache)" where
  "cached_get dump validate client namespace key load cache =
     (case get_model validate client namespace key cache of
        Some hit \<Rightarrow> Inr (hit, cache)
      | None \<Rightarrow> let_ok load (\<lambda>m. Inr (m, set_model dump client m namespace key cache)))"

section \<open>Keys\<close>

lemma cache_key_inj [simp]: "cache_key ns a = cache_key ns b \<longleftrightarrow> a = b"
  by (auto simp: cache_key_def dest: str_of_int_inj)

lemma takeWhile_sep:
  "c \<notin> set a \<Longrightarrow> takeWhile (\<lambda>x. x \<noteq> c) (a @ c # b) = a"
  by (induction a) auto

text \<open>Two namespaces without a colon never share a key.\<close>

lemma cache_key_namespace:
  assumes "CHR '':'' \<notin> set m" "CHR '':'' \<notin> set n" "cache_key m a = cache_key n b"
  shows "m = n \<and> a = b"
proof -
  from assms(3) have "m @ CHR '':'' # str_of_int a = n @ CHR '':'' # str_of_int b"
    by (simp add: cache_key_def)
  then have "m = n" using takeWhile_sep assms(1,2) by metis
  with assms(3) show ?thesis by simp
qed

section \<open>Cache-aside\<close>

text \<open>
  \<open>load d k\<close> is the fresh value of key \<open>k\<close> in the database; \<open>writes d k d'\<close> is a committed write whose
  method evicts \<open>k\<close>.  The provider promises that such a write changes no other key's value.  The
  client's guarantee: as long as Redis answers, what the cache holds is what the database holds.
\<close>

definition coherent :: "('m \<Rightarrow> 'raw) \<Rightarrow> (db \<Rightarrow> int \<Rightarrow> exn + 'm) \<Rightarrow> string \<Rightarrow> db \<Rightarrow> 'raw cache \<Rightarrow> bool" where
  "coherent dump load ns d cache \<longleftrightarrow>
     (\<forall>k raw. cache (cache_key ns k) = Some raw \<longrightarrow> (\<exists>m. load d k = Inr m \<and> raw = dump m))"

locale cache_aside =
  fixes ns :: string
    and load :: "db \<Rightarrow> int \<Rightarrow> exn + 'm"
    and writes :: "db \<Rightarrow> int \<Rightarrow> db \<Rightarrow> bool"
  assumes write_frame: "writes d k d' \<Longrightarrow> j \<noteq> k \<Longrightarrow> load d j = Inr m \<Longrightarrow> load d' j = Inr m"
begin

lemma coherent_empty: "coherent dump load ns d (\<lambda>_. None)"
  by (simp add: coherent_def)

lemma coherent_expire: "coherent dump load ns d c \<Longrightarrow> coherent dump load ns d (expire k c)"
  by (simp add: coherent_def expire_def)

lemma coherent_write:
  "coherent dump load ns d c \<Longrightarrow> writes d k d' \<Longrightarrow> coherent dump load ns d' (evict Redis_up ns k c)"
  using write_frame by (fastforce simp: coherent_def evict_def split: if_splits)

lemma coherent_fill:
  "coherent dump load ns d c \<Longrightarrow> cached_get dump validate r ns k (load d k) c = Inr (m, c')
   \<Longrightarrow> coherent dump load ns d c'"
  by (auto simp: cached_get_def coherent_def set_model_def flow split: option.splits if_splits)

lemma coherent_read:
  assumes "coherent dump load ns d c" and "\<And>m. validate (dump m) \<in> {None, Some m}"
    and "cached_get dump validate r ns k (load d k) c = Inr (m, c')"
  shows "load d k = Inr m"
proof (cases "get_model validate r ns k c")
  case None
  with assms(3) show ?thesis by (auto simp: cached_get_def flow)
next
  case (Some hit)
  then obtain raw where raw: "c (cache_key ns k) = Some raw" "validate raw = Some hit"
    by (auto simp: get_model_def split: if_splits option.splits)
  then obtain m' where "load d k = Inr m'" "raw = dump m'" using assms(1) by (auto simp: coherent_def)
  moreover from this raw(2) have "hit = m'" using assms(2) [of m'] by auto
  ultimately show ?thesis using Some assms(3) by (simp add: cached_get_def)
qed

end

section \<open>A cache that is never read\<close>

text \<open>
  If the stored text of a value does not validate, every lookup is a miss: \<open>cached_get\<close> returns the
  loaded value.  This is what pydantic documents for a model with a required field that has only a
  \<open>serialization_alias\<close>: \<open>model_dump_json(by_alias=True)\<close> writes the alias, and validation looks for
  the field's name.  \<open>missing_name\<close> is that situation for a list of fields, each with its name, its
  serialization alias and whether it is required.
\<close>

record field =
  f_name :: string
  f_serialization_alias :: "string option"
  f_required :: bool

definition dump_key :: "field \<Rightarrow> string" where
  "dump_key f = (case f_serialization_alias f of None \<Rightarrow> f_name f | Some a \<Rightarrow> a)"

definition missing_name :: "field list \<Rightarrow> bool" where
  "missing_name fs \<longleftrightarrow> (\<exists>f \<in> set fs. f_required f \<and> f_name f \<notin> dump_key ` set fs)"

lemma never_read:
  assumes "\<And>m. validate (dump m) = None" and "\<And>k raw. c k = Some raw \<Longrightarrow> raw \<in> range dump"
  shows "cached_get dump validate r ns k load c =
    let_ok load (\<lambda>m. Inr (m, set_model dump r m ns k c))"
proof -
  have "get_model validate r ns k c = None"
    using assms by (fastforce simp: get_model_def split: option.splits)
  then show ?thesis by (simp add: cached_get_def)
qed

end
