(* ===== verification/Jobs.thy ===== *)
theory Jobs
  imports Cache Sample
begin

text \<open>
  Jobs: app/services/job.py (job standards with their processes, and the assignment of workers to
  them), the DTOs of app/schemas/job.py and the endpoints of app/api/v1/job_standards.py and
  app/api/v1/job_workers.py.

  SQLAlchemy is a library the sources call.  Two of its documented behaviours matter here.  Reading
  the \<open>processes\<close> of a standard that was fetched without them is a lazy load: \<open>lazy_load\<close> is a
  parameter, since the asyncio session refuses it (\<open>MissingGreenlet\<close>).  A flush emits, for one table,
  the updates in key order, then the inserts in the order they were added, then the deletes; every
  statement is checked against the table's constraints on its own.
\<close>

section \<open>Requests and responses\<close>

record process_upsert_request =
  pu_id :: "int option"
  pu_name :: string
  pu_sequence :: int
  pu_video_path :: "string option"
  pu_start_message :: "string option"
  pu_end_message :: "string option"
  pu_context :: "jobject option"
  pu_process_time :: int

definition valid_process_upsert :: "process_upsert_request \<Rightarrow> bool" where
  "valid_process_upsert p \<longleftrightarrow> len_between 1 200 (pu_name p) \<and> 0 \<le> pu_sequence p \<and> 0 \<le> pu_process_time p"

record standard_create_request =
  sc_company_id :: int
  sc_name :: string
  sc_routine_start_time :: "int option"
  sc_work_time :: "int option"
  sc_rest_time :: "int option"
  sc_start_message :: "string option"
  sc_end_message :: "string option"
  sc_context :: "jobject option"
  sc_for_journal :: "bool option"
  sc_processes :: "process_upsert_request list option"

definition nonneg_opt :: "int option \<Rightarrow> bool" where
  "nonneg_opt x = (case x of None \<Rightarrow> True | Some v \<Rightarrow> 0 \<le> v)"

definition valid_standard_create :: "standard_create_request \<Rightarrow> bool" where
  "valid_standard_create r \<longleftrightarrow> len_between 1 200 (sc_name r) \<and> nonneg_opt (sc_work_time r)
     \<and> nonneg_opt (sc_rest_time r)
     \<and> (case sc_processes r of None \<Rightarrow> True | Some ps \<Rightarrow> list_all valid_process_upsert ps)"

record standard_update_request =
  su_name :: "string option"
  su_routine_start_time :: "int option"
  su_work_time :: "int option"
  su_rest_time :: "int option"
  su_start_message :: "string option"
  su_end_message :: "string option"
  su_context :: "jobject option"
  su_for_journal :: "bool option"

definition valid_standard_update :: "standard_update_request \<Rightarrow> bool" where
  "valid_standard_update r \<longleftrightarrow> max_len 200 (su_name r) \<and> nonneg_opt (su_work_time r)
     \<and> nonneg_opt (su_rest_time r)"

record process_response =
  pr_id :: int
  pr_name :: string
  pr_sequence :: int
  pr_video_path :: "string option"
  pr_start_message :: "string option"
  pr_end_message :: "string option"
  pr_context :: "jobject option"
  pr_process_time :: int

record standard_response =
  sr_id :: int
  sr_company_id :: int
  sr_company_name :: "string option"
  sr_name :: string
  sr_use_flag :: bool
  sr_routine_start_time :: "int option"
  sr_work_time :: int
  sr_rest_time :: int
  sr_start_message :: "string option"
  sr_end_message :: "string option"
  sr_context :: "jobject option"
  sr_for_journal :: bool
  sr_processes :: "process_response list"

record assign_request =
  as_company_worker_id :: int
  as_standard_id :: int

record job_worker_response =
  jr_id :: int
  jr_standard_id :: int
  jr_standard_name :: "string option"
  jr_company_worker_id :: int
  jr_use_flag :: bool

section \<open>Responses of a standard\<close>

definition new_process :: "int \<Rightarrow> process_upsert_request \<Rightarrow> job_process" where
  "new_process standard_id p =
     \<lparr>jp_standard_id = standard_id, jp_name = pu_name p, jp_sequence = pu_sequence p,
      jp_video_path = pu_video_path p, jp_start_message = pu_start_message p,
      jp_end_message = pu_end_message p, jp_context = pu_context p,
      jp_process_time = pu_process_time p\<rparr>"

definition to_process_response :: "int \<times> job_process \<Rightarrow> process_response" where
  "to_process_response = (\<lambda>(i, p).
     \<lparr>pr_id = i, pr_name = jp_name p, pr_sequence = jp_sequence p, pr_video_path = jp_video_path p,
      pr_start_message = jp_start_message p, pr_end_message = jp_end_message p,
      pr_context = jp_context p, pr_process_time = jp_process_time p\<rparr>)"

definition to_standard_response ::
    "int \<Rightarrow> job_standard \<Rightarrow> string option \<Rightarrow> (int \<times> job_process) list \<Rightarrow> standard_response" where
  "to_standard_response i s company_name ps =
     \<lparr>sr_id = i, sr_company_id = js_company_id s, sr_company_name = company_name,
      sr_name = js_name s, sr_use_flag = js_use_flag s,
      sr_routine_start_time = js_routine_start_time s, sr_work_time = js_work_time s,
      sr_rest_time = js_rest_time s, sr_start_message = js_start_message s,
      sr_end_message = js_end_message s, sr_context = js_context s,
      sr_for_journal = js_for_journal s, sr_processes = map to_process_response ps\<rparr>"

definition company_name :: "int \<Rightarrow> db \<Rightarrow> string option" where
  "company_name i d = map_option co_name (tget (companies d) i)"

text \<open>The relation \<open>processes\<close> of a standard, ordered by its sequence (\<open>selectinload\<close>).\<close>

definition processes_of :: "int \<Rightarrow> db \<Rightarrow> (int \<times> job_process) list" where
  "processes_of sid d =
     order_by (\<lambda>x. jp_sequence (snd x)) (tsel (\<lambda>_ p. jp_standard_id p = sid) (processes d))"

type_synonym lazy_load = "int \<Rightarrow> db \<Rightarrow> exn + (int \<times> job_process) list"

text \<open>What the asyncio extension documents for a lazy load.\<close>

definition asyncio_lazy_load :: lazy_load where
  "asyncio_lazy_load sid d = Inl (External ''MissingGreenlet'')"

section \<open>Statements of a flush on job\_processes\<close>

datatype process_stmt =
    Update_process int job_process
  | Insert_process job_process
  | Delete_process int

abbreviation process_key :: "job_process \<Rightarrow> int \<times> int" where
  "process_key p \<equiv> (jp_standard_id p, jp_sequence p)"

definition process_key_taken :: "(int \<Rightarrow> bool) \<Rightarrow> job_process \<Rightarrow> db \<Rightarrow> bool" where
  "process_key_taken other p d \<longleftrightarrow>
     tsel (\<lambda>j q. other j \<and> process_key q = process_key p) (processes d) \<noteq> []"

fun run_process_stmt :: "process_stmt \<Rightarrow> db \<Rightarrow> exn + db" where
  "run_process_stmt (Update_process i p) d =
     (if process_key_taken (\<lambda>j. j \<noteq> i) p d then Inl IntegrityError
      else Inr (d\<lparr>processes := tupd i p (processes d)\<rparr>))"
| "run_process_stmt (Insert_process p) d =
     (if process_key_taken (\<lambda>_. True) p d then Inl IntegrityError
      else Inr (d\<lparr>processes := tins p (processes d)\<rparr>))"
| "run_process_stmt (Delete_process i) d =
     (if tsel (\<lambda>_ r. wp_process_id r = i) (process_records d) \<noteq> [] then Inl IntegrityError
      else Inr (d\<lparr>processes := tdel i (processes d)\<rparr>))"

fun run_process_stmts :: "process_stmt list \<Rightarrow> db \<Rightarrow> exn + db" where
  "run_process_stmts [] d = Inr d"
| "run_process_stmts (x # xs) d = let_ok (run_process_stmt x d) (run_process_stmts xs)"

section \<open>Job standards\<close>

definition standard_ns :: string where "standard_ns = ''job_standard''"

definition standard_or_throw :: "int \<Rightarrow> db \<Rightarrow> exn + job_standard" where
  "standard_or_throw i d = some_or (tget (standards d) i) (err JOB_STANDARD_NOT_FOUND) Inr"

definition standard_load :: "db \<Rightarrow> int \<Rightarrow> exn + standard_response" where
  "standard_load d i =
     let_ok (standard_or_throw i d) (\<lambda>s.
       Inr (to_standard_response i s (company_name (js_company_id s) d) (processes_of i d)))"

definition get_standard ::
    "(standard_response \<Rightarrow> 'raw) \<Rightarrow> ('raw \<Rightarrow> standard_response option) \<Rightarrow> redis \<Rightarrow> int \<Rightarrow> db \<Rightarrow> 'raw cache
     \<Rightarrow> exn + (standard_response \<times> 'raw cache)" where
  "get_standard dump validate r i d cache =
     cached_get dump validate r standard_ns i (standard_load d i) cache"

definition search_standards ::
    "(string \<Rightarrow> string \<Rightarrow> bool) \<Rightarrow> int option \<Rightarrow> string option \<Rightarrow> page_params \<Rightarrow> db \<Rightarrow> standard_response page"
  where
  "search_standards ilike company_id keyword params d =
     paged (\<lambda>(i, s, n). to_standard_response i s (Some n) []) params
       (order_by_desc fst
         (List.map_filter
           (\<lambda>(i, s). map_option (\<lambda>c. (i, s, co_name c)) (tget (companies d) (js_company_id s)))
           (tsel (\<lambda>i s. opt_filter company_id (\<lambda>c s. js_company_id s = c) s
                \<and> keyword_match keyword (ilike (js_name s)))
              (standards d))))"

text \<open>
  A method of this service returns, with its result, the cache it leaves behind: an eviction is not
  undone when the method raises later.
\<close>

definition create_standard ::
    "lazy_load \<Rightarrow> redis \<Rightarrow> standard_create_request \<Rightarrow> db \<Rightarrow> 'raw cache
     \<Rightarrow> (exn + (standard_response \<times> db)) \<times> 'raw cache" where
  "create_standard lazy_load r req d cache =
     (if tget (companies d) (sc_company_id req) = None then (Inl (err COMPANY_NOT_FOUND), cache)
      else
        (let i = next_id (standards d);
             s = \<lparr>js_company_id = sc_company_id req, js_name = sc_name req, js_use_flag = True,
                  js_routine_start_time = sc_routine_start_time req,
                  js_work_time = or_default (sc_work_time req) 0,
                  js_rest_time = or_default (sc_rest_time req) 0,
                  js_start_message = sc_start_message req, js_end_message = sc_end_message req,
                  js_context = sc_context req, js_for_journal = (sc_for_journal req = Some True)\<rparr>;
             ps = map (new_process i) (if truthy (sc_processes req) then the (sc_processes req) else []);
             first = next_id (processes d)
         in case run_process_stmts (map Insert_process ps) (d\<lparr>standards := tins s (standards d)\<rparr>) of
              Inl e \<Rightarrow> (Inl e, cache)
            | Inr d' \<Rightarrow>
                (let_ok (if ps = [] then lazy_load i d'
                         else Inr (zip (map (\<lambda>k. first + int k) [0..<length ps]) ps)) (\<lambda>loaded.
                   Inr (to_standard_response i s (company_name (js_company_id s) d') loaded, d')),
                 evict r standard_ns i cache)))"

definition apply_standard_update :: "standard_update_request \<Rightarrow> job_standard \<Rightarrow> job_standard" where
  "apply_standard_update req s =
     s\<lparr>js_name := keep (su_name req) (js_name s),
       js_routine_start_time := keep_opt (su_routine_start_time req) (js_routine_start_time s),
       js_work_time := keep (su_work_time req) (js_work_time s),
       js_rest_time := keep (su_rest_time req) (js_rest_time s),
       js_start_message := keep_opt (su_start_message req) (js_start_message s),
       js_end_message := keep_opt (su_end_message req) (js_end_message s),
       js_context := keep_opt (su_context req) (js_context s),
       js_for_journal := keep (su_for_journal req) (js_for_journal s)\<rparr>"

definition update_standard ::
    "lazy_load \<Rightarrow> redis \<Rightarrow> int \<Rightarrow> standard_update_request \<Rightarrow> db \<Rightarrow> 'raw cache
     \<Rightarrow> (exn + (standard_response \<times> db)) \<times> 'raw cache" where
  "update_standard lazy_load r i req d cache =
     (case standard_or_throw i d of
        Inl e \<Rightarrow> (Inl e, cache)
      | Inr s \<Rightarrow>
          (let s' = apply_standard_update req s;
               d' = d\<lparr>standards := tupd i s' (standards d)\<rparr>
           in (let_ok (lazy_load i d') (\<lambda>loaded.
                 Inr (to_standard_response i s' (company_name (js_company_id s') d') loaded, d')),
               evict r standard_ns i cache)))"

definition deactivate_standard ::
    "redis \<Rightarrow> int \<Rightarrow> db \<Rightarrow> 'raw cache \<Rightarrow> (exn + (unit \<times> db)) \<times> 'raw cache" where
  "deactivate_standard r i d cache =
     (case standard_or_throw i d of
        Inl e \<Rightarrow> (Inl e, cache)
      | Inr s \<Rightarrow> (Inr ((), d\<lparr>standards := tupd i (s\<lparr>js_use_flag := False\<rparr>) (standards d)\<rparr>),
                  evict r standard_ns i cache))"

text \<open>
  \<open>sync_processes\<close>: the collection is a list of objects, a new one without a key.  The loop updates
  an object in place or appends a new one; a key that is not in the collection is an error.
\<close>

type_synonym process_obj = "int option \<times> job_process"

definition update_process_obj :: "process_upsert_request \<Rightarrow> job_process \<Rightarrow> job_process" where
  "update_process_obj p e =
     e\<lparr>jp_name := pu_name p, jp_sequence := pu_sequence p, jp_video_path := pu_video_path p,
       jp_start_message := pu_start_message p, jp_end_message := pu_end_message p,
       jp_context := pu_context p, jp_process_time := pu_process_time p\<rparr>"

definition sync_one :: "int \<Rightarrow> process_upsert_request \<Rightarrow> process_obj list \<Rightarrow> exn + process_obj list" where
  "sync_one sid p objs =
     (case pu_id p of
        None \<Rightarrow> Inr (objs @ [(None, new_process sid p)])
      | Some i \<Rightarrow>
          if Some i \<in> fst ` set objs
          then Inr (map (\<lambda>(k, e). if k = Some i then (k, update_process_obj p e) else (k, e)) objs)
          else Inl (err JOB_PROCESS_NOT_FOUND))"

fun sync_loop :: "int \<Rightarrow> process_upsert_request list \<Rightarrow> process_obj list \<Rightarrow> exn + process_obj list" where
  "sync_loop sid [] objs = Inr objs"
| "sync_loop sid (p # ps) objs = let_ok (sync_one sid p objs) (sync_loop sid ps)"

definition incoming_ids :: "process_upsert_request list \<Rightarrow> int list" where
  "incoming_ids ps = List.map_filter pu_id ps"

text \<open>The statements of the flush, from the rows as loaded and the objects as the loop left them.\<close>

definition flush_processes :: "(int \<times> job_process) list \<Rightarrow> process_obj list \<Rightarrow> process_stmt list" where
  "flush_processes loaded objs =
     map (\<lambda>(i, e). Update_process i e)
       (sort_key fst (List.map_filter
          (\<lambda>(k, e). case k of None \<Rightarrow> None
                             | Some i \<Rightarrow> if (i, e) \<in> set loaded then None else Some (i, e)) objs))
     @ List.map_filter (\<lambda>(k, e). if k = None then Some (Insert_process e) else None) objs
     @ map (\<lambda>(i, e). Delete_process i) (filter (\<lambda>(i, e). Some i \<notin> fst ` set objs) loaded)"

text \<open>After the flush the new objects carry the keys of their rows.\<close>

fun assign_keys :: "int \<Rightarrow> process_obj list \<Rightarrow> (int \<times> job_process) list" where
  "assign_keys n [] = []"
| "assign_keys n ((None, e) # objs) = (n, e) # assign_keys (n + 1) objs"
| "assign_keys n ((Some i, e) # objs) = (i, e) # assign_keys n objs"

definition sync_processes ::
    "int \<Rightarrow> process_upsert_request list \<Rightarrow> db \<Rightarrow> exn + (standard_response \<times> db)" where
  "sync_processes sid incoming d =
     let_ok (standard_or_throw sid d) (\<lambda>s.
     (let loaded = processes_of sid d;
          kept = filter (\<lambda>(i, e). i \<in> set (incoming_ids incoming)) loaded
      in let_ok (sync_loop sid incoming (map (\<lambda>(i, e). (Some i, e)) kept)) (\<lambda>objs.
         let_ok (run_process_stmts (flush_processes loaded objs) d) (\<lambda>d'.
           Inr (to_standard_response sid s (company_name (js_company_id s) d')
                  (assign_keys (next_id (processes d)) objs), d')))))"

section \<open>Assignments\<close>

definition to_jw_response :: "int \<Rightarrow> job_worker \<Rightarrow> int \<Rightarrow> job_standard \<Rightarrow> job_worker_response" where
  "to_jw_response i jw sid s =
     \<lparr>jr_id = i, jr_standard_id = sid, jr_standard_name = Some (js_name s),
      jr_company_worker_id = jw_company_worker_id jw, jr_use_flag = jw_use_flag jw\<rparr>"

definition assignments :: "int \<Rightarrow> int \<Rightarrow> db \<Rightarrow> (int \<times> job_worker) list" where
  "assignments cw sid d =
     tsel (\<lambda>_ j. jw_company_worker_id j = cw \<and> jw_standard_id j = sid) (job_workers d)"

definition new_job_worker :: "int \<Rightarrow> int \<Rightarrow> job_worker" where
  "new_job_worker cw sid =
     \<lparr>jw_company_worker_id = cw, jw_standard_id = sid, jw_use_flag = True, jw_context = None\<rparr>"

definition assign_job :: "int \<Rightarrow> int \<Rightarrow> db \<Rightarrow> exn + (job_worker_response \<times> db)" where
  "assign_job cw sid d =
     raise_if (tget (company_workers d) cw = None) (err WORKER_NOT_FOUND)
     (some_or (tget (standards d) sid) (err JOB_STANDARD_NOT_FOUND) (\<lambda>standard.
      let_ok (scalar_one_or_none (assignments cw sid d)) (\<lambda>existing.
      (case existing of
         Some (i, jw) \<Rightarrow>
           raise_if (jw_use_flag jw) (err JOB_WORKER_ALREADY_ASSIGNED)
           (let jw' = jw\<lparr>jw_use_flag := True\<rparr>
            in Inr (to_jw_response i jw' sid standard, d\<lparr>job_workers := tupd i jw' (job_workers d)\<rparr>))
       | None \<Rightarrow>
           (let jw = new_job_worker cw sid
            in Inr (to_jw_response (next_id (job_workers d)) jw sid standard,
                    d\<lparr>job_workers := tins jw (job_workers d)\<rparr>))))))"

definition unassign_job :: "int \<Rightarrow> db \<Rightarrow> exn + (unit \<times> db)" where
  "unassign_job i d =
     some_or (tget (job_workers d) i) (err JOB_WORKER_NOT_FOUND) (\<lambda>jw.
       Inr ((), d\<lparr>job_workers := tupd i (jw\<lparr>jw_use_flag := False\<rparr>) (job_workers d)\<rparr>))"

definition list_assignments :: "(job_worker \<Rightarrow> bool) \<Rightarrow> db \<Rightarrow> job_worker_response list" where
  "list_assignments p d =
     List.map_filter
       (\<lambda>(i, jw). map_option (to_jw_response i jw (jw_standard_id jw)) (tget (standards d) (jw_standard_id jw)))
       (tsel (\<lambda>_ jw. p jw \<and> jw_use_flag jw) (job_workers d))"

definition list_by_job_standard :: "int \<Rightarrow> db \<Rightarrow> job_worker_response list" where
  "list_by_job_standard sid d = list_assignments (\<lambda>jw. jw_standard_id jw = sid) d"

definition list_active_by_company_worker :: "int \<Rightarrow> db \<Rightarrow> job_worker_response list" where
  "list_active_by_company_worker cw d = list_assignments (\<lambda>jw. jw_company_worker_id jw = cw) d"

section \<open>Endpoints\<close>

definition api_create_standard ::
    "lazy_load \<Rightarrow> redis \<Rightarrow> standard_create_request \<Rightarrow> principal \<Rightarrow> db \<Rightarrow> 'raw cache
     \<Rightarrow> (exn + (standard_response \<times> db)) \<times> 'raw cache" where
  "api_create_standard lazy_load r req me d c =
     (case require_admin_or_charger me of Inl e \<Rightarrow> (Inl e, c) | Inr _ \<Rightarrow> create_standard lazy_load r req d c)"

definition api_update_standard ::
    "lazy_load \<Rightarrow> redis \<Rightarrow> int \<Rightarrow> standard_update_request \<Rightarrow> principal \<Rightarrow> db \<Rightarrow> 'raw cache
     \<Rightarrow> (exn + (standard_response \<times> db)) \<times> 'raw cache" where
  "api_update_standard lazy_load r i req me d c =
     (case require_admin_or_charger me of Inl e \<Rightarrow> (Inl e, c) | Inr _ \<Rightarrow> update_standard lazy_load r i req d c)"

definition api_deactivate_standard ::
    "redis \<Rightarrow> int \<Rightarrow> principal \<Rightarrow> db \<Rightarrow> 'raw cache \<Rightarrow> (exn + (unit \<times> db)) \<times> 'raw cache" where
  "api_deactivate_standard r i me d c =
     (case require_admin_or_charger me of Inl e \<Rightarrow> (Inl e, c) | Inr _ \<Rightarrow> deactivate_standard r i d c)"

definition api_sync_processes ::
    "int \<Rightarrow> process_upsert_request list \<Rightarrow> principal \<Rightarrow> db \<Rightarrow> exn + (standard_response \<times> db)" where
  "api_sync_processes sid ps me d =
     let_ok (require_admin_or_charger me) (\<lambda>_. sync_processes sid ps d)"

definition api_list_assignments :: "int option \<Rightarrow> int option \<Rightarrow> db \<Rightarrow> job_worker_response list" where
  "api_list_assignments sid cw d =
     (case sid of
        Some s \<Rightarrow> list_by_job_standard s d
      | None \<Rightarrow> (case cw of Some w \<Rightarrow> list_active_by_company_worker w d | None \<Rightarrow> []))"

definition api_assign :: "assign_request \<Rightarrow> principal \<Rightarrow> db \<Rightarrow> exn + (job_worker_response \<times> db)" where
  "api_assign req me d =
     let_ok (require_admin_or_charger me) (\<lambda>_. assign_job (as_company_worker_id req) (as_standard_id req) d)"

definition api_unassign :: "int \<Rightarrow> principal \<Rightarrow> db \<Rightarrow> exn + (unit \<times> db)" where
  "api_unassign i me d = let_ok (require_admin_or_charger me) (\<lambda>_. unassign_job i d)"

section \<open>Lemmas on the flush\<close>

text \<open>Every statement keeps the constraints of the table, whatever the order.\<close>

lemma process_key_free:
  "\<not> process_key_taken other p d \<Longrightarrow> (j, q) \<in> set (rows (processes d)) \<Longrightarrow> other j \<Longrightarrow>
   process_key q \<noteq> process_key p"
  by (auto simp: process_key_taken_def tsel_empty_iff)

lemma run_process_stmt_ok:
  assumes "processes_ok (processes d)" and "run_process_stmt x d = Inr d'"
  shows "processes_ok (processes d')"
proof (cases x)
  case (Update_process i p)
  with assms(2) have "\<not> process_key_taken (\<lambda>j. j \<noteq> i) p d" and
    d': "d' = d\<lparr>processes := tupd i p (processes d)\<rparr>" by (auto split: if_splits)
  then have "unique_on (\<lambda>_. True) process_key (tupd i p (processes d))"
    using assms(1) process_key_free by (intro unique_on_tupd) (fastforce simp: processes_ok_def)+
  then show ?thesis using assms(1) d' by (simp add: processes_ok_def)
next
  case (Insert_process p)
  with assms(2) have "\<not> process_key_taken (\<lambda>_. True) p d" and
    d': "d' = d\<lparr>processes := tins p (processes d)\<rparr>" by (auto split: if_splits)
  then have "unique_on (\<lambda>_. True) process_key (tins p (processes d))"
    using assms(1) process_key_free by (intro unique_on_tins) (fastforce simp: processes_ok_def)+
  then show ?thesis using assms(1) d' by (simp add: processes_ok_def)
next
  case (Delete_process i)
  with assms show ?thesis
    by (auto simp: processes_ok_def intro!: unique_on_tdel split: if_splits)
qed

lemma run_process_stmts_ok:
  "processes_ok (processes d) \<Longrightarrow> run_process_stmts xs d = Inr d' \<Longrightarrow> processes_ok (processes d')"
  by (induction xs arbitrary: d) (auto simp: flow dest: run_process_stmt_ok)

text \<open>A flush that succeeds has applied its statements to the table, and nothing else.\<close>

fun apply_stmt :: "process_stmt \<Rightarrow> job_process table \<Rightarrow> job_process table" where
  "apply_stmt (Update_process i p) t = tupd i p t"
| "apply_stmt (Insert_process p) t = tins p t"
| "apply_stmt (Delete_process i) t = tdel i t"

lemma run_process_stmt_apply:
  "run_process_stmt x d = Inr d' \<Longrightarrow> d' = d\<lparr>processes := apply_stmt x (processes d)\<rparr>"
  by (cases x) (auto split: if_splits)

lemma run_process_stmts_apply:
  "run_process_stmts xs d = Inr d' \<Longrightarrow>
   d' = d\<lparr>processes := fold apply_stmt xs (processes d)\<rparr>"
proof (induction xs arbitrary: d)
  case (Cons x xs)
  then obtain d1 where "run_process_stmt x d = Inr d1" "run_process_stmts xs d1 = Inr d'"
    by (auto simp: flow)
  with Cons.IH [of d1] run_process_stmt_apply [of x d d1] show ?case by simp
qed simp

lemma tget_fold_updates:
  "distinct (map fst us) \<Longrightarrow>
   tget (fold apply_stmt (map (\<lambda>(i, e). Update_process i e) us) t) j =
     (if tget t j = None then None else case map_of us j of None \<Rightarrow> tget t j | Some e \<Rightarrow> Some e)"
proof (induction us arbitrary: t)
  case (Cons u us)
  obtain i e where u: "u = (i, e)" by force
  with Cons.prems have "map_of us i = None" by (auto simp: map_of_eq_None_iff)
  then show ?case using Cons u by (auto simp: tget_tupd split: option.splits)
qed (simp split: option.splits)

lemma next_id_fold_updates:
  "next_id (fold apply_stmt (map (\<lambda>(i, e). Update_process i e) us) t) = next_id t"
  by (induction us arbitrary: t) auto

lemma table_ok_apply: "table_ok t \<Longrightarrow> table_ok (apply_stmt x t)"
  by (cases x) simp_all

lemma table_ok_fold_apply: "table_ok t \<Longrightarrow> table_ok (fold apply_stmt xs t)"
  by (induction xs arbitrary: t) (simp_all add: table_ok_apply)

lemma tget_fold_inserts:
  assumes "table_ok t"
  shows "tget (fold apply_stmt (map Insert_process es) t) j =
     (if next_id t \<le> j \<and> j < next_id t + int (length es) then Some (es ! nat (j - next_id t))
      else tget t j)"
  using assms
proof (induction es arbitrary: t)
  case (Cons e es)
  have "nat (j - next_id t) = Suc (nat (j - (next_id t + 1)))" if "next_id t + 1 \<le> j"
    using that by (simp add: nat_eq_iff2 Suc_nat_eq_nat_zadd1)
  with Cons show ?case by (auto simp: tget_tins)
qed auto

lemma tget_fold_deletes:
  "tget (fold apply_stmt (map (\<lambda>(i, e). Delete_process i) ds) t) j =
     (if j \<in> fst ` set ds then None else tget t j)"
  by (induction ds arbitrary: t) (auto split: if_splits)

section \<open>Lemmas on the synchronisation\<close>

text \<open>The objects the loop works on: keyed objects with distinct keys, all of this standard.\<close>

definition objs_ok :: "int \<Rightarrow> int set \<Rightarrow> process_obj list \<Rightarrow> bool" where
  "objs_ok sid ids objs \<longleftrightarrow>
     distinct (List.map_filter fst objs) \<and> set (List.map_filter fst objs) = ids
     \<and> (\<forall>x \<in> set objs. jp_standard_id (snd x) = sid)"

lemma map_filter_fst_update:
  "List.map_filter fst (map (\<lambda>(k, e). if k = x then (k, f e) else (k, e)) objs) =
   List.map_filter fst objs"
  by (induction objs) (auto simp: List.map_filter_simps split: option.splits if_splits)

lemma sync_one_cases:
  assumes "sync_one sid p objs = Inr objs'"
  obtains (new) "pu_id p = None" "objs' = objs @ [(None, new_process sid p)]"
    | (change) i where "pu_id p = Some i" "Some i \<in> fst ` set objs"
        "objs' = map (\<lambda>(k, e). if k = Some i then (k, update_process_obj p e) else (k, e)) objs"
  using assms by (cases "pu_id p") (simp_all add: sync_one_def split: if_splits)

lemma sync_one_standard:
  assumes "\<And>k e. (k, e) \<in> set objs \<Longrightarrow> jp_standard_id e = sid" "sync_one sid p objs = Inr objs'"
    and "(k, e) \<in> set objs'"
  shows "jp_standard_id e = sid"
  using assms(2)
  by (cases rule: sync_one_cases)
     (use assms(1,3) in \<open>auto simp: new_process_def update_process_obj_def split: if_splits\<close>)

lemma sync_one_keys:
  "sync_one sid p objs = Inr objs' \<Longrightarrow> List.map_filter fst objs' = List.map_filter fst objs"
  by (erule sync_one_cases) (simp_all add: map_filter_append map_filter_fst_update List.map_filter_simps)

lemma sync_one_ok:
  assumes "objs_ok sid ids objs" and "sync_one sid p objs = Inr objs'"
  shows "objs_ok sid ids objs'"
proof -
  have "\<And>k e. (k, e) \<in> set objs \<Longrightarrow> jp_standard_id e = sid"
    using assms(1) by (fastforce simp: objs_ok_def)
  then have "\<And>k e. (k, e) \<in> set objs' \<Longrightarrow> jp_standard_id e = sid"
    using sync_one_standard [OF _ assms(2)] by blast
  then show ?thesis using assms(1) sync_one_keys [OF assms(2)] by (auto simp: objs_ok_def)
qed

lemma sync_loop_ok: "objs_ok sid ids objs \<Longrightarrow> sync_loop sid ps objs = Inr objs' \<Longrightarrow> objs_ok sid ids objs'"
  by (induction ps arbitrary: objs) (auto simp: flow dest: sync_one_ok)

lemma set_processes_of:
  "set (processes_of sid d) = {(i, p). (i, p) \<in> set (rows (processes d)) \<and> jp_standard_id p = sid}"
  by (auto simp: processes_of_def tsel_iff)

lemma distinct_processes_of: "table_ok (processes d) \<Longrightarrow> distinct (map fst (processes_of sid d))"
proof -
  assume "table_ok (processes d)"
  then have "distinct (map fst (tsel (\<lambda>_ p. jp_standard_id p = sid) (processes d)))"
    by (auto simp: tsel_def dest!: table_okD(1) intro: distinct_map_filter)
  then show ?thesis
    by (auto simp: processes_of_def order_by_def distinct_map inj_on_def)
qed

lemma map_filter_kept: "List.map_filter fst (map (\<lambda>(i, e). (Some i, e)) xs) = map fst xs"
  by (induction xs) (auto simp: List.map_filter_simps)

lemma kept_ok:
  assumes "table_ok (processes d)"
  shows "objs_ok sid (set (map fst (filter (\<lambda>(i, e). P i) (processes_of sid d))))
           (map (\<lambda>(i, e). (Some i, e)) (filter (\<lambda>(i, e). P i) (processes_of sid d)))"
  unfolding objs_ok_def map_filter_kept
  using distinct_processes_of [OF assms, of sid]
  by (auto simp: distinct_map_filter set_processes_of)

text \<open>The keys that \<open>assign_keys\<close> gives: old objects keep theirs, the new ones get the next keys.\<close>

definition new_objs :: "process_obj list \<Rightarrow> job_process list" where
  "new_objs objs = List.map_filter (\<lambda>(k, e). if k = None then Some e else None) objs"

lemma assign_keys_set:
  "set (assign_keys n objs) =
     {(i, e). (Some i, e) \<in> set objs} \<union>
     {(n + int k, new_objs objs ! k) | k. k < length (new_objs objs)}"
proof (induction n objs rule: assign_keys.induct)
  case (2 n e objs)
  have "{(n + int k, (e # new_objs objs) ! k) | k. k < Suc (length (new_objs objs))} =
    insert (n, e) {(n + 1 + int k, new_objs objs ! k) | k. k < length (new_objs objs)}"
    (is "?L = ?R")
  proof
    show "?L \<subseteq> ?R"
    proof
      fix x assume "x \<in> ?L"
      then obtain k where k: "x = (n + int k, (e # new_objs objs) ! k)" "k < Suc (length (new_objs objs))"
        by blast
      then show "x \<in> ?R" by (cases k) auto
    qed
    show "?R \<subseteq> ?L"
      by (auto intro: exI [of _ 0] exI [of _ "Suc _"])
  qed
  then show ?case using 2 by (auto simp: new_objs_def List.map_filter_simps)
qed (auto simp: new_objs_def List.map_filter_simps)

text \<open>What a synchronisation that succeeds leaves of the table.\<close>

definition changed_objs :: "(int \<times> job_process) list \<Rightarrow> process_obj list \<Rightarrow> (int \<times> job_process) list" where
  "changed_objs loaded objs = sort_key fst (List.map_filter
     (\<lambda>(k, e). case k of None \<Rightarrow> None
                        | Some i \<Rightarrow> if (i, e) \<in> set loaded then None else Some (i, e)) objs)"

lemma flush_processes_alt:
  "flush_processes loaded objs =
     map (\<lambda>(i, e). Update_process i e) (changed_objs loaded objs)
     @ map Insert_process (new_objs objs)
     @ map (\<lambda>(i, e). Delete_process i) (filter (\<lambda>(i, e). Some i \<notin> fst ` set objs) loaded)"
  unfolding flush_processes_def changed_objs_def new_objs_def map_map_filter
  by (auto intro!: map_filter_cong)

lemma set_changed_objs:
  "set (changed_objs loaded objs) = {(i, e). (Some i, e) \<in> set objs \<and> (i, e) \<notin> set loaded}"
  by (force simp: changed_objs_def set_map_filter split: option.splits if_splits)

lemma objs_key_unique:
  assumes "distinct (List.map_filter fst objs)" "(Some i, e) \<in> set objs" "(Some i, e') \<in> set objs"
  shows "e = e'"
  using assms
  by (induction objs) (auto simp: List.map_filter_simps set_map_filter split: option.splits)

lemma distinct_changed_objs:
  assumes "distinct (List.map_filter fst objs)"
  shows "distinct (map fst (changed_objs loaded objs))"
proof -
  let ?f = "\<lambda>(k, e). case k of None \<Rightarrow> None
     | Some i \<Rightarrow> if (i, e) \<in> set loaded then None else Some (i, e)"
  have "distinct (map fst (List.map_filter ?f objs))"
    using assms
    by (induction objs) (auto simp: List.map_filter_simps set_map_filter split: option.splits if_splits, force)
  then show ?thesis by (simp add: changed_objs_def distinct_map inj_on_def)
qed

text \<open>The rows of the table after a flush whose objects are as the loop leaves them.\<close>

lemma flush_lookup:
  assumes "table_ok t" "distinct (List.map_filter fst objs)"
  shows "tget (fold apply_stmt (flush_processes loaded objs) t) j =
    (if j \<in> fst ` set loaded \<and> Some j \<notin> fst ` set objs then None
     else if next_id t \<le> j \<and> j < next_id t + int (length (new_objs objs))
          then Some (new_objs objs ! nat (j - next_id t))
     else if tget t j = None then None
     else (case map_of (changed_objs loaded objs) j of None \<Rightarrow> tget t j | Some e \<Rightarrow> Some e))"
proof -
  have "j \<in> fst ` set (filter (\<lambda>(i, e). Some i \<notin> fst ` set objs) loaded) \<longleftrightarrow>
      j \<in> fst ` set loaded \<and> Some j \<notin> fst ` set objs" by force
  then show ?thesis
    by (simp add: flush_processes_alt tget_fold_deletes tget_fold_inserts table_ok_fold_apply assms(1)
        next_id_fold_updates tget_fold_updates [OF distinct_changed_objs [OF assms(2)]] del: filter.simps)
qed

lemma flush_kept:
  assumes "table_ok t" "distinct (List.map_filter fst objs)"
    and loaded: "\<And>i e. (i, e) \<in> set loaded \<Longrightarrow> tget t i = Some e"
    and "set (List.map_filter fst objs) \<subseteq> fst ` set loaded" and "(Some j, e) \<in> set objs"
  shows "tget (fold apply_stmt (flush_processes loaded objs) t) j = Some e"
proof -
  have "j \<in> set (List.map_filter fst objs)" using assms(5) by (force simp: set_map_filter)
  then obtain e0 where e0: "(j, e0) \<in> set loaded" using assms(4) by force
  then have t: "tget t j = Some e0" by (rule loaded)
  then have old: "j < next_id t" by (rule tget_lt [OF assms(1)])
  have "(case map_of (changed_objs loaded objs) j of None \<Rightarrow> tget t j | Some x \<Rightarrow> Some x) = Some e"
  proof (cases "(j, e) \<in> set loaded")
    case True
    have "map_of (changed_objs loaded objs) j = None"
      using True objs_key_unique [OF assms(2) assms(5)]
      by (auto simp: map_of_eq_None_iff set_changed_objs)
    then show ?thesis using loaded [OF True] by simp
  next
    case False
    then have "(j, e) \<in> set (changed_objs loaded objs)" using assms(5) by (simp add: set_changed_objs)
    then show ?thesis using distinct_changed_objs [OF assms(2)] by simp
  qed
  moreover have "Some j \<in> fst ` set objs" using assms(5) by force
  ultimately show ?thesis using t old by (simp add: flush_lookup [OF assms(1,2)])
qed

lemma flush_untouched:
  assumes "table_ok t" "distinct (List.map_filter fst objs)"
    and "set (List.map_filter fst objs) \<subseteq> fst ` set loaded" and "j \<notin> fst ` set loaded" and "j < next_id t"
  shows "tget (fold apply_stmt (flush_processes loaded objs) t) j = tget t j"
proof -
  have "j \<notin> set (List.map_filter fst objs)" using assms(3,4) by blast
  then have "map_of (changed_objs loaded objs) j = None"
    by (force simp: map_of_eq_None_iff set_changed_objs set_map_filter)
  then show ?thesis using assms(4,5) by (simp add: flush_lookup [OF assms(1,2)] split: option.splits)
qed

text \<open>Hence the rows of the standard are exactly the objects with the keys they were given.\<close>

lemma flush_rows:
  assumes t: "table_ok t" and k: "distinct (List.map_filter fst objs)"
    and loaded: "set loaded = {(i, e). (i, e) \<in> set (rows t) \<and> jp_standard_id e = sid}"
    and sub: "set (List.map_filter fst objs) \<subseteq> fst ` set loaded"
    and std: "\<And>x. x \<in> set objs \<Longrightarrow> jp_standard_id (snd x) = sid"
    and t': "t' = fold apply_stmt (flush_processes loaded objs) t"
  shows "tget t' j = Some e \<and> jp_standard_id e = sid \<longleftrightarrow> (j, e) \<in> set (assign_keys (next_id t) objs)"
proof -
  note look = flush_lookup [OF t k]
  have get: "\<And>i e. (i, e) \<in> set loaded \<Longrightarrow> tget t i = Some e" by (simp add: loaded tget_iff [OF t])
  have new_std: "\<And>x. x \<in> set (new_objs objs) \<Longrightarrow> jp_standard_id x = sid"
    using std by (fastforce simp: new_objs_def set_map_filter split: if_splits)
  show ?thesis
  proof (cases "Some j \<in> fst ` set objs")
    case True
    then obtain e0 where e0: "(Some j, e0) \<in> set objs" by force
    have "tget t' j = Some e0" unfolding t' by (rule flush_kept [OF t k get sub e0])
    moreover have "j < next_id t"
    proof -
      have "j \<in> set (List.map_filter fst objs)" using e0 by (force simp: set_map_filter)
      then obtain x where "(j, x) \<in> set loaded" using sub by force
      then show ?thesis using tget_lt [OF t get] by blast
    qed
    moreover from this have "(j, e) \<in> set (assign_keys (next_id t) objs) \<longleftrightarrow> (Some j, e) \<in> set objs"
      by (auto simp: assign_keys_set)
    moreover have "(Some j, e) \<in> set objs \<longleftrightarrow> e = e0"
      using objs_key_unique [OF k e0, of e] e0 by blast
    ultimately show ?thesis using std [OF e0] by auto
  next
    case False
    then have no: "(Some j, e) \<notin> set objs" by force
    show ?thesis
    proof (cases "j < next_id t")
      case True
      have "tget t' j = Some e \<and> jp_standard_id e = sid \<Longrightarrow> False"
      proof (cases "j \<in> fst ` set loaded")
        case True
        then show "tget t' j = Some e \<and> jp_standard_id e = sid \<Longrightarrow> False" using False by (simp add: t' look)
      next
        case outside: False
        assume *: "tget t' j = Some e \<and> jp_standard_id e = sid"
        have "tget t' j = tget t j" unfolding t' by (rule flush_untouched [OF t k sub outside True])
        with * have "(j, e) \<in> set loaded" by (simp add: loaded tget_iff [OF t])
        with outside show False by force
      qed
      then show ?thesis using True no by (auto simp: assign_keys_set)
    next
      case fresh: False
      have "j \<notin> fst ` set loaded" using fresh get tget_lt [OF t] by force
      moreover have "tget t j = None" using fresh tget_lt [OF t] by force
      ultimately have "tget t' j = (if j < next_id t + int (length (new_objs objs))
          then Some (new_objs objs ! nat (j - next_id t)) else None)"
        using fresh by (simp add: t' look)
      moreover have "(\<exists>i. (j, e) = (next_id t + int i, new_objs objs ! i) \<and> i < length (new_objs objs)) \<longleftrightarrow>
          j < next_id t + int (length (new_objs objs)) \<and> e = new_objs objs ! nat (j - next_id t)"
        using fresh by (auto intro!: exI [of _ "nat (j - next_id t)"])
      ultimately show ?thesis using no new_std by (auto simp: assign_keys_set)
    qed
  qed
qed

lemma sync_processes_effect:
  assumes "sync_processes sid incoming d = Inr (resp, d')"
  shows "\<exists>s objs. tget (standards d) sid = Some s
     \<and> sync_loop sid incoming (map (\<lambda>(i, e). (Some i, e))
           (filter (\<lambda>(i, e). i \<in> set (incoming_ids incoming)) (processes_of sid d))) = Inr objs
     \<and> run_process_stmts (flush_processes (processes_of sid d) objs) d = Inr d'
     \<and> resp = to_standard_response sid s (company_name (js_company_id s) d')
                (assign_keys (next_id (processes d)) objs)"
  using assms by (auto simp: sync_processes_def standard_or_throw_def Let_def flow)

lemma sync_objs_ok:
  assumes "table_ok (processes d)"
    and "sync_loop sid incoming (map (\<lambda>(i, e). (Some i, e))
           (filter (\<lambda>(i, e). P i) (processes_of sid d))) = Inr objs"
  shows "distinct (List.map_filter fst objs)"
    and "set (List.map_filter fst objs) \<subseteq> fst ` set (processes_of sid d)"
    and "\<And>x. x \<in> set objs \<Longrightarrow> jp_standard_id (snd x) = sid"
  using sync_loop_ok [OF kept_ok [OF assms(1)] assms(2)] by (auto simp: objs_ok_def)

lemma sync_rows:
  assumes t: "table_ok (processes d)" and s: "sync_processes sid incoming d = Inr (resp, d')"
  shows "\<exists>objs. sr_processes resp = map to_process_response (assign_keys (next_id (processes d)) objs)
    \<and> (\<forall>j e. tget (processes d') j = Some e \<and> jp_standard_id e = sid \<longleftrightarrow>
           (j, e) \<in> set (assign_keys (next_id (processes d)) objs))"
proof -
  from sync_processes_effect [OF s] obtain st objs where
    loop: "sync_loop sid incoming (map (\<lambda>(i, e). (Some i, e))
        (filter (\<lambda>(i, e). i \<in> set (incoming_ids incoming)) (processes_of sid d))) = Inr objs"
    and run: "run_process_stmts (flush_processes (processes_of sid d) objs) d = Inr d'"
    and resp: "resp = to_standard_response sid st (company_name (js_company_id st) d')
        (assign_keys (next_id (processes d)) objs)" by blast
  note ok = sync_objs_ok [OF t loop]
  have eq: "processes d' = fold apply_stmt (flush_processes (processes_of sid d) objs) (processes d)"
    using run_process_stmts_apply [OF run] by simp
  have "\<And>j e. tget (processes d') j = Some e \<and> jp_standard_id e = sid \<longleftrightarrow>
      (j, e) \<in> set (assign_keys (next_id (processes d)) objs)"
    by (rule flush_rows [OF t ok(1) set_processes_of ok(2) _ eq]) (rule ok(3))
  then show ?thesis using resp by (auto simp: to_standard_response_def)
qed

lemma sync_table_ok:
  assumes "table_ok (processes d)" "sync_processes sid incoming d = Inr (resp, d')"
  shows "table_ok (processes d')"
  using sync_processes_effect [OF assms(2)] run_process_stmts_apply table_ok_fold_apply assms(1) by fastforce

lemma sync_others:
  assumes t: "table_ok (processes d)" and s: "sync_processes sid incoming d = Inr (resp, d')"
    and j: "tget (processes d) j = Some e" "jp_standard_id e \<noteq> sid"
  shows "tget (processes d') j = Some e"
proof -
  from sync_processes_effect [OF s] obtain objs where
    loop: "sync_loop sid incoming (map (\<lambda>(i, e). (Some i, e))
        (filter (\<lambda>(i, e). i \<in> set (incoming_ids incoming)) (processes_of sid d))) = Inr objs"
    and run: "run_process_stmts (flush_processes (processes_of sid d) objs) d = Inr d'" by blast
  note ok = sync_objs_ok [OF t loop]
  have "j \<notin> fst ` set (processes_of sid d)"
    using j table_row_unique [OF t j(1)] by (auto simp: set_processes_of)
  then have "tget (fold apply_stmt (flush_processes (processes_of sid d) objs) (processes d)) j = Some e"
    using flush_untouched [OF t ok(1,2)] tget_lt [OF t j(1)] j(1) by simp
  then show ?thesis using run_process_stmts_apply [OF run] by simp
qed

lemma sync_foreign_back:
  assumes t: "table_ok (processes d)" and s: "sync_processes sid incoming d = Inr (resp, d')"
    and j: "tget (processes d') j = Some e" "jp_standard_id e \<noteq> sid"
  shows "tget (processes d) j = Some e"
proof -
  from sync_processes_effect [OF s] obtain objs where
    loop: "sync_loop sid incoming (map (\<lambda>(i, e). (Some i, e))
        (filter (\<lambda>(i, e). i \<in> set (incoming_ids incoming)) (processes_of sid d))) = Inr objs"
    and run: "run_process_stmts (flush_processes (processes_of sid d) objs) d = Inr d'" by blast
  note ok = sync_objs_ok [OF t loop]
  have j': "tget (fold apply_stmt (flush_processes (processes_of sid d) objs) (processes d)) j = Some e"
    using run_process_stmts_apply [OF run] j(1) by simp
  have new: "\<And>x. x \<in> set (new_objs objs) \<Longrightarrow> jp_standard_id x = sid"
    using ok(3) by (fastforce simp: new_objs_def set_map_filter split: if_splits)
  have "(\<exists>x. map_of (changed_objs (processes_of sid d) objs) j = Some x) \<Longrightarrow> jp_standard_id e = sid"
    using j' ok(3) by (auto simp: flush_lookup [OF t ok(1)] new set_changed_objs
        dest!: map_of_SomeD split: if_splits)
  with j(2) have "map_of (changed_objs (processes_of sid d) objs) j = None"
    by (cases "map_of (changed_objs (processes_of sid d) objs) j") auto
  with j' j(2) new show ?thesis
    by (auto simp: flush_lookup [OF t ok(1)] split: if_splits)
qed

section \<open>Lemmas on assignments\<close>

lemma assignments_le_1: "job_workers_ok (job_workers d) \<Longrightarrow> length (assignments cw sid d) \<le> 1"
  unfolding assignments_def job_workers_ok_def
  by (intro tsel_unique [where q = "\<lambda>_. True" and key = "\<lambda>r. (jw_company_worker_id r, jw_standard_id r)"
        and k = "(cw, sid)"]) auto

lemma assignments_tupd:
  assumes "table_ok (job_workers d)" "(i, jw) \<in> set (rows (job_workers d))"
    "jw_company_worker_id jw' = jw_company_worker_id jw" "jw_standard_id jw' = jw_standard_id jw"
  shows "assignments cw sid (d\<lparr>job_workers := tupd i jw' (job_workers d)\<rparr>) =
    map (\<lambda>(k, x). if k = i then (k, jw') else (k, x)) (assignments cw sid d)"
proof -
  have one: "s = jw" if "(i, s) \<in> set (rows (job_workers d))" for s
    using table_row_unique [OF assms(1) _ that] assms(1,2) by (simp add: tget_iff)
  then show ?thesis unfolding assignments_def using assms(3,4)
    by (simp, intro tsel_tupd) (metis one)
qed

lemma assign_job_effect:
  assumes "assign_job cw sid d = Inr (resp, d')"
  obtains (created) "assignments cw sid d = []" "jr_id resp = next_id (job_workers d)"
      "d' = d\<lparr>job_workers := tins (new_job_worker cw sid) (job_workers d)\<rparr>"
    | (revived) old where "assignments cw sid d = [(jr_id resp, old)]" "\<not> jw_use_flag old"
      "tget (company_workers d) cw \<noteq> None" "jw_company_worker_id old = cw" "jw_standard_id old = sid"
      "d' = d\<lparr>job_workers := tupd (jr_id resp) (old\<lparr>jw_use_flag := True\<rparr>) (job_workers d)\<rparr>"
proof -
  from assms obtain ex where ex: "scalar_one_or_none (assignments cw sid d) = Inr ex"
    by (auto simp: assign_job_def flow)
  show thesis
  proof (cases ex)
    case None
    with ex have "assignments cw sid d = []" by (simp add: scalar_None)
    with assms created show thesis by (auto simp: assign_job_def flow Let_def to_jw_response_def)
  next
    case (Some p)
    obtain i old where p: "p = (i, old)" by force
    with Some ex have a: "assignments cw sid d = [(i, old)]" by (simp add: scalar_Some)
    then have "(i, old) \<in> set (assignments cw sid d)" by simp
    then have "jw_company_worker_id old = cw" "jw_standard_id old = sid"
      by (simp_all add: assignments_def tsel_iff)
    with a assms revived show thesis by (auto simp: assign_job_def flow Let_def to_jw_response_def)
  qed
qed

lemma assign_job_ok:
  assumes "job_workers_ok (job_workers d)" and "assign_job cw sid d = Inr (resp, d')"
  shows "job_workers_ok (job_workers d')"
  using assms(2)
proof (cases rule: assign_job_effect)
  case created
  then show ?thesis using assms(1)
    by (auto simp: job_workers_ok_def assignments_def tsel_empty_iff new_job_worker_def intro!: unique_on_tins)
next
  case (revived old)
  have "(jr_id resp, old) \<in> set (assignments cw sid d)" using revived(1) by simp
  then have "(jr_id resp, old) \<in> set (rows (job_workers d))" by (simp add: assignments_def tsel_iff)
  then show ?thesis using assms(1) revived
    by (auto simp: job_workers_ok_def intro!: unique_on_tupd_same [where r = old])
qed

lemma unassign_job_effect:
  "unassign_job i d = Inr (u, d') \<longleftrightarrow>
   (\<exists>jw. tget (job_workers d) i = Some jw
      \<and> d' = d\<lparr>job_workers := tupd i (jw\<lparr>jw_use_flag := False\<rparr>) (job_workers d)\<rparr>)"
  by (auto simp: unassign_job_def flow)

section \<open>Lemmas on the loop of the synchronisation\<close>

lemma new_objs_append: "new_objs (xs @ ys) = new_objs xs @ new_objs ys"
  by (simp add: new_objs_def map_filter_append)

lemma new_objs_update:
  "new_objs (map (\<lambda>(k, e). if k = Some i then (k, f e) else (k, e)) objs) = new_objs objs"
  by (induction objs) (auto simp: new_objs_def List.map_filter_simps)

lemma sync_one_new:
  "sync_one sid p objs = Inr objs' \<Longrightarrow>
   new_objs objs' = new_objs objs @ (if pu_id p = None then [new_process sid p] else [])"
  by (erule sync_one_cases)
     (simp_all add: new_objs_append new_objs_update, simp add: new_objs_def List.map_filter_simps)

lemma sync_loop_new:
  "sync_loop sid ps objs = Inr objs' \<Longrightarrow>
   new_objs objs' = new_objs objs @ map (new_process sid) (filter (\<lambda>p. pu_id p = None) ps)"
  by (induction ps arbitrary: objs) (auto simp: flow dest!: sync_one_new)

lemma sync_one_keyed:
  "sync_one sid p objs = Inr objs' \<Longrightarrow>
   (Some i, e) \<in> set objs' \<longleftrightarrow>
     (\<exists>e0. (Some i, e0) \<in> set objs \<and> e = (if pu_id p = Some i then update_process_obj p e0 else e0))"
  by (erule sync_one_cases) (force split: if_splits)+

lemma sync_loop_unnamed:
  "sync_loop sid ps objs = Inr objs' \<Longrightarrow> i \<notin> set (incoming_ids ps) \<Longrightarrow>
   (Some i, e) \<in> set objs' \<longleftrightarrow> (Some i, e) \<in> set objs"
  by (induction ps arbitrary: objs)
     (auto simp: flow incoming_ids_def List.map_filter_simps sync_one_keyed split: option.splits)

lemma sync_loop_named:
  "sync_loop sid ps objs = Inr objs' \<Longrightarrow> p \<in> set ps \<Longrightarrow> pu_id p = Some i \<Longrightarrow>
   distinct (incoming_ids ps) \<Longrightarrow>
   (Some i, e) \<in> set objs' \<longleftrightarrow> (\<exists>e0. (Some i, e0) \<in> set objs \<and> e = update_process_obj p e0)"
proof (induction ps arbitrary: objs)
  case (Cons q ps)
  from Cons.prems(1) obtain mid where one: "sync_one sid q objs = Inr mid"
    and rest: "sync_loop sid ps mid = Inr objs'" by (auto simp: flow)
  show ?case
  proof (cases "pu_id q = Some i")
    case True
    with Cons.prems(4) have no: "i \<notin> set (incoming_ids ps)"
      by (simp add: incoming_ids_def List.map_filter_simps)
    then have "p \<notin> set ps" using Cons.prems(3) by (force simp: incoming_ids_def set_map_filter)
    with Cons.prems(2) have "p = q" by simp
    with sync_loop_unnamed [OF rest no] sync_one_keyed [OF one] True show ?thesis by simp
  next
    case False
    with Cons.prems have "p \<in> set ps" "distinct (incoming_ids ps)"
      by (auto simp: incoming_ids_def List.map_filter_simps split: option.splits)
    with Cons.IH [OF rest] Cons.prems(3) sync_one_keyed [OF one] False show ?thesis by auto
  qed
qed simp

lemma sync_loop_ids:
  assumes "sync_loop sid ps objs = Inr objs'"
  shows "set (incoming_ids ps) \<subseteq> set (List.map_filter fst objs)"
  using assms
proof (induction ps arbitrary: objs)
  case (Cons p ps)
  from Cons.prems obtain mid where one: "sync_one sid p objs = Inr mid"
    and rest: "sync_loop sid ps mid = Inr objs'" by (auto simp: flow)
  from Cons.IH [OF rest] sync_one_keys [OF one] have "set (incoming_ids ps) \<subseteq> set (List.map_filter fst objs)"
    by simp
  moreover have "pu_id p = Some i \<Longrightarrow> i \<in> set (List.map_filter fst objs)" for i
    using one by (force simp: sync_one_def set_map_filter split: if_splits)
  ultimately show ?case by (auto simp: incoming_ids_def List.map_filter_simps split: option.splits)
qed (simp add: incoming_ids_def List.map_filter_simps)

lemma incoming_id_unique:
  "distinct (incoming_ids ps) \<Longrightarrow> p \<in> set ps \<Longrightarrow> pu_id p = Some i \<Longrightarrow> q \<in> set ps \<Longrightarrow> pu_id q = Some i
   \<Longrightarrow> q = p"
  by (induction ps)
     (fastforce simp: incoming_ids_def List.map_filter_simps set_map_filter split: option.splits)+

text \<open>An insert that meets a taken sequence fails the flush.\<close>

lemma run_inserts_conflict:
  assumes "p \<in> set ps" and "\<exists>j q. (j, q) \<in> set (rows (processes d)) \<and> process_key q = process_key p"
  shows "run_process_stmts (map Insert_process ps @ rest) d = Inl IntegrityError"
  using assms
proof (induction ps arbitrary: d)
  case (Cons x xs)
  show ?case
  proof (cases "process_key_taken (\<lambda>_. True) x d")
    case False
    with Cons.prems have "p \<in> set xs"
      by (auto simp: process_key_taken_def tsel_empty_iff)
    have "\<exists>j q. (j, q) \<in> set (rows (tins x (processes d))) \<and> process_key q = process_key p"
      using Cons.prems(2) by (auto simp: rows_tins)
    then have "run_process_stmts (map Insert_process xs @ rest) (d\<lparr>processes := tins x (processes d)\<rparr>)
        = Inl IntegrityError"
      using Cons.IH [OF \<open>p \<in> set xs\<close>] by simp
    with False show ?thesis by simp
  qed simp
qed simp

section \<open>Properties\<close>


text \<open>A request on the sample database: it rewrites process 1, adds one and drops process 2.\<close>

definition sample_upsert :: "int option \<Rightarrow> int \<Rightarrow> process_upsert_request" where
  "sample_upsert i n = \<lparr>pu_id = i, pu_name = ''wash'', pu_sequence = n, pu_video_path = None,
     pu_start_message = None, pu_end_message = None, pu_context = None, pu_process_time = 30\<rparr>"

lemma sample_sync_returns: "\<not> isl (sync_processes 1 [sample_upsert (Some 1) 0, sample_upsert None 5] sample_db)"
  by code_simp

lemma sample_processes_ok: "processes_ok (processes sample_db)"
  using sample_schema_ok by (simp add: schema_ok_def)


text \<open>A synchronisation that succeeds keeps the constraints of the table, changes no process of
  another standard, and answers with the processes the standard now has.\<close>

lemma sync_processes_frame:
  assumes ok: "processes_ok (processes d)" and s: "sync_processes sid incoming d = Inr (resp, d')"
  shows "processes_ok (processes d') \<and> set (sr_processes resp) = to_process_response ` set (processes_of sid d')
    \<and> set (rows (processes d)) - set (processes_of sid d) = set (rows (processes d')) - set (processes_of sid d')"
proof -
  have t: "table_ok (processes d)" using ok by (simp add: processes_ok_def)
  note t' = sync_table_ok [OF t s]
  from sync_rows [OF t s] obtain objs where
    resp: "sr_processes resp = map to_process_response (assign_keys (next_id (processes d)) objs)"
    and here: "\<And>j e. tget (processes d') j = Some e \<and> jp_standard_id e = sid \<longleftrightarrow>
        (j, e) \<in> set (assign_keys (next_id (processes d)) objs)" by blast
  then have "set (processes_of sid d') = set (assign_keys (next_id (processes d)) objs)"
    by (auto simp: set_processes_of tget_iff [OF t', symmetric])
  with resp have answer: "set (sr_processes resp) = to_process_response ` set (processes_of sid d')" by simp
  have ok': "processes_ok (processes d')"
    using sync_processes_effect [OF s] run_process_stmts_ok [OF ok] by blast
  have "(j, e) \<in> set (rows (processes d')) \<longleftrightarrow> (j, e) \<in> set (rows (processes d))" if "jp_standard_id e \<noteq> sid" for j e
    using sync_others [OF t s _ that] sync_foreign_back [OF t s _ that]
    by (auto simp: tget_iff [OF t, symmetric] tget_iff [OF t', symmetric])
  then show ?thesis using answer ok' by (auto simp: set_processes_of)
qed

lemma sync_processes_frame_witness:
  "\<exists>d'. processes_ok (processes d') \<and> set (rows (processes sample_db)) - set (processes_of 1 sample_db) =
     set (rows (processes d')) - set (processes_of 1 d')"
proof -
  obtain r d' where "sync_processes 1 [sample_upsert (Some 1) 0, sample_upsert None 5] sample_db = Inr (r, d')"
    using returned [OF sample_sync_returns] by blast
  from sync_processes_frame [OF sample_processes_ok this] show ?thesis by blast
qed

text \<open>A request that sends the whole list again without keys always fails when one of its
  sequences is in use: the flush inserts the new rows before it deletes the old ones, and the
  UNIQUE constraint on the sequence of a standard refuses the insert.\<close>

lemma sync_resend_conflicts:
  assumes "tget (standards d) sid \<noteq> None"
    and no_keys: "\<And>p. p \<in> set incoming \<Longrightarrow> pu_id p = None"
    and "p \<in> set incoming" and "(j, e) \<in> set (processes_of sid d)" and "jp_sequence e = pu_sequence p"
  shows "sync_processes sid incoming d = Inl IntegrityError"
proof -
  have loop: "sync_loop sid ps objs = Inr (objs @ map (\<lambda>p. (None, new_process sid p)) ps)"
    if "\<And>p. p \<in> set ps \<Longrightarrow> pu_id p = None" for ps objs
    using that by (induction ps arbitrary: objs) (auto simp: sync_one_def)
  have ids: "incoming_ids incoming = []" using no_keys by (auto simp: incoming_ids_def List.map_filter_def)
  let ?objs = "map (\<lambda>p. (None, new_process sid p)) incoming"
  have new: "new_objs ?objs = map (new_process sid) incoming"
    by (simp add: new_objs_def map_filter_map comp_def List.map_filter_def)
  have "changed_objs (processes_of sid d) ?objs = []"
    by (simp add: changed_objs_def List.map_filter_def filter_empty_conv)
  moreover have "new_process sid p \<in> set (map (new_process sid) incoming)" using assms(3) by simp
  moreover have "\<exists>j q. (j, q) \<in> set (rows (processes d)) \<and> process_key q = process_key (new_process sid p)"
    using assms(4,5) by (auto simp: set_processes_of new_process_def)
  ultimately have "run_process_stmts (flush_processes (processes_of sid d) ?objs) d = Inl IntegrityError"
    unfolding flush_processes_alt new by (simp only: list.map append_Nil run_inserts_conflict)
  then show ?thesis
    using assms(1) loop [OF no_keys, of _ "[]"] by (auto simp: sync_processes_def standard_or_throw_def ids Let_def)
qed

lemma sync_resend_conflicts_witness:
  "sync_processes 1 [sample_upsert None 0, sample_upsert None 1] sample_db = Inl IntegrityError"
  by (rule sync_resend_conflicts [where p = "sample_upsert None 0" and j = 1 and e = "sample_process 0"])
     (auto simp: sample_defs sample_upsert_def tget_def set_processes_of)

text \<open>With the lazy loading that the asyncio session refuses, an update of a job standard never
  returns, and neither does a creation without processes: building the response reads the processes.\<close>

lemma standard_update_never_returns:
  "fst (update_standard asyncio_lazy_load r i req d c) =
     Inl (if tget (standards d) i = None then err JOB_STANDARD_NOT_FOUND else External ''MissingGreenlet'')
   \<and> isl (fst (create_standard asyncio_lazy_load r (q\<lparr>sc_processes := None\<rparr>) d c))"
  by (auto simp: update_standard_def standard_or_throw_def create_standard_def asyncio_lazy_load_def
      Let_def truthy_def split: option.splits)

lemma run_inserts:
  "run_process_stmts (map Insert_process ps) d =
     (if distinct (map process_key ps) \<and> (\<forall>p \<in> set ps. \<forall>(j, q) \<in> set (rows (processes d)). process_key q \<noteq> process_key p)
      then Inr (d\<lparr>processes := fold tins ps (processes d)\<rparr>) else Inl IntegrityError)"
proof (induction ps arbitrary: d)
  case (Cons p ps)
  have taken: "process_key_taken (\<lambda>_. True) p d \<longleftrightarrow> (\<exists>(j, q) \<in> set (rows (processes d)). process_key q = process_key p)"
    by (auto simp: process_key_taken_def tsel_empty_iff)
  show ?case
  proof (cases "process_key_taken (\<lambda>_. True) p d")
    case True
    then show ?thesis using taken by fastforce
  next
    case False
    then show ?thesis using taken Cons [of "d\<lparr>processes := tins p (processes d)\<rparr>"]
      by (auto simp: rows_tins image_iff)
  qed
qed simp

lemma order_by_map: "order_by f (map g xs) = map g (order_by (\<lambda>x. f (g x)) xs)"
proof -
  have "insort_key f (g x) (map g ys) = map g (insort_key (\<lambda>x. f (g x)) x ys)" for x ys by (induction ys) simp_all
  then show ?thesis unfolding order_by_def by (induction xs) simp_all
qed

text \<open>The relation of a new standard consists of the processes that were inserted with it.\<close>

lemma processes_of_new:
  assumes refs: "\<And>j p. (j, p) \<in> set (rows (processes d)) \<Longrightarrow> jp_standard_id p \<noteq> i"
    and new: "\<forall>p \<in> set ps. jp_standard_id p = i"
  shows "processes_of i (d\<lparr>standards := ss, processes := fold tins ps (processes d)\<rparr>) =
    order_by (\<lambda>x. jp_sequence (snd x)) (map (\<lambda>k. (next_id (processes d) + int k, ps ! k)) [0..<length ps])"
proof -
  have "filter (\<lambda>(k, p). jp_standard_id p = i) (rows (processes d)) = []"
    using refs by (auto simp: filter_empty_conv)
  moreover have "filter (\<lambda>(k, p). jp_standard_id p = i) (map (\<lambda>k. (next_id (processes d) + int k, ps ! k)) [0..<length ps])
      = map (\<lambda>k. (next_id (processes d) + int k, ps ! k)) [0..<length ps]"
    using new by (auto simp: filter_id_conv)
  ultimately show ?thesis by (simp add: processes_of_def tsel_def rows_fold_tins)
qed

text \<open>C38: a job standard is created exactly when its company exists and it comes with at least one process, all
  with different sequence numbers.  Then the standard is stored in use under a new key and the processes,
  under new keys, in the order of the request, nothing else changes, and the answer is what a fresh read
  gives, up to the order of the processes, of which the read sorts by their sequence.  Without
  processes the answer fails, because the session refuses to load them, with a repeated sequence the flush.\<close>

theorem create_standard_spec:
  assumes std: "table_ok (standards d)"
    and refs: "all_rows (\<lambda>j p. tget (standards d) (jp_standard_id p) \<noteq> None) (processes d)"
  shows "case create_standard asyncio_lazy_load r req d c of
      (Inl e, c') \<Rightarrow>
        if tget (companies d) (sc_company_id req) = None then e = err COMPANY_NOT_FOUND
        else if sc_processes req \<in> {None, Some []} then e = External ''MissingGreenlet''
        else e = IntegrityError \<and> \<not> distinct (map pu_sequence (the (sc_processes req)))
    | (Inr (resp, d'), c') \<Rightarrow> tget (companies d) (sc_company_id req) \<noteq> None \<and> (\<exists>ps. sc_processes req = Some ps
        \<and> ps \<noteq> [] \<and> distinct (map pu_sequence ps) \<and> d'\<lparr>standards := standards d, processes := processes d\<rparr> = d
        \<and> (\<forall>k. tget (standards d') k = (if k = next_id (standards d)
              then Some \<lparr>js_company_id = sc_company_id req, js_name = sc_name req, js_use_flag = True,
                js_routine_start_time = sc_routine_start_time req,
                js_work_time = (case sc_work_time req of None \<Rightarrow> 0 | Some n \<Rightarrow> n),
                js_rest_time = (case sc_rest_time req of None \<Rightarrow> 0 | Some n \<Rightarrow> n),
                js_start_message = sc_start_message req, js_end_message = sc_end_message req,
                js_context = sc_context req, js_for_journal = (sc_for_journal req = Some True)\<rparr>
              else tget (standards d) k))
        \<and> rows (processes d') = rows (processes d) @ map (\<lambda>k. (next_id (processes d) + int k,
              \<lparr>jp_standard_id = next_id (standards d), jp_name = pu_name (ps ! k), jp_sequence = pu_sequence (ps ! k),
               jp_video_path = pu_video_path (ps ! k), jp_start_message = pu_start_message (ps ! k),
               jp_end_message = pu_end_message (ps ! k), jp_context = pu_context (ps ! k),
               jp_process_time = pu_process_time (ps ! k)\<rparr>)) [0..<length ps]
        \<and> sr_id resp = next_id (standards d)
        \<and> standard_load d' (next_id (standards d)) =
            Inr (resp\<lparr>sr_processes := order_by pr_sequence (sr_processes resp)\<rparr>)
        \<and> (r = Redis_up \<longrightarrow> c' (cache_key standard_ns (next_id (standards d))) = None))"
proof (cases "tget (companies d) (sc_company_id req) = None \<or> \<not> truthy (sc_processes req)")
  case True
  then show ?thesis by (auto simp: create_standard_def asyncio_lazy_load_def truthy_def Let_def split: option.splits)
next
  case False
  then obtain ps where co: "tget (companies d) (sc_company_id req) \<noteq> None"
    and ps: "sc_processes req = Some ps" "ps \<noteq> []" by (auto simp: truthy_def split: option.splits)
  let ?i = "next_id (standards d)" and ?new = "map (new_process (next_id (standards d))) ps"
  have fresh: "jp_standard_id p \<noteq> ?i" if "(j, p) \<in> set (rows (processes d))" for j p
    using refs that tget_next [OF std] by (fastforce simp: all_rows_def)
  have dist: "distinct (map process_key ?new) \<longleftrightarrow> distinct (map pu_sequence ps)"
    by (simp add: new_process_def comp_def distinct_map inj_on_def)
  have free: "\<forall>p \<in> set ?new. \<forall>(j, q) \<in> set (rows (processes d)). process_key q \<noteq> process_key p"
    using fresh by (auto simp: new_process_def)
  have mine: "\<forall>p \<in> set ?new. jp_standard_id p = ?i" by (auto simp: new_process_def)
  define s where "s = \<lparr>js_company_id = sc_company_id req, js_name = sc_name req, js_use_flag = True,
     js_routine_start_time = sc_routine_start_time req, js_work_time = or_default (sc_work_time req) 0,
     js_rest_time = or_default (sc_rest_time req) 0, js_start_message = sc_start_message req,
     js_end_message = sc_end_message req, js_context = sc_context req, js_for_journal = (sc_for_journal req = Some True)\<rparr>"
  define d1 where "d1 = d\<lparr>standards := tins s (standards d), processes := fold tins ?new (processes d)\<rparr>"
  define loaded where "loaded = map (\<lambda>k. (next_id (processes d) + int k, ?new ! k)) [0..<length ?new]"
  have z: "zip (map (\<lambda>k. next_id (processes d) + int k) [0..<length ps]) ?new = loaded"
    unfolding loaded_def by (intro nth_equalityI) simp_all
  have run: "create_standard asyncio_lazy_load r req d c =
      (if distinct (map pu_sequence ps)
       then (Inr (to_standard_response ?i s (company_name (js_company_id s) d1) loaded, d1), evict r standard_ns ?i c)
       else (Inl IntegrityError, c))"
    using co ps free dist
    by (simp add: create_standard_def truthy_def Let_def run_inserts z s_def [symmetric] d1_def del: map_map)
  have load: "standard_load d1 ?i = Inr (to_standard_response ?i s (company_name (js_company_id s) d1)
      (order_by (\<lambda>x. jp_sequence (snd x)) loaded))"
    using processes_of_new [OF fresh mine, where ss = "tins s (standards d)"]
    by (simp add: standard_load_def standard_or_throw_def d1_def loaded_def tget_tins [OF std])
  have rel: "order_by pr_sequence (map to_process_response loaded) =
      map to_process_response (order_by (\<lambda>x. jp_sequence (snd x)) loaded)"
    by (simp add: order_by_map to_process_response_def case_prod_beta)
  have def0: "or_default x 0 = (case x of None \<Rightarrow> 0 | Some n \<Rightarrow> n)" for x :: "int option"
    by (simp add: or_default_def split: option.splits)
  show ?thesis
    using co ps load rel
    by (simp add: run) (auto simp: d1_def s_def def0 tget_tins [OF std] rows_fold_tins new_process_def to_standard_response_def
        evict_def)
qed

definition sample_standard_request :: standard_create_request where
  "sample_standard_request = \<lparr>sc_company_id = 1, sc_name = ''dry'', sc_routine_start_time = None, sc_work_time = Some 30,
     sc_rest_time = None, sc_start_message = None, sc_end_message = None, sc_context = None, sc_for_journal = None,
     sc_processes = Some [sample_upsert None 2, sample_upsert None 1]\<rparr>"

lemma sample_standard_returns:
  "\<not> isl (fst (create_standard asyncio_lazy_load Redis_up sample_standard_request sample_db (\<lambda>_. None :: unit option)))"
  by (simp add: create_standard_def sample_standard_request_def sample_upsert_def run_inserts new_process_def
      sample_defs tget_def truthy_def Let_def)

theorem create_standard_spec_witness:
  "\<exists>resp d' c'. create_standard asyncio_lazy_load Redis_up sample_standard_request sample_db (\<lambda>_. None :: unit option)
      = (Inr (resp, d'), c') \<and> tget (standards d') (sr_id resp) \<noteq> None \<and> c' (cache_key standard_ns (sr_id resp)) = None"
proof -
  obtain res c' where "create_standard asyncio_lazy_load Redis_up sample_standard_request sample_db
      (\<lambda>_. None :: unit option) = (res, c')" by force
  with sample_standard_returns obtain resp d' where c: "create_standard asyncio_lazy_load Redis_up
      sample_standard_request sample_db (\<lambda>_. None :: unit option) = (Inr (resp, d'), c')" by (cases res) auto
  have t: "table_ok (standards sample_db)" by (simp add: sample_defs table_ok_def)
  have refs: "all_rows (\<lambda>j p. tget (standards sample_db) (jp_standard_id p) \<noteq> None) (processes sample_db)"
    by (simp add: all_rows_def sample_defs tget_def)
  note spec = create_standard_spec [OF t refs, where r = Redis_up and req = sample_standard_request
      and c = "\<lambda>_. None :: unit option", unfolded c prod.case sum.case]
  have "tget (standards d') (sr_id resp) \<noteq> None" "c' (cache_key standard_ns (sr_id resp)) = None"
    using spec by auto
  then show ?thesis using c by blast
qed

text \<open>C18: an assignment that succeeds leaves the worker with exactly one assignment row for the
  standard, in use; assigning again is refused; after unassigning it, assigning again revives the
  same row.  The UNIQUE constraint of the table is kept.\<close>

theorem assign_job_spec:
  assumes ok: "job_workers_ok (job_workers d)" and a: "assign_job cw sid d = Inr (resp, d')"
  shows "job_workers_ok (job_workers d')
    \<and> (\<exists>jw. assignments cw sid d' = [(jr_id resp, jw)] \<and> jw_use_flag jw)
    \<and> assign_job cw sid d' = Inl (err JOB_WORKER_ALREADY_ASSIGNED)
    \<and> (\<exists>d1 resp' d2. unassign_job (jr_id resp) d' = Inr ((), d1)
         \<and> assign_job cw sid d1 = Inr (resp', d2) \<and> jr_id resp' = jr_id resp)"
proof -
  note ok' = assign_job_ok [OF ok a]
  from a have ref: "tget (company_workers d) cw \<noteq> None" "tget (standards d) sid \<noteq> None"
    by (auto simp: assign_job_def flow)
  obtain jw where jw: "assignments cw sid d' = [(jr_id resp, jw)]" "jw_use_flag jw"
    and same: "company_workers d' = company_workers d" "standards d' = standards d"
    using a
  proof (cases rule: assign_job_effect)
    case created
    then show ?thesis using that [of "new_job_worker cw sid"]
      by (simp add: assignments_def tsel_tins new_job_worker_def)
  next
    case (revived old)
    have "(jr_id resp, old) \<in> set (assignments cw sid d)" using revived(1) by simp
    then have "(jr_id resp, old) \<in> set (rows (job_workers d))" by (simp add: assignments_def tsel_iff)
    then show ?thesis
      using assignments_tupd [of d "jr_id resp" old "old\<lparr>jw_use_flag := True\<rparr>"] revived ok
        that [of "old\<lparr>jw_use_flag := True\<rparr>"]
      by (simp add: job_workers_ok_def)
  qed
  have row: "(jr_id resp, jw) \<in> set (rows (job_workers d'))" "jw_company_worker_id jw = cw" "jw_standard_id jw = sid"
    using list.set_intros(1) [of "(jr_id resp, jw)" "[]"] unfolding jw(1) [symmetric]
    by (simp_all add: assignments_def tsel_iff)
  have "assign_job cw sid d' = Inl (err JOB_WORKER_ALREADY_ASSIGNED)"
    using ref jw by (auto simp: assign_job_def same)
  moreover define d1 where "d1 = d'\<lparr>job_workers := tupd (jr_id resp) (jw\<lparr>jw_use_flag := False\<rparr>) (job_workers d')\<rparr>"
  have "tget (job_workers d') (jr_id resp) = Some jw"
    using row(1) ok' by (simp add: job_workers_ok_def tget_iff)
  then have un: "unassign_job (jr_id resp) d' = Inr ((), d1)"
    by (auto simp: unassign_job_effect d1_def)
  have "assignments cw sid d1 = [(jr_id resp, jw\<lparr>jw_use_flag := False\<rparr>)]"
    using assignments_tupd [OF _ row(1), of "jw\<lparr>jw_use_flag := False\<rparr>"] ok' jw(1)
    by (simp add: d1_def job_workers_ok_def)
  then have "\<exists>resp' d2. assign_job cw sid d1 = Inr (resp', d2) \<and> jr_id resp' = jr_id resp"
    using ref by (auto simp: assign_job_def d1_def same Let_def to_jw_response_def)
  ultimately show ?thesis using ok' jw un by blast
qed

lemma sample_job_workers_ok: "job_workers_ok (job_workers sample_db)"
  using sample_schema_ok by (simp add: schema_ok_def)

definition unassigned_db :: db where
  "unassigned_db = sample_db\<lparr>job_workers := empty_table\<rparr>"

theorem assign_job_spec_witness:
  "\<exists>resp d'. job_workers_ok (job_workers d') \<and> assign_job 1 1 d' = Inl (err JOB_WORKER_ALREADY_ASSIGNED)"
proof -
  have "\<not> isl (assign_job 1 1 unassigned_db)" by code_simp
  then obtain resp d' where "assign_job 1 1 unassigned_db = Inr (resp, d')" using returned by blast
  moreover have "job_workers_ok (job_workers unassigned_db)"
    by (simp add: unassigned_db_def job_workers_ok_def)
  ultimately show ?thesis using assign_job_spec by blast
qed

end
