(* ===== verification/Companies.thy ===== *)
theory Companies
  imports Cache Sample
begin

text \<open>
  Companies: app/services/company.py with its DTOs (app/schemas/company.py) and endpoints
  (app/api/v1/companies.py).  Single reads go through the cache, updates evict.  A method that
  raises leaves the database as it was, and no method touches the cache before it can raise, so a
  result carries both.
\<close>

section \<open>Requests and responses\<close>

record company_create_request =
  cc_name :: string
  cc_location :: "string option"
  cc_image_path :: "string option"
  cc_template_id :: "string option"
  cc_template_data :: "jobject option"

record company_update_request =
  cu_name :: "string option"
  cu_location :: "string option"
  cu_image_path :: "string option"
  cu_template_id :: "string option"
  cu_template_data :: "jobject option"

record company_response =
  cr_id :: int
  cr_name :: string
  cr_location :: "string option"
  cr_use_flag :: bool
  cr_image_path :: "string option"
  cr_template_id :: "string option"
  cr_template_data :: "jobject option"

definition valid_company_create :: "company_create_request \<Rightarrow> bool" where
  "valid_company_create r \<longleftrightarrow> len_between 1 200 (cc_name r) \<and> max_len 500 (cc_location r)
     \<and> max_len 500 (cc_image_path r) \<and> max_len 100 (cc_template_id r)"

definition valid_company_update :: "company_update_request \<Rightarrow> bool" where
  "valid_company_update r \<longleftrightarrow> max_len 200 (cu_name r) \<and> max_len 500 (cu_location r)
     \<and> max_len 500 (cu_image_path r) \<and> max_len 100 (cu_template_id r)"

text \<open>The fields of \<open>CompanyResponse\<close> as declared.\<close>

definition company_response_fields :: "field list" where
  "company_response_fields =
     [\<lparr>f_name = ''id'', f_serialization_alias = None, f_required = True\<rparr>,
      \<lparr>f_name = ''name'', f_serialization_alias = None, f_required = True\<rparr>,
      \<lparr>f_name = ''location'', f_serialization_alias = None, f_required = False\<rparr>,
      \<lparr>f_name = ''use_flag'', f_serialization_alias = Some ''useFlag'', f_required = True\<rparr>,
      \<lparr>f_name = ''image_path'', f_serialization_alias = Some ''imagePath'', f_required = False\<rparr>,
      \<lparr>f_name = ''template_id'', f_serialization_alias = Some ''templateId'', f_required = False\<rparr>,
      \<lparr>f_name = ''template_data'', f_serialization_alias = Some ''templateData'', f_required = False\<rparr>]"

text \<open>\<open>CompanyResponse.model_validate(company)\<close>, by attribute.\<close>

definition company_response_of :: "int \<Rightarrow> company \<Rightarrow> company_response" where
  "company_response_of i c =
     \<lparr>cr_id = i, cr_name = co_name c, cr_location = co_location c, cr_use_flag = co_use_flag c,
      cr_image_path = co_image_path c, cr_template_id = co_template_id c,
      cr_template_data = co_template_data c\<rparr>"

section \<open>The service\<close>

definition company_ns :: string where "company_ns = ''company''"

definition company_or_throw :: "int \<Rightarrow> db \<Rightarrow> exn + company" where
  "company_or_throw i d = some_or (tget (companies d) i) (err COMPANY_NOT_FOUND) Inr"

definition company_load :: "db \<Rightarrow> int \<Rightarrow> exn + company_response" where
  "company_load d i = let_ok (company_or_throw i d) (\<lambda>c. Inr (company_response_of i c))"

definition get_company ::
    "(company_response \<Rightarrow> 'raw) \<Rightarrow> ('raw \<Rightarrow> company_response option) \<Rightarrow> redis \<Rightarrow> int \<Rightarrow> db \<Rightarrow> 'raw cache
     \<Rightarrow> exn + (company_response \<times> 'raw cache)" where
  "get_company dump validate r i d cache =
     cached_get dump validate r company_ns i (company_load d i) cache"

definition search_companies ::
    "(string \<Rightarrow> string \<Rightarrow> bool) \<Rightarrow> string option \<Rightarrow> page_params \<Rightarrow> db \<Rightarrow> company_response page" where
  "search_companies ilike keyword params d =
     paged (\<lambda>(i, c). company_response_of i c) params
       (order_by_desc fst
         (tsel (\<lambda>i c. co_use_flag c
              \<and> keyword_match keyword (\<lambda>p. ilike (co_name c) p \<or> ilike_opt ilike (co_location c) p))
            (companies d)))"

definition create_company ::
    "company_create_request \<Rightarrow> principal option \<Rightarrow> db \<Rightarrow> exn + (company_response \<times> db)" where
  "create_company req actor d =
     raise_if (first_row (tsel (\<lambda>i c. co_name c = cc_name req) (companies d)) \<noteq> None)
       (business CONFLICT (Some Company_name_taken))
     (let c = \<lparr>co_name = cc_name req, co_location = cc_location req, co_use_flag = True,
               co_image_path = cc_image_path req, co_template_id = cc_template_id req,
               co_template_data = cc_template_data req,
               co_created_by = map_option pr_user_id actor,
               co_updated_by = map_option pr_user_id actor\<rparr>
      in Inr (company_response_of (next_id (companies d)) c, d\<lparr>companies := tins c (companies d)\<rparr>))"

definition touch_company :: "principal option \<Rightarrow> company \<Rightarrow> company" where
  "touch_company actor c =
     (case actor of None \<Rightarrow> c | Some p \<Rightarrow> c\<lparr>co_updated_by := Some (pr_user_id p)\<rparr>)"

definition apply_company_update :: "company_update_request \<Rightarrow> principal option \<Rightarrow> company \<Rightarrow> company" where
  "apply_company_update req actor c =
     touch_company actor
       (c\<lparr>co_name := keep (cu_name req) (co_name c),
          co_location := keep_opt (cu_location req) (co_location c),
          co_image_path := keep_opt (cu_image_path req) (co_image_path c),
          co_template_id := keep_opt (cu_template_id req) (co_template_id c),
          co_template_data := keep_opt (cu_template_data req) (co_template_data c)\<rparr>)"

definition update_company ::
    "redis \<Rightarrow> int \<Rightarrow> company_update_request \<Rightarrow> principal option \<Rightarrow> db \<Rightarrow> 'raw cache
     \<Rightarrow> exn + (company_response \<times> db \<times> 'raw cache)" where
  "update_company r i req actor d cache =
     let_ok (company_or_throw i d) (\<lambda>c.
     (let c' = apply_company_update req actor c
      in Inr (company_response_of i c', d\<lparr>companies := tupd i c' (companies d)\<rparr>,
              evict r company_ns i cache)))"

definition deactivate_company ::
    "redis \<Rightarrow> int \<Rightarrow> principal option \<Rightarrow> db \<Rightarrow> 'raw cache \<Rightarrow> exn + (unit \<times> db \<times> 'raw cache)" where
  "deactivate_company r i actor d cache =
     let_ok (company_or_throw i d) (\<lambda>c.
       Inr ((), d\<lparr>companies := tupd i (touch_company actor (c\<lparr>co_use_flag := False\<rparr>)) (companies d)\<rparr>,
            evict r company_ns i cache))"

section \<open>Endpoints\<close>

definition api_list_companies ::
    "(string \<Rightarrow> string \<Rightarrow> bool) \<Rightarrow> string option \<Rightarrow> page_params \<Rightarrow> db \<Rightarrow> company_response page api_response" where
  "api_list_companies ilike keyword params d =
     api_ok (Some (to_page_response (search_companies ilike keyword params d)))"

definition api_create_company ::
    "company_create_request \<Rightarrow> principal \<Rightarrow> db \<Rightarrow> exn + (company_response \<times> db)" where
  "api_create_company req me d =
     let_ok (require_admin me) (\<lambda>me. create_company req (Some me) d)"

definition api_update_company ::
    "redis \<Rightarrow> int \<Rightarrow> company_update_request \<Rightarrow> principal \<Rightarrow> db \<Rightarrow> 'raw cache
     \<Rightarrow> exn + (company_response \<times> db \<times> 'raw cache)" where
  "api_update_company r i req me d cache =
     let_ok (require_admin me) (\<lambda>me. update_company r i req (Some me) d cache)"

definition api_deactivate_company ::
    "redis \<Rightarrow> int \<Rightarrow> principal \<Rightarrow> db \<Rightarrow> 'raw cache \<Rightarrow> exn + (unit \<times> db \<times> 'raw cache)" where
  "api_deactivate_company r i me d cache =
     let_ok (require_admin me) (\<lambda>me. deactivate_company r i (Some me) d cache)"

section \<open>Lemmas\<close>

lemma update_company_effect:
  "update_company r i req actor d c = Inr (resp, d', c') \<Longrightarrow>
   \<exists>x. tget (companies d) i = Some x
     \<and> d' = d\<lparr>companies := tupd i (apply_company_update req actor x) (companies d)\<rparr>
     \<and> resp = company_response_of i (apply_company_update req actor x)
     \<and> c' = evict r company_ns i c"
  by (auto simp: update_company_def company_or_throw_def Let_def flow)

lemma deactivate_company_effect:
  "deactivate_company r i actor d c = Inr (u, d', c') \<Longrightarrow>
   \<exists>x. tget (companies d) i = Some x
     \<and> d' = d\<lparr>companies := tupd i (touch_company actor (x\<lparr>co_use_flag := False\<rparr>)) (companies d)\<rparr>
     \<and> c' = evict r company_ns i c"
  by (auto simp: deactivate_company_def company_or_throw_def flow)

lemma create_company_effect:
  "create_company req actor d = Inr (resp, d') \<Longrightarrow>
   \<exists>x. d' = d\<lparr>companies := tins x (companies d)\<rparr> \<and> co_name x = cc_name req \<and> co_use_flag x
     \<and> (\<forall>i y. (i, y) \<in> set (rows (companies d)) \<longrightarrow> co_name y \<noteq> cc_name req)
     \<and> resp = company_response_of (next_id (companies d)) x"
  by (auto simp: create_company_def Let_def flow first_row_None tsel_empty_iff)

lemma company_load_Inr: "company_load d i = Inr m \<longleftrightarrow>
    (\<exists>x. tget (companies d) i = Some x \<and> m = company_response_of i x)"
  by (auto simp: company_load_def company_or_throw_def flow)

text \<open>
  The writes of companies: an update or a deactivation evicts the key it writes; a creation writes a
  fresh key, which nothing has read.
\<close>

definition company_write :: "db \<Rightarrow> int \<Rightarrow> db \<Rightarrow> bool" where
  "company_write d i d' \<longleftrightarrow> (\<exists>x. companies d' = tupd i x (companies d))"

interpretation company_cache: cache_aside company_ns company_load company_write
  by unfold_locales (auto simp: company_load_Inr company_write_def tget_tupd)

lemma update_company_write:
  "update_company r i req actor d c = Inr (resp, d', c') \<Longrightarrow>
   company_write d i d' \<and> c' = evict r company_ns i c"
  by (auto simp: company_write_def dest!: update_company_effect)

lemma deactivate_company_write:
  "deactivate_company r i actor d c = Inr (u, d', c') \<Longrightarrow>
   company_write d i d' \<and> c' = evict r company_ns i c"
  by (auto simp: company_write_def dest!: deactivate_company_effect)

text \<open>A sequence of requests on companies against a Redis that answers, with entries expiring.\<close>

inductive company_step ::
    "(company_response \<Rightarrow> 'raw) \<Rightarrow> ('raw \<Rightarrow> company_response option) \<Rightarrow> db \<times> 'raw cache \<Rightarrow> db \<times> 'raw cache \<Rightarrow> bool"
  for dump validate where
  read: "get_company dump validate Redis_up i d c = Inr (m, c') \<Longrightarrow> company_step dump validate (d, c) (d, c')"
| created: "table_ok (companies d) \<Longrightarrow> create_company req actor d = Inr (m, d')
     \<Longrightarrow> company_step dump validate (d, c) (d', c)"
| updated: "update_company Redis_up i req actor d c = Inr (m, d', c')
     \<Longrightarrow> company_step dump validate (d, c) (d', c')"
| deactivated: "deactivate_company Redis_up i actor d c = Inr (u, d', c')
     \<Longrightarrow> company_step dump validate (d, c) (d', c')"
| expired: "company_step dump validate (d, c) (d, expire k c)"

lemma company_step_coherent:
  assumes "company_step dump validate s s'" and "coherent dump company_load company_ns (fst s) (snd s)"
  shows "coherent dump company_load company_ns (fst s') (snd s')"
  using assms
proof (induction rule: company_step.induct)
  case (read i d c m c')
  then show ?case by (simp add: get_company_def company_cache.coherent_fill)
next
  case (created d req actor m d' c)
  then have "\<And>i m. company_load d i = Inr m \<Longrightarrow> company_load d' i = Inr m"
    by (auto simp: company_load_Inr tget_tins_old dest!: create_company_effect)
  with created show ?case by (fastforce simp: coherent_def)
next
  case (updated i req actor d c m d' c')
  then show ?case using update_company_write [OF updated(1)] by (simp add: company_cache.coherent_write)
next
  case (deactivated i actor d c u d' c')
  then show ?case using deactivate_company_write [OF deactivated(1)] by (simp add: company_cache.coherent_write)
next
  case (expired d c k)
  then show ?case by (simp add: company_cache.coherent_expire)
qed

lemma company_steps_coherent:
  "(company_step dump validate)\<^sup>*\<^sup>* s s' \<Longrightarrow> coherent dump company_load company_ns (fst s) (snd s) \<Longrightarrow>
   coherent dump company_load company_ns (fst s') (snd s')"
  by (induction rule: rtranclp_induct) (auto intro: company_step_coherent)

section \<open>Properties\<close>

text \<open>C33: whatever reads, updates, deactivations and expiries came before, a cached read of a company
  returns what the database holds at that moment, as long as Redis answers and every stored value
  either reads back as itself or not at all.\<close>

theorem company_reads_are_fresh:
  assumes codec: "\<And>m. validate (dump m) \<in> {None, Some m}"
    and run: "(company_step dump validate)\<^sup>*\<^sup>* (start, \<lambda>_. None) (d, c)"
    and get: "get_company dump validate Redis_up i d c = Inr (m, c')"
  shows "\<exists>x. tget (companies d) i = Some x \<and> m = company_response_of i x"
proof -
  have "coherent dump company_load company_ns d c"
    using company_steps_coherent [OF run] by (simp add: coherent_def)
  then have "company_load d i = Inr m"
    using company_cache.coherent_read codec get unfolding get_company_def by blast
  then show ?thesis by (simp add: company_load_Inr)
qed

theorem company_reads_are_fresh_witness:
  "\<exists>d c m c'. (company_step id Some)\<^sup>*\<^sup>* (sample_db, \<lambda>_. None) (d, c)
     \<and> get_company id Some Redis_up 1 d c = Inr (m, c') \<and> \<not> cr_use_flag m
     \<and> (\<exists>x. tget (companies d) 1 = Some x \<and> m = company_response_of 1 x)"
proof -
  let ?key = "cache_key company_ns 1" and ?m = "company_response_of 1 (sample_company ''one'')"
  let ?c1 = "(\<lambda>_. None)(?key \<mapsto> ?m)"
  have "get_company id Some Redis_up 1 sample_db (\<lambda>_. None) = Inr (?m, ?c1)"
    by (simp add: get_company_def cached_get_def get_model_def set_model_def company_load_def
        company_or_throw_def tget_def sample_db_def)
  then have read: "company_step id Some (sample_db, \<lambda>_. None) (sample_db, ?c1)" by (rule company_step.read)
  obtain d2 c2 u where d: "deactivate_company Redis_up 1 None sample_db ?c1 = Inr (u, d2, c2)"
    and get: "get_company id Some Redis_up 1 d2 c2 = Inr (company_response_of 1 (touch_company None ((sample_company ''one'')\<lparr>co_use_flag := False\<rparr>)), ?c1(?key \<mapsto> company_response_of 1 (touch_company None ((sample_company ''one'')\<lparr>co_use_flag := False\<rparr>))))"
    by (simp add: deactivate_company_def company_or_throw_def get_company_def cached_get_def get_model_def set_model_def
        company_load_def evict_def tget_def sample_db_def tupd_def)
  have run: "(company_step id Some)\<^sup>*\<^sup>* (sample_db, \<lambda>_. None) (d2, c2)"
    using read company_step.deactivated [OF d] by (meson rtranclp.rtrancl_refl rtranclp.rtrancl_into_rtrancl)
  have "\<exists>x. tget (companies d2) 1 = Some x
      \<and> company_response_of 1 (touch_company None ((sample_company ''one'')\<lparr>co_use_flag := False\<rparr>)) = company_response_of 1 x"
    by (rule company_reads_are_fresh [OF _ run get]) simp
  moreover have "\<not> cr_use_flag (company_response_of 1 (touch_company None ((sample_company ''one'')\<lparr>co_use_flag := False\<rparr>)))"
    by (simp add: company_response_of_def touch_company_def)
  ultimately show ?thesis using run get by blast
qed

text \<open>As the response class declares its fields, the text that the cache stores for a company
  cannot be read back: the required field \<open>use_flag\<close> is written under its serialization alias only.
  So every cached read is a database read, and the cache serves nothing.\<close>

lemma company_cache_never_hits:
  assumes pydantic: "\<And>m. missing_name company_response_fields \<Longrightarrow> validate (dump m) = None"
    and stored: "\<And>k raw. c k = Some raw \<Longrightarrow> raw \<in> range dump"
  shows "get_company dump validate r i d c =
    let_ok (company_load d i) (\<lambda>m. Inr (m, set_model dump r m company_ns i c))"
proof -
  have "missing_name company_response_fields"
    by (simp add: missing_name_def company_response_fields_def dump_key_def)
  then show ?thesis unfolding get_company_def using pydantic stored by (intro never_read) auto
qed

text \<open>A codec of this kind: the flag is written as \<open>useFlag\<close> and looked up as \<open>use_flag\<close>.\<close>

definition alias_dump :: "company_response \<Rightarrow> jobject" where
  "alias_dump m = [(''id'', JNum (cr_id m)), (''name'', JStr (cr_name m)), (''useFlag'', JBool (cr_use_flag m))]"

definition name_validate :: "jobject \<Rightarrow> company_response option" where
  "name_validate raw =
     (case (map_of raw ''id'', map_of raw ''name'', map_of raw ''use_flag'') of
        (Some (JNum i), Some (JStr n), Some (JBool b)) \<Rightarrow>
          Some \<lparr>cr_id = i, cr_name = n, cr_location = None, cr_use_flag = b, cr_image_path = None,
                cr_template_id = None, cr_template_data = None\<rparr>
      | _ \<Rightarrow> None)"

lemma company_cache_never_hits_witness:
  "get_company alias_dump name_validate Redis_up 1 sample_db
     ((\<lambda>_. None)(cache_key company_ns 1 \<mapsto> alias_dump (company_response_of 1 (sample_company ''old'')))) =
   let_ok (company_load sample_db 1) (\<lambda>m. Inr (m, set_model alias_dump Redis_up m company_ns 1
     ((\<lambda>_. None)(cache_key company_ns 1 \<mapsto> alias_dump (company_response_of 1 (sample_company ''old''))))))"
  by (rule company_cache_never_hits)
     (auto simp: alias_dump_def name_validate_def split: if_splits)

end
