(* ===== verification/WorkRecords.thy ===== *)
theory WorkRecords
  imports Tenant Sample
begin

text \<open>
  Work records: app/services/workrecord.py and its DTOs in app/schemas/workrecord.py.  A record of
  type ON, WORK, REST or OFF is opened by \<open>begin_record\<close> and closed by \<open>end_record\<close>; closing an OFF
  record closes the schedule.  Process records are opened and closed per job process.
\<close>

section \<open>Requests and responses\<close>

record record_start_request =
  rs_schedule_id :: int
  rs_type :: work_record_type
  rs_at :: "datetime option"

record record_end_request =
  re_schedule_id :: int
  re_type :: work_record_type
  re_at :: "datetime option"

record record_response =
  rr_id :: int
  rr_schedule_id :: int
  rr_type :: work_record_type
  rr_start_at :: datetime
  rr_end_at :: "datetime option"

record process_start_request =
  ps_schedule_id :: int
  ps_process_id :: int
  ps_type :: "string option"
  ps_at :: "datetime option"
  ps_condition :: "int option"
  ps_answer :: "string option"
  ps_voice_path :: "string option"
  ps_process :: "jobject option"

record process_end_request =
  pe_schedule_id :: int
  pe_process_id :: int
  pe_at :: "datetime option"
  pe_condition :: "int option"
  pe_answer :: "string option"
  pe_voice_path :: "string option"
  pe_process :: "jobject option"

record process_record_response =
  pq_id :: int
  pq_process_name :: string
  pq_record :: work_process_record

definition to_record :: "int \<Rightarrow> work_record \<Rightarrow> record_response" where
  "to_record i r = \<lparr>rr_id = i, rr_schedule_id = wr_schedule_id r, rr_type = wr_type r,
     rr_start_at = wr_start_at r, rr_end_at = wr_end_at r\<rparr>"

text \<open>\<open>_to_process\<close> copies every column of the record into the response.\<close>

definition to_process :: "int \<Rightarrow> work_process_record \<Rightarrow> string \<Rightarrow> process_record_response" where
  "to_process i r job_process_name = \<lparr>pq_id = i, pq_process_name = job_process_name, pq_record = r\<rparr>"

section \<open>Work records\<close>

definition schedule_or_throw :: "int \<Rightarrow> db \<Rightarrow> exn + work_schedule" where
  "schedule_or_throw i d = some_or (tget (schedules d) i) (err WORK_SCHEDULE_NOT_FOUND) Inr"

definition open_records :: "int \<Rightarrow> work_record_type \<Rightarrow> db \<Rightarrow> (int \<times> work_record) list" where
  "open_records sid ty d =
     tsel (\<lambda>i r. wr_schedule_id r = sid \<and> wr_type r = ty \<and> wr_end_at r = None) (records d)"

definition find_open_record ::
    "int \<Rightarrow> work_record_type \<Rightarrow> db \<Rightarrow> exn + (int \<times> work_record) option" where
  "find_open_record sid ty d =
     scalar_one_or_none (order_by_desc (\<lambda>x. wr_start_at (snd x)) (open_records sid ty d))"

definition begin_record ::
    "record_start_request \<Rightarrow> datetime \<Rightarrow> db \<Rightarrow> exn + (record_response \<times> db)" where
  "begin_record req now d =
     let_ok (schedule_or_throw (rs_schedule_id req) d) (\<lambda>_.
     let_ok (find_open_record (rs_schedule_id req) (rs_type req) d) (\<lambda>open_existing.
       (case open_existing of
          Some (i, _) \<Rightarrow> Inl (business WORK_RECORD_OUT_OF_RANGE (Some (Open_record_exists i)))
        | None \<Rightarrow>
            (let r = \<lparr>wr_schedule_id = rs_schedule_id req, wr_type = rs_type req,
                      wr_start_at = (case rs_at req of None \<Rightarrow> now | Some t \<Rightarrow> t),
                      wr_end_at = None\<rparr>
             in Inr (to_record (next_id (records d)) r, d\<lparr>records := tins r (records d)\<rparr>)))))"

definition end_record ::
    "record_end_request \<Rightarrow> datetime \<Rightarrow> db \<Rightarrow> exn + (record_response \<times> db)" where
  "end_record req now d =
     let_ok (find_open_record (re_schedule_id req) (re_type req) d) (\<lambda>found.
     some_or found (err WORK_RECORD_NOT_FOUND) (\<lambda>(i, r).
     (let at = (case re_at req of None \<Rightarrow> now | Some t \<Rightarrow> t);
          r' = r\<lparr>wr_end_at := Some at\<rparr>;
          d1 = d\<lparr>records := tupd i r' (records d)\<rparr>;
          d2 = (if re_type req = OFF
                then (case tget (schedules d1) (wr_schedule_id r) of
                        None \<Rightarrow> d1
                      | Some s \<Rightarrow> d1\<lparr>schedules := tupd (wr_schedule_id r) (s\<lparr>ws_end_at := Some at\<rparr>)
                                                  (schedules d1)\<rparr>)
                else d1)
      in Inr (to_record i r', d2))))"

definition list_records :: "int \<Rightarrow> db \<Rightarrow> record_response list" where
  "list_records sid d =
     map (\<lambda>(i, r). to_record i r)
       (order_by (\<lambda>x. wr_start_at (snd x)) (tsel (\<lambda>i r. wr_schedule_id r = sid) (records d)))"

section \<open>Process records\<close>

definition begin_process ::
    "process_start_request \<Rightarrow> datetime \<Rightarrow> db \<Rightarrow> exn + (process_record_response \<times> db)" where
  "begin_process req now d =
     let_ok (schedule_or_throw (ps_schedule_id req) d) (\<lambda>_.
     some_or (tget (processes d) (ps_process_id req)) (err JOB_PROCESS_NOT_FOUND) (\<lambda>job_process.
     (let r = \<lparr>wp_schedule_id = ps_schedule_id req, wp_process_id = ps_process_id req,
               wp_type = or_str (ps_type req) ''PROCESS'',
               wp_start_at = Some (case ps_at req of None \<Rightarrow> now | Some t \<Rightarrow> t), wp_end_at = None,
               wp_start_condition = ps_condition req, wp_end_condition = None,
               wp_start_answer = ps_answer req, wp_end_answer = None,
               wp_start_voice = ps_voice_path req, wp_end_voice = None,
               wp_process = ps_process req\<rparr>
      in Inr (to_process (next_id (process_records d)) r (jp_name job_process),
              d\<lparr>process_records := tins r (process_records d)\<rparr>))))"

definition open_processes :: "int \<Rightarrow> int \<Rightarrow> db \<Rightarrow> (int \<times> work_process_record) list" where
  "open_processes sid pid d =
     tsel (\<lambda>i r. wp_schedule_id r = sid \<and> wp_process_id r = pid \<and> wp_end_at r = None) (process_records d)"

definition end_process ::
    "process_end_request \<Rightarrow> datetime \<Rightarrow> db \<Rightarrow> exn + (process_record_response \<times> db)" where
  "end_process req now d =
     let_ok (scalar_one_or_none (open_processes (pe_schedule_id req) (pe_process_id req) d)) (\<lambda>found.
     some_or found (err WORK_RECORD_NOT_FOUND) (\<lambda>(i, r).
     (let r' = r\<lparr>wp_end_at := Some (case pe_at req of None \<Rightarrow> now | Some t \<Rightarrow> t),
                 wp_end_condition := pe_condition req, wp_end_answer := pe_answer req,
                 wp_end_voice := pe_voice_path req,
                 wp_process := keep_opt (pe_process req) (wp_process r)\<rparr>;
          job_process = tget (processes d) (wp_process_id r)
      in Inr (to_process i r' (case job_process of Some p \<Rightarrow> jp_name p | None \<Rightarrow> []),
              d\<lparr>process_records := tupd i r' (process_records d)\<rparr>))))"

text \<open>\<open>list_process\<close>: joined with the job process; records without a start come last.\<close>

definition list_process :: "int \<Rightarrow> db \<Rightarrow> process_record_response list" where
  "list_process sid d =
     (let joined = List.map_filter
            (\<lambda>(i, r). map_option (\<lambda>p. to_process i r (jp_name p)) (tget (processes d) (wp_process_id r)))
            (tsel (\<lambda>i r. wp_schedule_id r = sid) (process_records d));
          started = filter (\<lambda>x. wp_start_at (pq_record x) \<noteq> None) joined;
          rest = filter (\<lambda>x. wp_start_at (pq_record x) = None) joined
      in order_by (\<lambda>x. the (wp_start_at (pq_record x))) started @ rest)"

section \<open>The operations as steps\<close>

datatype record_op =
    Begin_record record_start_request
  | End_record record_end_request
  | Begin_process process_start_request
  | End_process process_end_request

fun exec_record :: "datetime \<Rightarrow> record_op \<Rightarrow> db \<Rightarrow> exn + (unit \<times> db)" where
  "exec_record now (Begin_record q) d = let_ok (begin_record q now d) (\<lambda>(_, d'). Inr ((), d'))"
| "exec_record now (End_record q) d = let_ok (end_record q now d) (\<lambda>(_, d'). Inr ((), d'))"
| "exec_record now (Begin_process q) d = let_ok (begin_process q now d) (\<lambda>(_, d'). Inr ((), d'))"
| "exec_record now (End_process q) d = let_ok (end_process q now d) (\<lambda>(_, d'). Inr ((), d'))"

inductive record_step :: "db \<Rightarrow> db \<Rightarrow> bool" where
  "exec_record now x d = Inr (u, d') \<Longrightarrow> record_step d d'"

inductive record_steps :: "db \<Rightarrow> db \<Rightarrow> bool" where
  stay: "record_steps d d"
| next_step: "record_steps d d' \<Longrightarrow> record_step d' d'' \<Longrightarrow> record_steps d d''"

inductive_cases record_stepE: "record_step d d'"

section \<open>Lemmas\<close>

text \<open>At most one open record of each type in a schedule.\<close>

definition one_open_record :: "db \<Rightarrow> bool" where
  "one_open_record d \<longleftrightarrow>
     table_ok (records d) \<and> unique_on record_is_open (\<lambda>r. (wr_schedule_id r, wr_type r)) (records d)"

lemma open_records_le_1: "one_open_record d \<Longrightarrow> length (open_records sid ty d) \<le> 1"
  unfolding open_records_def one_open_record_def
  by (intro tsel_unique [where q = record_is_open and key = "\<lambda>r. (wr_schedule_id r, wr_type r)"
        and k = "(sid, ty)"]) (auto simp: record_is_open_def)

lemma find_open_record_eq:
  assumes "one_open_record d"
  shows "find_open_record sid ty d = Inr (first_row (open_records sid ty d))"
proof (cases "open_records sid ty d")
  case Nil
  then show ?thesis by (simp add: find_open_record_def order_by_desc_def first_row_def)
next
  case (Cons x xs)
  with open_records_le_1 [OF assms, of sid ty] have "open_records sid ty d = [x]" by simp
  then show ?thesis by (simp add: find_open_record_def order_by_desc_def first_row_def)
qed

lemma find_open_record_None:
  "find_open_record sid ty d = Inr None \<longleftrightarrow> open_records sid ty d = []"
  by (metis find_open_record_def scalar_None length_0_conv length_order_by(2))

lemma find_open_record_Some:
  assumes "find_open_record sid ty d = Inr (Some (i, r))"
  shows "(i, r) \<in> set (rows (records d))" "wr_schedule_id r = sid" "wr_type r = ty" "wr_end_at r = None"
proof -
  have "set (open_records sid ty d) = {(i, r)}"
    using scalar_Some [OF assms [unfolded find_open_record_def]] set_order_by(2)
    by (metis list.set(1) list.simps(15))
  then have "(i, r) \<in> set (open_records sid ty d)" by simp
  then show "(i, r) \<in> set (rows (records d))" "wr_schedule_id r = sid" "wr_type r = ty"
    "wr_end_at r = None"
    by (simp_all add: open_records_def tsel_iff)
qed

lemma begin_record_effect:
  assumes "begin_record q now d = Inr (resp, d')"
  shows "\<exists>r. d' = d\<lparr>records := tins r (records d)\<rparr> \<and> wr_schedule_id r = rs_schedule_id q
     \<and> wr_type r = rs_type q \<and> wr_end_at r = None
     \<and> wr_start_at r = (case rs_at q of None \<Rightarrow> now | Some t \<Rightarrow> t)
     \<and> resp = to_record (next_id (records d)) r
     \<and> tget (schedules d) (rs_schedule_id q) \<noteq> None
     \<and> open_records (rs_schedule_id q) (rs_type q) d = []"
proof -
  from assms obtain f where s: "tget (schedules d) (rs_schedule_id q) \<noteq> None"
    and f: "find_open_record (rs_schedule_id q) (rs_type q) d = Inr f"
    by (auto simp: begin_record_def schedule_or_throw_def flow)
  with assms have "f = None" by (cases f) (auto simp: begin_record_def schedule_or_throw_def flow)
  with f have "find_open_record (rs_schedule_id q) (rs_type q) d = Inr None"
    and none: "open_records (rs_schedule_id q) (rs_type q) d = []"
    by (simp_all add: find_open_record_None)
  with s assms show ?thesis
    by (auto simp: begin_record_def schedule_or_throw_def Let_def)
qed

lemma end_record_effect:
  assumes "end_record q now d = Inr (resp, d')"
  shows "\<exists>i r at. find_open_record (re_schedule_id q) (re_type q) d = Inr (Some (i, r))
     \<and> at = (case re_at q of None \<Rightarrow> now | Some t \<Rightarrow> t)
     \<and> records d' = tupd i (r\<lparr>wr_end_at := Some at\<rparr>) (records d)
     \<and> process_records d' = process_records d
     \<and> resp = to_record i (r\<lparr>wr_end_at := Some at\<rparr>)
     \<and> schedules d' = (if re_type q = OFF then
          (case tget (schedules d) (wr_schedule_id r) of
             None \<Rightarrow> schedules d
           | Some s \<Rightarrow> tupd (wr_schedule_id r) (s\<lparr>ws_end_at := Some at\<rparr>) (schedules d))
        else schedules d)"
proof -
  from assms obtain i r where
    f: "find_open_record (re_schedule_id q) (re_type q) d = Inr (Some (i, r))"
    by (auto simp: end_record_def flow)
  show ?thesis
    by (rule exI [of _ i], rule exI [of _ r], rule exI [of _ "case re_at q of None \<Rightarrow> now | Some t \<Rightarrow> t"])
       (use assms f in \<open>simp add: end_record_def Let_def split: option.splits if_splits\<close>, auto)
qed

lemma begin_process_effect:
  "begin_process q now d = Inr (resp, d') \<Longrightarrow>
   \<exists>r. d' = d\<lparr>process_records := tins r (process_records d)\<rparr>"
  by (auto simp: begin_process_def schedule_or_throw_def Let_def flow)

lemma end_process_effect:
  "end_process q now d = Inr (resp, d') \<Longrightarrow>
   \<exists>i r r'. open_processes (pe_schedule_id q) (pe_process_id q) d = [(i, r)]
     \<and> d' = d\<lparr>process_records := tupd i r' (process_records d)\<rparr>
     \<and> wp_schedule_id r' = wp_schedule_id r \<and> wp_process_id r' = wp_process_id r"
  by (force simp: end_process_def Let_def flow dest!: scalar_Some)

lemma one_open_begin:
  assumes "one_open_record d" and "begin_record q now d = Inr (resp, d')"
  shows "one_open_record d'"
proof -
  from begin_record_effect [OF assms(2)] obtain r where
    d': "d' = d\<lparr>records := tins r (records d)\<rparr>"
    and r: "wr_schedule_id r = rs_schedule_id q" "wr_type r = rs_type q"
    and none: "open_records (rs_schedule_id q) (rs_type q) d = []" by auto
  have "unique_on record_is_open (\<lambda>r. (wr_schedule_id r, wr_type r)) (tins r (records d))"
  proof (rule unique_on_tins)
    show "unique_on record_is_open (\<lambda>r. (wr_schedule_id r, wr_type r)) (records d)"
      using assms(1) by (simp add: one_open_record_def)
    fix i s assume "(i, s) \<in> set (rows (records d))" "record_is_open s" "record_is_open r"
    with none r show "(wr_schedule_id s, wr_type s) \<noteq> (wr_schedule_id r, wr_type r)"
      by (auto simp: open_records_def tsel_empty_iff record_is_open_def)
  qed
  then show ?thesis using assms(1) d' by (simp add: one_open_record_def)
qed

lemma one_open_end:
  assumes "one_open_record d" and "end_record q now d = Inr (resp, d')"
  shows "one_open_record d'"
proof -
  from end_record_effect [OF assms(2)] obtain i r at where
    f: "find_open_record (re_schedule_id q) (re_type q) d = Inr (Some (i, r))"
    and d': "records d' = tupd i (r\<lparr>wr_end_at := Some at\<rparr>) (records d)" by blast
  have "unique_on record_is_open (\<lambda>r. (wr_schedule_id r, wr_type r)) (records d')"
    unfolding d' using assms(1) find_open_record_Some [OF f]
    by (intro unique_on_tupd_same [where r = r]) (simp_all add: one_open_record_def record_is_open_def)
  then show ?thesis using assms(1) d' by (simp add: one_open_record_def)
qed

lemma one_open_step: "record_step d d' \<Longrightarrow> one_open_record d \<Longrightarrow> one_open_record d'"
proof (elim record_stepE)
  fix now x u assume "exec_record now x d = Inr (u, d')" and o: "one_open_record d"
  then show "one_open_record d'"
    by (cases x)
       (auto simp: flow dest: one_open_begin [OF o] one_open_end [OF o] begin_process_effect end_process_effect,
        auto simp: one_open_record_def dest!: begin_process_effect end_process_effect)
qed

lemma one_open_steps: "record_steps d d' \<Longrightarrow> one_open_record d \<Longrightarrow> one_open_record d'"
  by (induction rule: record_steps.induct) (auto intro: one_open_step)

lemma begin_record_eq:
  assumes "one_open_record d"
  shows "begin_record q now d =
    (if tget (schedules d) (rs_schedule_id q) = None then Inl (err WORK_SCHEDULE_NOT_FOUND)
     else case first_row (open_records (rs_schedule_id q) (rs_type q) d) of
        Some (i, _) \<Rightarrow> Inl (business WORK_RECORD_OUT_OF_RANGE (Some (Open_record_exists i)))
      | None \<Rightarrow> (let r = \<lparr>wr_schedule_id = rs_schedule_id q, wr_type = rs_type q,
                      wr_start_at = (case rs_at q of None \<Rightarrow> now | Some t \<Rightarrow> t), wr_end_at = None\<rparr>
             in Inr (to_record (next_id (records d)) r, d\<lparr>records := tins r (records d)\<rparr>)))"
  by (auto simp: begin_record_def schedule_or_throw_def find_open_record_eq [OF assms] some_or_def
      split: option.splits)

lemma open_after_begin:
  assumes "begin_record q now d = Inr (resp, d')"
  shows "\<exists>r. open_records (rs_schedule_id q) (rs_type q) d' = [(rr_id resp, r)]
    \<and> resp = to_record (rr_id resp) r \<and> rr_id resp = next_id (records d) \<and> wr_schedule_id r = rs_schedule_id q"
  using begin_record_effect [OF assms]
  by (auto simp: open_records_def tsel_tins to_record_def)

lemma end_record_eq:
  assumes "one_open_record d"
  shows "end_record q now d =
    (case first_row (open_records (re_schedule_id q) (re_type q) d) of
       None \<Rightarrow> Inl (err WORK_RECORD_NOT_FOUND)
     | Some (i, r) \<Rightarrow>
        (let at = (case re_at q of None \<Rightarrow> now | Some t \<Rightarrow> t);
          r' = r\<lparr>wr_end_at := Some at\<rparr>;
          d1 = d\<lparr>records := tupd i r' (records d)\<rparr>;
          d2 = (if re_type q = OFF
                then (case tget (schedules d1) (wr_schedule_id r) of
                        None \<Rightarrow> d1
                      | Some s \<Rightarrow> d1\<lparr>schedules := tupd (wr_schedule_id r) (s\<lparr>ws_end_at := Some at\<rparr>)
                                                  (schedules d1)\<rparr>)
                else d1)
         in Inr (to_record i r', d2)))"
  unfolding end_record_def find_open_record_eq [OF assms] let_ok_simps
  by (cases "first_row (open_records (re_schedule_id q) (re_type q) d)") simp_all

lemma open_records_row:
  "open_records sid ty d = [(i, r)] \<Longrightarrow> (i, r) \<in> set (rows (records d)) \<and> wr_schedule_id r = sid \<and> wr_type r = ty"
  using list.set_intros(1) [of "(i, r)" "[]"] by (metis (mono_tags, lifting) open_records_def tsel_iff)

lemma open_records_close:
  assumes "table_ok (records d)" and "open_records sid ty d = [(i, r)]"
    and "records d' = tupd i (r\<lparr>wr_end_at := Some at\<rparr>) (records d)"
  shows "open_records sid ty d' = []"
proof -
  have "(j, s) \<in> set (rows (records d')) \<Longrightarrow> \<not> (wr_schedule_id s = sid \<and> wr_type s = ty \<and> wr_end_at s = None)" for j s
  proof
    assume "(j, s) \<in> set (rows (records d'))" and s: "wr_schedule_id s = sid \<and> wr_type s = ty \<and> wr_end_at s = None"
    then have "j \<noteq> i \<and> (j, s) \<in> set (rows (records d))" using rows_tupd unfolding assms(3) by fastforce
    with s have "(j, s) \<in> set (open_records sid ty d)" "j \<noteq> i" by (simp_all add: open_records_def tsel_iff)
    with assms(2) show False by simp
  qed
  then show ?thesis by (auto simp: open_records_def tsel_empty_iff)
qed

text \<open>Two open process records of one process block its end for good.\<close>

definition process_blocked :: "int \<Rightarrow> int \<Rightarrow> db \<Rightarrow> bool" where
  "process_blocked sid pid d \<longleftrightarrow> table_ok (process_records d) \<and> 2 \<le> length (open_processes sid pid d)"

lemma blocked_end: "process_blocked (pe_schedule_id q) (pe_process_id q) d \<Longrightarrow> end_process q now d = Inl MultipleResultsFound"
  by (cases "open_processes (pe_schedule_id q) (pe_process_id q) d" rule: scalar_one_or_none.cases)
     (simp_all add: process_blocked_def end_process_def)

lemma blocked_end_other:
  assumes b: "process_blocked sid pid d" and e: "end_process q now d = Inr (resp, d')"
  shows "process_blocked sid pid d'"
proof -
  from end_process_effect [OF e] obtain i r r' where
    o: "open_processes (pe_schedule_id q) (pe_process_id q) d = [(i, r)]"
    and d': "d' = d\<lparr>process_records := tupd i r' (process_records d)\<rparr>"
    and same: "wp_schedule_id r' = wp_schedule_id r" "wp_process_id r' = wp_process_id r" by blast
  have t: "table_ok (process_records d)" using b by (simp add: process_blocked_def)
  have "(i, r) \<in> set (open_processes (pe_schedule_id q) (pe_process_id q) d)" using o by simp
  then have r: "(i, r) \<in> set (rows (process_records d))" "wp_schedule_id r = pe_schedule_id q"
    "wp_process_id r = pe_process_id q" by (simp_all add: open_processes_def tsel_iff)
  have "(pe_schedule_id q, pe_process_id q) \<noteq> (sid, pid)"
    using b o by (auto simp: process_blocked_def)
  moreover have "s = r" if "(i, s) \<in> set (rows (process_records d))" for s
    using table_row_unique [OF t _ that] r(1) by (simp add: tget_iff [OF t])
  ultimately have "open_processes sid pid d' =
      map (\<lambda>(k, x). if k = i then (k, r') else (k, x)) (open_processes sid pid d)"
    unfolding open_processes_def d' using same r(2,3) by (simp, intro tsel_tupd) auto
  then show ?thesis using b by (simp add: process_blocked_def d')
qed

lemma blocked_step: "record_step d d' \<Longrightarrow> process_blocked sid pid d \<Longrightarrow> process_blocked sid pid d'"
proof (elim record_stepE)
  fix now x u assume e: "exec_record now x d = Inr (u, d')" and b: "process_blocked sid pid d"
  show "process_blocked sid pid d'"
  proof (cases x)
    case (Begin_record q)
    with e obtain resp where "begin_record q now d = Inr (resp, d')" by (auto simp: flow)
    from begin_record_effect [OF this] b show ?thesis by (auto simp: process_blocked_def open_processes_def)
  next
    case (End_record q)
    with e obtain resp where "end_record q now d = Inr (resp, d')" by (auto simp: flow)
    from end_record_effect [OF this] b show ?thesis by (auto simp: process_blocked_def open_processes_def)
  next
    case (Begin_process q)
    with e obtain resp where "begin_process q now d = Inr (resp, d')" by (auto simp: flow)
    from begin_process_effect [OF this] b show ?thesis
      by (auto simp: process_blocked_def open_processes_def tsel_tins)
  next
    case (End_process q)
    with e obtain resp where "end_process q now d = Inr (resp, d')" by (auto simp: flow)
    with b show ?thesis by (rule blocked_end_other)
  qed
qed

lemma one_open_no_multiple:
  "one_open_record d \<Longrightarrow> begin_record q now d \<noteq> Inl MultipleResultsFound \<and> end_record q' now d \<noteq> Inl MultipleResultsFound"
  by (auto simp: begin_record_eq end_record_eq business_def Let_def split: option.splits if_splits)

section \<open>Properties\<close>

text \<open>Starting from records with at most one open record per schedule and type, no sequence of
  begins and ends breaks that, so neither a begin nor an end ever fails on several open records.\<close>

lemma one_open_record_invariant:
  assumes "one_open_record start" and "record_steps start d"
  shows "one_open_record d \<and> begin_record q now d \<noteq> Inl MultipleResultsFound
    \<and> end_record q' now d \<noteq> Inl MultipleResultsFound"
  using one_open_steps one_open_no_multiple assms by blast

lemma sample_one_open: "one_open_record sample_db"
  by (simp add: one_open_record_def sample_db_def empty_db_def)

definition sample_start :: "work_record_type \<Rightarrow> record_start_request" where
  "sample_start ty = \<lparr>rs_schedule_id = 1, rs_type = ty, rs_at = None\<rparr>"

lemma sample_begin_returns: "\<not> isl (begin_record (sample_start OFF) 100 sample_db)"
  by code_simp

lemma one_open_record_invariant_witness:
  "\<exists>d. records d \<noteq> records sample_db \<and> one_open_record d"
proof -
  obtain resp d where b: "begin_record (sample_start OFF) 100 sample_db = Inr (resp, d)"
    using returned [OF sample_begin_returns] by blast
  then have "exec_record 100 (Begin_record (sample_start OFF)) sample_db = Inr ((), d)" by simp
  then have "record_steps sample_db d"
    using record_step.intros record_steps.intros by blast
  moreover have "records d \<noteq> records sample_db"
    using begin_record_effect [OF b] by (auto simp: tins_def sample_db_def empty_db_def empty_table_def)
  ultimately show ?thesis using one_open_record_invariant [OF sample_one_open] by blast
qed

text \<open>C15: a begin opens a record under a new key, at the requested time or else at the time of the
  request; a second begin of the same type is refused with the key of the open record;
  the end, at the requested time or else at the time of the request, closes that very record with its start
  kept and touches no other record; it closes the schedule at the same time when the type is OFF and changes no
  schedule otherwise; and then a new begin of the type succeeds again.\<close>

theorem record_lifecycle:
  assumes o: "one_open_record d" and b: "begin_record q now d = Inr (resp, d1)"
    and e: "f = \<lparr>re_schedule_id = rs_schedule_id q, re_type = rs_type q, re_at = req_at\<rparr>"
    and at: "at = (case req_at of None \<Rightarrow> now2 | Some t \<Rightarrow> t)"
  shows "resp = \<lparr>rr_id = next_id (records d), rr_schedule_id = rs_schedule_id q, rr_type = rs_type q,
        rr_start_at = (case rs_at q of None \<Rightarrow> now | Some t \<Rightarrow> t), rr_end_at = None\<rparr>
    \<and> begin_record q now1 d1 =
           Inl (Business WORK_RECORD_OUT_OF_RANGE (Open_record_exists (rr_id resp)))
    \<and> (\<exists>d2. end_record f now2 d1 = Inr (resp\<lparr>rr_end_at := Some at\<rparr>, d2)
        \<and> (\<forall>k. tget (records d2) k = (if k = rr_id resp
              then Some \<lparr>wr_schedule_id = rs_schedule_id q, wr_type = rs_type q,
                wr_start_at = (case rs_at q of None \<Rightarrow> now | Some t \<Rightarrow> t), wr_end_at = Some at\<rparr>
              else tget (records d) k))
        \<and> (\<forall>k. tget (schedules d2) k = (if rs_type q = OFF \<and> k = rs_schedule_id q
              then map_option (\<lambda>s. s\<lparr>ws_end_at := Some at\<rparr>) (tget (schedules d) k) else tget (schedules d) k))
        \<and> \<not> isl (begin_record q now3 d2))"
proof -
  have o1: "one_open_record d1" by (rule one_open_begin [OF o b])
  have t: "table_ok (records d)" using o by (simp add: one_open_record_def)
  from begin_record_effect [OF b] obtain r where
    d1: "d1 = d\<lparr>records := tins r (records d)\<rparr>" and resp: "resp = to_record (next_id (records d)) r"
    and sid: "wr_schedule_id r = rs_schedule_id q" "wr_type r = rs_type q"
    and rest: "wr_start_at r = (case rs_at q of None \<Rightarrow> now | Some t \<Rightarrow> t)" "wr_end_at r = None"
    and s: "tget (schedules d) (rs_schedule_id q) \<noteq> None"
    and none: "open_records (rs_schedule_id q) (rs_type q) d = []" by blast
  have id: "rr_id resp = next_id (records d)" by (simp add: resp to_record_def)
  have r: "open_records (rs_schedule_id q) (rs_type q) d1 = [(rr_id resp, r)]"
    using none sid rest by (simp add: d1 open_records_def tsel_tins id)
  from s obtain sch where sch: "tget (schedules d) (rs_schedule_id q) = Some sch" by auto
  then have sch1: "tget (schedules d1) (rs_schedule_id q) = Some sch" by (simp add: d1)
  have refused: "begin_record q now1 d1 = Inl (Business WORK_RECORD_OUT_OF_RANGE (Open_record_exists (rr_id resp)))"
    using sch1 r by (simp add: begin_record_eq [OF o1] first_row_def business_def)
  obtain d2 where d2: "end_record f now2 d1 = Inr (to_record (rr_id resp) (r\<lparr>wr_end_at := Some at\<rparr>), d2)"
    and rec: "records d2 = tupd (rr_id resp) (r\<lparr>wr_end_at := Some at\<rparr>) (records d1)"
    and sc2: "schedules d2 = (if rs_type q = OFF
        then tupd (rs_schedule_id q) (sch\<lparr>ws_end_at := Some at\<rparr>) (schedules d1) else schedules d1)"
    using r sch1 sid by (simp add: end_record_eq [OF o1] e at first_row_def Let_def)
  have ended: "end_record f now2 d1 = Inr (resp\<lparr>rr_end_at := Some at\<rparr>, d2)"
    using d2 by (simp add: resp to_record_def)
  have "open_records (rs_schedule_id q) (rs_type q) d2 = []"
    using o1 by (intro open_records_close [OF _ r(1) rec]) (simp add: one_open_record_def)
  then have "\<not> isl (begin_record q now3 d2)"
    using one_open_end [OF o1 d2] sch
    by (simp add: begin_record_eq sc2 first_row_def tget_tupd Let_def d1)
  moreover have "tget (records d2) k = (if k = rr_id resp
      then Some \<lparr>wr_schedule_id = rs_schedule_id q, wr_type = rs_type q,
        wr_start_at = (case rs_at q of None \<Rightarrow> now | Some t \<Rightarrow> t), wr_end_at = Some at\<rparr>
      else tget (records d) k)" for k
    using sid rest by (cases r) (simp add: rec d1 id tget_tupd tget_tins [OF t])
  moreover have "tget (schedules d2) k = (if rs_type q = OFF \<and> k = rs_schedule_id q
      then map_option (\<lambda>s. s\<lparr>ws_end_at := Some at\<rparr>) (tget (schedules d) k) else tget (schedules d) k)" for k
    using sch by (simp add: sc2 tget_tupd d1)
  moreover have "resp = \<lparr>rr_id = next_id (records d), rr_schedule_id = rs_schedule_id q, rr_type = rs_type q,
      rr_start_at = (case rs_at q of None \<Rightarrow> now | Some t \<Rightarrow> t), rr_end_at = None\<rparr>"
    using sid rest by (simp add: resp to_record_def)
  ultimately show ?thesis using refused ended by blast
qed

theorem record_lifecycle_witness:
  "\<exists>resp d1. begin_record (sample_start OFF) 100 sample_db = Inr (resp, d1)
    \<and> (\<exists>d2. map_option ws_end_at (tget (schedules d2) 1) = Some (Some 200)
         \<and> end_record \<lparr>re_schedule_id = 1, re_type = OFF, re_at = None\<rparr> 200 d1
             = Inr (resp\<lparr>rr_end_at := Some 200\<rparr>, d2))"
proof -
  obtain resp d where b: "begin_record (sample_start OFF) 100 sample_db = Inr (resp, d)"
    using returned [OF sample_begin_returns] by blast
  have "tget (schedules sample_db) 1 \<noteq> None" using begin_record_effect [OF b] by (auto simp: sample_start_def)
  with record_lifecycle [OF sample_one_open b refl refl, of 150 None 200 300] b show ?thesis
    by (auto simp: sample_start_def)
qed

text \<open>A begin of a process looks at the schedule and the process only, not at the records of the process: a
  second begin succeeds as well, and leaves two open records.\<close>

lemma begin_process_eq:
  assumes "tget (schedules d) (ps_schedule_id q) \<noteq> None" and "tget (processes d) (ps_process_id q) \<noteq> None"
  shows "\<exists>resp r. begin_process q now d = Inr (resp, d\<lparr>process_records := tins r (process_records d)\<rparr>)
     \<and> wp_schedule_id r = ps_schedule_id q \<and> wp_process_id r = ps_process_id q \<and> wp_end_at r = None"
  using assms by (clarsimp simp: begin_process_def schedule_or_throw_def Let_def) (rule exI, intro conjI, rule refl, simp_all)

lemma begin_process_twice:
  assumes t: "table_ok (process_records d)"
    and s: "tget (schedules d) (ps_schedule_id q) \<noteq> None" and p: "tget (processes d) (ps_process_id q) \<noteq> None"
    and same: "ps_schedule_id q2 = ps_schedule_id q" "ps_process_id q2 = ps_process_id q"
  shows "\<exists>r1 d1 r2 d2. begin_process q now d = Inr (r1, d1) \<and> begin_process q2 now2 d1 = Inr (r2, d2)
     \<and> process_blocked (ps_schedule_id q) (ps_process_id q) d2"
proof -
  from begin_process_eq [OF s p] obtain r1 x where
    b1: "begin_process q now d = Inr (r1, d\<lparr>process_records := tins x (process_records d)\<rparr>)" (is "_ = Inr (_, ?d1)")
    and x: "wp_schedule_id x = ps_schedule_id q" "wp_process_id x = ps_process_id q" "wp_end_at x = None" by blast
  have "tget (schedules ?d1) (ps_schedule_id q2) \<noteq> None" "tget (processes ?d1) (ps_process_id q2) \<noteq> None"
    using s p same by simp_all
  from begin_process_eq [OF this] obtain r2 y where
    b2: "begin_process q2 now2 ?d1 = Inr (r2, ?d1\<lparr>process_records := tins y (process_records ?d1)\<rparr>)"
    and y: "wp_schedule_id y = ps_schedule_id q2" "wp_process_id y = ps_process_id q2" "wp_end_at y = None" by blast
  have "process_blocked (ps_schedule_id q) (ps_process_id q) (?d1\<lparr>process_records := tins y (process_records ?d1)\<rparr>)"
    using t x y same by (simp add: process_blocked_def open_processes_def tsel_tins)
  then show ?thesis using b1 b2 by blast
qed

definition sample_process_start :: process_start_request where
  "sample_process_start = \<lparr>ps_schedule_id = 1, ps_process_id = 1, ps_type = None, ps_at = None, ps_condition = None,
     ps_answer = None, ps_voice_path = None, ps_process = None\<rparr>"

definition sample_process_end :: process_end_request where
  "sample_process_end = \<lparr>pe_schedule_id = 1, pe_process_id = 1, pe_at = None, pe_condition = None,
     pe_answer = None, pe_voice_path = None, pe_process = None\<rparr>"

end
