(* ===== verification/Schedules.thy ===== *)
theory Schedules
  imports Tenant Sample
begin

text \<open>
  Work schedules: app/services/schedule.py, its DTOs (app/schemas/schedule.py) and endpoints
  (app/api/v1/schedules.py).  The charger named by a request is not looked up by the service; the
  foreign key refuses an unknown one at the flush.
\<close>

section \<open>Requests and responses\<close>

record create_schedule_request =
  cs_job_worker_id :: int
  cs_charger_id :: "int option"
  cs_start_at :: datetime
  cs_end_at :: "datetime option"
  cs_make_doc :: "bool option"

record batch_make_request =
  bm_standard_id :: int
  bm_date :: date
  bm_charger_id :: "int option"
  bm_job_worker_ids :: "int list"

record schedule_response =
  sp_id :: int
  sp_job_worker_id :: int
  sp_standard_id :: int
  sp_standard_name :: "string option"
  sp_charger_id :: "int option"
  sp_start_at :: datetime
  sp_end_at :: "datetime option"
  sp_make_doc :: bool
  sp_doc_path :: "string option"

definition to_schedule_response :: "int \<Rightarrow> work_schedule \<Rightarrow> job_standard option \<Rightarrow> schedule_response" where
  "to_schedule_response i s std =
     \<lparr>sp_id = i, sp_job_worker_id = ws_job_worker_id s, sp_standard_id = ws_standard_id s,
      sp_standard_name = map_option js_name std, sp_charger_id = ws_charger_id s,
      sp_start_at = ws_start_at s, sp_end_at = ws_end_at s, sp_make_doc = ws_make_doc s,
      sp_doc_path = ws_doc_path s\<rparr>"

definition schedule_to_response :: "int \<Rightarrow> work_schedule \<Rightarrow> db \<Rightarrow> schedule_response" where
  "schedule_to_response i s d = to_schedule_response i s (tget (standards d) (ws_standard_id s))"

section \<open>Readers\<close>

definition schedule_get_or_throw :: "int \<Rightarrow> db \<Rightarrow> exn + work_schedule" where
  "schedule_get_or_throw i d = some_or (tget (schedules d) i) (err WORK_SCHEDULE_NOT_FOUND) Inr"

definition get_schedule :: "int \<Rightarrow> db \<Rightarrow> exn + schedule_response" where
  "get_schedule i d = let_ok (schedule_get_or_throw i d) (\<lambda>s. Inr (schedule_to_response i s d))"

type_synonym schedule_row = "int \<times> work_schedule \<times> job_standard"

text \<open>Schedules joined with their standard.\<close>

definition schedule_rows :: "(work_schedule \<Rightarrow> bool) \<Rightarrow> db \<Rightarrow> schedule_row list" where
  "schedule_rows p d =
     List.map_filter (\<lambda>(i, s). map_option (\<lambda>std. (i, s, std)) (tget (standards d) (ws_standard_id s)))
       (tsel (\<lambda>_ s. p s) (schedules d))"

fun schedule_row_response :: "schedule_row \<Rightarrow> schedule_response" where
  "schedule_row_response (i, s, std) = to_schedule_response i s (Some std)"

abbreviation row_start :: "schedule_row \<Rightarrow> datetime" where
  "row_start r \<equiv> ws_start_at (fst (snd r))"

definition list_all_schedules :: "page_params \<Rightarrow> db \<Rightarrow> schedule_response page" where
  "list_all_schedules params d =
     paged schedule_row_response params (order_by_desc row_start (schedule_rows (\<lambda>_. True) d))"

definition max_date_span_days :: int where "max_date_span_days = 31"

text \<open>The bounds of a date range: from the first midnight to before the last microsecond.\<close>

definition in_date_range :: "date \<Rightarrow> date \<Rightarrow> datetime \<Rightarrow> bool" where
  "in_date_range from until t \<longleftrightarrow> day_start from \<le> t \<and> t < day_end until"

definition list_for_job_worker :: "int \<Rightarrow> date \<Rightarrow> date \<Rightarrow> db \<Rightarrow> exn + schedule_response list" where
  "list_for_job_worker jw from until d =
     raise_if (max_date_span_days < until - from)
       (business INVALID_INPUT (Some (Date_range_exceeds max_date_span_days)))
     (Inr (map schedule_row_response
       (order_by row_start
         (schedule_rows (\<lambda>s. ws_job_worker_id s = jw \<and> in_date_range from until (ws_start_at s)) d))))"

definition list_for_standard ::
    "int \<Rightarrow> date \<Rightarrow> date \<Rightarrow> page_params \<Rightarrow> db \<Rightarrow> exn + schedule_response page" where
  "list_for_standard std from until params d =
     raise_if (max_date_span_days < until - from)
       (business INVALID_INPUT (Some (Date_range_exceeds max_date_span_days)))
     (Inr (paged schedule_row_response params
       (order_by row_start
         (schedule_rows (\<lambda>s. ws_standard_id s = std \<and> in_date_range from until (ws_start_at s)) d))))"

section \<open>Writers\<close>

text \<open>Adding a schedule: the foreign key of the charger is checked at the flush.\<close>

definition charger_known :: "int option \<Rightarrow> db \<Rightarrow> bool" where
  "charger_known c d = (case c of None \<Rightarrow> True | Some i \<Rightarrow> tget (chargers d) i \<noteq> None)"

definition create_schedule :: "create_schedule_request \<Rightarrow> db \<Rightarrow> exn + (schedule_response \<times> db)" where
  "create_schedule req d =
     some_or (tget (job_workers d) (cs_job_worker_id req)) (err JOB_WORKER_NOT_FOUND) (\<lambda>jw.
     raise_if (\<not> charger_known (cs_charger_id req) d) IntegrityError
     (let s = \<lparr>ws_job_worker_id = cs_job_worker_id req, ws_charger_id = cs_charger_id req,
               ws_standard_id = jw_standard_id jw, ws_start_at = cs_start_at req,
               ws_end_at = cs_end_at req, ws_doc_path = None,
               ws_make_doc = (cs_make_doc req = Some True)\<rparr>
      in Inr (schedule_to_response (next_id (schedules d)) s d,
              d\<lparr>schedules := tins s (schedules d)\<rparr>)))"

definition batch_row :: "batch_make_request \<Rightarrow> int \<Rightarrow> work_schedule" where
  "batch_row req jw_id =
     \<lparr>ws_job_worker_id = jw_id, ws_charger_id = bm_charger_id req, ws_standard_id = bm_standard_id req,
      ws_start_at = day_start (bm_date req), ws_end_at = None, ws_doc_path = None, ws_make_doc = False\<rparr>"

text \<open>The loop of \<open>batch_make\<close>: an unknown worker or one of another standard is skipped.\<close>

fun batch_rows :: "batch_make_request \<Rightarrow> int list \<Rightarrow> db \<Rightarrow> work_schedule list" where
  "batch_rows req [] d = []"
| "batch_rows req (i # is) d =
     (case tget (job_workers d) i of
        None \<Rightarrow> batch_rows req is d
      | Some jw \<Rightarrow> if jw_standard_id jw \<noteq> bm_standard_id req then batch_rows req is d
                   else batch_row req i # batch_rows req is d)"

definition insert_schedules :: "work_schedule list \<Rightarrow> work_schedule table \<Rightarrow> work_schedule table" where
  "insert_schedules ss t = fold tins ss t"

text \<open>The keys the rows get, in the order they are added.\<close>

fun number_from :: "int \<Rightarrow> 'a list \<Rightarrow> (int \<times> 'a) list" where
  "number_from n [] = []"
| "number_from n (x # xs) = (n, x) # number_from (n + 1) xs"

definition batch_make :: "batch_make_request \<Rightarrow> db \<Rightarrow> exn + (schedule_response list \<times> db)" where
  "batch_make req d =
     raise_if (tget (standards d) (bm_standard_id req) = None) (err JOB_STANDARD_NOT_FOUND)
     (let new = batch_rows req (bm_job_worker_ids req) d;
          d' = d\<lparr>schedules := insert_schedules new (schedules d)\<rparr>
      in raise_if (new \<noteq> [] \<and> \<not> charger_known (bm_charger_id req) d) IntegrityError
         (Inr (map (\<lambda>(k, s). schedule_to_response k s d') (number_from (next_id (schedules d)) new), d')))"

definition close_schedule :: "int \<Rightarrow> datetime option \<Rightarrow> datetime \<Rightarrow> db \<Rightarrow> exn + (schedule_response \<times> db)" where
  "close_schedule i end_at now d =
     let_ok (schedule_get_or_throw i d) (\<lambda>s.
     (let s' = s\<lparr>ws_end_at := Some (case end_at of None \<Rightarrow> now | Some t \<Rightarrow> t)\<rparr>
      in Inr (schedule_to_response i s' d, d\<lparr>schedules := tupd i s' (schedules d)\<rparr>)))"

section \<open>Endpoints\<close>

definition api_create_schedule :: "create_schedule_request \<Rightarrow> principal \<Rightarrow> db \<Rightarrow> exn + (schedule_response \<times> db)" where
  "api_create_schedule req me d = let_ok (require_admin_or_charger me) (\<lambda>_. create_schedule req d)"

definition api_batch_make :: "batch_make_request \<Rightarrow> principal \<Rightarrow> db \<Rightarrow> exn + (schedule_response list \<times> db)" where
  "api_batch_make req me d = let_ok (require_admin_or_charger me) (\<lambda>_. batch_make req d)"

text \<open>\<open>req.end_at if req else None\<close>: the body of a close is optional.\<close>

definition api_close_schedule ::
    "int \<Rightarrow> datetime option option \<Rightarrow> datetime \<Rightarrow> db \<Rightarrow> exn + (schedule_response \<times> db)" where
  "api_close_schedule i req now d =
     close_schedule i (case req of None \<Rightarrow> None | Some end_at \<Rightarrow> end_at) now d"

definition api_list_schedules :: "page_params \<Rightarrow> db \<Rightarrow> schedule_response page api_response" where
  "api_list_schedules params d = api_ok (Some (to_page_response (list_all_schedules params d)))"

definition api_list_by_job_standard ::
    "int \<Rightarrow> date \<Rightarrow> date \<Rightarrow> page_params \<Rightarrow> db \<Rightarrow> exn + schedule_response page" where
  "api_list_by_job_standard std from until params d =
     let_ok (list_for_standard std from until params d) (\<lambda>p. Inr (to_page_response p))"

section \<open>Lemmas\<close>

lemma map_snd_number_from [simp]: "map snd (number_from n xs) = xs"
  by (induction xs arbitrary: n) simp_all

lemma insert_schedules_rows:
  "rows (insert_schedules ss t) = rows t @ number_from (next_id t) ss"
proof (induction ss arbitrary: t)
  case (Cons s ss)
  from Cons [of "tins s t"] show ?case by (simp add: insert_schedules_def tins_def)
qed (simp add: insert_schedules_def)

lemma set_number_from: "(k, s) \<in> set (number_from n xs) \<Longrightarrow> s \<in> set xs"
  by (induction xs arbitrary: n) auto

lemma set_batch_rows:
  "s \<in> set (batch_rows req is d) \<longleftrightarrow>
   (\<exists>i \<in> set is. s = batch_row req i \<and> (\<exists>jw. tget (job_workers d) i = Some jw \<and> jw_standard_id jw = bm_standard_id req))"
  by (induction req "is" d rule: batch_rows.induct) (auto split: option.splits if_splits)

lemma batch_rows_filter:
  "batch_rows req is d =
   map (batch_row req) (filter (\<lambda>i. \<exists>jw. tget (job_workers d) i = Some jw \<and> jw_standard_id jw = bm_standard_id req) is)"
  by (induction req "is" d rule: batch_rows.induct) (auto split: option.splits if_splits)

text \<open>A schedule is for the standard of its job worker, and its worker and standard exist.\<close>

definition schedules_consistent :: "db \<Rightarrow> bool" where
  "schedules_consistent d \<longleftrightarrow> all_rows (\<lambda>_ s. \<exists>jw. tget (job_workers d) (ws_job_worker_id s) = Some jw
     \<and> jw_standard_id jw = ws_standard_id s) (schedules d)"

lemma consistent_create:
  "schedules_consistent d \<Longrightarrow> create_schedule req d = Inr (r, d') \<Longrightarrow> schedules_consistent d'"
  by (auto simp: schedules_consistent_def create_schedule_def Let_def flow)

lemma consistent_batch:
  assumes "schedules_consistent d" and "batch_make req d = Inr (r, d')"
  shows "schedules_consistent d'"
proof -
  from assms(2) have d': "d' = d\<lparr>schedules := insert_schedules (batch_rows req (bm_job_worker_ids req) d) (schedules d)\<rparr>"
    by (auto simp: batch_make_def Let_def flow)
  have "(i, s) \<in> set (rows (schedules d')) \<Longrightarrow> (i, s) \<in> set (rows (schedules d))
      \<or> s \<in> set (batch_rows req (bm_job_worker_ids req) d)" for i s
    by (auto simp: d' insert_schedules_rows dest: set_number_from)
  with assms(1) show ?thesis
    by (fastforce simp: schedules_consistent_def all_rows_def set_batch_rows batch_row_def d')
qed

lemma consistent_close:
  "schedules_consistent d \<Longrightarrow> close_schedule i e now d = Inr (r, d') \<Longrightarrow> schedules_consistent d'"
  by (auto simp: schedules_consistent_def close_schedule_def schedule_get_or_throw_def Let_def flow
      elim!: all_rows_change)

lemma in_date_range_iff:
  "in_date_range f t x \<longleftrightarrow> f \<le> date_of x \<and> date_of x \<le> t \<and> x \<noteq> day_end t"
proof -
  have b: "day_start (date_of x) \<le> x" "x \<le> day_end (date_of x)"
    using date_of_eq_iff [of x "date_of x"] by simp_all
  have lo: "day_start f \<le> x \<longleftrightarrow> f \<le> date_of x"
    using b by (auto simp: day_start_def day_end_def day_us_def)
  have hi: "x \<le> day_end t \<longleftrightarrow> date_of x \<le> t"
    using b by (auto simp: day_start_def day_end_def day_us_def)
  show ?thesis unfolding in_date_range_def lo less_le hi by auto
qed

lemma schedule_rows_in:
  "(i, s, std) \<in> set (schedule_rows p d) \<longleftrightarrow>
   (i, s) \<in> set (rows (schedules d)) \<and> p s \<and> tget (standards d) (ws_standard_id s) = Some std"
  unfolding schedule_rows_def set_map_filter
  by (auto simp: tsel_iff intro!: bexI [of _ "(i, s)"])

section \<open>Properties\<close>

text \<open>C30: a batch adds one schedule for every requested job worker of the standard, in the order of the
  request and under new keys, open and starting at midnight of the date, with the charger of the request, and
  keeps every other schedule under its key; the answer lists the new ones; afterwards every schedule
  still belongs to the standard of its job worker.\<close>

theorem batch_make_spec:
  assumes c: "schedules_consistent d" and b: "batch_make req d = Inr (resp, d')"
  shows "\<exists>new. new = map (\<lambda>i. \<lparr>ws_job_worker_id = i, ws_charger_id = bm_charger_id req,
          ws_standard_id = bm_standard_id req, ws_start_at = bm_date req * 86400000000, ws_end_at = None,
          ws_doc_path = None, ws_make_doc = False\<rparr>)
        (filter (\<lambda>i. \<exists>jw. tget (job_workers d) i = Some jw \<and> jw_standard_id jw = bm_standard_id req)
          (bm_job_worker_ids req))
    \<and> rows (schedules d') = rows (schedules d)
        @ map (\<lambda>k. (next_id (schedules d) + int k, new ! k)) [0..<length new]
    \<and> map sp_id resp = map (\<lambda>k. next_id (schedules d) + int k) [0..<length new]
    \<and> schedules_consistent d' \<and> d' = d\<lparr>schedules := schedules d'\<rparr>"
proof -
  let ?new = "batch_rows req (bm_job_worker_ids req) d"
  from b have d': "d' = d\<lparr>schedules := insert_schedules ?new (schedules d)\<rparr>"
    and resp: "resp = map (\<lambda>(k, s). schedule_to_response k s d') (number_from (next_id (schedules d)) ?new)"
    by (auto simp: batch_make_def Let_def flow)
  have n: "number_from (next_id (schedules d)) ?new = map (\<lambda>k. (next_id (schedules d) + int k, ?new ! k)) [0..<length ?new]"
    using rows_fold_tins [of ?new "schedules d"] insert_schedules_rows [of ?new "schedules d"]
    by (simp add: insert_schedules_def)
  have rows': "rows (schedules d') = rows (schedules d) @ map (\<lambda>k. (next_id (schedules d) + int k, ?new ! k)) [0..<length ?new]"
    by (simp add: d' insert_schedules_rows n)
  have ids: "map sp_id resp = map (\<lambda>k. next_id (schedules d) + int k) [0..<length ?new]"
    by (simp add: resp n schedule_to_response_def to_schedule_response_def comp_def)
  have new: "?new = map (\<lambda>i. \<lparr>ws_job_worker_id = i, ws_charger_id = bm_charger_id req,
          ws_standard_id = bm_standard_id req, ws_start_at = bm_date req * 86400000000, ws_end_at = None,
          ws_doc_path = None, ws_make_doc = False\<rparr>)
        (filter (\<lambda>i. \<exists>jw. tget (job_workers d) i = Some jw \<and> jw_standard_id jw = bm_standard_id req)
          (bm_job_worker_ids req))"
    by (simp add: batch_rows_filter batch_row_def day_start_def day_us_def)
  have frame: "d' = d\<lparr>schedules := schedules d'\<rparr>" by (simp add: d')
  show ?thesis by (intro exI conjI) (fact new rows' ids frame consistent_batch [OF c b])+
qed

definition sample_batch :: batch_make_request where
  "sample_batch = \<lparr>bm_standard_id = 1, bm_date = 7, bm_charger_id = Some 1, bm_job_worker_ids = [1, 9, 1]\<rparr>"

lemma sample_batch_returns: "\<not> isl (batch_make sample_batch sample_db)"
  by code_simp

theorem batch_make_spec_witness:
  "\<exists>resp d'. batch_make sample_batch sample_db = Inr (resp, d') \<and> schedules_consistent d'
     \<and> map sp_id resp = [2, 3]"
proof -
  obtain resp d' where b: "batch_make sample_batch sample_db = Inr (resp, d')"
    using returned [OF sample_batch_returns] by blast
  have "schedules_consistent sample_db"
    by (simp add: schedules_consistent_def all_rows_def sample_db_def sample_schedule_def tget_def)
  from batch_make_spec [OF this b] b show ?thesis
    by (auto simp: sample_batch_def sample_db_def tget_def)
qed

text \<open>C31: a job worker's list over a range of dates holds the schedules of that worker that start on a
  day of the range, in the order of their start, except one that starts in the very last microsecond;
  a range of more than 31 days is refused.\<close>

theorem list_for_job_worker_spec:
  assumes std: "\<And>i s. (i, s) \<in> set (rows (schedules d)) \<Longrightarrow> tget (standards d) (ws_standard_id s) \<noteq> None"
  shows "case list_for_job_worker jw f t d of
      Inl e \<Rightarrow> 31 < t - f \<and> e = Business INVALID_INPUT (Date_range_exceeds 31)
    | Inr rs \<Rightarrow> t - f \<le> 31 \<and> sorted (map sp_start_at rs) \<and> sp_id ` set rs =
        {i. \<exists>s. (i, s) \<in> set (rows (schedules d)) \<and> ws_job_worker_id s = jw
          \<and> f \<le> date_of (ws_start_at s) \<and> date_of (ws_start_at s) \<le> t \<and> ws_start_at s \<noteq> day_end t}"
proof -
  let ?q = "schedule_rows (\<lambda>s. ws_job_worker_id s = jw \<and> in_date_range f t (ws_start_at s)) d"
  have resp: "schedule_row_response r = to_schedule_response (fst r) (fst (snd r)) (Some (snd (snd r)))" for r
    by (cases r) simp
  have "sp_id ` schedule_row_response ` set ?q =
      {i. \<exists>s. (i, s) \<in> set (rows (schedules d)) \<and> ws_job_worker_id s = jw \<and> in_date_range f t (ws_start_at s)}"
  proof (rule set_eqI)
    fix i
    have "i \<in> sp_id ` schedule_row_response ` set ?q \<longleftrightarrow> (\<exists>s std. (i, s, std) \<in> set ?q)"
    proof -
      have "sp_id (schedule_row_response r) = fst r" for r by (simp add: resp to_schedule_response_def)
      then have "sp_id ` schedule_row_response ` set ?q = fst ` set ?q" by (simp add: image_image)
      moreover have "i \<in> fst ` Q \<longleftrightarrow> (\<exists>s std. (i, s, std) \<in> Q)" for Q :: "schedule_row set" by force
      ultimately show ?thesis by simp
    qed
    also have "\<dots> \<longleftrightarrow> (\<exists>s. (i, s) \<in> set (rows (schedules d)) \<and> ws_job_worker_id s = jw
        \<and> in_date_range f t (ws_start_at s))"
      unfolding schedule_rows_in using std by blast
    finally show "i \<in> sp_id ` schedule_row_response ` set ?q \<longleftrightarrow> i \<in> {i. \<exists>s. (i, s) \<in> set (rows (schedules d))
        \<and> ws_job_worker_id s = jw \<and> in_date_range f t (ws_start_at s)}" by simp
  qed
  moreover have "sorted (map sp_start_at (map schedule_row_response (order_by row_start ?q)))"
    using sorted_order_by [of row_start ?q] by (simp add: resp to_schedule_response_def comp_def)
  ultimately show ?thesis
    by (simp add: list_for_job_worker_def raise_if_def max_date_span_days_def business_def in_date_range_iff)
qed

theorem list_for_job_worker_spec_witness:
  "case list_for_job_worker 1 0 30 sample_db of
      Inl e \<Rightarrow> False
    | Inr rs \<Rightarrow> rs \<noteq> [] \<and> sp_id ` set rs =
        {i. \<exists>s. (i, s) \<in> set (rows (schedules sample_db)) \<and> ws_job_worker_id s = 1
          \<and> 0 \<le> date_of (ws_start_at s) \<and> date_of (ws_start_at s) \<le> 30 \<and> ws_start_at s \<noteq> day_end 30}"
proof -
  have std: "(i, s) \<in> set (rows (schedules sample_db)) \<Longrightarrow> tget (standards sample_db) (ws_standard_id s) \<noteq> None" for i s
    by (auto simp: sample_db_def sample_schedule_def tget_def)
  have "\<not> isl (list_for_job_worker 1 0 30 sample_db) \<and> projr (list_for_job_worker 1 0 30 sample_db) \<noteq> []"
    by (simp add: list_for_job_worker_def schedule_rows_def tsel_def in_date_range_def day_start_def day_end_def
        day_us_def max_date_span_days_def order_by_def List.map_filter_simps tget_def sample_db_def sample_schedule_def)
  then obtain rs where rs: "list_for_job_worker 1 0 30 sample_db = Inr rs" "rs \<noteq> []"
    by (cases "list_for_job_worker 1 0 30 sample_db") auto
  from list_for_job_worker_spec [OF std, where jw = 1 and f = 0 and t = 30] rs show ?thesis by simp
qed

end
