(* ===== verification/Integrity.thy ===== *)
theory Integrity
  imports Requests BulkMail Leaves Kiosks Workers Boards Users Documents Jobs Companies WorkRecords Schedules
begin

text \<open>
  What the writing operations of all services keep: the constraints of the schema (\<open>schema_ok\<close>) with the
  references from workers and caregivers to users, one lemma per operation, and the tables an operation
  does not touch.  The composition of the API rests on them.
\<close>

section \<open>The constraints\<close>

text \<open>A worker or caregiver refers to a user the sequence has given out: no later user takes its place.
  A leave stores the number of its days.\<close>

definition user_links :: "db \<Rightarrow> bool" where
  "user_links d \<longleftrightarrow> all_rows (\<lambda>_ w. w_user_id w < next_id (users d)) (workers d)
     \<and> all_rows (\<lambda>_ c. cg_user_id c < next_id (users d)) (caregivers d)"

definition db_ok :: "db \<Rightarrow> bool" where
  "db_ok d \<longleftrightarrow> schema_ok d \<and> user_links d \<and> leaves_inv (leaves d)"

lemmas db_ok_defs = db_ok_def schema_ok_def user_links_def

lemma all_rows_less: "all_rows (\<lambda>_ r. f r < n) t \<Longrightarrow> all_rows (\<lambda>_ r. f r \<le> (n::int)) t"
  by (fastforce simp: all_rows_def)

lemma unique_on_fresh:
  "unique_on q key t \<Longrightarrow> all_rows (\<lambda>_ r. key r < n) t \<Longrightarrow> key r = (n::int) \<Longrightarrow> unique_on q key (tins r t)"
  by (rule unique_on_tins) (auto simp: all_rows_def)

lemma users_ok_same:
  "users_ok t \<Longrightarrow> (i, u) \<in> set (rows t) \<Longrightarrow> u_username u' = u_username u \<Longrightarrow> users_ok (tupd i u' t)"
  by (auto simp: users_ok_def intro!: unique_on_tupd_same)

lemma workers_ok_same:
  "workers_ok t \<Longrightarrow> (i, w) \<in> set (rows t) \<Longrightarrow> w_user_id w' = w_user_id w \<Longrightarrow> workers_ok (tupd i w' t)"
  by (auto simp: workers_ok_def intro!: unique_on_tupd_same)

lemma mark_logged_in_username [simp]: "u_username (mark_logged_in at u) = u_username u"
  "u_username (set_password h u) = u_username u"
  "w_user_id (update_fcm_token tok w) = w_user_id w"
  by (simp_all add: mark_logged_in_def set_password_def update_fcm_token_def)

lemma all_rows_same_worker:
  "all_rows (\<lambda>_ w. w_user_id w < n) t \<Longrightarrow> (i, w) \<in> set (rows t) \<Longrightarrow> w_user_id w' = w_user_id w \<Longrightarrow>
   all_rows (\<lambda>_ w. w_user_id w < n) (tupd i w' t)"
  by (rule all_rows_tupd) (auto simp: all_rows_def)

lemma db_ok_users: "db_ok d \<Longrightarrow> (i, u) \<in> set (rows (users d)) \<Longrightarrow> u_username u' = u_username u \<Longrightarrow>
  db_ok (d\<lparr>users := tupd i u' (users d)\<rparr>)"
  by (simp add: db_ok_defs users_ok_same)

lemma db_ok_workers: "db_ok d \<Longrightarrow> (i, w) \<in> set (rows (workers d)) \<Longrightarrow> w_user_id w' = w_user_id w \<Longrightarrow>
  db_ok (d\<lparr>workers := tupd i w' (workers d)\<rparr>)"
  by (simp add: db_ok_defs workers_ok_same all_rows_same_worker)

lemma ok_sync_fcm: "db_ok d \<Longrightarrow> sync_fcm uid u tok d = Inr d' \<Longrightarrow> db_ok d' \<and> users d' = users d"
  by (auto simp: sync_fcm_def flow tsel_iff split: if_splits option.splits dest!: scalar_in intro!: db_ok_workers)

lemma ok_login:
  assumes "db_ok d" and "login s L q now at d st = (Inr (t, d'), st')"
  shows "db_ok d'"
proof -
  from login_success [OF assms(2)] obtain uid u where f: "fetch_by_username (lq_username q) d = Inr (Some (uid, u))"
    and w: "login_writes s uid u q at d = Inr d'" by blast
  from w obtain d1 where "db_ok d1" "users d1 = users d"
    "d' = d \<or> d' = d1\<lparr>users := tupd uid (mark_logged_in at u) (users d1)\<rparr>"
    using assms(1) by (auto simp: login_writes_def flow split: if_splits dest: ok_sync_fcm)
  then show ?thesis
    using assms(1) fetch_by_username_in [OF f] db_ok_users [of d1 uid u "mark_logged_in at u"] by auto
qed

lemma ok_refresh: "refresh s L token now d st = (Inr (t, d'), st') \<Longrightarrow> d' = d"
  by (auto simp: refresh_def Let_def split: sum.splits option.splits if_splits prod.splits)

lemma ok_change_password:
  "db_ok d \<Longrightarrow> change_password L uid cur new salt d st = (Inr (x, d'), st') \<Longrightarrow> db_ok d'"
  by (auto simp: change_password_def split: option.splits if_splits dest!: tget_in intro!: db_ok_users)

lemma ok_update_profile: "db_ok d \<Longrightarrow> update_profile uid q d = Inr (x, d') \<Longrightarrow> db_ok d'"
  by (auto simp: update_profile_def Let_def flow dest!: tget_in intro!: db_ok_users)

lemma ok_signup:
  assumes "db_ok d" and "signup_as_caregiver s L q salt now d st = (Inr (t, d'), st')"
  shows "db_ok d'"
proof -
  have "\<not> exists_username (sq_username q) d" and d': "d' = d\<lparr>users := tins (new_caregiver_user L q salt) (users d),
      caregivers := tins \<lparr>cg_user_id = next_id (users d)\<rparr> (caregivers d)\<rparr>"
    using assms(2) by (auto simp: signup_as_caregiver_def Let_def split: if_splits prod.splits)
  then have "users_ok (tins (new_caregiver_user L q salt) (users d))"
    using assms(1) by (auto simp: db_ok_defs users_ok_def exists_username_def new_caregiver_user_def first_row_None
        tsel_empty_iff intro!: unique_on_tins)
  moreover have "caregivers_ok (tins \<lparr>cg_user_id = next_id (users d)\<rparr> (caregivers d))"
    using assms(1) by (auto simp: db_ok_defs caregivers_ok_def intro!: unique_on_fresh)
  ultimately show ?thesis using assms(1) by (simp add: d' db_ok_defs all_rows_less)
qed

lemma ok_create_worker:
  assumes "db_ok d" and "create_worker L q salt d = Inr (r, d')"
  shows "db_ok d'"
proof -
  from create_worker_effect [OF assms(2)] obtain u where u: "u_username u = nw_username q"
      "\<forall>i x. (i, x) \<in> set (rows (users d)) \<longrightarrow> u_username x \<noteq> nw_username q"
    and d': "d' = d\<lparr>users := tins u (users d),
      workers := tins \<lparr>w_user_id = next_id (users d), w_fcm_token = None, w_retired_at = None\<rparr> (workers d)\<rparr>" by blast
  from assms(1) u have "users_ok (tins u (users d))"
    by (auto simp: db_ok_defs users_ok_def intro!: unique_on_tins)
  moreover have "workers_ok (tins \<lparr>w_user_id = next_id (users d), w_fcm_token = None, w_retired_at = None\<rparr> (workers d))"
    using assms(1) by (auto simp: db_ok_defs workers_ok_def intro!: unique_on_fresh)
  ultimately show ?thesis using assms(1) by (simp add: d' db_ok_defs all_rows_less)
qed

lemma ok_retire: "db_ok d \<Longrightarrow> retire_worker i now d = Inr (r, d') \<Longrightarrow> db_ok d'"
  by (auto dest!: retire_worker_effect tget_in intro!: db_ok_workers)

lemma ok_rehire: "db_ok d \<Longrightarrow> rehire_worker i d = Inr (r, d') \<Longrightarrow> db_ok d'"
  by (auto dest!: rehire_worker_effect tget_in intro!: db_ok_workers)

lemma ok_hire: "db_ok d \<Longrightarrow> hire_worker c w d = Inr (r, d') \<Longrightarrow> db_ok d'"
  by (auto simp: db_ok_defs company_workers_ok_def dest!: hire_worker_effect intro!: unique_on_tins)

lemma ok_fire: "db_ok d \<Longrightarrow> fire_worker i d = Inr (r, d') \<Longrightarrow> db_ok d'"
  by (auto simp: db_ok_defs company_workers_ok_def dest!: fire_worker_effect tget_in intro!: unique_on_tupd_same)

lemma ok_worker: "db_ok d \<Longrightarrow> exec_worker L p x d = Inr (r, d') \<Longrightarrow> db_ok d'"
  by (cases x) (auto simp: flow dest: ok_create_worker ok_retire ok_rehire ok_hire ok_fire)

lemma ok_company:
  "db_ok d \<Longrightarrow> api_create_company q p d = Inr (x, d') \<Longrightarrow> db_ok d'"
  "db_ok d \<Longrightarrow> api_update_company r i u p d c = Inr (y, d', c') \<Longrightarrow> db_ok d'"
  "db_ok d \<Longrightarrow> api_deactivate_company r i p d c = Inr (z, d', c') \<Longrightarrow> db_ok d'"
  by (auto simp: db_ok_defs api_create_company_def api_update_company_def api_deactivate_company_def flow
      dest!: create_company_effect update_company_effect deactivate_company_effect)

lemma ok_charger: "db_ok d \<Longrightarrow> api_update_charger p i q d = Inr (x, d') \<Longrightarrow> db_ok d'"
  by (auto simp: db_ok_defs api_update_charger_def chargers_ok_def flow dest!: set_hired_effect tget_in
      intro!: unique_on_tupd_same)

lemma ok_enable: "db_ok d \<Longrightarrow> api_set_enabled p i e d = Inr (x, d') \<Longrightarrow> db_ok d'"
  by (auto simp: api_set_enabled_def flow dest!: set_enabled_effect tget_in intro!: db_ok_users)

lemma ok_relation:
  "db_ok d \<Longrightarrow> api_register_worker q p d = Inr (x, d') \<Longrightarrow> db_ok d'"
  by (auto simp: db_ok_defs api_register_worker_def flow relations_ok_def dest!: register_worker_effect
      intro!: unique_on_tins)

lemma ok_remove_relation: "db_ok d \<Longrightarrow> api_remove_relation i p d = Inr (y, d') \<Longrightarrow> db_ok d'"
  by (auto simp: db_ok_defs api_remove_relation_def flow relations_ok_def delete_relation_row_def Let_def
      dest!: remove_relation_effect intro!: unique_on_tdel)


lemma ok_deactivate_standard: "db_ok d \<Longrightarrow> deactivate_standard r i d c = (Inr (x, d'), c') \<Longrightarrow> db_ok d'"
  by (auto simp: db_ok_defs deactivate_standard_def split: sum.splits)

lemma ok_update_standard: "db_ok d \<Longrightarrow> update_standard lz r i q d c = (Inr (x, d'), c') \<Longrightarrow> db_ok d'"
  by (auto simp: db_ok_defs update_standard_def Let_def flow split: sum.splits)

lemma stmts_frame: "run_process_stmts xs d = Inr d' \<Longrightarrow> d' = d\<lparr>processes := processes d'\<rparr>"
proof (induction xs arbitrary: d)
  case (Cons x xs)
  then obtain d1 where "run_process_stmt x d = Inr d1" "run_process_stmts xs d1 = Inr d'" by (auto simp: flow)
  moreover from this have "d1 = d\<lparr>processes := processes d1\<rparr>" by (cases x) (auto simp: flow split: if_splits)
  ultimately show ?case using Cons.IH by (metis db.update_convs(9) db.surjective)
qed simp

lemma db_ok_processes: "db_ok d \<Longrightarrow> processes_ok t \<Longrightarrow> db_ok (d\<lparr>processes := t\<rparr>)"
  by (simp add: db_ok_defs)

lemma ok_stmts: "db_ok d \<Longrightarrow> run_process_stmts xs d = Inr d' \<Longrightarrow> db_ok d'"
  using stmts_frame [of xs d d'] run_process_stmts_ok [of d xs d'] db_ok_processes [of d "processes d'"]
  by (simp add: db_ok_defs)

lemma ok_create_standard:
  assumes "db_ok d" and "create_standard lz r q d c = (Inr (x, d'), c')"
  shows "db_ok d'"
proof -
  from assms(2) obtain s xs where
    "run_process_stmts xs (d\<lparr>standards := tins s (standards d)\<rparr>) = Inr d'
     \<or> d' = d\<lparr>standards := tins s (standards d)\<rparr>"
    by (auto simp: create_standard_def Let_def flow split: if_splits sum.splits)
  moreover have "db_ok (d\<lparr>standards := tins s (standards d)\<rparr>)" using assms(1) by (simp add: db_ok_defs)
  ultimately show ?thesis using ok_stmts by blast
qed

lemma ok_sync: "db_ok d \<Longrightarrow> sync_processes i qs d = Inr (x, d') \<Longrightarrow> db_ok d'"
  by (auto simp: sync_processes_def Let_def flow intro: ok_stmts)

lemma ok_assign:
  assumes "db_ok d" and "assign_job cw sid d = Inr (x, d')"
  shows "db_ok d'"
proof -
  have "job_workers_ok (job_workers d')" using assms assign_job_ok by (auto simp: db_ok_defs)
  then show ?thesis using assms(1) by (rule_tac assign_job_effect [OF assms(2)]) (simp_all add: db_ok_defs)
qed

lemma ok_unassign: "db_ok d \<Longrightarrow> unassign_job i d = Inr (x, d') \<Longrightarrow> db_ok d'"
  by (auto simp: db_ok_defs job_workers_ok_def unassign_job_effect dest!: tget_in intro!: unique_on_tupd_same)

lemma table_ok_insert_schedules: "table_ok t \<Longrightarrow> table_ok (insert_schedules ss t)"
  unfolding insert_schedules_def by (induction ss arbitrary: t) auto

lemma ok_schedules:
  "db_ok d \<Longrightarrow> create_schedule q d = Inr (x, d') \<Longrightarrow> db_ok d'"
  "db_ok d \<Longrightarrow> batch_make b d = Inr (y, d') \<Longrightarrow> db_ok d'"
  "db_ok d \<Longrightarrow> close_schedule i t now d = Inr (x, d') \<Longrightarrow> db_ok d'"
  by (auto simp: db_ok_defs create_schedule_def batch_make_def close_schedule_def Let_def flow table_ok_insert_schedules)

lemma end_record_frame: "end_record q now d = Inr (r, d') \<Longrightarrow> d' = d\<lparr>records := records d', schedules := schedules d'\<rparr>"
  by (auto simp: end_record_def Let_def flow split: option.splits if_splits)

lemma db_ok_work: "db_ok d \<Longrightarrow> table_ok rs \<Longrightarrow> table_ok ss \<Longrightarrow> db_ok (d\<lparr>records := rs, schedules := ss\<rparr>)"
  by (simp add: db_ok_defs)

lemma ok_end_record:
  assumes "db_ok d" and "end_record q now d = Inr (r, d')"
  shows "db_ok d'"
proof -
  have "table_ok (records d)" "table_ok (schedules d)" using assms(1) by (simp_all add: db_ok_defs)
  then have "table_ok (records d')" "table_ok (schedules d')"
    using end_record_effect [OF assms(2)] by (auto split: option.splits if_splits)
  then show ?thesis using end_record_frame [OF assms(2)] db_ok_work [OF assms(1)] by metis
qed

lemma ok_record: "db_ok d \<Longrightarrow> exec_record now x d = Inr (y, d') \<Longrightarrow> db_ok d'"
proof (cases x)
  case (End_record q)
  then show "db_ok d \<Longrightarrow> exec_record now x d = Inr (y, d') \<Longrightarrow> db_ok d'" by (auto simp: flow intro: ok_end_record)
qed (auto simp: db_ok_defs flow dest!: begin_record_effect begin_process_effect end_process_effect)

lemma ok_upload:
  "db_ok d \<Longrightarrow> api_upload_document put m p rel ty f u now d fs = (Inr (x, d'), fs') \<Longrightarrow> db_ok d'"
  by (auto simp: db_ok_defs api_upload_document_def log_document_def dest!: upload_effect split: sum.splits)

lemma ok_download: "db_ok d \<Longrightarrow> api_download_document rd p i now d fs = Inr (x, d') \<Longrightarrow> db_ok d'"
  by (auto simp: db_ok_defs api_download_document_def log_document_def flow dest!: load_effect)

lemma ok_delete_document: "db_ok d \<Longrightarrow> delete_document rm u i now d fs = (Inr (x, d'), fs') \<Longrightarrow> db_ok d'"
  by (auto simp: db_ok_defs delete_document_row_def log_document_def dest!: delete_effect)

lemma ok_board: "db_ok d \<Longrightarrow> exec_board u x d = Inr (y, d') \<Longrightarrow> db_ok d'"
  by (cases "(u, x, d)" rule: exec_board.cases)
     (auto simp: db_ok_defs flow dest!: create_board_effect update_board_effect delete_board_effect)

text \<open>An operation that writes one table is judged by that table.\<close>

lemma db_ok_tables:
  "db_ok d \<Longrightarrow> kiosks_ok ks \<Longrightarrow> db_ok (d\<lparr>kiosks := ks\<rparr>)"
  "db_ok d \<Longrightarrow> leaves_inv ls \<Longrightarrow> db_ok (d\<lparr>leaves := ls\<rparr>)"
  "db_ok d \<Longrightarrow> email_schedules_ok es \<Longrightarrow> db_ok (d\<lparr>email_schedules := es\<rparr>)"
  "db_ok d \<Longrightarrow> bulk_jobs_ok bs \<Longrightarrow> db_ok (d\<lparr>bulk_jobs := bs\<rparr>)"
  by (simp_all add: db_ok_defs leaves_inv_ok)

lemma tt_kiosk: "exec_kiosk sc x d = Inr (y, d') \<Longrightarrow> d' = d\<lparr>kiosks := kiosks d'\<rparr>"
  by (cases x) (auto simp: api_bind_kiosk_def flow
      dest!: bind_kiosk_effect set_assignee_effect unbind_kiosk_effect)

lemma tt_leave: "exec_leave sc x d = Inr (y, d') \<Longrightarrow> d' = d\<lparr>leaves := leaves d'\<rparr>"
  by (cases x) (auto simp: api_create_leave_def flow
      dest!: create_leave_effect decide_leave_effect delete_leave_effect)

lemma tt_email: "exec_email_schedule sc x d = Inr (y, d') \<Longrightarrow> d' = d\<lparr>email_schedules := email_schedules d'\<rparr>"
  by (cases x) (auto simp: api_create_email_schedule_def flow
      dest!: create_email_effect update_email_effect delete_email_effect)

lemma tt_bulk:
  "api_bulk_email s q sc p now d = Inr (x, t, d') \<Longrightarrow>
   d' = d \<or> (\<exists>j. d' = d\<lparr>bulk_jobs := tins j (bulk_jobs d)\<rparr> \<and> (sc = None \<or> sc = Some (bj_company_id j)))"
  by (auto simp: api_bulk_email_def flow split: if_splits dest!: create_job_effect)

lemma ok_kiosk: "db_ok d \<Longrightarrow> exec_kiosk sc x d = Inr (y, d') \<Longrightarrow> db_ok d'"
  using tt_kiosk [of sc x d y d'] exec_kiosk_inv [of d sc x y d'] db_ok_tables(1) [of d "kiosks d'"]
  by (simp add: db_ok_def schema_ok_def)

lemma ok_leave: "db_ok d \<Longrightarrow> exec_leave sc x d = Inr (y, d') \<Longrightarrow> db_ok d'"
  using tt_leave [of sc x d y d'] exec_leave_inv [of d sc x y d'] db_ok_tables(2) [of d "leaves d'"]
  by (simp add: db_ok_def)

lemma ok_email: "db_ok d \<Longrightarrow> exec_email_schedule sc x d = Inr (y, d') \<Longrightarrow> db_ok d'"
  using tt_email [of sc x d y d'] exec_email_inv [of d sc x y d'] db_ok_tables(3) [of d "email_schedules d'"]
  by (simp add: db_ok_def schema_ok_def)

lemma ok_bulk:
  assumes "db_ok d" and "api_bulk_email s q sc p now d = Inr (x, t, d')"
  shows "db_ok d'"
proof -
  have "bulk_jobs_ok (bulk_jobs d')" using assms bulk_jobs_ok_create
    by (auto simp: db_ok_def schema_ok_def api_bulk_email_def flow split: if_splits)
  then show ?thesis using tt_bulk [OF assms(2)] db_ok_tables(4) [OF assms(1)] assms(1) by auto
qed

text \<open>The endpoints in front of the operations.\<close>

lemma ok_standard_endpoints:
  "db_ok d \<Longrightarrow> api_create_standard lz r q p d c = (Inr (x, d'), c') \<Longrightarrow> db_ok d'"
  "db_ok d \<Longrightarrow> api_update_standard lz r i u p d c = (Inr (x, d'), c') \<Longrightarrow> db_ok d'"
  "db_ok d \<Longrightarrow> api_deactivate_standard r i p d c = (Inr (y, d'), c') \<Longrightarrow> db_ok d'"
  "db_ok d \<Longrightarrow> api_sync_processes i qs p d = Inr (x, d') \<Longrightarrow> db_ok d'"
  by (auto simp: api_create_standard_def api_update_standard_def api_deactivate_standard_def api_sync_processes_def
      flow split: sum.splits dest: ok_create_standard ok_update_standard ok_deactivate_standard ok_sync)

lemma ok_job_endpoints:
  "db_ok d \<Longrightarrow> api_assign a p d = Inr (x, d') \<Longrightarrow> db_ok d'"
  "db_ok d \<Longrightarrow> api_unassign i p d = Inr (u, d') \<Longrightarrow> db_ok d'"
  "db_ok d \<Longrightarrow> api_create_schedule q p d = Inr (y, d') \<Longrightarrow> db_ok d'"
  "db_ok d \<Longrightarrow> api_batch_make b p d = Inr (z, d') \<Longrightarrow> db_ok d'"
  "db_ok d \<Longrightarrow> api_close_schedule i t now d = Inr (y, d') \<Longrightarrow> db_ok d'"
  by (auto simp: api_assign_def api_unassign_def api_create_schedule_def api_batch_make_def api_close_schedule_def
      flow dest: ok_assign ok_unassign ok_schedules)

lemma ok_unchanged: "db_ok d \<Longrightarrow> refresh s L token now d st = (Inr (t, d'), st') \<Longrightarrow> db_ok d'"
  using ok_refresh by metis

lemmas ok_all = ok_login ok_unchanged ok_signup ok_change_password ok_update_profile ok_company ok_charger
  ok_enable ok_worker ok_relation ok_remove_relation ok_standard_endpoints ok_job_endpoints ok_record ok_upload
  ok_download ok_delete_document ok_board ok_kiosk ok_leave ok_email ok_bulk

section \<open>The tables of the tenants\<close>

text \<open>
  The tables whose rows belong to companies and are guarded by a company scope, with the assignments of
  chargers that give the scopes.  Every other operation leaves them alone.
\<close>

definition tenant_tables :: "db \<Rightarrow> leave table \<times> kiosk table \<times> email_schedule table \<times> bulk_job table \<times> company_charger table"
  where "tenant_tables d = (leaves d, kiosks d, email_schedules d, bulk_jobs d, chargers d)"

lemma tt_sync_fcm: "sync_fcm uid u tok d = Inr d' \<Longrightarrow> tenant_tables d' = tenant_tables d"
  by (auto simp: tenant_tables_def sync_fcm_def flow split: if_splits option.splits)

lemma tt_login:
  assumes "login s L q now at d st = (Inr (t, d'), st')"
  shows "tenant_tables d' = tenant_tables d"
proof -
  from login_success [OF assms] obtain uid u where "login_writes s uid u q at d = Inr d'" by blast
  then obtain d1 where "tenant_tables d1 = tenant_tables d"
    "d' = d \<or> d' = d1\<lparr>users := tupd uid (mark_logged_in at u) (users d1)\<rparr>"
    by (auto simp: login_writes_def flow split: if_splits dest: tt_sync_fcm)
  then show ?thesis by (auto simp: tenant_tables_def)
qed

lemma tt_account:
  "change_password L uid cur new salt d st = (Inr (x, d'), st') \<Longrightarrow> tenant_tables d' = tenant_tables d"
  "update_profile uid p d = Inr (y, d') \<Longrightarrow> tenant_tables d' = tenant_tables d"
  "signup_as_caregiver s L q salt now d st = (Inr (t, d'), st') \<Longrightarrow> tenant_tables d' = tenant_tables d"
  by (auto simp: tenant_tables_def change_password_def update_profile_def signup_as_caregiver_def Let_def flow
      split: option.splits if_splits prod.splits)

lemma tt_worker: "exec_worker L p x d = Inr (r, d') \<Longrightarrow> tenant_tables d' = tenant_tables d"
  by (cases x) (auto simp: tenant_tables_def flow dest!: create_worker_effect retire_worker_effect
      rehire_worker_effect hire_worker_effect fire_worker_effect)

lemma tt_company:
  "api_create_company q p d = Inr (x, d') \<Longrightarrow> tenant_tables d' = tenant_tables d"
  "api_update_company r i u p d c = Inr (y, d', c') \<Longrightarrow> tenant_tables d' = tenant_tables d"
  "api_deactivate_company r i p d c = Inr (z, d', c') \<Longrightarrow> tenant_tables d' = tenant_tables d"
  by (auto simp: tenant_tables_def api_create_company_def api_update_company_def api_deactivate_company_def flow
      dest!: create_company_effect update_company_effect deactivate_company_effect)

lemma tt_people:
  "api_set_enabled p i e d = Inr (x, d') \<Longrightarrow> tenant_tables d' = tenant_tables d"
  "api_register_worker q p d = Inr (y, d') \<Longrightarrow> tenant_tables d' = tenant_tables d"
  "api_remove_relation i p d = Inr (z, d') \<Longrightarrow> tenant_tables d' = tenant_tables d"
  by (auto simp: tenant_tables_def api_set_enabled_def api_register_worker_def api_remove_relation_def
      delete_relation_row_def Let_def flow
      dest!: set_enabled_effect register_worker_effect remove_relation_effect)

lemma tt_stmts:
  assumes "run_process_stmts xs d = Inr d'"
  shows "tenant_tables d' = tenant_tables d"
proof -
  from stmts_frame [OF assms] obtain ps where "d' = d\<lparr>processes := ps\<rparr>" by blast
  then show ?thesis by (simp add: tenant_tables_def)
qed

lemma tt_standard:
  "create_standard lz r q d c = (Inr (x, d'), c') \<Longrightarrow> tenant_tables d' = tenant_tables d"
  "update_standard lz r i u d c = (Inr (x, d'), c') \<Longrightarrow> tenant_tables d' = tenant_tables d"
  "deactivate_standard r i d c = (Inr (y, d'), c') \<Longrightarrow> tenant_tables d' = tenant_tables d"
  by (auto simp: create_standard_def update_standard_def deactivate_standard_def Let_def flow
      tenant_tables_def [of "standards_update f d" for f d] tenant_tables_def [of d]
      split: if_splits sum.splits dest!: tt_stmts)

lemma tt_sync: "sync_processes i qs d = Inr (x, d') \<Longrightarrow> tenant_tables d' = tenant_tables d"
  by (auto simp: sync_processes_def Let_def flow dest: tt_stmts)

lemma tt_assign:
  "assign_job cw sid d = Inr (x, d') \<Longrightarrow> tenant_tables d' = tenant_tables d"
  "unassign_job i d = Inr (u, d') \<Longrightarrow> tenant_tables d' = tenant_tables d"
  by (auto simp: tenant_tables_def unassign_job_effect elim!: assign_job_effect)

lemma tt_schedules:
  "create_schedule q d = Inr (x, d') \<Longrightarrow> tenant_tables d' = tenant_tables d"
  "batch_make b d = Inr (y, d') \<Longrightarrow> tenant_tables d' = tenant_tables d"
  "close_schedule i t now d = Inr (x, d') \<Longrightarrow> tenant_tables d' = tenant_tables d"
  by (auto simp: tenant_tables_def create_schedule_def batch_make_def close_schedule_def Let_def flow)

lemma tt_record: "exec_record now x d = Inr (y, d') \<Longrightarrow> tenant_tables d' = tenant_tables d"
  by (cases x)
     (auto simp: tenant_tables_def flow begin_record_def end_record_def schedule_or_throw_def Let_def
       dest!: begin_process_effect end_process_effect split: option.splits if_splits)

lemma tt_document:
  "api_upload_document put m p rel ty f u now d fs = (Inr (x, d'), fs') \<Longrightarrow> tenant_tables d' = tenant_tables d"
  "api_download_document rd p i now d fs = Inr (y, d') \<Longrightarrow> tenant_tables d' = tenant_tables d"
  "delete_document rm uid i now d fs = (Inr (z, d'), fs') \<Longrightarrow> tenant_tables d' = tenant_tables d"
  by (auto simp: tenant_tables_def api_upload_document_def api_download_document_def log_document_def
      delete_document_row_def flow dest!: upload_effect load_effect delete_effect split: sum.splits)

lemma tt_board: "exec_board u x d = Inr (y, d') \<Longrightarrow> tenant_tables d' = tenant_tables d"
  by (cases "(u, x, d)" rule: exec_board.cases)
     (auto simp: tenant_tables_def flow dest!: create_board_effect update_board_effect delete_board_effect)

lemma tt_standard_endpoints:
  "api_create_standard lz r q p d c = (Inr (x, d'), c') \<Longrightarrow> tenant_tables d' = tenant_tables d"
  "api_update_standard lz r i u p d c = (Inr (x, d'), c') \<Longrightarrow> tenant_tables d' = tenant_tables d"
  "api_deactivate_standard r i p d c = (Inr (y, d'), c') \<Longrightarrow> tenant_tables d' = tenant_tables d"
  "api_sync_processes i qs p d = Inr (x, d') \<Longrightarrow> tenant_tables d' = tenant_tables d"
  by (auto simp: api_create_standard_def api_update_standard_def api_deactivate_standard_def api_sync_processes_def
      flow split: sum.splits dest: tt_standard tt_sync)

lemma tt_job_endpoints:
  "api_assign a p d = Inr (x, d') \<Longrightarrow> tenant_tables d' = tenant_tables d"
  "api_unassign i p d = Inr (u, d') \<Longrightarrow> tenant_tables d' = tenant_tables d"
  "api_create_schedule q p d = Inr (y, d') \<Longrightarrow> tenant_tables d' = tenant_tables d"
  "api_batch_make b p d = Inr (z, d') \<Longrightarrow> tenant_tables d' = tenant_tables d"
  "api_close_schedule i t now d = Inr (y, d') \<Longrightarrow> tenant_tables d' = tenant_tables d"
  by (auto simp: api_assign_def api_unassign_def api_create_schedule_def api_batch_make_def api_close_schedule_def
      flow dest: tt_assign tt_schedules)

lemma tt_refresh: "refresh s L token now d st = (Inr (t, d'), st') \<Longrightarrow> tenant_tables d' = tenant_tables d"
  by (drule ok_refresh) simp

lemmas tt_all = tt_login tt_refresh tt_account tt_worker tt_company tt_people tt_standard_endpoints
  tt_job_endpoints tt_record tt_document tt_board

text \<open>The scoped operations change only their own table.\<close>

end
