(* ===== verification/Api.thy ===== *)
theory Api
  imports Integrity
begin

text \<open>
  The writing endpoints of the API together: one request of any of them, with its bearer token, on the
  state the service keeps: the database, the refresh tokens in Redis, the cache, the stored files, the
  background tasks that wait and the mail jobs that are being sent.  The endpoints are those of app/api/v1, their guards those of
  app/api/deps.py and the transaction that of app/core/database.py; what an endpoint does is defined in
  the theory of its service.  What a handler does outside the database stays when the transaction is
  rolled back.

  The reading endpoints are in the theories of the services: they leave the database as it is.
\<close>

section \<open>The state\<close>

record ('raw, 'fs) world =
  w_db :: db
  w_tokens :: store
  w_cache :: "'raw cache"
  w_files :: 'fs
  w_tasks :: "task list"
  w_running :: "int list"

text \<open>The configuration with the libraries: the storage driver gives \<open>put\<close>, \<open>open\<close> and \<open>remove\<close>, the
  database \<open>ILIKE\<close>, pydantic the JSON texts of the cached models.\<close>

record ('raw, 'fs) server =
  sv_settings :: settings
  sv_libs :: libs
  sv_engine :: engine
  sv_redis :: redis
  sv_lazy_load :: lazy_load
  sv_dump_company :: "company_response \<Rightarrow> 'raw"
  sv_validate_company :: "'raw \<Rightarrow> company_response option"
  sv_dump_standard :: "standard_response \<Rightarrow> 'raw"
  sv_validate_standard :: "'raw \<Rightarrow> standard_response option"
  sv_max_bytes :: int
  sv_put :: "string \<Rightarrow> string \<Rightarrow> string \<Rightarrow> nat list \<Rightarrow> int \<Rightarrow> string option \<Rightarrow> 'fs \<Rightarrow> exn + (uploaded \<times> 'fs)"
  sv_open :: "string \<Rightarrow> 'fs \<Rightarrow> exn + nat list"
  sv_remove :: "string \<Rightarrow> 'fs \<Rightarrow> exn + 'fs"
  sv_ilike :: "string \<Rightarrow> string \<Rightarrow> bool"
  sv_renderers :: renderers
  sv_mailer :: mailer
  sv_version_latest :: string
  sv_version_min_supported :: string

text \<open>What a request reads of the clock and of the random sources, and the text of the driver's error should a
  commit fail.\<close>

record moment =
  mo_now :: datetime
  mo_secs :: int
  mo_salt :: string
  mo_ulid :: string
  mo_commit_error :: string

type_synonym ('raw, 'fs) handler = "('raw, 'fs) world \<Rightarrow> (exn + db) \<times> ('raw, 'fs) world"

definition new_db :: "exn + ('a \<times> db) \<Rightarrow> exn + db" where
  "new_db r = let_ok r (\<lambda>(_, d). Inr d)"

definition on_db :: "(db \<Rightarrow> exn + ('a \<times> db)) \<Rightarrow> ('raw, 'fs) handler" where
  "on_db f w = (new_db (f (w_db w)), w)"

definition on_tokens :: "(db \<Rightarrow> store \<Rightarrow> (exn + ('a \<times> db)) \<times> store) \<Rightarrow> ('raw, 'fs) handler" where
  "on_tokens f w = (let (r, st) = f (w_db w) (w_tokens w) in (new_db r, w\<lparr>w_tokens := st\<rparr>))"

definition on_cache :: "(db \<Rightarrow> 'raw cache \<Rightarrow> (exn + ('a \<times> db)) \<times> 'raw cache) \<Rightarrow> ('raw, 'fs) handler" where
  "on_cache f w = (let (r, c) = f (w_db w) (w_cache w) in (new_db r, w\<lparr>w_cache := c\<rparr>))"

definition on_company :: "(db \<Rightarrow> 'raw cache \<Rightarrow> exn + ('a \<times> db \<times> 'raw cache)) \<Rightarrow> ('raw, 'fs) handler" where
  "on_company f w =
     (case f (w_db w) (w_cache w) of Inl e \<Rightarrow> (Inl e, w) | Inr (_, d, c) \<Rightarrow> (Inr d, w\<lparr>w_cache := c\<rparr>))"

definition on_files :: "(db \<Rightarrow> 'fs \<Rightarrow> (exn + ('a \<times> db)) \<times> 'fs) \<Rightarrow> ('raw, 'fs) handler" where
  "on_files f w = (let (r, fs) = f (w_db w) (w_files w) in (new_db r, w\<lparr>w_files := fs\<rparr>))"

text \<open>The dependencies \<open>CurrentUser\<close> and \<open>CompanyScope\<close>.\<close>

definition with_user ::
    "('raw, 'fs) server \<Rightarrow> moment \<Rightarrow> http_request \<Rightarrow> (principal \<Rightarrow> ('raw, 'fs) handler) \<Rightarrow> ('raw, 'fs) handler" where
  "with_user V mo hr k w =
     (case current_user (sv_settings V) (sv_libs V) hr (mo_secs mo) of Inl e \<Rightarrow> (Inl e, w) | Inr actor \<Rightarrow> k actor w)"

definition with_scope ::
    "('raw, 'fs) server \<Rightarrow> moment \<Rightarrow> http_request \<Rightarrow> (principal \<Rightarrow> scope \<Rightarrow> ('raw, 'fs) handler) \<Rightarrow> ('raw, 'fs) handler" where
  "with_scope V mo hr k =
     with_user V mo hr (\<lambda>actor w. case get_company_scope actor (w_db w) of Inl e \<Rightarrow> (Inl e, w) | Inr sc \<Rightarrow> k actor sc w)"

section \<open>Requests\<close>

datatype request =
    Login login_request
  | Refresh string
  | Logout
  | Signup signup_request
  | Change_password change_password_request
  | Update_me update_me_request
  | Open_company company_create_request
  | Edit_company int company_update_request
  | Close_company int
  | Edit_charger int charger_update_request
  | Enable_user int bool
  | Open_worker worker_create_request
  | Hire worker_hire_request
  | Fire int
  | Retire int
  | Rehire int
  | Add_relation register_worker_request
  | Drop_relation int
  | Open_standard standard_create_request
  | Edit_standard int standard_update_request
  | Close_standard int
  | Sync_standard int "process_upsert_request list"
  | Assign assign_request
  | Unassign int
  | Open_schedule create_schedule_request
  | Open_schedules batch_make_request
  | Close_schedule int "datetime option option"
  | Record_work record_op
  | Upload_document int int upload_file
  | Download_document int
  | Drop_document int
  | Post_board board_write_request
  | Edit_board int board_write_request
  | Drop_board int
  | Kiosk_request kiosk_op
  | Ask_leave leave_create_request
  | Answer_leave int leave_decision_request
  | Drop_leave int
  | Open_mail_schedule email_schedule_create
  | Edit_mail_schedule int email_schedule_update
  | Drop_mail_schedule int
  | Mail_journals bulk_email_request

section \<open>Accounts\<close>

text \<open>app/api/v1/auth.py: the first, second and fourth endpoint are public.  Their limits are in theory
  Routing.\<close>

definition api_login :: "('raw, 'fs) server \<Rightarrow> moment \<Rightarrow> login_request \<Rightarrow> ('raw, 'fs) handler" where
  "api_login V mo q = on_tokens (\<lambda>d st. login (sv_settings V) (sv_libs V) q (mo_secs mo) (mo_now mo) d st)"

definition api_refresh :: "('raw, 'fs) server \<Rightarrow> moment \<Rightarrow> string \<Rightarrow> ('raw, 'fs) handler" where
  "api_refresh V mo token = on_tokens (\<lambda>d st. refresh (sv_settings V) (sv_libs V) token (mo_secs mo) d st)"

definition api_logout :: "principal \<Rightarrow> ('raw, 'fs) handler" where
  "api_logout actor = on_tokens (\<lambda>d st. (Inr ((), d), logout (pr_user_id actor) st))"

definition api_signup_caregiver :: "('raw, 'fs) server \<Rightarrow> moment \<Rightarrow> signup_request \<Rightarrow> ('raw, 'fs) handler" where
  "api_signup_caregiver V mo q =
     on_tokens (\<lambda>d st. signup_as_caregiver (sv_settings V) (sv_libs V) q (mo_salt mo) (mo_secs mo) d st)"

definition api_change_password ::
    "('raw, 'fs) server \<Rightarrow> moment \<Rightarrow> change_password_request \<Rightarrow> principal \<Rightarrow> ('raw, 'fs) handler" where
  "api_change_password V mo q actor =
     on_tokens (\<lambda>d st. change_password (sv_libs V) (pr_user_id actor) (pq_current q) (pq_next q) (mo_salt mo) d st)"

definition api_update_me :: "update_me_request \<Rightarrow> principal \<Rightarrow> ('raw, 'fs) handler" where
  "api_update_me q actor = on_db (update_profile (pr_user_id actor) q)"

section \<open>Work records\<close>

text \<open>The writing endpoints of app/api/v1/work_records.py.\<close>

definition api_record :: "moment \<Rightarrow> record_op \<Rightarrow> principal \<Rightarrow> ('raw, 'fs) handler" where
  "api_record mo x actor = on_db (exec_record (mo_now mo) x)"

section \<open>The handlers\<close>

primrec handle_request ::
    "('raw, 'fs) server \<Rightarrow> moment \<Rightarrow> http_request \<Rightarrow> request \<Rightarrow> ('raw, 'fs) handler" where
  "handle_request V mo hr (Login q) = api_login V mo q"
| "handle_request V mo hr (Refresh token) = api_refresh V mo token"
| "handle_request V mo hr Logout = with_user V mo hr api_logout"
| "handle_request V mo hr (Signup q) = api_signup_caregiver V mo q"
| "handle_request V mo hr (Change_password q) = with_user V mo hr (api_change_password V mo q)"
| "handle_request V mo hr (Update_me q) = with_user V mo hr (api_update_me q)"
| "handle_request V mo hr (Open_company q) = with_user V mo hr (\<lambda>actor. on_db (api_create_company q actor))"
| "handle_request V mo hr (Edit_company i q) =
     with_user V mo hr (\<lambda>actor. on_company (api_update_company (sv_redis V) i q actor))"
| "handle_request V mo hr (Close_company i) =
     with_user V mo hr (\<lambda>actor. on_company (api_deactivate_company (sv_redis V) i actor))"
| "handle_request V mo hr (Edit_charger i q) = with_user V mo hr (\<lambda>actor. on_db (api_update_charger actor i q))"
| "handle_request V mo hr (Enable_user i e) = with_user V mo hr (\<lambda>actor. on_db (api_set_enabled actor i e))"
| "handle_request V mo hr (Open_worker q) =
     with_user V mo hr (\<lambda>actor. on_db (exec_worker (sv_libs V) actor (Create_worker q (mo_salt mo))))"
| "handle_request V mo hr (Hire q) = with_user V mo hr (\<lambda>actor. on_db (exec_worker (sv_libs V) actor (Hire_worker q)))"
| "handle_request V mo hr (Fire i) =
     with_user V mo hr (\<lambda>actor. on_db (exec_worker (sv_libs V) actor (Fire_company_worker i)))"
| "handle_request V mo hr (Retire i) =
     with_user V mo hr (\<lambda>actor. on_db (exec_worker (sv_libs V) actor (Retire_worker i (mo_now mo))))"
| "handle_request V mo hr (Rehire i) = with_user V mo hr (\<lambda>actor. on_db (exec_worker (sv_libs V) actor (Rehire_worker i)))"
| "handle_request V mo hr (Add_relation q) = with_user V mo hr (\<lambda>actor. on_db (api_register_worker q actor))"
| "handle_request V mo hr (Drop_relation i) = with_user V mo hr (\<lambda>actor. on_db (api_remove_relation i actor))"
| "handle_request V mo hr (Open_standard q) =
     with_user V mo hr (\<lambda>actor. on_cache (api_create_standard (sv_lazy_load V) (sv_redis V) q actor))"
| "handle_request V mo hr (Edit_standard i q) =
     with_user V mo hr (\<lambda>actor. on_cache (api_update_standard (sv_lazy_load V) (sv_redis V) i q actor))"
| "handle_request V mo hr (Close_standard i) =
     with_user V mo hr (\<lambda>actor. on_cache (api_deactivate_standard (sv_redis V) i actor))"
| "handle_request V mo hr (Sync_standard i qs) = with_user V mo hr (\<lambda>actor. on_db (api_sync_processes i qs actor))"
| "handle_request V mo hr (Assign q) = with_user V mo hr (\<lambda>actor. on_db (api_assign q actor))"
| "handle_request V mo hr (Unassign i) = with_user V mo hr (\<lambda>actor. on_db (api_unassign i actor))"
| "handle_request V mo hr (Open_schedule q) = with_user V mo hr (\<lambda>actor. on_db (api_create_schedule q actor))"
| "handle_request V mo hr (Open_schedules q) = with_user V mo hr (\<lambda>actor. on_db (api_batch_make q actor))"
| "handle_request V mo hr (Close_schedule i q) = with_user V mo hr (\<lambda>actor. on_db (api_close_schedule i q (mo_now mo)))"
| "handle_request V mo hr (Record_work x) = with_user V mo hr (api_record mo x)"
| "handle_request V mo hr (Upload_document rel ty f) =
     with_user V mo hr (\<lambda>actor. on_files
       (api_upload_document (sv_put V) (sv_max_bytes V) actor rel ty f (mo_ulid mo) (mo_now mo)))"
| "handle_request V mo hr (Download_document i) =
     with_user V mo hr (\<lambda>actor. on_files (\<lambda>d fs. (api_download_document (sv_open V) actor i (mo_now mo) d fs, fs)))"
| "handle_request V mo hr (Drop_document i) =
     with_user V mo hr (\<lambda>actor. on_files (delete_document (sv_remove V) (pr_user_id actor) i (mo_now mo)))"
| "handle_request V mo hr (Post_board q) =
     with_user V mo hr (\<lambda>actor. on_db (exec_board (Some (pr_user_id actor)) (mo_now mo, Create_board q)))"
| "handle_request V mo hr (Edit_board i q) =
     with_user V mo hr (\<lambda>actor. on_db (exec_board (Some (pr_user_id actor)) (mo_now mo, Update_board i q)))"
| "handle_request V mo hr (Drop_board i) =
     with_user V mo hr (\<lambda>actor. on_db (exec_board (Some (pr_user_id actor)) (mo_now mo, Delete_board i)))"
| "handle_request V mo hr (Kiosk_request x) = with_scope V mo hr (\<lambda>actor sc. on_db (exec_kiosk sc x))"
| "handle_request V mo hr (Ask_leave q) =
     with_scope V mo hr (\<lambda>actor sc. on_db (exec_leave sc (Create_leave q actor (mo_now mo))))"
| "handle_request V mo hr (Answer_leave i q) = with_scope V mo hr (\<lambda>actor sc. on_db (exec_leave sc (Decide_leave i q)))"
| "handle_request V mo hr (Drop_leave i) = with_scope V mo hr (\<lambda>actor sc. on_db (exec_leave sc (Delete_leave i)))"
| "handle_request V mo hr (Open_mail_schedule q) =
     with_scope V mo hr (\<lambda>actor sc. on_db (exec_email_schedule sc (Create_email_schedule q (mo_now mo))))"
| "handle_request V mo hr (Edit_mail_schedule i q) =
     with_scope V mo hr (\<lambda>actor sc. on_db (exec_email_schedule sc (Update_email_schedule i q (mo_now mo))))"
| "handle_request V mo hr (Drop_mail_schedule i) =
     with_scope V mo hr (\<lambda>actor sc. on_db (exec_email_schedule sc (Delete_email_schedule i)))"
| "handle_request V mo hr (Mail_journals q) =
     with_scope V mo hr (\<lambda>actor sc w.
       case api_bulk_email (sv_settings V) q sc actor (mo_now mo) (w_db w) of
         Inl e \<Rightarrow> (Inl e, w)
       | Inr (_, t, d) \<Rightarrow> (Inr d, w\<lparr>w_tasks := w_tasks w @ [t]\<rparr>))"

text \<open>
  One request in its session.  \<open>flushed\<close> and \<open>commit_ok\<close> are those of \<open>get_db_session\<close>.  Only the bulk mail
  endpoint commits itself, before it leaves its task: when that commit fails, or the engine refuses the
  new row, the endpoint raises and leaves none.
\<close>

fun commits_itself :: "request \<Rightarrow> bool" where
  "commits_itself (Mail_journals q) = True"
| "commits_itself req = False"

definition exec_request ::
    "('raw, 'fs) server \<Rightarrow> moment \<Rightarrow> http_request \<Rightarrow> bool \<Rightarrow> bool \<Rightarrow> request \<Rightarrow> ('raw, 'fs) world
     \<Rightarrow> (exn + unit) \<times> ('raw, 'fs) world" where
  "exec_request V mo hr flushed commit_ok req w =
     (let (r, w') = handle_request V mo hr req w
      in if commits_itself req \<and> \<not> st_app_read_only (sv_settings V)
         then (case r of
                 Inl e \<Rightarrow> (Inl e, w')
               | Inr d \<Rightarrow>
                   if eg_read_only (sv_engine V) then (Inl Read_only_violation, w)
                   else if \<not> commit_ok then (Inl (External (mo_commit_error mo)), w)
                   else (Inr (), w'\<lparr>w_db := d\<rparr>))
         else (let (answer, d) = get_db_session (sv_engine V) (sv_settings V) flushed commit_ok
                     (\<lambda>_. let_ok r (\<lambda>d. Inr ((), d))) (w_db w)
               in (answer, w'\<lparr>w_db := d\<rparr>)))"

section \<open>Lemmas on the handlers\<close>

lemmas endpoint_defs = api_login_def api_refresh_def api_logout_def api_signup_caregiver_def
  api_change_password_def api_update_me_def api_record_def

lemma new_db_Inr: "new_db r = Inr d \<longleftrightarrow> (\<exists>a. r = Inr (a, d))"
  by (auto simp: new_db_def flow)

lemma on_db_Inr: "fst (on_db f w) = Inr d \<longleftrightarrow> (\<exists>a. f (w_db w) = Inr (a, d))"
  by (simp add: on_db_def new_db_Inr)

lemma on_tokens_Inr: "fst (on_tokens f w) = Inr d \<longleftrightarrow> (\<exists>a st. f (w_db w) (w_tokens w) = (Inr (a, d), st))"
  by (cases "f (w_db w) (w_tokens w)") (simp add: on_tokens_def new_db_Inr)

lemma on_cache_Inr: "fst (on_cache f w) = Inr d \<longleftrightarrow> (\<exists>a c. f (w_db w) (w_cache w) = (Inr (a, d), c))"
  by (cases "f (w_db w) (w_cache w)") (simp add: on_cache_def new_db_Inr)

lemma on_company_Inr: "fst (on_company f w) = Inr d \<longleftrightarrow> (\<exists>a c. f (w_db w) (w_cache w) = Inr (a, d, c))"
  by (auto simp: on_company_def split: sum.splits)

lemma on_files_Inr: "fst (on_files f w) = Inr d \<longleftrightarrow> (\<exists>a fs. f (w_db w) (w_files w) = (Inr (a, d), fs))"
  by (cases "f (w_db w) (w_files w)") (simp add: on_files_def new_db_Inr)

lemma with_user_Inr:
  "fst (with_user V mo hr k w) = Inr d \<longleftrightarrow>
   (\<exists>actor. current_user (sv_settings V) (sv_libs V) hr (mo_secs mo) = Inr actor \<and> fst (k actor w) = Inr d)"
  by (auto simp: with_user_def split: sum.splits)

lemma scope_case_Inr:
  "fst (case g of Inl e \<Rightarrow> (Inl e, w) | Inr sc \<Rightarrow> k sc w) = Inr d \<longleftrightarrow> (\<exists>sc. g = Inr sc \<and> fst (k sc w) = Inr d)"
  by (cases g) auto

lemma with_scope_Inr:
  "fst (with_scope V mo hr k w) = Inr d \<longleftrightarrow>
   (\<exists>actor sc. current_user (sv_settings V) (sv_libs V) hr (mo_secs mo) = Inr actor
      \<and> get_company_scope actor (w_db w) = Inr sc \<and> fst (k actor sc w) = Inr d)"
  by (auto simp: with_scope_def with_user_Inr scope_case_Inr)

lemmas handler_Inr = on_db_Inr on_tokens_Inr on_cache_Inr on_company_Inr on_files_Inr with_user_Inr with_scope_Inr

text \<open>A handler hands its database to the session; it changes only the rest itself.\<close>

lemma handler_db [simp]:
  "w_db (snd (on_db f w)) = w_db w" "w_db (snd (on_tokens g w)) = w_db w" "w_db (snd (on_cache h w)) = w_db w"
  "w_db (snd (on_company k w)) = w_db w" "w_db (snd (on_files l w)) = w_db w"
  by (simp_all add: on_db_def on_tokens_def on_cache_def on_company_def on_files_def Let_def
      split: prod.splits sum.splits)

lemma with_user_db: "(\<And>a w. w_db (snd (k a w)) = w_db w) \<Longrightarrow> w_db (snd (with_user V mo hr k w)) = w_db w"
  by (simp add: with_user_def split: sum.splits)

lemma with_scope_db:
  "(\<And>a sc w. w_db (snd (k a sc w)) = w_db w) \<Longrightarrow> w_db (snd (with_scope V mo hr k w)) = w_db w"
  unfolding with_scope_def by (rule with_user_db) (simp split: sum.splits)

lemma handle_db [simp]: "w_db (snd (handle_request V mo hr req w)) = w_db w"
  by (cases req) (auto simp: endpoint_defs intro!: with_user_db with_scope_db split: sum.splits)

text \<open>What one request does to the database.\<close>

lemma exec_request_db:
  "w_db (snd (exec_request V mo hr fl cm req w)) = w_db w
   \<or> fst (handle_request V mo hr req w) = Inr (w_db (snd (exec_request V mo hr fl cm req w)))
     \<and> fst (exec_request V mo hr fl cm req w) = Inr ()
     \<and> \<not> st_app_read_only (sv_settings V) \<and> \<not> eg_read_only (sv_engine V) \<and> cm"
proof -
  obtain r w' where h: "handle_request V mo hr req w = (r, w')" by (rule prod.exhaust)
  have w': "w_db w' = w_db w" using handle_db [of V mo hr req w] by (simp add: h)
  obtain a d' where s: "get_db_session (sv_engine V) (sv_settings V) fl cm (\<lambda>_. let_ok r (\<lambda>d. Inr ((), d))) (w_db w)
      = (a, d')" by (rule prod.exhaust)
  from session_all_or_nothing [OF s] w' show ?thesis
    by (auto simp: exec_request_def h s flow split: sum.splits)
qed

text \<open>A property of the database that a handler keeps, the request keeps.\<close>

lemma exec_request_keeps:
  assumes "\<And>d'. fst (handle_request V mo hr req w) = Inr d' \<Longrightarrow> P d'" and "P (w_db w)"
  shows "P (w_db (snd (exec_request V mo hr fl cm req w)))"
  using exec_request_db [of V mo hr fl cm req w] assms by metis

lemma mail_journals_Inr:
  "fst (case api_bulk_email s q sc p now d of Inl e \<Rightarrow> (Inl e, w) | Inr (x, t, d1) \<Rightarrow> (Inr d1, f t)) = Inr d'
   \<longleftrightarrow> (\<exists>x t. api_bulk_email s q sc p now d = Inr (x, t, d'))"
  by (auto split: sum.splits)

lemmas keep_operations = exec_worker.simps exec_record.simps exec_board.simps exec_kiosk.simps exec_leave.simps
  exec_email_schedule.simps

lemma handle_ok:
  "db_ok (w_db w) \<Longrightarrow> fst (handle_request V mo hr req w) = Inr d' \<Longrightarrow> db_ok d'"
  by (cases req; clarsimp simp: handler_Inr endpoint_defs mail_journals_Inr simp del: keep_operations; erule (1) ok_all)

text \<open>A request that is not about a resource of the tenants, or the assignment of a charger, leaves their
  tables alone.\<close>

fun scoped :: "request \<Rightarrow> bool" where
  "scoped (Kiosk_request x) = True"
| "scoped (Ask_leave q) = True"
| "scoped (Answer_leave i q) = True"
| "scoped (Drop_leave i) = True"
| "scoped (Open_mail_schedule q) = True"
| "scoped (Edit_mail_schedule i q) = True"
| "scoped (Drop_mail_schedule i) = True"
| "scoped (Mail_journals q) = True"
| "scoped req = False"

lemma handle_unscoped:
  "\<not> scoped req \<Longrightarrow> \<forall>i q. req \<noteq> Edit_charger i q \<Longrightarrow> fst (handle_request V mo hr req w) = Inr d' \<Longrightarrow>
   tenant_tables d' = tenant_tables (w_db w)"
  by (cases req; clarsimp simp: handler_Inr endpoint_defs mail_journals_Inr simp del: keep_operations; erule tt_all)

lemma handle_edit_charger:
  assumes "current_user (sv_settings V) (sv_libs V) hr (mo_secs mo) = Inr actor"
    and "fst (handle_request V mo hr (Edit_charger i q) w) = Inr d'"
  shows "get_company_scope actor d = Inr None"
  using assms by (intro scope_admin) (auto simp: handler_Inr api_update_charger_def flow)

lemma handle_scoped:
  "scoped req \<Longrightarrow> fst (handle_request V mo hr req w) = Inr d' \<Longrightarrow>
   \<exists>actor sc. current_user (sv_settings V) (sv_libs V) hr (mo_secs mo) = Inr actor
     \<and> get_company_scope actor (w_db w) = Inr sc"
  by (cases req) (auto simp: handler_Inr)

section \<open>Isolation of the tenants\<close>

text \<open>What the database holds for the companies other than \<open>c\<close>.\<close>

definition foreign_view :: "int \<Rightarrow> db \<Rightarrow>
    (int \<times> leave) list \<times> (int \<times> kiosk) list \<times> (int \<times> email_schedule) list \<times> (int \<times> bulk_job) list" where
  "foreign_view c d =
     (foreign_rows lv_company_id c (leaves d), foreign_rows k_company_id c (kiosks d),
      foreign_rows es_company_id c (email_schedules d), foreign_rows bj_company_id c (bulk_jobs d))"

lemma foreign_view_tables: "tenant_tables d' = tenant_tables d \<Longrightarrow> foreign_view c d' = foreign_view c d \<and> chargers d' = chargers d"
  by (simp add: tenant_tables_def foreign_view_def)

lemma scope_of_chargers:
  assumes "chargers d' = chargers d"
  shows "get_company_scope p d' = get_company_scope p d"
  unfolding get_company_scope_def assms ..

lemma foreign_kiosk:
  assumes "db_ok d" and "exec_kiosk (Some c) x d = Inr (y, d')"
  shows "foreign_view c d' = foreign_view c d \<and> chargers d' = chargers d"
proof -
  from tt_kiosk [OF assms(2)] obtain t where "d' = d\<lparr>kiosks := t\<rparr>" by blast
  moreover have "kiosks_ok (kiosks d)" using assms(1) by (simp add: db_ok_defs)
  ultimately show ?thesis using kiosk_tenant.keeps_foreign [OF _ assms(2)] by (simp add: foreign_view_def)
qed

lemma foreign_leave:
  assumes "db_ok d" and "exec_leave (Some c) x d = Inr (y, d')"
  shows "foreign_view c d' = foreign_view c d \<and> chargers d' = chargers d"
proof -
  from tt_leave [OF assms(2)] obtain t where "d' = d\<lparr>leaves := t\<rparr>" by blast
  moreover have "leaves_inv (leaves d)" using assms(1) by (simp add: db_ok_defs)
  ultimately show ?thesis using leave_tenant.keeps_foreign [OF _ assms(2)] by (simp add: foreign_view_def)
qed

lemma foreign_email:
  assumes "db_ok d" and "exec_email_schedule (Some c) x d = Inr (y, d')"
  shows "foreign_view c d' = foreign_view c d \<and> chargers d' = chargers d"
proof -
  from tt_email [OF assms(2)] obtain t where "d' = d\<lparr>email_schedules := t\<rparr>" by blast
  moreover have "email_schedules_ok (email_schedules d)" using assms(1) by (simp add: db_ok_defs)
  ultimately show ?thesis using email_tenant.keeps_foreign [OF _ assms(2)] by (simp add: foreign_view_def)
qed

lemma foreign_bulk:
  "api_bulk_email s q (Some c) p now d = Inr (x, t, d') \<Longrightarrow>
   foreign_view c d' = foreign_view c d \<and> chargers d' = chargers d"
  by (drule tt_bulk) (auto simp: foreign_view_def)

text \<open>No administrator and no charger of a company other than \<open>c\<close>: whoever has a company scope has that
  of \<open>c\<close>.\<close>

definition scope_within :: "('raw, 'fs) server \<Rightarrow> int \<Rightarrow> db \<Rightarrow> moment \<Rightarrow> http_request \<Rightarrow> bool" where
  "scope_within V c d mo hr \<longleftrightarrow>
     (case current_user (sv_settings V) (sv_libs V) hr (mo_secs mo) of
        Inl e \<Rightarrow> True
      | Inr actor \<Rightarrow> (case get_company_scope actor d of Inl e \<Rightarrow> True | Inr sc \<Rightarrow> sc = Some c))"

lemma scope_withinD:
  "scope_within V c d mo hr \<Longrightarrow> current_user (sv_settings V) (sv_libs V) hr (mo_secs mo) = Inr actor \<Longrightarrow>
   get_company_scope actor d = Inr sc \<Longrightarrow> sc = Some c"
  by (simp add: scope_within_def)

lemma scope_within_chargers: "chargers d' = chargers d \<Longrightarrow> scope_within V c d' mo hr = scope_within V c d mo hr"
  using scope_of_chargers [of d' d] by (simp add: scope_within_def split: sum.splits)

lemma handle_foreign:
  assumes ok: "db_ok (w_db w)" and within: "scope_within V c (w_db w) mo hr"
    and run: "fst (handle_request V mo hr req w) = Inr d'"
  shows "foreign_view c d' = foreign_view c (w_db w) \<and> chargers d' = chargers (w_db w)"
proof (cases "scoped req")
  case True
  then obtain actor where u: "current_user (sv_settings V) (sv_libs V) hr (mo_secs mo) = Inr actor"
    "get_company_scope actor (w_db w) = Inr (Some c)" using handle_scoped [OF _ run] scope_withinD [OF within] by blast
  show ?thesis using run True u
    by (cases req) (auto simp: handler_Inr mail_journals_Inr simp del: keep_operations
        dest: foreign_kiosk [OF ok] foreign_leave [OF ok] foreign_email [OF ok] foreign_bulk)
next
  case False
  have "req \<noteq> Edit_charger i q" for i q
  proof
    assume req: "req = Edit_charger i q"
    with run obtain actor where u: "current_user (sv_settings V) (sv_libs V) hr (mo_secs mo) = Inr actor"
      by (auto simp: handler_Inr)
    from handle_edit_charger [OF u] run req have "get_company_scope actor (w_db w) = Inr None" by blast
    with scope_withinD [OF within u] show False by blast
  qed
  with False show ?thesis using handle_unscoped [OF _ _ run] foreign_view_tables by blast
qed

lemma exec_foreign:
  assumes "db_ok (w_db w)" and "scope_within V c (w_db w) mo hr"
  shows "foreign_view c (w_db (snd (exec_request V mo hr fl cm req w))) = foreign_view c (w_db w)
    \<and> chargers (w_db (snd (exec_request V mo hr fl cm req w))) = chargers (w_db w)"
  by (rule exec_request_keeps [where P = "\<lambda>d. foreign_view c d = foreign_view c (w_db w) \<and> chargers d = chargers (w_db w)"])
     (use handle_foreign [OF assms] in auto)

section \<open>Who may do what\<close>

text \<open>The guard of each endpoint in app/api/v1.\<close>

datatype access = Public | Authenticated | Roles "user_role list"

fun access_of :: "request \<Rightarrow> access" where
  "access_of (Login q) = Public"
| "access_of (Refresh token) = Public"
| "access_of (Signup q) = Public"
| "access_of (Open_company q) = Roles [ADMIN]"
| "access_of (Edit_company i q) = Roles [ADMIN]"
| "access_of (Close_company i) = Roles [ADMIN]"
| "access_of (Edit_charger i q) = Roles [ADMIN]"
| "access_of (Enable_user i e) = Roles [ADMIN]"
| "access_of (Open_worker q) = Roles [ADMIN, CHARGER]"
| "access_of (Hire q) = Roles [ADMIN, CHARGER]"
| "access_of (Fire i) = Roles [ADMIN, CHARGER]"
| "access_of (Retire i) = Roles [ADMIN, CHARGER]"
| "access_of (Rehire i) = Roles [ADMIN, CHARGER]"
| "access_of (Open_standard q) = Roles [ADMIN, CHARGER]"
| "access_of (Edit_standard i q) = Roles [ADMIN, CHARGER]"
| "access_of (Close_standard i) = Roles [ADMIN, CHARGER]"
| "access_of (Sync_standard i qs) = Roles [ADMIN, CHARGER]"
| "access_of (Assign q) = Roles [ADMIN, CHARGER]"
| "access_of (Unassign i) = Roles [ADMIN, CHARGER]"
| "access_of (Open_schedule q) = Roles [ADMIN, CHARGER]"
| "access_of (Open_schedules q) = Roles [ADMIN, CHARGER]"
| "access_of (Add_relation q) = Roles [CAREGIVER]"
| "access_of (Drop_relation i) = Roles [CAREGIVER]"
| "access_of req = (if scoped req then Roles [ADMIN, CHARGER] else Authenticated)"

definition permitted :: "('raw, 'fs) server \<Rightarrow> moment \<Rightarrow> http_request \<Rightarrow> access \<Rightarrow> bool" where
  "permitted V mo hr a \<longleftrightarrow>
     (let user = current_user (sv_settings V) (sv_libs V) hr (mo_secs mo)
      in case a of
           Public \<Rightarrow> True
         | Authenticated \<Rightarrow> \<not> isl user
         | Roles rs \<Rightarrow> (case user of Inl e \<Rightarrow> False
                                     | Inr actor \<Rightarrow> list_ex (\<lambda>r. role_value r \<in> set (pr_roles actor)) rs))"

lemmas guarded_endpoints = api_create_company_def api_update_company_def api_deactivate_company_def
  api_update_charger_def api_set_enabled_def api_register_worker_def api_remove_relation_def
  api_create_standard_def api_update_standard_def api_deactivate_standard_def api_sync_processes_def
  api_assign_def api_unassign_def api_create_schedule_def api_batch_make_def

lemma handler_refused:
  "f (w_db w) = Inl e \<Longrightarrow> on_db f w = (Inl e, w)"
  "g (w_db w) (w_cache w) = (Inl e, w_cache w) \<Longrightarrow> on_cache g w = (Inl e, w)"
  "h (w_db w) (w_cache w) = Inl e \<Longrightarrow> on_company h w = (Inl e, w)"
  by (simp_all add: on_db_def on_cache_def on_company_def new_db_def)

lemma user_refused: "isl (current_user (sv_settings V) (sv_libs V) hr (mo_secs mo)) \<Longrightarrow> access_of req \<noteq> Public \<Longrightarrow>
   \<exists>e. handle_request V mo hr req w = (Inl e, w)"
  by (cases "current_user (sv_settings V) (sv_libs V) hr (mo_secs mo)"; cases req)
     (simp_all add: with_user_def with_scope_def)

lemma role_not_held:
  assumes user: "current_user (sv_settings V) (sv_libs V) hr (mo_secs mo) = Inr actor"
    and access: "access_of req = Roles rs" and no: "\<not> list_ex (\<lambda>r. role_value r \<in> set (pr_roles actor)) rs"
  shows "\<exists>e. handle_request V mo hr req w = (Inl e, w)"
proof -
  from no have "require_roles rs actor \<noteq> Inr x" for x by (auto simp: require_roles_Inr list_ex_iff)
  then obtain e where "require_roles rs actor = Inl e" by (cases "require_roles rs actor") auto
  then show ?thesis using access user
    by (cases req)
       (auto simp: with_user_def with_scope_def guarded_endpoints handler_refused require_admin_def
         require_admin_or_charger_def require_caregiver_def get_company_scope_def)
qed

lemma refused:
  assumes "\<not> permitted V mo hr (access_of req)"
  shows "\<exists>e. handle_request V mo hr req w = (Inl e, w)"
proof (cases "current_user (sv_settings V) (sv_libs V) hr (mo_secs mo)")
  case (Inl e)
  then have "access_of req \<noteq> Public" using assms by (auto simp: permitted_def)
  with Inl show ?thesis by (simp add: user_refused)
next
  case (Inr actor)
  then show ?thesis using assms role_not_held [OF Inr]
    by (cases "access_of req") (auto simp: permitted_def)
qed

lemma exec_refused:
  "handle_request V mo hr req w = (Inl e, w) \<Longrightarrow> exec_request V mo hr fl cm req w = (Inl e, w)"
  by (simp add: exec_request_def get_db_session_def)

end
