(* ===== verification/Queries.thy ===== *)
theory Queries
  imports Api
begin

text \<open>
  The reading endpoints of app/api/v1 together, and what a charger learns from them: the answers to a
  charger do not depend on the contents of the leaves, kiosks, mail schedules and mail jobs of the
  other companies.

  A download is among the requests of theory Api, because it is recorded.
\<close>

section \<open>Endpoints\<close>

text \<open>The endpoints that only call their service; the other ones are in the theories of the services.\<close>

record version_info =
  vi_latest :: string
  vi_min_supported :: string

definition api_version :: "('raw, 'fs) server \<Rightarrow> version_info" where
  "api_version V = \<lparr>vi_latest = sv_version_latest V, vi_min_supported = sv_version_min_supported V\<rparr>"

definition api_ping :: string where "api_ping = ''pong''"

definition api_me :: "principal \<Rightarrow> db \<Rightarrow> exn + me_response" where
  "api_me actor d = me actor d"

definition api_get_board :: "int \<Rightarrow> db \<Rightarrow> exn + board_response" where
  "api_get_board i d = get_board i d"

definition api_get_company ::
    "('raw, 'fs) server \<Rightarrow> int \<Rightarrow> db \<Rightarrow> 'raw cache \<Rightarrow> exn + (company_response \<times> 'raw cache)" where
  "api_get_company V i d c = get_company (sv_dump_company V) (sv_validate_company V) (sv_redis V) i d c"

definition api_list_standards ::
    "(string \<Rightarrow> string \<Rightarrow> bool) \<Rightarrow> int option \<Rightarrow> string option \<Rightarrow> page_params \<Rightarrow> db \<Rightarrow> standard_response page" where
  "api_list_standards ilike company_id keyword params d =
     to_page_response (search_standards ilike company_id keyword params d)"

definition api_get_standard ::
    "('raw, 'fs) server \<Rightarrow> int \<Rightarrow> db \<Rightarrow> 'raw cache \<Rightarrow> exn + (standard_response \<times> 'raw cache)" where
  "api_get_standard V i d c = get_standard (sv_dump_standard V) (sv_validate_standard V) (sv_redis V) i d c"

definition api_list_documents :: "principal \<Rightarrow> int \<Rightarrow> db \<Rightarrow> exn + document_response list" where
  "api_list_documents actor relation_id d = list_documents (pr_user_id actor) relation_id d"

definition api_leaves_by_worker ::
    "scope \<Rightarrow> int \<Rightarrow> date option \<Rightarrow> date option \<Rightarrow> db \<Rightarrow> leave_response list" where
  "api_leaves_by_worker scope worker_id from until d = list_by_worker worker_id from until scope d"

definition api_get_schedule :: "int \<Rightarrow> db \<Rightarrow> exn + schedule_response" where
  "api_get_schedule i d = get_schedule i d"

definition api_list_by_job_worker :: "int \<Rightarrow> date \<Rightarrow> date \<Rightarrow> db \<Rightarrow> exn + schedule_response list" where
  "api_list_by_job_worker i from until d = list_for_job_worker i from until d"

definition api_get_mail_job :: "scope \<Rightarrow> int \<Rightarrow> db \<Rightarrow> exn + bulk_job_response" where
  "api_get_mail_job scope i d = get_job i scope d"

definition api_list_records :: "int \<Rightarrow> db \<Rightarrow> record_response list" where
  "api_list_records i d = list_records i d"

definition api_list_process_records :: "int \<Rightarrow> db \<Rightarrow> process_record_response list" where
  "api_list_process_records i d = list_process i d"

definition api_get_worker :: "int \<Rightarrow> db \<Rightarrow> exn + worker_response" where
  "api_get_worker i d = get_worker i d"

definition api_list_memberships :: "int \<Rightarrow> db \<Rightarrow> exn + company_worker_response list" where
  "api_list_memberships i d = list_memberships i d"

section \<open>Queries and answers\<close>

datatype query =
    App_version
  | Ping
  | Me
  | List_boards "string option" page_params
  | Get_board int
  | My_caregiver
  | My_relations
  | List_companies "string option" page_params
  | Get_company int
  | List_chargers "string option" "int option" page_params
  | Documents_of int
  | List_standards "int option" "string option" page_params
  | Get_standard int
  | List_assignments "int option" "int option"
  | List_kiosks "string option" "int option" "string option" page_params
  | Kiosks_of int
  | List_leaves leave_filter page_params
  | Approved_leaves "int option" "date option" "date option"
  | Leaves_of int "date option" "date option"
  | List_schedules page_params
  | Get_schedule int
  | Schedules_of_job_worker int date date
  | Schedules_of_standard int date date page_params
  | List_users "string option" "user_role option" page_params
  | Journal_pdf int
  | Journal_file int journal_format
  | List_mail_jobs "int option" int
  | Get_mail_job int
  | Preview_mail int date
  | List_mail_schedules "int option"
  | Records_of int
  | Process_records_of int
  | List_workers "string option" "string option" page_params
  | Get_worker int
  | Memberships_of int
  | Workers_of_company int page_params

datatype answer =
    Version_answer version_info
  | Text_answer string
  | Me_answer me_response
  | Board_page "board_response page api_response"
  | Board_answer board_response
  | Caregiver_answer caregiver_response
  | Relation_list "relation_response list"
  | Company_page "company_response page api_response"
  | Company_answer company_response
  | Charger_page "charger_response page"
  | Document_list "document_response list"
  | Standard_page "standard_response page"
  | Standard_answer standard_response
  | Assignment_list "job_worker_response list"
  | Kiosk_page "kiosk_response page"
  | Kiosk_list "kiosk_response list"
  | Leave_page "leave_response page"
  | Leave_list "leave_response list"
  | Schedule_page "schedule_response page"
  | Schedule_pages "schedule_response page api_response"
  | Schedule_answer schedule_response
  | Schedule_list "schedule_response list"
  | User_page "user_dto page"
  | File_answer journal_file
  | Mail_job_list "bulk_job_response list"
  | Mail_job_answer bulk_job_response
  | Preview_answer preview_response
  | Mail_schedule_list "email_schedule_response list"
  | Record_list "record_response list"
  | Process_record_list "process_record_response list"
  | Worker_page "worker_response page api_response"
  | Worker_answer worker_response
  | Employment_list "company_worker_response list"
  | Employment_page "company_worker_response page api_response"

text \<open>A handler of a query reads the database and, for two of them, the cache.\<close>

type_synonym 'raw reader = "db \<Rightarrow> 'raw cache \<Rightarrow> (exn + answer) \<times> 'raw cache"

definition reply :: "('a \<Rightarrow> answer) \<Rightarrow> (db \<Rightarrow> exn + 'a) \<Rightarrow> 'raw reader" where
  "reply k f d c = (let_ok (f d) (\<lambda>a. Inr (k a)), c)"

definition reply_cached :: "('a \<Rightarrow> answer) \<Rightarrow> (db \<Rightarrow> 'raw cache \<Rightarrow> exn + ('a \<times> 'raw cache)) \<Rightarrow> 'raw reader" where
  "reply_cached k f d c = (case f d c of Inl e \<Rightarrow> (Inl e, c) | Inr (a, c') \<Rightarrow> (Inr (k a), c'))"

definition for_user ::
    "('raw, 'fs) server \<Rightarrow> moment \<Rightarrow> http_request \<Rightarrow> (principal \<Rightarrow> 'raw reader) \<Rightarrow> 'raw reader" where
  "for_user V mo hr k d c =
     (case current_user (sv_settings V) (sv_libs V) hr (mo_secs mo) of Inl e \<Rightarrow> (Inl e, c) | Inr actor \<Rightarrow> k actor d c)"

definition for_scope :: "('raw, 'fs) server \<Rightarrow> moment \<Rightarrow> http_request \<Rightarrow> (scope \<Rightarrow> 'raw reader) \<Rightarrow> 'raw reader" where
  "for_scope V mo hr k =
     for_user V mo hr (\<lambda>actor d c. case get_company_scope actor d of Inl e \<Rightarrow> (Inl e, c) | Inr sc \<Rightarrow> k sc d c)"

primrec handle_query :: "('raw, 'fs) server \<Rightarrow> moment \<Rightarrow> http_request \<Rightarrow> query \<Rightarrow> 'raw reader" where
  "handle_query V mo hr App_version = reply Version_answer (\<lambda>d. Inr (api_version V))"
| "handle_query V mo hr Ping = reply Text_answer (\<lambda>d. Inr api_ping)"
| "handle_query V mo hr Me = for_user V mo hr (\<lambda>actor. reply Me_answer (api_me actor))"
| "handle_query V mo hr (List_boards kw p) =
     for_user V mo hr (\<lambda>_. reply Board_page (\<lambda>d. Inr (api_list_boards (sv_ilike V) kw p d)))"
| "handle_query V mo hr (Get_board i) = for_user V mo hr (\<lambda>_. reply Board_answer (api_get_board i))"
| "handle_query V mo hr My_caregiver = for_user V mo hr (\<lambda>actor. reply Caregiver_answer (api_caregiver_me actor))"
| "handle_query V mo hr My_relations = for_user V mo hr (\<lambda>actor. reply Relation_list (api_list_relations actor))"
| "handle_query V mo hr (List_companies kw p) =
     for_user V mo hr (\<lambda>_. reply Company_page (\<lambda>d. Inr (api_list_companies (sv_ilike V) kw p d)))"
| "handle_query V mo hr (Get_company i) = for_user V mo hr (\<lambda>_. reply_cached Company_answer (api_get_company V i))"
| "handle_query V mo hr (List_chargers kw co p) =
     for_user V mo hr (\<lambda>actor. reply Charger_page (api_list_chargers (sv_ilike V) actor kw co p))"
| "handle_query V mo hr (Documents_of i) = for_user V mo hr (\<lambda>actor. reply Document_list (api_list_documents actor i))"
| "handle_query V mo hr (List_standards co kw p) =
     for_user V mo hr (\<lambda>_. reply Standard_page (\<lambda>d. Inr (api_list_standards (sv_ilike V) co kw p d)))"
| "handle_query V mo hr (Get_standard i) = for_user V mo hr (\<lambda>_. reply_cached Standard_answer (api_get_standard V i))"
| "handle_query V mo hr (List_assignments sid cw) =
     for_user V mo hr (\<lambda>_. reply Assignment_list (\<lambda>d. Inr (api_list_assignments sid cw d)))"
| "handle_query V mo hr (List_kiosks kw co st p) =
     for_scope V mo hr (\<lambda>sc. reply Kiosk_page (api_list_kiosks (sv_ilike V) sc kw co st p))"
| "handle_query V mo hr (Kiosks_of co) = for_scope V mo hr (\<lambda>sc. reply Kiosk_list (api_kiosks_by_company sc co))"
| "handle_query V mo hr (List_leaves f p) =
     for_scope V mo hr (\<lambda>sc. reply Leave_page (api_list_leaves (sv_ilike V) sc f p))"
| "handle_query V mo hr (Approved_leaves co f t) =
     for_scope V mo hr (\<lambda>sc. reply Leave_list (api_list_approved sc co f t))"
| "handle_query V mo hr (Leaves_of i f t) =
     for_scope V mo hr (\<lambda>sc. reply Leave_list (\<lambda>d. Inr (api_leaves_by_worker sc i f t d)))"
| "handle_query V mo hr (List_schedules p) =
     for_user V mo hr (\<lambda>_. reply Schedule_pages (\<lambda>d. Inr (api_list_schedules p d)))"
| "handle_query V mo hr (Get_schedule i) = for_user V mo hr (\<lambda>_. reply Schedule_answer (api_get_schedule i))"
| "handle_query V mo hr (Schedules_of_job_worker i f t) =
     for_user V mo hr (\<lambda>_. reply Schedule_list (api_list_by_job_worker i f t))"
| "handle_query V mo hr (Schedules_of_standard i f t p) =
     for_user V mo hr (\<lambda>_. reply Schedule_page (api_list_by_job_standard i f t p))"
| "handle_query V mo hr (List_users kw ro p) =
     for_user V mo hr (\<lambda>actor. reply User_page (api_list_users (sv_ilike V) actor kw ro p))"
| "handle_query V mo hr (Journal_pdf i) =
     for_scope V mo hr (\<lambda>sc. reply File_answer (api_download_pdf (sv_renderers V) i sc))"
| "handle_query V mo hr (Journal_file i fmt) =
     for_scope V mo hr (\<lambda>sc. reply File_answer (api_download_file (sv_renderers V) i fmt sc))"
| "handle_query V mo hr (List_mail_jobs co n) = for_scope V mo hr (\<lambda>sc. reply Mail_job_list (api_list_jobs sc co n))"
| "handle_query V mo hr (Get_mail_job i) = for_scope V mo hr (\<lambda>sc. reply Mail_job_answer (api_get_mail_job sc i))"
| "handle_query V mo hr (Preview_mail co day) =
     for_scope V mo hr (\<lambda>sc. reply Preview_answer (api_preview (sv_mailer V) sc co day))"
| "handle_query V mo hr (List_mail_schedules co) =
     for_scope V mo hr (\<lambda>sc. reply Mail_schedule_list (api_list_email_schedules sc co))"
| "handle_query V mo hr (Records_of i) = for_user V mo hr (\<lambda>_. reply Record_list (\<lambda>d. Inr (api_list_records i d)))"
| "handle_query V mo hr (Process_records_of i) =
     for_user V mo hr (\<lambda>_. reply Process_record_list (\<lambda>d. Inr (api_list_process_records i d)))"
| "handle_query V mo hr (List_workers kw st p) =
     for_user V mo hr (\<lambda>_. reply Worker_page (\<lambda>d. Inr (api_list_workers (sv_ilike V) kw st p d)))"
| "handle_query V mo hr (Get_worker i) = for_user V mo hr (\<lambda>_. reply Worker_answer (api_get_worker i))"
| "handle_query V mo hr (Memberships_of i) = for_user V mo hr (\<lambda>_. reply Employment_list (api_list_memberships i))"
| "handle_query V mo hr (Workers_of_company i p) =
     for_user V mo hr (\<lambda>_. reply Employment_page (\<lambda>d. Inr (api_workers_by_company i p d)))"

text \<open>One query in its session.\<close>

definition exec_query ::
    "('raw, 'fs) server \<Rightarrow> moment \<Rightarrow> http_request \<Rightarrow> bool \<Rightarrow> query \<Rightarrow> ('raw, 'fs) world
     \<Rightarrow> (exn + answer) \<times> ('raw, 'fs) world" where
  "exec_query V mo hr commit_ok q w =
     (let (r, c) = handle_query V mo hr q (w_db w) (w_cache w);
          (a, d) = get_db_session (sv_engine V) (sv_settings V) False commit_ok
            (\<lambda>d. let_ok r (\<lambda>a. Inr (a, d))) (w_db w)
      in (a, w\<lparr>w_db := d, w_cache := c\<rparr>))"

section \<open>What the answers depend on\<close>

text \<open>Everything but the four tables whose rows belong to a company.\<close>

definition unscoped_part :: "db \<Rightarrow> db" where
  "unscoped_part d = d\<lparr>kiosks := empty_table, leaves := empty_table, email_schedules := empty_table,
     bulk_jobs := empty_table\<rparr>"

lemma unscoped_part_tables [simp]:
  "users (unscoped_part d) = users d" "companies (unscoped_part d) = companies d"
  "chargers (unscoped_part d) = chargers d" "workers (unscoped_part d) = workers d"
  "company_workers (unscoped_part d) = company_workers d" "caregivers (unscoped_part d) = caregivers d"
  "relations (unscoped_part d) = relations d" "standards (unscoped_part d) = standards d"
  "processes (unscoped_part d) = processes d" "job_workers (unscoped_part d) = job_workers d"
  "schedules (unscoped_part d) = schedules d" "records (unscoped_part d) = records d"
  "process_records (unscoped_part d) = process_records d" "document_types (unscoped_part d) = document_types d"
  "documents (unscoped_part d) = documents d" "document_logs (unscoped_part d) = document_logs d"
  "boards (unscoped_part d) = boards d" "option_variables (unscoped_part d) = option_variables d"
  by (simp_all add: unscoped_part_def)

text \<open>The reads that take no scope depend on the rest only.\<close>

lemma unscoped_reads [simp]:
  "get_company_scope p (unscoped_part d) = get_company_scope p d"
  "api_me p (unscoped_part d) = api_me p d"
  "api_list_boards L kw pg (unscoped_part d) = api_list_boards L kw pg d"
  "api_get_board i (unscoped_part d) = api_get_board i d"
  "api_caregiver_me p (unscoped_part d) = api_caregiver_me p d"
  "api_list_relations p (unscoped_part d) = api_list_relations p d"
  by (simp_all add: get_company_scope_def api_me_def me_def api_list_boards_def list_boards_def board_rows_def
      author_name_def api_get_board_def get_board_def board_or_throw_def api_caregiver_me_def caregiver_me_def
      caregiver_by_user_id_def api_list_relations_def list_relations_def
      cong: if_cong option.case_cong)

lemma unscoped_reads_2 [simp]:
  "api_list_companies L kw pg (unscoped_part d) = api_list_companies L kw pg d"
  "api_get_company V i (unscoped_part d) = api_get_company V i d"
  "api_list_chargers L p kw co pg (unscoped_part d) = api_list_chargers L p kw co pg d"
  "api_list_documents p i (unscoped_part d) = api_list_documents p i d"
  "api_list_standards L co kw pg (unscoped_part d) = api_list_standards L co kw pg d"
  "api_get_standard V i (unscoped_part d) = api_get_standard V i d"
  "api_list_assignments sid cw (unscoped_part d) = api_list_assignments sid cw d"
  by (simp_all add: api_list_companies_def search_companies_def api_get_company_def get_company_def company_load_def
      company_or_throw_def api_list_chargers_def search_chargers_def charger_rows_def
      api_list_documents_def list_documents_def document_gate_def relation_or_404_def ensure_actor_owns_relation_def
      api_list_standards_def search_standards_def api_get_standard_def get_standard_def standard_load_def
      standard_or_throw_def company_name_def processes_of_def api_list_assignments_def list_by_job_standard_def
      list_active_by_company_worker_def list_assignments_def fun_eq_iff
      cong: if_cong option.case_cong)

lemma unscoped_reads_3 [simp]:
  "api_list_schedules pg (unscoped_part d) = api_list_schedules pg d"
  "api_get_schedule i (unscoped_part d) = api_get_schedule i d"
  "api_list_by_job_worker i f t (unscoped_part d) = api_list_by_job_worker i f t d"
  "api_list_by_job_standard i f t pg (unscoped_part d) = api_list_by_job_standard i f t pg d"
  "api_list_users L p kw ro pg (unscoped_part d) = api_list_users L p kw ro pg d"
  "api_list_records i (unscoped_part d) = api_list_records i d"
  "api_list_process_records i (unscoped_part d) = api_list_process_records i d"
  "api_list_workers L kw st pg (unscoped_part d) = api_list_workers L kw st pg d"
  "api_get_worker i (unscoped_part d) = api_get_worker i d"
  "api_list_memberships i (unscoped_part d) = api_list_memberships i d"
  "api_workers_by_company i pg (unscoped_part d) = api_workers_by_company i pg d"
  by (simp_all add: api_list_schedules_def list_all_schedules_def schedule_rows_def api_get_schedule_def
      get_schedule_def schedule_get_or_throw_def schedule_to_response_def api_list_by_job_worker_def
      list_for_job_worker_def api_list_by_job_standard_def list_for_standard_def api_list_users_def search_users_def
      api_list_records_def list_records_def api_list_process_records_def list_process_def
      api_list_workers_def search_workers_def worker_rows_def api_get_worker_def get_worker_def worker_and_user_def
      worker_or_throw_def api_list_memberships_def list_memberships_def employment_rows_def
      api_workers_by_company_def list_workers_by_company_def fun_eq_iff
      cong: if_cong option.case_cong)

lemma unscoped_journals [simp]:
  "api_download_file R i fmt sc (unscoped_part d) = api_download_file R i fmt sc d"
  "api_download_pdf R i sc (unscoped_part d) = api_download_pdf R i sc d"
  "api_preview X sc co day (unscoped_part d) = api_preview X sc co day d"
  by (simp_all add: api_download_pdf_def api_download_file_def render_journal_def owner_company_def journal_rows_def
      api_preview_def preview_def preview_item_of_def
      cong: if_cong option.case_cong)

text \<open>
  Two tables are alike for company \<open>c\<close> when they have the same rows of \<open>c\<close> and, for the others, the same keys
  and owners in the same places: only the contents of foreign rows differ.
\<close>

definition alike_rows :: "('r \<Rightarrow> int) \<Rightarrow> int \<Rightarrow> 'r table \<Rightarrow> 'r table \<Rightarrow> bool" where
  "alike_rows co c t t' \<longleftrightarrow>
     list_all2 (\<lambda>(i, r) (j, r'). i = j \<and> co r = co r' \<and> (r = r' \<or> co r \<noteq> c)) (rows t) (rows t')"

definition indistinguishable :: "int \<Rightarrow> db \<Rightarrow> db \<Rightarrow> bool" where
  "indistinguishable c d d' \<longleftrightarrow> unscoped_part d = unscoped_part d'
     \<and> alike_rows lv_company_id c (leaves d) (leaves d') \<and> alike_rows k_company_id c (kiosks d) (kiosks d')
     \<and> alike_rows es_company_id c (email_schedules d) (email_schedules d')
     \<and> alike_rows bj_company_id c (bulk_jobs d) (bulk_jobs d')"

lemma alike_rows_refl [simp]: "alike_rows co c t t"
  by (simp add: alike_rows_def list_all2_same split: prod.splits)

lemma indistinguishable_refl [simp]: "indistinguishable c d d"
  by (simp add: indistinguishable_def)

lemma alike_tsel:
  assumes "alike_rows co c t t'" and p: "\<And>i r. p i r \<Longrightarrow> co r = c"
  shows "tsel p t = tsel p t'"
  using assms(1) unfolding alike_rows_def tsel_def by (induction rule: list_all2_induct) (use p in force)+

lemma alike_map_filter:
  assumes "alike_rows co c t t'" and f: "\<And>i r y. f (i, r) = Some y \<Longrightarrow> co r = c"
  shows "List.map_filter f (rows t) = List.map_filter f (rows t')"
  using assms(1) unfolding alike_rows_def
proof (induction rule: list_all2_induct)
  case (Cons x xs y ys)
  obtain i r where x: "x = (i, r)" by (cases x)
  obtain r' where y: "y = (i, r')" "co r = co r'" "r = r' \<or> co r \<noteq> c" using Cons(1) x by (cases y) auto
  have "f x = f y"
  proof (cases "co r = c")
    case False
    then have "f (i, r) = None" "f (i, r') = None" using f [of i r] f [of i r'] y(2) by force+
    then show ?thesis by (simp add: x y(1))
  qed (use x y in auto)
  with Cons show ?case by (simp add: List.map_filter_simps split: option.splits)
qed simp

lemma alike_tget:
  assumes "alike_rows co c t t'"
  shows "rel_option (\<lambda>r r'. co r = co r' \<and> (r = r' \<or> co r \<noteq> c)) (tget t i) (tget t' i)"
  using assms unfolding alike_rows_def tget_def
  by (induction rule: list_all2_induct) (auto split: prod.splits)

lemma filter_map_filter:
  "filter p (List.map_filter f xs) = List.map_filter (\<lambda>x. Option.bind (f x) (\<lambda>y. if p y then Some y else None)) xs"
  by (induction xs) (auto simp: List.map_filter_simps split: option.splits)

lemma alike_leaves:
  assumes "indistinguishable c d d'" and p: "\<And>r. p r \<Longrightarrow> lv_company_id (row_leave r) = c"
  shows "filter p (leave_base_query d) = filter p (leave_base_query d')"
proof -
  have u: "unscoped_part d = unscoped_part d'" using assms(1) by (simp add: indistinguishable_def)
  have "join_leave (unscoped_part d) = join_leave d" for d
    by (simp add: join_leave_def worker_name_def creator_name_def fun_eq_iff cong: option.case_cong)
  with u have j: "join_leave d = join_leave d'" by metis
  show ?thesis unfolding leave_base_query_def filter_map_filter j
    by (rule alike_map_filter [where co = lv_company_id and c = c])
       (use assms p in \<open>fastforce simp: indistinguishable_def join_leave_def bind_eq_Some_conv split: option.splits if_splits\<close>)+
qed

lemma alike_kiosks:
  assumes "indistinguishable c d d'" and p: "\<And>r. p r \<Longrightarrow> k_company_id (fst (snd r)) = c"
  shows "filter p (kiosk_rows d) = filter p (kiosk_rows d')"
proof -
  have u: "unscoped_part d = unscoped_part d'" using assms(1) by (simp add: indistinguishable_def)
  have "join_kiosk (unscoped_part d) = join_kiosk d" for d
    by (simp add: join_kiosk_def fun_eq_iff)
  with u have j: "join_kiosk d = join_kiosk d'" by metis
  show ?thesis unfolding kiosk_rows_def filter_map_filter j
    by (rule alike_map_filter [where co = k_company_id and c = c])
       (use assms p in \<open>fastforce simp: indistinguishable_def join_kiosk_def bind_eq_Some_conv split: option.splits if_splits\<close>)+
qed

lemma scoped_filter:
  "resolve_company_filter (Some c) x = Inr y \<Longrightarrow> y = Some c"
  by (auto simp: resolve_company_filter_def split: option.splits if_splits)

lemma let_ok_cong_Inr: "(\<And>x. r = Inr x \<Longrightarrow> f x = g x) \<Longrightarrow> let_ok r f = let_ok r g"
  by (cases r) simp_all

lemma scoped_leaves:
  assumes ind: "indistinguishable c d d'"
  shows "api_list_leaves L (Some c) f pg d = api_list_leaves L (Some c) f pg d'"
    "api_list_approved (Some c) co from until d = api_list_approved (Some c) co from until d'"
    "api_leaves_by_worker (Some c) i from until d = api_leaves_by_worker (Some c) i from until d'"
proof -
  have "search_leaves L (f\<lparr>lf_company_id := Some c\<rparr>) pg d = search_leaves L (f\<lparr>lf_company_id := Some c\<rparr>) pg d'"
    unfolding search_leaves_def by (subst alike_leaves [OF ind]) (simp_all add: leave_matches_def)
  then show "api_list_leaves L (Some c) f pg d = api_list_leaves L (Some c) f pg d'"
    unfolding api_list_leaves_def by (intro let_ok_cong_Inr) (auto dest!: scoped_filter)
  have "list_approved (Some c) from until d = list_approved (Some c) from until d'"
    unfolding list_approved_def by (subst alike_leaves [OF ind]) simp_all
  then show "api_list_approved (Some c) co from until d = api_list_approved (Some c) co from until d'"
    unfolding api_list_approved_def by (intro let_ok_cong_Inr) (auto dest!: scoped_filter)
  show "api_leaves_by_worker (Some c) i from until d = api_leaves_by_worker (Some c) i from until d'"
    unfolding api_leaves_by_worker_def list_by_worker_def by (subst alike_leaves [OF ind]) simp_all
qed

lemma scoped_kiosks:
  assumes ind: "indistinguishable c d d'"
  shows "api_list_kiosks L (Some c) kw co st pg d = api_list_kiosks L (Some c) kw co st pg d'"
    "api_kiosks_by_company (Some c) k d = api_kiosks_by_company (Some c) k d'"
proof -
  have "search_kiosks L kw (Some c) st pg d = search_kiosks L kw (Some c) st pg d'"
    unfolding search_kiosks_def by (subst alike_kiosks [OF ind]) (auto simp: kiosk_matches_def)
  then show "api_list_kiosks L (Some c) kw co st pg d = api_list_kiosks L (Some c) kw co st pg d'"
    unfolding api_list_kiosks_def by (intro let_ok_cong_Inr) (auto dest!: scoped_filter)
  have "list_kiosks_by_company c d = list_kiosks_by_company c d'"
    unfolding list_kiosks_by_company_def by (subst alike_kiosks [OF ind]) auto
  then show "api_kiosks_by_company (Some c) k d = api_kiosks_by_company (Some c) k d'"
    unfolding api_kiosks_by_company_def by (intro let_ok_cong_Inr) (auto simp: assert_company_def split: if_splits)
qed

lemma indistinguishable_tables:
  assumes "indistinguishable c d d'"
  shows "users d = users d'" "companies d = companies d'"
  using assms unscoped_part_tables(1,2) unfolding indistinguishable_def by metis+

lemma scoped_mail:
  assumes ind: "indistinguishable c d d'"
  shows "api_list_jobs (Some c) co n d = api_list_jobs (Some c) co n d'"
    "api_get_mail_job (Some c) i d = api_get_mail_job (Some c) i d'"
    "api_list_email_schedules (Some c) co d = api_list_email_schedules (Some c) co d'"
proof -
  note t = indistinguishable_tables [OF ind]
  have "tsel (\<lambda>i j. bj_company_id j = c) (bulk_jobs d) = tsel (\<lambda>i j. bj_company_id j = c) (bulk_jobs d')"
    using ind by (intro alike_tsel [where co = bj_company_id]) (auto simp: indistinguishable_def)
  then have "list_jobs (Some c) n d = list_jobs (Some c) n d'" by (simp add: list_jobs_def t)
  then show "api_list_jobs (Some c) co n d = api_list_jobs (Some c) co n d'"
    unfolding api_list_jobs_def by (intro let_ok_cong_Inr) (auto dest!: scoped_filter)
  have "alike_rows bj_company_id c (bulk_jobs d) (bulk_jobs d')" using ind by (simp add: indistinguishable_def)
  from alike_tget [OF this, of i] show "api_get_mail_job (Some c) i d = api_get_mail_job (Some c) i d'"
  proof (cases rule: option.rel_cases)
    case (Some j j')
    then show ?thesis
      by (cases "j = j'"; cases "tget (companies d') (bj_company_id j')")
         (simp_all add: api_get_mail_job_def get_job_def t assert_company_def)
  qed (simp add: api_get_mail_job_def get_job_def t)
  have "tsel (\<lambda>i s. es_company_id s = c) (email_schedules d) = tsel (\<lambda>i s. es_company_id s = c) (email_schedules d')"
    using ind by (intro alike_tsel [where co = es_company_id]) (auto simp: indistinguishable_def)
  then have "list_email_schedules (Some c) d = list_email_schedules (Some c) d'"
    by (simp add: list_email_schedules_def company_name_of_def t)
  then show "api_list_email_schedules (Some c) co d = api_list_email_schedules (Some c) co d'"
    unfolding api_list_email_schedules_def by (intro let_ok_cong_Inr) (auto dest!: scoped_filter)
qed


lemma unscoped_indistinguishable:
  assumes "indistinguishable c d d'" and "\<And>d. f (unscoped_part d) = f d"
  shows "f d = f d'"
  using assms by (metis indistinguishable_def)

lemmas scope_of_part = unscoped_indistinguishable [where f = "get_company_scope p" for p, OF _ unscoped_reads(1)]

text \<open>The guards read the same, so it is enough that the answers agree for the scope of \<open>c\<close>.\<close>

lemma reply_cong: "f d = f d' \<Longrightarrow> reply k f d ca = reply k f d' ca"
  by (simp add: reply_def)

lemma for_user_cong: "(\<And>actor. k actor d ca = k actor d' ca) \<Longrightarrow> for_user V mo hr k d ca = for_user V mo hr k d' ca"
  by (simp add: for_user_def split: sum.splits)

lemma for_scope_cong:
  assumes "indistinguishable c d d'" and "scope_within V c d mo hr" and "k (Some c) d ca = k (Some c) d' ca"
  shows "for_scope V mo hr k d ca = for_scope V mo hr k d' ca"
  using assms(2,3) scope_of_part [OF assms(1)]
  by (auto simp: for_scope_def for_user_def scope_within_def split: sum.splits)

lemmas part_reads = unscoped_reads unscoped_reads_2 unscoped_reads_3 unscoped_journals

text \<open>The queries that read a table of the tenants.\<close>

fun owned_read :: "query \<Rightarrow> bool" where
  "owned_read (List_kiosks kw co st p) = True"
| "owned_read (Kiosks_of co) = True"
| "owned_read (List_leaves f p) = True"
| "owned_read (Approved_leaves co f t) = True"
| "owned_read (Leaves_of i f t) = True"
| "owned_read (List_mail_jobs co n) = True"
| "owned_read (Get_mail_job i) = True"
| "owned_read (List_mail_schedules co) = True"
| "owned_read q = False"

lemma handle_query_part:
  "\<not> owned_read q \<Longrightarrow> handle_query V mo hr q (unscoped_part d) = handle_query V mo hr q d"
  by (cases q) (simp_all add: fun_eq_iff for_user_def for_scope_def reply_def reply_cached_def cong: sum.case_cong)

lemma handle_query_owned:
  assumes ind: "indistinguishable c d d'" and within: "scope_within V c d mo hr"
  shows "owned_read q \<Longrightarrow> handle_query V mo hr q d ca = handle_query V mo hr q d' ca"
  by (cases q; simp; intro for_scope_cong [OF ind within] reply_cong;
      simp add: scoped_leaves [OF ind] scoped_kiosks [OF ind] scoped_mail [OF ind])

lemma handle_query_indistinguishable:
  assumes ind: "indistinguishable c d d'" and within: "scope_within V c d mo hr"
  shows "handle_query V mo hr q d ca = handle_query V mo hr q d' ca"
proof (cases "owned_read q")
  case False
  from unscoped_indistinguishable [OF ind, of "handle_query V mo hr q", OF handle_query_part [OF False]]
  show ?thesis by simp
qed (rule handle_query_owned [OF ind within])

section \<open>Reads and guards\<close>

lemma exec_query_world: "exec_query V mo hr cm q w =
   (fst (handle_query V mo hr q (w_db w) (w_cache w)), w\<lparr>w_cache := snd (handle_query V mo hr q (w_db w) (w_cache w))\<rparr>)"
proof -
  obtain r c where "handle_query V mo hr q (w_db w) (w_cache w) = (r, c)" by (rule prod.exhaust)
  then show ?thesis by (cases r) (simp_all add: exec_query_def get_db_session_def)
qed

text \<open>The guard of each reading endpoint.\<close>

fun query_access :: "query \<Rightarrow> access" where
  "query_access App_version = Public"
| "query_access Ping = Public"
| "query_access My_caregiver = Roles [CAREGIVER]"
| "query_access My_relations = Roles [CAREGIVER]"
| "query_access (List_chargers kw co p) = Roles [ADMIN]"
| "query_access (List_users kw ro p) = Roles [ADMIN]"
| "query_access (Journal_pdf i) = Roles [ADMIN, CHARGER]"
| "query_access (Journal_file i fmt) = Roles [ADMIN, CHARGER]"
| "query_access (Preview_mail co day) = Roles [ADMIN, CHARGER]"
| "query_access q = (if owned_read q then Roles [ADMIN, CHARGER] else Authenticated)"

lemma query_user_refused:
  "isl (current_user (sv_settings V) (sv_libs V) hr (mo_secs mo)) \<Longrightarrow> query_access q \<noteq> Public \<Longrightarrow>
   \<exists>e. handle_query V mo hr q d c = (Inl e, c)"
  by (cases "current_user (sv_settings V) (sv_libs V) hr (mo_secs mo)"; cases q)
     (simp_all add: for_user_def for_scope_def)

lemma query_role_not_held:
  assumes user: "current_user (sv_settings V) (sv_libs V) hr (mo_secs mo) = Inr actor"
    and access: "query_access q = Roles rs" and no: "\<not> list_ex (\<lambda>r. role_value r \<in> set (pr_roles actor)) rs"
  shows "\<exists>e. handle_query V mo hr q d c = (Inl e, c)"
proof -
  from no have "require_roles rs actor \<noteq> Inr x" for x by (auto simp: require_roles_Inr list_ex_iff)
  then obtain e where "require_roles rs actor = Inl e" by (cases "require_roles rs actor") auto
  then show ?thesis using access user
    by (cases q)
       (auto simp: for_user_def for_scope_def reply_def get_company_scope_def require_admin_def
         require_admin_or_charger_def require_caregiver_def api_list_chargers_def api_list_users_def
         api_caregiver_me_def api_list_relations_def)
qed

lemma query_refused:
  assumes "\<not> permitted V mo hr (query_access q)"
  shows "\<exists>e. exec_query V mo hr cm q w = (Inl e, w)"
proof -
  have "\<exists>e. handle_query V mo hr q (w_db w) (w_cache w) = (Inl e, w_cache w)"
  proof (cases "current_user (sv_settings V) (sv_libs V) hr (mo_secs mo)")
    case (Inl e)
    then have "query_access q \<noteq> Public" using assms by (auto simp: permitted_def)
    with Inl show ?thesis by (simp add: query_user_refused)
  next
    case (Inr actor)
    then show ?thesis using assms query_role_not_held [OF Inr]
      by (cases "query_access q") (auto simp: permitted_def)
  qed
  then show ?thesis by (auto simp: exec_query_world)
qed

end
