(* ===== verification/References.thy ===== *)
theory References
  imports Integrity
begin

text \<open>
  The foreign keys of app/models: \<open>refs_ok\<close> says that every one of them names a row that exists.  The
  database checks them when a row is written and when a row they name is deleted; here every writing
  operation is shown to keep them, its own checks and cascades included.
\<close>

section \<open>Foreign keys\<close>

definition keys :: "'r table \<Rightarrow> int set" where
  "keys t = fst ` set (rows t)"

text \<open>\<open>fk f t p\<close>: the keys \<open>f r\<close> of each row \<open>r\<close> of \<open>t\<close> are keys of the table \<open>p\<close>.\<close>

definition fk :: "('r \<Rightarrow> int set) \<Rightarrow> 'r table \<Rightarrow> 'p table \<Rightarrow> bool" where
  "fk f t p \<longleftrightarrow> (\<forall>(i, r) \<in> set (rows t). f r \<subseteq> keys p)"

text \<open>All foreign keys of the schema.\<close>

definition refs_ok :: "db \<Rightarrow> bool" where
  "refs_ok d \<longleftrightarrow>
     fk (\<lambda>r. {ch_user_id r}) (chargers d) (users d) \<and> fk (\<lambda>r. {ch_company_id r}) (chargers d) (companies d)
     \<and> fk (\<lambda>r. {w_user_id r}) (workers d) (users d)
     \<and> fk (\<lambda>r. {cw_company_id r}) (company_workers d) (companies d)
     \<and> fk (\<lambda>r. {cw_worker_id r}) (company_workers d) (workers d)
     \<and> fk (\<lambda>r. {cg_user_id r}) (caregivers d) (users d)
     \<and> fk (\<lambda>r. {rel_caregiver_id r}) (relations d) (caregivers d)
     \<and> fk (\<lambda>r. {rel_worker_id r}) (relations d) (workers d)
     \<and> fk (\<lambda>r. {js_company_id r}) (standards d) (companies d)
     \<and> fk (\<lambda>r. {jp_standard_id r}) (processes d) (standards d)
     \<and> fk (\<lambda>r. {jw_company_worker_id r}) (job_workers d) (company_workers d)
     \<and> fk (\<lambda>r. {jw_standard_id r}) (job_workers d) (standards d)
     \<and> fk (\<lambda>r. {ws_job_worker_id r}) (schedules d) (job_workers d)
     \<and> fk (\<lambda>r. set_option (ws_charger_id r)) (schedules d) (chargers d)
     \<and> fk (\<lambda>r. {ws_standard_id r}) (schedules d) (standards d)
     \<and> fk (\<lambda>r. {wr_schedule_id r}) (records d) (schedules d)
     \<and> fk (\<lambda>r. {wp_schedule_id r}) (process_records d) (schedules d)
     \<and> fk (\<lambda>r. {wp_process_id r}) (process_records d) (processes d)
     \<and> fk (\<lambda>r. {d_relation_id r}) (documents d) (relations d)
     \<and> fk (\<lambda>r. {d_type_id r}) (documents d) (document_types d)
     \<and> fk (\<lambda>r. {dl_document_id r}) (document_logs d) (documents d)
     \<and> fk (\<lambda>r. {dl_user_id r}) (document_logs d) (users d)
     \<and> fk (\<lambda>r. {b_author_id r}) (boards d) (users d)
     \<and> fk (\<lambda>r. {k_company_id r}) (kiosks d) (companies d)
     \<and> fk (\<lambda>r. {lv_worker_id r}) (leaves d) (workers d) \<and> fk (\<lambda>r. {lv_company_id r}) (leaves d) (companies d)
     \<and> fk (\<lambda>r. {es_company_id r}) (email_schedules d) (companies d)
     \<and> fk (\<lambda>r. {bj_company_id r}) (bulk_jobs d) (companies d)
     \<and> fk (\<lambda>r. set_option (bj_requested_by r)) (bulk_jobs d) (users d)"

lemma keys_iff: "i \<in> keys t \<longleftrightarrow> tget t i \<noteq> None"
  by (simp add: keys_def tget_def map_of_eq_None_iff)

lemma keys_in: "(i, r) \<in> set (rows t) \<Longrightarrow> i \<in> keys t"
  by (force simp: keys_def)

lemma keys_get: "tget t i = Some r \<Longrightarrow> i \<in> keys t"
  by (simp add: keys_iff)

lemma keys_changes [simp]:
  "keys (tins r t) = insert (next_id t) (keys t)" "keys (tupd i r t) = keys t" "keys (tdel i t) = keys t - {i}"
  by (auto simp: keys_def tins_def tupd_def tdel_def split: if_splits; force split: if_splits)+

lemma fk_tins [simp]: "fk f (tins r t) p \<longleftrightarrow> fk f t p \<and> f r \<subseteq> keys p"
  by (auto simp: fk_def tins_def)

lemma fk_grow [simp]: "fk f t p \<Longrightarrow> fk f t (tins r p)"
  by (fastforce simp: fk_def)

lemma fk_parent_tupd [simp]: "fk f t (tupd i r p) \<longleftrightarrow> fk f t p"
  by (simp add: fk_def)

lemma fk_tupd [simp]: "fk f t p \<Longrightarrow> f r \<subseteq> keys p \<Longrightarrow> fk f (tupd i r t) p"
  by (fastforce simp: fk_def tupd_def split: if_splits)

lemma fk_tdel [simp]: "fk f t p \<Longrightarrow> fk f (tdel i t) p" "fk f t p \<Longrightarrow> fk f (tdel_where q t) p"
  by (auto simp: fk_def tdel_def tdel_where_def)

lemma fk_row: "fk f t p \<Longrightarrow> (i, r) \<in> set (rows t) \<Longrightarrow> f r \<subseteq> keys p"
  by (auto simp: fk_def)

lemma fk_tupd_same [simp]: "fk f t p \<Longrightarrow> (i, r) \<in> set (rows t) \<Longrightarrow> f r' = f r \<Longrightarrow> fk f (tupd i r' t) p"
  using fk_row [of f t p i r] by simp

lemma refs_empty: "refs_ok empty_db"
  by (simp add: refs_ok_def fk_def empty_db_def empty_table_def)

section \<open>Changes of one table\<close>

lemma refs_insert:
  "refs_ok d \<Longrightarrow> refs_ok (d\<lparr>users := tins u (users d)\<rparr>)"
  "refs_ok d \<Longrightarrow> refs_ok (d\<lparr>companies := tins c (companies d)\<rparr>)"
  "refs_ok d \<Longrightarrow> w_user_id w \<in> keys (users d) \<Longrightarrow> refs_ok (d\<lparr>workers := tins w (workers d)\<rparr>)"
  "refs_ok d \<Longrightarrow> cw_company_id cw \<in> keys (companies d) \<Longrightarrow> cw_worker_id cw \<in> keys (workers d) \<Longrightarrow>
   refs_ok (d\<lparr>company_workers := tins cw (company_workers d)\<rparr>)"
  "refs_ok d \<Longrightarrow> cg_user_id g \<in> keys (users d) \<Longrightarrow> refs_ok (d\<lparr>caregivers := tins g (caregivers d)\<rparr>)"
  "refs_ok d \<Longrightarrow> rel_caregiver_id r \<in> keys (caregivers d) \<Longrightarrow> rel_worker_id r \<in> keys (workers d) \<Longrightarrow>
   refs_ok (d\<lparr>relations := tins r (relations d)\<rparr>)"
  "refs_ok d \<Longrightarrow> js_company_id s \<in> keys (companies d) \<Longrightarrow> refs_ok (d\<lparr>standards := tins s (standards d)\<rparr>)"
  "refs_ok d \<Longrightarrow> jp_standard_id p \<in> keys (standards d) \<Longrightarrow> refs_ok (d\<lparr>processes := tins p (processes d)\<rparr>)"
  "refs_ok d \<Longrightarrow> jw_company_worker_id j \<in> keys (company_workers d) \<Longrightarrow> jw_standard_id j \<in> keys (standards d) \<Longrightarrow>
   refs_ok (d\<lparr>job_workers := tins j (job_workers d)\<rparr>)"
  "refs_ok d \<Longrightarrow> ws_job_worker_id x \<in> keys (job_workers d) \<Longrightarrow> set_option (ws_charger_id x) \<subseteq> keys (chargers d) \<Longrightarrow>
   ws_standard_id x \<in> keys (standards d) \<Longrightarrow> refs_ok (d\<lparr>schedules := tins x (schedules d)\<rparr>)"
  by (simp_all add: refs_ok_def)

lemma refs_insert_2:
  "refs_ok d \<Longrightarrow> wr_schedule_id r \<in> keys (schedules d) \<Longrightarrow> refs_ok (d\<lparr>records := tins r (records d)\<rparr>)"
  "refs_ok d \<Longrightarrow> wp_schedule_id p \<in> keys (schedules d) \<Longrightarrow> wp_process_id p \<in> keys (processes d) \<Longrightarrow>
   refs_ok (d\<lparr>process_records := tins p (process_records d)\<rparr>)"
  "refs_ok d \<Longrightarrow> d_relation_id x \<in> keys (relations d) \<Longrightarrow> d_type_id x \<in> keys (document_types d) \<Longrightarrow>
   refs_ok (d\<lparr>documents := tins x (documents d)\<rparr>)"
  "refs_ok d \<Longrightarrow> dl_document_id l \<in> keys (documents d) \<Longrightarrow> dl_user_id l \<in> keys (users d) \<Longrightarrow>
   refs_ok (d\<lparr>document_logs := tins l (document_logs d)\<rparr>)"
  "refs_ok d \<Longrightarrow> b_author_id b \<in> keys (users d) \<Longrightarrow> refs_ok (d\<lparr>boards := tins b (boards d)\<rparr>)"
  "refs_ok d \<Longrightarrow> k_company_id k \<in> keys (companies d) \<Longrightarrow> refs_ok (d\<lparr>kiosks := tins k (kiosks d)\<rparr>)"
  "refs_ok d \<Longrightarrow> lv_worker_id v \<in> keys (workers d) \<Longrightarrow> lv_company_id v \<in> keys (companies d) \<Longrightarrow>
   refs_ok (d\<lparr>leaves := tins v (leaves d)\<rparr>)"
  "refs_ok d \<Longrightarrow> es_company_id e \<in> keys (companies d) \<Longrightarrow> refs_ok (d\<lparr>email_schedules := tins e (email_schedules d)\<rparr>)"
  "refs_ok d \<Longrightarrow> bj_company_id m \<in> keys (companies d) \<Longrightarrow> set_option (bj_requested_by m) \<subseteq> keys (users d) \<Longrightarrow>
   refs_ok (d\<lparr>bulk_jobs := tins m (bulk_jobs d)\<rparr>)"
  by (simp_all add: refs_ok_def)

lemma refs_update:
  "refs_ok d \<Longrightarrow> refs_ok (d\<lparr>users := tupd i u (users d)\<rparr>)"
  "refs_ok d \<Longrightarrow> refs_ok (d\<lparr>companies := tupd i c (companies d)\<rparr>)"
  "refs_ok d \<Longrightarrow> (i, r) \<in> set (rows (chargers d)) \<Longrightarrow> refs_ok (d\<lparr>chargers := tupd i (r\<lparr>ch_is_hired := h\<rparr>) (chargers d)\<rparr>)"
  "refs_ok d \<Longrightarrow> (i, w) \<in> set (rows (workers d)) \<Longrightarrow> w_user_id w' = w_user_id w \<Longrightarrow>
   refs_ok (d\<lparr>workers := tupd i w' (workers d)\<rparr>)"
  "refs_ok d \<Longrightarrow> (i, cw) \<in> set (rows (company_workers d)) \<Longrightarrow>
   refs_ok (d\<lparr>company_workers := tupd i (cw\<lparr>cw_is_hired := h\<rparr>) (company_workers d)\<rparr>)"
  "refs_ok d \<Longrightarrow> (i, s) \<in> set (rows (standards d)) \<Longrightarrow> js_company_id s' = js_company_id s \<Longrightarrow>
   refs_ok (d\<lparr>standards := tupd i s' (standards d)\<rparr>)"
  "refs_ok d \<Longrightarrow> (i, j) \<in> set (rows (job_workers d)) \<Longrightarrow>
   refs_ok (d\<lparr>job_workers := tupd i (j\<lparr>jw_use_flag := h\<rparr>) (job_workers d)\<rparr>)"
  "refs_ok d \<Longrightarrow> (i, x) \<in> set (rows (schedules d)) \<Longrightarrow>
   refs_ok (d\<lparr>schedules := tupd i (x\<lparr>ws_end_at := t\<rparr>) (schedules d)\<rparr>)"
  by (simp_all add: refs_ok_def)

lemma refs_update_2:
  "refs_ok d \<Longrightarrow> (i, wr) \<in> set (rows (records d)) \<Longrightarrow> refs_ok (d\<lparr>records := tupd i (wr\<lparr>wr_end_at := t\<rparr>) (records d)\<rparr>)"
  "refs_ok d \<Longrightarrow> (i, p) \<in> set (rows (process_records d)) \<Longrightarrow> wp_schedule_id p' = wp_schedule_id p \<Longrightarrow>
   wp_process_id p' = wp_process_id p \<Longrightarrow> refs_ok (d\<lparr>process_records := tupd i p' (process_records d)\<rparr>)"
  "refs_ok d \<Longrightarrow> (i, b) \<in> set (rows (boards d)) \<Longrightarrow> b_author_id b' = b_author_id b \<Longrightarrow>
   refs_ok (d\<lparr>boards := tupd i b' (boards d)\<rparr>)"
  "refs_ok d \<Longrightarrow> (i, k) \<in> set (rows (kiosks d)) \<Longrightarrow> k_company_id k' = k_company_id k \<Longrightarrow>
   refs_ok (d\<lparr>kiosks := tupd i k' (kiosks d)\<rparr>)"
  "refs_ok d \<Longrightarrow> (i, v) \<in> set (rows (leaves d)) \<Longrightarrow> lv_worker_id v' = lv_worker_id v \<Longrightarrow>
   lv_company_id v' = lv_company_id v \<Longrightarrow> refs_ok (d\<lparr>leaves := tupd i v' (leaves d)\<rparr>)"
  "refs_ok d \<Longrightarrow> es_company_id e \<in> keys (companies d) \<Longrightarrow>
   refs_ok (d\<lparr>email_schedules := tupd i e (email_schedules d)\<rparr>)"
  "refs_ok d \<Longrightarrow> (i, m) \<in> set (rows (bulk_jobs d)) \<Longrightarrow> bj_company_id m' = bj_company_id m \<Longrightarrow>
   bj_requested_by m' = bj_requested_by m \<Longrightarrow> refs_ok (d\<lparr>bulk_jobs := tupd i m' (bulk_jobs d)\<rparr>)"
  by (simp_all add: refs_ok_def)

lemma refs_delete:
  "refs_ok d \<Longrightarrow> refs_ok (d\<lparr>boards := tdel i (boards d)\<rparr>)"
  "refs_ok d \<Longrightarrow> refs_ok (d\<lparr>kiosks := tdel i (kiosks d)\<rparr>)"
  "refs_ok d \<Longrightarrow> refs_ok (d\<lparr>leaves := tdel i (leaves d)\<rparr>)"
  "refs_ok d \<Longrightarrow> refs_ok (d\<lparr>email_schedules := tdel i (email_schedules d)\<rparr>)"
  by (simp_all add: refs_ok_def)

text \<open>A deleted parent: no row names it.\<close>

lemma fk_parent_tdel [simp]: "fk f t p \<Longrightarrow> (\<And>k r. (k, r) \<in> set (rows t) \<Longrightarrow> i \<notin> f r) \<Longrightarrow> fk f t (tdel i p)"
  by (fastforce simp: fk_def)

lemmas refs_change = refs_insert refs_insert_2 refs_update refs_update_2 refs_delete

section \<open>The operations\<close>

lemma keys_insert_self: "next_id t \<in> keys (tins r t)"
  by simp

lemma refs_sync_fcm: "refs_ok d \<Longrightarrow> sync_fcm uid u tok d = Inr d' \<Longrightarrow> refs_ok d'"
  by (auto simp: sync_fcm_def flow tsel_iff split: if_splits option.splits dest!: scalar_in intro!: refs_update(4))

lemma refs_login:
  assumes "refs_ok d" and "login s L q now at d st = (Inr (t, d'), st')"
  shows "refs_ok d'"
proof -
  from login_success [OF assms(2)] obtain uid u where "login_writes s uid u q at d = Inr d'" by blast
  then show ?thesis
    using assms(1) by (auto simp: login_writes_def flow split: if_splits dest: refs_sync_fcm intro!: refs_update(1))
qed

lemma refs_account:
  "refs_ok d \<Longrightarrow> refresh s L token now d st = (Inr (t, d'), st') \<Longrightarrow> refs_ok d'"
  "refs_ok d \<Longrightarrow> change_password L uid cur new salt d st = (Inr (x, d'), st') \<Longrightarrow> refs_ok d'"
  "refs_ok d \<Longrightarrow> update_profile uid q d = Inr (y, d') \<Longrightarrow> refs_ok d'"
  by (auto simp: change_password_def update_profile_def Let_def flow split: option.splits if_splits
      intro!: refs_update(1) dest: ok_refresh)

lemma refs_user_and:
  "refs_ok d \<Longrightarrow> cg_user_id g = next_id (users d) \<Longrightarrow>
   refs_ok (d\<lparr>users := tins u (users d), caregivers := tins g (caregivers d)\<rparr>)"
  "refs_ok d \<Longrightarrow> w_user_id w = next_id (users d) \<Longrightarrow>
   refs_ok (d\<lparr>users := tins u (users d), workers := tins w (workers d)\<rparr>)"
  using refs_insert_2 refs_insert(5) [of "d\<lparr>users := tins u (users d)\<rparr>" g] refs_insert(3) [of "d\<lparr>users := tins u (users d)\<rparr>" w]
  by (simp_all add: refs_insert(1))

lemma refs_signup: "refs_ok d \<Longrightarrow> signup_as_caregiver s L q salt now d st = (Inr (t, d'), st') \<Longrightarrow> refs_ok d'"
  by (auto simp: signup_as_caregiver_def Let_def split: if_splits prod.splits intro!: refs_user_and)

lemma refs_hire: "refs_ok d \<Longrightarrow> hire_worker c w d = Inr (r, d') \<Longrightarrow> refs_ok d'"
  by (auto simp: hire_worker_def worker_and_user_def worker_or_throw_def Let_def flow keys_iff intro!: refs_insert(4))

lemma refs_worker: "refs_ok d \<Longrightarrow> exec_worker L p x d = Inr (r, d') \<Longrightarrow> refs_ok d'"
  by (cases x)
     (auto simp: flow dest!: create_worker_effect retire_worker_effect rehire_worker_effect fire_worker_effect tget_in
        dest: refs_hire intro!: refs_user_and refs_update(4,5))

lemma refs_company:
  "refs_ok d \<Longrightarrow> api_create_company q p d = Inr (x, d') \<Longrightarrow> refs_ok d'"
  "refs_ok d \<Longrightarrow> api_update_company r i u p d c = Inr (y, d', c') \<Longrightarrow> refs_ok d'"
  "refs_ok d \<Longrightarrow> api_deactivate_company r i p d c = Inr (z, d', c') \<Longrightarrow> refs_ok d'"
  by (auto simp: api_create_company_def api_update_company_def api_deactivate_company_def flow
      dest!: create_company_effect update_company_effect deactivate_company_effect intro!: refs_insert refs_update(2))

lemma refs_users:
  "refs_ok d \<Longrightarrow> api_update_charger p i q d = Inr (x, d') \<Longrightarrow> refs_ok d'"
  "refs_ok d \<Longrightarrow> api_set_enabled p i e d = Inr (y, d') \<Longrightarrow> refs_ok d'"
  by (auto simp: api_update_charger_def api_set_enabled_def flow dest!: set_hired_effect set_enabled_effect tget_in
      intro!: refs_update)

section \<open>Caregivers and documents\<close>

lemma caregiver_key: "caregiver_by_user_id u d = Inr c \<Longrightarrow> c \<in> keys (caregivers d)"
  by (auto simp: caregiver_by_user_id_def flow tsel_iff keys_def dest!: scalar_in split: option.splits; force)

lemma refs_relation: "refs_ok d \<Longrightarrow> api_register_worker q p d = Inr (x, d') \<Longrightarrow> refs_ok d'"
  by (auto simp: api_register_worker_def flow keys_iff dest!: register_worker_effect caregiver_key
      intro!: refs_insert(6))

text \<open>A removed relation takes its documents with it, and those their logs.\<close>

lemma fk_parent_tdel_where:
  "fk f t p \<Longrightarrow> (\<And>k r j x. (k, r) \<in> set (rows t) \<Longrightarrow> (j, x) \<in> set (rows p) \<Longrightarrow> q j x \<Longrightarrow> j \<notin> f r) \<Longrightarrow>
   fk f t (tdel_where q p)"
  by (fastforce simp: fk_def keys_def tdel_where_def)

lemma rows_tdel_where: "(k, r) \<in> set (rows (tdel_where q t)) \<longleftrightarrow> (k, r) \<in> set (rows t) \<and> \<not> q k r"
  by (auto simp: tdel_where_def)

lemma tsel_key: "k \<in> fst ` set (tsel q t) \<longleftrightarrow> (\<exists>r. (k, r) \<in> set (rows t) \<and> q k r)"
  by (auto simp: tsel_def image_def Bex_def)

lemma refs_delete_relation: "refs_ok d \<Longrightarrow> refs_ok (delete_relation_row i d)"
  by (auto simp: refs_ok_def delete_relation_row_def Let_def rows_tdel_where tsel_key
      simp del: image_iff intro!: fk_parent_tdel fk_parent_tdel_where)

lemma refs_delete_document: "refs_ok d \<Longrightarrow> refs_ok (delete_document_row i d)"
  by (auto simp: refs_ok_def delete_document_row_def rows_tdel_where intro!: fk_parent_tdel)

lemma refs_remove_relation: "refs_ok d \<Longrightarrow> api_remove_relation i p d = Inr (x, d') \<Longrightarrow> refs_ok d'"
  by (auto simp: api_remove_relation_def flow dest!: remove_relation_effect intro!: refs_delete_relation)

lemma refs_log:
  "refs_ok d \<Longrightarrow> u \<in> keys (users d) \<Longrightarrow> i \<in> keys (documents d) \<Longrightarrow> refs_ok (log_document u i a now d)"
  by (simp add: log_document_def refs_insert_2(4))

lemma may_access_keys: "may_access u rel d \<Longrightarrow> u \<in> keys (users d) \<and> rel \<in> keys (relations d)"
  by (auto simp: may_access_def keys_iff split: option.splits)

lemma upload_type: "upload_document put u a ulid now d fs = (Inr (r, d'), fs') \<Longrightarrow>
  \<exists>x. d' = log_document u (next_id (documents d)) UPLOAD now (d\<lparr>documents := tins x (documents d)\<rparr>)
    \<and> d_relation_id x = ua_relation_id a \<and> d_type_id x = ua_type_id a \<and> ua_type_id a \<in> keys (document_types d)"
  by (auto simp: upload_document_def Let_def keys_iff split: sum.splits option.splits)

lemma refs_upload:
  assumes "refs_ok d" and "api_upload_document put m p rel ty f ulid now d fs = (Inr (x, d'), fs')"
  shows "refs_ok d'"
proof -
  from assms(2) obtain a where u: "upload_document put (pr_user_id p) a ulid now d fs = (Inr (x, d'), fs')"
    by (auto simp: api_upload_document_def split: sum.splits)
  from upload_type [OF u] upload_effect [OF u] assms(1) show ?thesis
    by (auto intro!: refs_log refs_insert_2(3) dest!: may_access_keys)
qed

lemma refs_documents:
  "refs_ok d \<Longrightarrow> api_download_document rd p i now d fs = Inr (x, d') \<Longrightarrow> refs_ok d'"
  "refs_ok d \<Longrightarrow> delete_document rm u i now d fs = (Inr (y, d'), fs') \<Longrightarrow> refs_ok d'"
  by (auto simp: api_download_document_def flow dest!: load_effect delete_effect may_access_keys
      intro!: refs_log refs_delete_document keys_get)

section \<open>Standards, assignments, schedules and records\<close>

lemma fk_get: "fk f t p \<Longrightarrow> tget t i = Some r \<Longrightarrow> f r \<subseteq> keys p"
  using fk_row tget_in by fastforce

text \<open>A statement of a flush is on processes of the standard \<open>sid\<close>, and deletes none that has records.\<close>

fun stmt_of :: "int \<Rightarrow> process_stmt \<Rightarrow> bool" where
  "stmt_of sid (Update_process i p) \<longleftrightarrow> jp_standard_id p = sid"
| "stmt_of sid (Insert_process p) \<longleftrightarrow> jp_standard_id p = sid"
| "stmt_of sid (Delete_process i) \<longleftrightarrow> True"

lemma refs_stmt:
  assumes "refs_ok d" "sid \<in> keys (standards d)" "stmt_of sid x" "run_process_stmt x d = Inr d'"
  shows "refs_ok d' \<and> standards d' = standards d"
proof (cases x)
  case (Delete_process i)
  with assms have "\<And>k r. (k, r) \<in> set (rows (process_records d)) \<Longrightarrow> i \<notin> {wp_process_id r}"
    and d': "d' = d\<lparr>processes := tdel i (processes d)\<rparr>"
    by (auto simp: tsel_empty_iff split: if_splits)
  then have "fk (\<lambda>r. {wp_process_id r}) (process_records d) (tdel i (processes d))"
    using assms(1) by (intro fk_parent_tdel) (auto simp: refs_ok_def)
  then show ?thesis using assms(1) by (simp add: d' refs_ok_def)
qed (use assms in \<open>auto simp: refs_ok_def split: if_splits\<close>)

lemma refs_stmts:
  "refs_ok d \<Longrightarrow> sid \<in> keys (standards d) \<Longrightarrow> \<forall>x \<in> set xs. stmt_of sid x \<Longrightarrow> run_process_stmts xs d = Inr d' \<Longrightarrow>
   refs_ok d'"
  by (induction xs arbitrary: d) (auto simp: flow dest: refs_stmt)

lemma flush_stmt_of:
  assumes "\<And>k e. (k, e) \<in> set objs \<Longrightarrow> jp_standard_id e = sid"
  shows "\<forall>x \<in> set (flush_processes loaded objs). stmt_of sid x"
  using assms by (auto simp: flush_processes_def set_map_filter split: option.splits if_splits)

lemma refs_sync:
  assumes "refs_ok d" "table_ok (processes d)" "sync_processes sid qs d = Inr (x, d')"
  shows "refs_ok d'"
proof -
  from sync_processes_effect [OF assms(3)] obtain s objs where s: "tget (standards d) sid = Some s"
    and loop: "sync_loop sid qs (map (\<lambda>(i, e). (Some i, e))
           (filter (\<lambda>(i, e). i \<in> set (incoming_ids qs)) (processes_of sid d))) = Inr objs"
    and run: "run_process_stmts (flush_processes (processes_of sid d) objs) d = Inr d'" by blast
  have "\<And>k e. (k, e) \<in> set objs \<Longrightarrow> jp_standard_id e = sid" using sync_objs_ok(3) [OF assms(2) loop] by force
  then show ?thesis using refs_stmts [OF assms(1) keys_get [OF s] flush_stmt_of run] by blast
qed

lemma refs_create_standard:
  assumes "refs_ok d" "create_standard lz r q d c = (Inr (x, d'), c')"
  shows "refs_ok d'"
proof -
  let ?i = "next_id (standards d)"
  let ?s = "\<lparr>js_company_id = sc_company_id q, js_name = sc_name q, js_use_flag = True,
    js_routine_start_time = sc_routine_start_time q, js_work_time = or_default (sc_work_time q) 0,
    js_rest_time = or_default (sc_rest_time q) 0, js_start_message = sc_start_message q,
    js_end_message = sc_end_message q, js_context = sc_context q, js_for_journal = (sc_for_journal q = Some True)\<rparr>"
  let ?xs = "map Insert_process (map (new_process ?i) (if truthy (sc_processes q) then the (sc_processes q) else []))"
  have c: "tget (companies d) (sc_company_id q) \<noteq> None"
    and run: "run_process_stmts ?xs (d\<lparr>standards := tins ?s (standards d)\<rparr>) = Inr d'"
    using assms(2) by (auto simp: create_standard_def Let_def flow split: if_splits sum.splits)
  have "refs_ok (d\<lparr>standards := tins ?s (standards d)\<rparr>)" using assms(1) c by (intro refs_insert) (simp_all add: keys_iff)
  moreover have "\<forall>x \<in> set ?xs. stmt_of ?i x" by (auto simp: new_process_def)
  ultimately show ?thesis using refs_stmts [OF _ _ _ run, of ?i] by simp
qed

lemma refs_standard:
  "refs_ok d \<Longrightarrow> update_standard lz r i q d c = (Inr (x, d'), c') \<Longrightarrow> refs_ok d'"
  "refs_ok d \<Longrightarrow> deactivate_standard r i d c = (Inr (y, d'), c') \<Longrightarrow> refs_ok d'"
  by (auto simp: update_standard_def deactivate_standard_def standard_or_throw_def apply_standard_update_def Let_def flow
      split: sum.splits dest!: tget_in intro!: refs_update(6))

lemma refs_assign:
  "refs_ok d \<Longrightarrow> assign_job cw sid d = Inr (x, d') \<Longrightarrow> refs_ok d'"
  "refs_ok d \<Longrightarrow> unassign_job i d = Inr (u, d') \<Longrightarrow> refs_ok d'"
  by (auto simp: assign_job_def unassign_job_effect new_job_worker_def assignments_def Let_def flow tsel_iff
      split: option.splits dest!: scalar_in tget_in intro!: refs_insert(9) refs_update(7) intro: keys_in)

lemma charger_known_keys: "charger_known c d \<longleftrightarrow> set_option c \<subseteq> keys (chargers d)"
  by (auto simp: charger_known_def keys_iff split: option.splits)

lemma job_worker_standard: "refs_ok d \<Longrightarrow> tget (job_workers d) i = Some j \<Longrightarrow> jw_standard_id j \<in> keys (standards d)"
  using fk_get [of "\<lambda>r. {jw_standard_id r}" "job_workers d" "standards d"] by (auto simp: refs_ok_def)

lemma refs_insert_schedules:
  "refs_ok d \<Longrightarrow> \<forall>x \<in> set ss. ws_job_worker_id x \<in> keys (job_workers d) \<and> set_option (ws_charger_id x) \<subseteq> keys (chargers d)
     \<and> ws_standard_id x \<in> keys (standards d) \<Longrightarrow>
   refs_ok (d\<lparr>schedules := insert_schedules ss (schedules d)\<rparr>)"
proof (induction ss arbitrary: d)
  case (Cons x ss)
  then have "refs_ok (d\<lparr>schedules := tins x (schedules d)\<rparr>)" by (intro refs_insert) auto
  from Cons.IH [OF this] Cons.prems show ?case by (simp add: insert_schedules_def)
qed (simp add: insert_schedules_def)

lemma refs_batch:
  assumes "refs_ok d" "batch_make b d = Inr (y, d')"
  shows "refs_ok d'"
proof -
  let ?new = "batch_rows b (bm_job_worker_ids b) d"
  from assms(2) have known: "?new = [] \<or> charger_known (bm_charger_id b) d"
    and d': "d' = d\<lparr>schedules := insert_schedules ?new (schedules d)\<rparr>"
    by (auto simp: batch_make_def Let_def flow)
  have "\<forall>x \<in> set ?new. ws_job_worker_id x \<in> keys (job_workers d)
      \<and> set_option (ws_charger_id x) \<subseteq> keys (chargers d) \<and> ws_standard_id x \<in> keys (standards d)"
  proof
    fix x assume x: "x \<in> set ?new"
    then obtain i j where "x = batch_row b i" "tget (job_workers d) i = Some j" "jw_standard_id j = bm_standard_id b"
      by (auto simp: set_batch_rows)
    moreover from this have "bm_standard_id b \<in> keys (standards d)" using job_worker_standard [OF assms(1)] by metis
    moreover from x known have "set_option (bm_charger_id b) \<subseteq> keys (chargers d)" by (auto simp: charger_known_keys)
    ultimately show "ws_job_worker_id x \<in> keys (job_workers d)
      \<and> set_option (ws_charger_id x) \<subseteq> keys (chargers d) \<and> ws_standard_id x \<in> keys (standards d)"
      by (simp add: batch_row_def keys_iff)
  qed
  then show ?thesis unfolding d' by (rule refs_insert_schedules [OF assms(1)])
qed

lemma refs_schedules:
  "refs_ok d \<Longrightarrow> create_schedule q d = Inr (x, d') \<Longrightarrow> refs_ok d'"
  "refs_ok d \<Longrightarrow> close_schedule i t now d = Inr (x, d') \<Longrightarrow> refs_ok d'"
  by (auto simp: create_schedule_def close_schedule_def schedule_get_or_throw_def charger_known_keys Let_def flow
      intro!: refs_insert(10) refs_update(8) dest: job_worker_standard keys_get tget_in)

lemma refs_close_both:
  "refs_ok d \<Longrightarrow> (i, r) \<in> set (rows (records d)) \<Longrightarrow> tget (schedules d) k = Some s \<Longrightarrow>
   refs_ok (d\<lparr>records := tupd i (r\<lparr>wr_end_at := t\<rparr>) (records d), schedules := tupd k (s\<lparr>ws_end_at := u\<rparr>) (schedules d)\<rparr>)"
  using refs_update(8) [of "d\<lparr>records := tupd i (r\<lparr>wr_end_at := t\<rparr>) (records d)\<rparr>" k s u]
  by (simp add: refs_update_2(1) tget_in)

lemma refs_end_record: "refs_ok d \<Longrightarrow> end_record q now d = Inr (x, d') \<Longrightarrow> refs_ok d'"
  by (auto simp: end_record_def find_open_record_def open_records_def tsel_iff Let_def flow
      dest!: scalar_in split: if_splits option.splits intro!: refs_close_both refs_update_2(1))

lemma refs_begin:
  "refs_ok d \<Longrightarrow> begin_record q now d = Inr (x, d') \<Longrightarrow> refs_ok d'"
  "refs_ok d \<Longrightarrow> begin_process p now d = Inr (y, d') \<Longrightarrow> refs_ok d'"
  by (auto simp: begin_process_def schedule_or_throw_def Let_def flow keys_iff dest!: begin_record_effect
      intro!: refs_insert_2(1,2))

lemma open_process_in:
  assumes "open_processes sid pid d = [(i, r)]"
  shows "(i, r) \<in> set (rows (process_records d))"
proof -
  have "(i, r) \<in> set (open_processes sid pid d)" by (simp add: assms)
  then show ?thesis by (auto simp: open_processes_def tsel_iff)
qed

lemma refs_record: "refs_ok d \<Longrightarrow> exec_record now x d = Inr (y, d') \<Longrightarrow> refs_ok d'"
  by (cases x)
     (auto simp: flow dest: refs_begin refs_end_record dest!: end_process_effect open_process_in
       intro!: refs_update_2(2))

section \<open>The other services\<close>

lemma refs_board: "refs_ok d \<Longrightarrow> exec_board u x d = Inr (y, d') \<Longrightarrow> refs_ok d'"
  by (cases "(u, x, d)" rule: exec_board.cases)
     (auto simp: create_board_def update_board_def board_or_throw_def keys_iff Let_def flow
        split: if_splits dest!: delete_board_effect dest: tget_in intro!: refs_insert_2(5) refs_update_2(3) refs_delete(1))

lemma refs_kiosk: "refs_ok d \<Longrightarrow> exec_kiosk sc x d = Inr (y, d') \<Longrightarrow> refs_ok d'"
  by (cases x)
     (auto simp: api_bind_kiosk_def bind_kiosk_def flow keys_iff Let_def dest!: set_assignee_effect unbind_kiosk_effect
        dest: tget_in intro!: refs_insert_2(6) refs_update_2(4) refs_delete(2))

lemma refs_leave: "refs_ok d \<Longrightarrow> exec_leave sc x d = Inr (y, d') \<Longrightarrow> refs_ok d'"
  by (cases x)
     (auto simp: api_create_leave_def create_leave_def flow keys_iff Let_def dest!: decide_leave_effect delete_leave_effect
        dest: tget_in intro!: refs_insert_2(7) refs_update_2(5) refs_delete(3))

lemma refs_bulk: "refs_ok d \<Longrightarrow> api_bulk_email s q sc p now d = Inr (x, t, d') \<Longrightarrow> refs_ok d'"
  by (auto simp: api_bulk_email_def create_job_def flow keys_iff Let_def split: if_splits intro!: refs_insert_2(9))

lemma refs_mail_steps:
  "refs_ok d \<Longrightarrow> mark_sending i now d = Some d' \<Longrightarrow> refs_ok d'"
  "refs_ok d \<Longrightarrow> refs_ok (complete_job s L R X i now d)"
proof -
  assume d: "refs_ok d"
  then show "mark_sending i now d = Some d' \<Longrightarrow> refs_ok d'"
    by (auto dest!: mark_sending_effect tget_in intro!: refs_update_2(7))
  have "bj_requested_by (finish_job res now j) = bj_requested_by j" for res j by (cases res) simp_all
  then show "refs_ok (complete_job s L R X i now d)"
    using complete_job_effect [of s L R X i now d] d by (auto dest!: tget_in intro!: refs_update_2(7))
qed

lemma refs_update_email:
  assumes d: "refs_ok d" and u: "update_email_schedule i q sc now d = Inr (r, d')"
  shows "refs_ok d'"
proof -
  from u obtain s s1 s2 where s: "tget (email_schedules d) i = Some s"
    "move_company q sc d (s\<lparr>es_enabled := keep (eu_enabled q) (es_enabled s)\<rparr>) = Inr s1"
    and s2: "apply_time q now (apply_frequency q (eu_frequency q)
               (s1\<lparr>es_recipient := or_str (eu_recipient q) (es_recipient s1)\<rparr>)) = Inr s2"
    and d': "d' = d\<lparr>email_schedules := tupd i (s2\<lparr>es_format := (case eu_format q of None \<Rightarrow> es_format s2
      | Some f \<Rightarrow> format_value f)\<rparr>) (email_schedules d)\<rparr>"
    by (auto simp: update_email_schedule_def Let_def flow)
  have s12: "es_company_id s2 = es_company_id s1" using apply_time_effect [OF s2] by simp
  have "es_company_id s \<in> keys (companies d)"
    using d s(1) fk_get [of "\<lambda>r. {es_company_id r}" "email_schedules d" "companies d"] by (auto simp: refs_ok_def)
  then have "es_company_id s1 \<in> keys (companies d)"
    using s(2) by (auto simp: move_company_def flow keys_iff split: option.splits if_splits)
  then show "refs_ok d'" using d by (auto simp: d' s12 intro!: refs_update_2(6))
qed

lemma refs_email: "refs_ok d \<Longrightarrow> exec_email_schedule sc x d = Inr (y, d') \<Longrightarrow> refs_ok d'"
  by (cases x)
     (auto simp: api_create_email_schedule_def create_email_schedule_def flow keys_iff Let_def
        dest!: delete_email_effect dest: refs_update_email intro!: refs_insert_2(8) refs_delete(4))

text \<open>The endpoints in front of the operations.\<close>

lemma refs_standard_endpoints:
  "refs_ok d \<Longrightarrow> api_create_standard lz r q p d c = (Inr (x, d'), c') \<Longrightarrow> refs_ok d'"
  "refs_ok d \<Longrightarrow> api_update_standard lz r i u p d c = (Inr (x, d'), c') \<Longrightarrow> refs_ok d'"
  "refs_ok d \<Longrightarrow> api_deactivate_standard r i p d c = (Inr (y, d'), c') \<Longrightarrow> refs_ok d'"
  by (auto simp: api_create_standard_def api_update_standard_def api_deactivate_standard_def
      flow split: sum.splits dest: refs_create_standard refs_standard)

lemma refs_sync_endpoint: "refs_ok d \<Longrightarrow> api_sync_processes i qs p d = Inr (x, d') \<Longrightarrow> db_ok d \<Longrightarrow> refs_ok d'"
  by (auto simp: api_sync_processes_def flow db_ok_defs processes_ok_def dest: refs_sync)

lemma refs_job_endpoints:
  "refs_ok d \<Longrightarrow> api_assign a p d = Inr (x, d') \<Longrightarrow> refs_ok d'"
  "refs_ok d \<Longrightarrow> api_unassign i p d = Inr (u, d') \<Longrightarrow> refs_ok d'"
  "refs_ok d \<Longrightarrow> api_create_schedule q p d = Inr (y, d') \<Longrightarrow> refs_ok d'"
  "refs_ok d \<Longrightarrow> api_batch_make b p d = Inr (z, d') \<Longrightarrow> refs_ok d'"
  "refs_ok d \<Longrightarrow> api_close_schedule i t now d = Inr (y, d') \<Longrightarrow> refs_ok d'"
  by (auto simp: api_assign_def api_unassign_def api_create_schedule_def api_batch_make_def api_close_schedule_def
      flow dest: refs_assign refs_batch refs_schedules)

lemmas refs_all = refs_login refs_account refs_signup refs_worker refs_company refs_users refs_relation
  refs_remove_relation refs_standard_endpoints refs_job_endpoints refs_record refs_upload refs_documents refs_board
  refs_kiosk refs_leave refs_email refs_bulk

end
