(* ===== verification/WorkInvariants.thy ===== *)
theory WorkInvariants
  imports Integrity
begin

text \<open>
  What every writing operation of the API keeps of the work of the day: a schedule has at most one open
  record of a type, and is for the standard of its assignment.  Only the operations on assignments,
  schedules and records touch the tables concerned.
\<close>

definition work_tables ::
    "db \<Rightarrow> work_record table \<times> work_schedule table \<times> job_worker table \<times> work_process_record table" where
  "work_tables d = (records d, schedules d, job_workers d, process_records d)"

definition work_ok :: "db \<Rightarrow> bool" where
  "work_ok d \<longleftrightarrow> one_open_record d \<and> schedules_consistent d"

lemma work_ok_same: "work_ok d \<Longrightarrow> work_tables d' = work_tables d \<Longrightarrow> work_ok d'"
  by (simp add: work_ok_def work_tables_def one_open_record_def schedules_consistent_def)

lemma blocked_same: "process_blocked sid pid d \<Longrightarrow> work_tables d' = work_tables d \<Longrightarrow> process_blocked sid pid d'"
  by (simp add: process_blocked_def open_processes_def work_tables_def)

section \<open>The operations that leave the tables alone\<close>

lemma wt_login:
  assumes "login s L q now at d st = (Inr (t, d'), st')"
  shows "work_tables d' = work_tables d"
proof -
  from login_success [OF assms] obtain uid u where "login_writes s uid u q at d = Inr d'" by blast
  then have "d'\<lparr>users := users d, workers := workers d\<rparr> = d" using login_writes_effect by blast
  then have "work_tables (d'\<lparr>users := users d, workers := workers d\<rparr>) = work_tables d" by simp
  then show ?thesis by (simp add: work_tables_def)
qed

lemma wt_account:
  "refresh s L token now d st = (Inr (t, d'), st') \<Longrightarrow> work_tables d' = work_tables d"
  "change_password L uid cur new salt d st = (Inr (x, d'), st') \<Longrightarrow> work_tables d' = work_tables d"
  "update_profile uid p d = Inr (y, d') \<Longrightarrow> work_tables d' = work_tables d"
  "signup_as_caregiver s L q salt now d st = (Inr (t, d'), st') \<Longrightarrow> work_tables d' = work_tables d"
  by (auto simp: work_tables_def change_password_def update_profile_def signup_as_caregiver_def Let_def flow
      split: option.splits if_splits prod.splits dest: ok_refresh)

lemma wt_worker: "exec_worker L p x d = Inr (r, d') \<Longrightarrow> work_tables d' = work_tables d"
  by (cases x) (auto simp: work_tables_def flow dest!: create_worker_effect retire_worker_effect
      rehire_worker_effect hire_worker_effect fire_worker_effect)

lemma wt_company:
  "api_create_company q p d = Inr (x, d') \<Longrightarrow> work_tables d' = work_tables d"
  "api_update_company r i u p d c = Inr (y, d', c') \<Longrightarrow> work_tables d' = work_tables d"
  "api_deactivate_company r i p d c = Inr (z, d', c') \<Longrightarrow> work_tables d' = work_tables d"
  by (auto simp: work_tables_def api_create_company_def api_update_company_def api_deactivate_company_def flow
      dest!: create_company_effect update_company_effect deactivate_company_effect)

lemma wt_people:
  "api_update_charger p i h d = Inr (w, d') \<Longrightarrow> work_tables d' = work_tables d"
  "api_set_enabled p i e d = Inr (x, d') \<Longrightarrow> work_tables d' = work_tables d"
  "api_register_worker q p d = Inr (y, d') \<Longrightarrow> work_tables d' = work_tables d"
  "api_remove_relation i p d = Inr (z, d') \<Longrightarrow> work_tables d' = work_tables d"
  by (auto simp: work_tables_def api_update_charger_def api_set_enabled_def api_register_worker_def
      api_remove_relation_def delete_relation_row_def Let_def flow
      dest!: set_hired_effect set_enabled_effect register_worker_effect remove_relation_effect)

lemma wt_stmts:
  assumes "run_process_stmts xs d = Inr d'"
  shows "work_tables d' = work_tables d"
proof -
  from stmts_frame [OF assms] obtain ps where "d' = d\<lparr>processes := ps\<rparr>" by blast
  then show ?thesis by (simp add: work_tables_def)
qed

lemma wt_standard:
  "create_standard lz r q d c = (Inr (x, d'), c') \<Longrightarrow> work_tables d' = work_tables d"
  "update_standard lz r i u d c = (Inr (x, d'), c') \<Longrightarrow> work_tables d' = work_tables d"
  "deactivate_standard r i d c = (Inr (y, d'), c') \<Longrightarrow> work_tables d' = work_tables d"
  "sync_processes i qs d = Inr (x, d') \<Longrightarrow> work_tables d' = work_tables d"
  by (auto simp: create_standard_def update_standard_def deactivate_standard_def sync_processes_def Let_def flow
      work_tables_def [of "standards_update f d" for f d] work_tables_def [of d]
      split: if_splits sum.splits dest!: wt_stmts)

lemma wt_standard_endpoints:
  "api_create_standard lz r q p d c = (Inr (x, d'), c') \<Longrightarrow> work_tables d' = work_tables d"
  "api_update_standard lz r i u p d c = (Inr (x, d'), c') \<Longrightarrow> work_tables d' = work_tables d"
  "api_deactivate_standard r i p d c = (Inr (y, d'), c') \<Longrightarrow> work_tables d' = work_tables d"
  "api_sync_processes i qs p d = Inr (x, d') \<Longrightarrow> work_tables d' = work_tables d"
  by (auto simp: api_create_standard_def api_update_standard_def api_deactivate_standard_def api_sync_processes_def
      flow split: sum.splits dest: wt_standard)

lemma wt_document:
  "api_upload_document put m p rel ty f u now d fs = (Inr (x, d'), fs') \<Longrightarrow> work_tables d' = work_tables d"
  "api_download_document rd p i now d fs = Inr (y, d') \<Longrightarrow> work_tables d' = work_tables d"
  "delete_document rm uid i now d fs = (Inr (z, d'), fs') \<Longrightarrow> work_tables d' = work_tables d"
  by (auto simp: work_tables_def api_upload_document_def api_download_document_def log_document_def
      delete_document_row_def flow dest!: upload_effect load_effect delete_effect split: sum.splits)

lemma wt_board: "exec_board u x d = Inr (y, d') \<Longrightarrow> work_tables d' = work_tables d"
  by (cases "(u, x, d)" rule: exec_board.cases)
     (auto simp: work_tables_def flow dest!: create_board_effect update_board_effect delete_board_effect)

lemma wt_scoped:
  "exec_kiosk sc k d = Inr (y, d') \<Longrightarrow> work_tables d' = work_tables d"
  "exec_leave sc l d = Inr (z, d') \<Longrightarrow> work_tables d' = work_tables d"
  "exec_email_schedule sc e d = Inr (v, d') \<Longrightarrow> work_tables d' = work_tables d"
  "api_bulk_email s q sc p now d = Inr (x, t, d') \<Longrightarrow> work_tables d' = work_tables d"
proof -
  have other: "work_tables (d\<lparr>kiosks := a\<rparr>) = work_tables d" "work_tables (d\<lparr>leaves := b\<rparr>) = work_tables d"
    "work_tables (d\<lparr>email_schedules := c\<rparr>) = work_tables d" "work_tables (d\<lparr>bulk_jobs := j\<rparr>) = work_tables d" for a b c j
    by (simp_all add: work_tables_def)
  show "exec_kiosk sc k d = Inr (y, d') \<Longrightarrow> work_tables d' = work_tables d" by (drule tt_kiosk) (metis other(1))
  show "exec_leave sc l d = Inr (z, d') \<Longrightarrow> work_tables d' = work_tables d" by (drule tt_leave) (metis other(2))
  show "exec_email_schedule sc e d = Inr (v, d') \<Longrightarrow> work_tables d' = work_tables d" by (drule tt_email) (metis other(3))
  show "api_bulk_email s q sc p now d = Inr (x, t, d') \<Longrightarrow> work_tables d' = work_tables d"
    by (drule tt_bulk) (auto simp: other)
qed

lemmas wt_all = wt_login wt_account wt_worker wt_company wt_people wt_standard_endpoints wt_document wt_board wt_scoped

lemmas work_unchanged = wt_all [THEN [2] work_ok_same]

section \<open>Assignments, schedules and records\<close>

lemma consistent_jobs:
  assumes "schedules_consistent d"
    and "\<And>k j. tget (job_workers d) k = Some j \<Longrightarrow> \<exists>j'. tget t k = Some j' \<and> jw_standard_id j' = jw_standard_id j"
  shows "schedules_consistent (d\<lparr>job_workers := t\<rparr>)"
proof -
  have "\<exists>jw. tget t (ws_job_worker_id s) = Some jw \<and> jw_standard_id jw = ws_standard_id s"
    if row: "(i, s) \<in> set (rows (schedules d))" for i s
  proof -
    obtain jw where "tget (job_workers d) (ws_job_worker_id s) = Some jw" "jw_standard_id jw = ws_standard_id s"
      using bspec [OF assms(1) [unfolded schedules_consistent_def all_rows_def] row] by auto
    then show ?thesis using assms(2) by fastforce
  qed
  then show ?thesis by (auto simp: schedules_consistent_def all_rows_def)
qed

lemma consistent_same_standard:
  "schedules_consistent d \<Longrightarrow> tget (job_workers d) i = Some j \<Longrightarrow> jw_standard_id j' = jw_standard_id j \<Longrightarrow>
   schedules_consistent (d\<lparr>job_workers := tupd i j' (job_workers d)\<rparr>)"
  by (rule consistent_jobs) (auto simp: tget_tupd)

lemma work_assign:
  assumes "work_ok d" "table_ok (job_workers d)" "assign_job cw sid d = Inr (x, d')"
  shows "work_ok d'"
proof -
  have one: "one_open_record d" and con: "schedules_consistent d" using assms(1) by (simp_all add: work_ok_def)
  from assms(3) show ?thesis
  proof (rule assign_job_effect)
    assume "d' = d\<lparr>job_workers := tins (new_job_worker cw sid) (job_workers d)\<rparr>"
    moreover have "schedules_consistent (d\<lparr>job_workers := tins (new_job_worker cw sid) (job_workers d)\<rparr>)"
      by (rule consistent_jobs [OF con]) (auto simp: tget_tins_old)
    ultimately show ?thesis using one by (simp add: work_ok_def one_open_record_def)
  next
    fix old assume "assignments cw sid d = [(jr_id x, old)]"
      "d' = d\<lparr>job_workers := tupd (jr_id x) (old\<lparr>jw_use_flag := True\<rparr>) (job_workers d)\<rparr>"
    moreover from this(1) have "(jr_id x, old) \<in> set (assignments cw sid d)" by simp
    then have "tget (job_workers d) (jr_id x) = Some old"
      using assms(2) by (simp add: assignments_def tsel_iff tget_iff)
    ultimately show ?thesis using one consistent_same_standard [OF con]
      by (simp add: work_ok_def one_open_record_def)
  qed
qed

lemma work_unassign: "work_ok d \<Longrightarrow> unassign_job i d = Inr (x, d') \<Longrightarrow> work_ok d'"
  using consistent_same_standard [of d i]
  by (auto simp: work_ok_def unassign_job_effect one_open_record_def)

lemma work_schedules:
  "work_ok d \<Longrightarrow> create_schedule q d = Inr (x, d') \<Longrightarrow> work_ok d'"
  "work_ok d \<Longrightarrow> batch_make b d = Inr (y, d') \<Longrightarrow> work_ok d'"
  "work_ok d \<Longrightarrow> close_schedule i t now d = Inr (x, d') \<Longrightarrow> work_ok d'"
proof -
  have "create_schedule q d = Inr (x, d') \<Longrightarrow> records d' = records d"
    "batch_make b d = Inr (y, d') \<Longrightarrow> records d' = records d"
    "close_schedule i t now d = Inr (x, d') \<Longrightarrow> records d' = records d"
    by (auto simp: create_schedule_def batch_make_def close_schedule_def Let_def flow)
  then show "work_ok d \<Longrightarrow> create_schedule q d = Inr (x, d') \<Longrightarrow> work_ok d'"
    "work_ok d \<Longrightarrow> batch_make b d = Inr (y, d') \<Longrightarrow> work_ok d'"
    "work_ok d \<Longrightarrow> close_schedule i t now d = Inr (x, d') \<Longrightarrow> work_ok d'"
    by (auto simp: work_ok_def one_open_record_def dest: consistent_create consistent_batch consistent_close)
qed

lemma consistent_record:
  assumes "schedules_consistent d" "exec_record now x d = Inr (y, d')"
  shows "schedules_consistent d'"
proof (cases x)
  case (End_record q)
  then obtain r where e: "end_record q now d = Inr (r, d')" using assms(2) by (auto simp: flow)
  have "job_workers d' = job_workers d" using e by (auto simp: end_record_def Let_def flow split: if_splits option.splits)
  then show ?thesis
    using end_record_effect [OF e] assms(1)
    by (auto simp: schedules_consistent_def split: if_splits option.splits elim!: all_rows_change)
qed (use assms in \<open>auto simp: flow schedules_consistent_def
       dest!: begin_record_effect begin_process_effect end_process_effect\<close>)

lemma work_record: "work_ok d \<Longrightarrow> exec_record now x d = Inr (y, d') \<Longrightarrow> work_ok d'"
  unfolding work_ok_def by (metis consistent_record one_open_step record_step.intros)

lemma work_assign_endpoint: "work_ok d \<Longrightarrow> api_assign a p d = Inr (x, d') \<Longrightarrow> db_ok d \<Longrightarrow> work_ok d'"
  by (auto simp: api_assign_def db_ok_defs job_workers_ok_def flow dest: work_assign)

lemma work_job_endpoints:
  "work_ok d \<Longrightarrow> api_unassign i p d = Inr (u, d') \<Longrightarrow> work_ok d'"
  "work_ok d \<Longrightarrow> api_create_schedule q p d = Inr (y, d') \<Longrightarrow> work_ok d'"
  "work_ok d \<Longrightarrow> api_batch_make b p d = Inr (z, d') \<Longrightarrow> work_ok d'"
  "work_ok d \<Longrightarrow> api_close_schedule i t now d = Inr (y, d') \<Longrightarrow> work_ok d'"
  by (auto simp: api_unassign_def api_create_schedule_def api_batch_make_def api_close_schedule_def flow
      dest: work_unassign work_schedules)

section \<open>Process records\<close>

text \<open>Apart from the operations on records, nothing writes a process record.\<close>

lemma blocked_jobs:
  "process_blocked sid pid d \<Longrightarrow> api_assign a p d = Inr (x, d') \<Longrightarrow> process_blocked sid pid d'"
  "process_blocked sid pid d \<Longrightarrow> api_unassign i p d = Inr (u, d') \<Longrightarrow> process_blocked sid pid d'"
  "process_blocked sid pid d \<Longrightarrow> api_create_schedule q p d = Inr (y, d') \<Longrightarrow> process_blocked sid pid d'"
  "process_blocked sid pid d \<Longrightarrow> api_batch_make b p d = Inr (z, d') \<Longrightarrow> process_blocked sid pid d'"
  "process_blocked sid pid d \<Longrightarrow> api_close_schedule i t now d = Inr (y, d') \<Longrightarrow> process_blocked sid pid d'"
  by (auto simp: api_assign_def api_unassign_def api_create_schedule_def api_batch_make_def api_close_schedule_def
      create_schedule_def batch_make_def close_schedule_def unassign_job_effect process_blocked_def open_processes_def
      Let_def flow elim!: assign_job_effect)

lemma blocked_record:
  "process_blocked sid pid d \<Longrightarrow> exec_record now x d = Inr (y, d') \<Longrightarrow> process_blocked sid pid d'"
  by (metis blocked_step record_step.intros)

lemmas blocked_all = wt_all [THEN [2] blocked_same] blocked_jobs blocked_record

section \<open>Together\<close>

lemmas work_all = work_unchanged work_job_endpoints work_record work_assign_endpoint

end
