(* ===== verification/Service.thy ===== *)
theory Service
  imports Queries References WorkInvariants
begin

text \<open>
  The running service: requests, queries and the background tasks of bulk mail in any order, on one
  state.  A mail job runs between two commits of its runner, and anything may happen in between; a
  restart of the process loses the tasks in memory, while the database, Redis and the files stay.
  The lemmas lift what the handlers and the runner keep to every run of the service.
\<close>

section \<open>Background tasks\<close>

text \<open>
  The two halves of \<open>run_bulk_email_job\<close> of app/services/document.py, up to its first commit and from there
  to the second one, and \<open>run_bulk_email_inert\<close>, which changes nothing.  An engine of the read-only mode
  refuses what the runner flushes; a runner whose commit fails gives up.
\<close>

definition start_mail ::
    "('raw, 'fs) server \<Rightarrow> task \<Rightarrow> datetime \<Rightarrow> bool \<Rightarrow> ('raw, 'fs) world \<Rightarrow> ('raw, 'fs) world" where
  "start_mail V t now commit_ok w =
     (if t \<notin> set (w_tasks w) then w
      else let w' = w\<lparr>w_tasks := remove1 t (w_tasks w)\<rparr>
           in case t of
                Run_inert company day recipient fmt \<Rightarrow> w'
              | Run_job i \<Rightarrow>
                  (case mark_sending i now (w_db w) of
                     None \<Rightarrow> w'
                   | Some d \<Rightarrow>
                       if eg_read_only (sv_engine V) \<or> \<not> commit_ok then w'
                       else w'\<lparr>w_db := d, w_running := w_running w @ [i]\<rparr>))"

definition finish_mail ::
    "('raw, 'fs) server \<Rightarrow> int \<Rightarrow> datetime \<Rightarrow> bool \<Rightarrow> ('raw, 'fs) world \<Rightarrow> ('raw, 'fs) world" where
  "finish_mail V i now commit_ok w =
     (if i \<notin> set (w_running w) then w
      else let w' = w\<lparr>w_running := remove1 i (w_running w)\<rparr>
           in if eg_read_only (sv_engine V) \<or> \<not> commit_ok then w'
              else w'\<lparr>w_db := complete_job (sv_settings V) (sv_libs V) (sv_renderers V) (sv_mailer V) i now (w_db w)\<rparr>)"

text \<open>Without anything in between, the halves are the runner.\<close>

lemma mail_halves:
  assumes "Run_job i \<in> set (w_tasks w)" and "i \<notin> set (w_running w)" and "\<not> eg_read_only (sv_engine V)"
  shows "w_db (finish_mail V i t2 second (start_mail V (Run_job i) t1 first w)) =
    last (w_db w # run_bulk_email_job (sv_settings V) (sv_libs V) (sv_renderers V) (sv_mailer V) first second i t1 t2 (w_db w))"
  using assms by (simp add: start_mail_def finish_mail_def run_bulk_email_job_def Let_def split: option.splits)

section \<open>Events\<close>

datatype event =
    Call moment http_request bool bool request
  | Read moment http_request bool query
  | Start_mail task datetime bool
  | Finish_mail int datetime bool
  | Restart

primrec exec_event :: "('raw, 'fs) server \<Rightarrow> event \<Rightarrow> ('raw, 'fs) world \<Rightarrow> ('raw, 'fs) world" where
  "exec_event V (Call mo hr flushed commit_ok req) w = snd (exec_request V mo hr flushed commit_ok req w)"
| "exec_event V (Read mo hr commit_ok q) w = snd (exec_query V mo hr commit_ok q w)"
| "exec_event V (Start_mail t now commit_ok) w = start_mail V t now commit_ok w"
| "exec_event V (Finish_mail i now commit_ok) w = finish_mail V i now commit_ok w"
| "exec_event V Restart w = w\<lparr>w_tasks := [], w_running := []\<rparr>"

fun run_service :: "('raw, 'fs) server \<Rightarrow> event list \<Rightarrow> ('raw, 'fs) world \<Rightarrow> ('raw, 'fs) world" where
  "run_service V [] w = w"
| "run_service V (e # es) w = run_service V es (exec_event V e w)"

text \<open>What every event keeps, every run keeps.\<close>

lemma run_service_keeps:
  assumes "\<And>e w. P w \<Longrightarrow> P (exec_event V e w)" and "P w"
  shows "P (run_service V es w)"
  using assms(2) by (induction es arbitrary: w) (simp_all add: assms(1))

section \<open>Well-formedness\<close>

text \<open>The jobs of the waiting tasks.\<close>

definition job_ids :: "task list \<Rightarrow> int list" where
  "job_ids = List.map_filter (\<lambda>t. case t of Run_job i \<Rightarrow> Some i | Run_inert co day rcp fmt \<Rightarrow> None)"

lemma job_ids_simps [simp]:
  "job_ids [] = []" "job_ids (Run_job i # ts) = i # job_ids ts" "job_ids (Run_inert co day rcp fmt # ts) = job_ids ts"
  "job_ids (ts @ us) = job_ids ts @ job_ids us"
  by (simp_all add: job_ids_def List.map_filter_simps map_filter_append)

lemma job_ids_remove: "job_ids (remove1 (Run_job i) ts) = remove1 i (job_ids ts)"
proof (induction ts)
  case (Cons t ts)
  then show ?case by (cases t) auto
qed simp

lemma job_ids_inert: "job_ids (remove1 (Run_inert co day rcp fmt) ts) = job_ids ts"
proof (induction ts)
  case (Cons t ts)
  then show ?case by (cases t) auto
qed simp

lemma job_ids_in: "Run_job i \<in> set ts \<Longrightarrow> i \<in> set (job_ids ts)"
  by (force simp: job_ids_def set_map_filter)

text \<open>What a task does to the database and to the jobs in memory.\<close>

lemma start_mail_cases:
  obtains (skip) "w_db (start_mail V t now cm w) = w_db w" "job_ids (w_tasks (start_mail V t now cm w)) = job_ids (w_tasks w)"
      "w_running (start_mail V t now cm w) = w_running w"
  | (drop) i where "i \<in> set (job_ids (w_tasks w))" "w_db (start_mail V t now cm w) = w_db w"
      "job_ids (w_tasks (start_mail V t now cm w)) = remove1 i (job_ids (w_tasks w))"
      "w_running (start_mail V t now cm w) = w_running w"
  | (start) i where "i \<in> set (job_ids (w_tasks w))" "\<not> eg_read_only (sv_engine V)"
      "mark_sending i now (w_db w) = Some (w_db (start_mail V t now cm w))"
      "job_ids (w_tasks (start_mail V t now cm w)) = remove1 i (job_ids (w_tasks w))"
      "w_running (start_mail V t now cm w) = w_running w @ [i]"
proof (cases "t \<in> set (w_tasks w)")
  case False
  then show thesis by (intro skip) (simp_all add: start_mail_def)
next
  case True
  show thesis
  proof (cases t)
    case (Run_job i)
    have i: "i \<in> set (job_ids (w_tasks w))" using True Run_job by (simp add: job_ids_in)
    show thesis
    proof (cases "mark_sending i now (w_db w) = None \<or> eg_read_only (sv_engine V) \<or> \<not> cm")
      case True
      then show thesis using i Run_job \<open>t \<in> set (w_tasks w)\<close>
        by (intro drop) (auto simp: start_mail_def Let_def job_ids_remove split: option.splits)
    next
      case False
      then show thesis using i Run_job \<open>t \<in> set (w_tasks w)\<close>
        by (intro start) (auto simp: start_mail_def Let_def job_ids_remove split: option.splits)
    qed
  next
    case (Run_inert co day rcp fmt)
    with True show thesis by (intro skip) (simp_all add: start_mail_def job_ids_inert)
  qed
qed

lemma finish_mail_cases:
  obtains (skip) "finish_mail V i now cm w = w"
  | (drop) "i \<in> set (w_running w)" "finish_mail V i now cm w = w\<lparr>w_running := remove1 i (w_running w)\<rparr>"
  | (finish) "i \<in> set (w_running w)" "\<not> eg_read_only (sv_engine V)"
      "finish_mail V i now cm w = w\<lparr>w_running := remove1 i (w_running w),
         w_db := complete_job (sv_settings V) (sv_libs V) (sv_renderers V) (sv_mailer V) i now (w_db w)\<rparr>"
proof (cases "i \<in> set (w_running w)")
  case True
  then show thesis
    by (cases "eg_read_only (sv_engine V) \<or> \<not> cm") (auto simp: finish_mail_def intro: drop finish)
qed (simp add: finish_mail_def skip)

lemma ok_mark_sending: "db_ok d \<Longrightarrow> mark_sending i now d = Some d' \<Longrightarrow> db_ok d'"
  using bulk_jobs_ok_sending [of d i now d'] by (auto simp: db_ok_defs dest!: mark_sending_effect)

lemma ok_complete_job: "db_ok d \<Longrightarrow> db_ok (complete_job s L R X i now d)"
  using bulk_jobs_ok_complete [of d s L R X i now] complete_job_effect [of s L R X i now d] by (auto simp: db_ok_defs)

lemma event_ok: "db_ok (w_db w) \<Longrightarrow> db_ok (w_db (exec_event V e w))"
proof (cases e)
  case (Call mo hr fl cm req)
  then show "db_ok (w_db w) \<Longrightarrow> ?thesis" by (simp add: exec_request_keeps handle_ok)
next
  case (Start_mail t now cm)
  then show "db_ok (w_db w) \<Longrightarrow> ?thesis"
    by (cases V t now cm w rule: start_mail_cases) (auto dest: ok_mark_sending)
next
  case (Finish_mail i now cm)
  then show "db_ok (w_db w) \<Longrightarrow> ?thesis"
    by (cases V i now cm w rule: finish_mail_cases) (auto simp: ok_complete_job)
qed (simp_all add: exec_query_world)

lemma service_ok: "db_ok (w_db w) \<Longrightarrow> db_ok (w_db (run_service V es w))"
  by (rule run_service_keeps [where P = "\<lambda>w. db_ok (w_db w)"]) (simp_all add: event_ok)

text \<open>The foreign keys.\<close>

lemma handle_refs:
  "db_ok (w_db w) \<Longrightarrow> refs_ok (w_db w) \<Longrightarrow> fst (handle_request V mo hr req w) = Inr d' \<Longrightarrow> refs_ok d'"
  by (cases req; clarsimp simp: handler_Inr endpoint_defs mail_journals_Inr simp del: keep_operations;
      erule (1) refs_all refs_sync_endpoint)

lemma event_refs: "db_ok (w_db w) \<and> refs_ok (w_db w) \<Longrightarrow> refs_ok (w_db (exec_event V e w))"
proof (cases e)
  case (Call mo hr fl cm req)
  then show "db_ok (w_db w) \<and> refs_ok (w_db w) \<Longrightarrow> ?thesis"
    using exec_request_keeps [where P = refs_ok and w = w, OF handle_refs [where w = w]] by simp
next
  case (Start_mail t now cm)
  then show "db_ok (w_db w) \<and> refs_ok (w_db w) \<Longrightarrow> ?thesis"
    by (cases V t now cm w rule: start_mail_cases) (auto dest: refs_mail_steps(1))
next
  case (Finish_mail i now cm)
  then show "db_ok (w_db w) \<and> refs_ok (w_db w) \<Longrightarrow> ?thesis"
    by (cases V i now cm w rule: finish_mail_cases) (auto simp: refs_mail_steps(2))
qed (simp_all add: exec_query_world)

lemma service_refs:
  assumes "db_ok (w_db w)" "refs_ok (w_db w)"
  shows "refs_ok (w_db (run_service V es w))"
  using run_service_keeps [where P = "\<lambda>w. db_ok (w_db w) \<and> refs_ok (w_db w)" and V = V and es = es and w = w] assms
  by (simp add: event_ok event_refs)

text \<open>The work of the day.\<close>

lemma handle_work:
  "db_ok (w_db w) \<Longrightarrow> work_ok (w_db w) \<Longrightarrow> fst (handle_request V mo hr req w) = Inr d' \<Longrightarrow> work_ok d'"
  by (cases req; clarsimp simp: handler_Inr endpoint_defs mail_journals_Inr simp del: keep_operations;
      erule (1) work_all)

lemma work_mail: "work_ok d \<Longrightarrow> work_ok (d\<lparr>bulk_jobs := t\<rparr>)"
  by (erule work_ok_same) (simp add: work_tables_def)

lemma event_work: "db_ok (w_db w) \<and> work_ok (w_db w) \<Longrightarrow> work_ok (w_db (exec_event V e w))"
proof (cases e)
  case (Call mo hr fl cm req)
  then show "db_ok (w_db w) \<and> work_ok (w_db w) \<Longrightarrow> ?thesis"
    using exec_request_keeps [where P = work_ok and w = w, OF handle_work [where w = w]] by simp
next
  case (Start_mail t now cm)
  then show "db_ok (w_db w) \<and> work_ok (w_db w) \<Longrightarrow> ?thesis"
    by (cases V t now cm w rule: start_mail_cases) (auto dest!: mark_sending_effect intro: work_mail)
next
  case (Finish_mail i now cm)
  then show "db_ok (w_db w) \<and> work_ok (w_db w) \<Longrightarrow> ?thesis"
    using complete_job_effect [of "sv_settings V" "sv_libs V" "sv_renderers V" "sv_mailer V" i now "w_db w"]
    by (cases V i now cm w rule: finish_mail_cases) (auto intro: work_mail)
qed (simp_all add: exec_query_world)

lemma service_work:
  assumes "db_ok (w_db w)" "work_ok (w_db w)"
  shows "work_ok (w_db (run_service V es w))"
  using run_service_keeps [where P = "\<lambda>w. db_ok (w_db w) \<and> work_ok (w_db w)" and V = V and es = es and w = w] assms
  by (simp add: event_ok event_work)

text \<open>A blocked process.\<close>

lemma handle_blocked:
  "process_blocked sid pid (w_db w) \<Longrightarrow> fst (handle_request V mo hr req w) = Inr d' \<Longrightarrow> process_blocked sid pid d'"
  by (cases req; clarsimp simp: handler_Inr endpoint_defs mail_journals_Inr simp del: keep_operations;
      erule (1) blocked_all)

lemma blocked_mail: "process_blocked sid pid d \<Longrightarrow> process_blocked sid pid (d\<lparr>bulk_jobs := t\<rparr>)"
  by (erule blocked_same) (simp add: work_tables_def)

lemma event_blocked: "process_blocked sid pid (w_db w) \<Longrightarrow> process_blocked sid pid (w_db (exec_event V e w))"
proof (cases e)
  case (Call mo hr fl cm req)
  then show "process_blocked sid pid (w_db w) \<Longrightarrow> ?thesis"
    using exec_request_keeps [where P = "process_blocked sid pid" and w = w, OF handle_blocked [where w = w]] by simp
next
  case (Start_mail t now cm)
  then show "process_blocked sid pid (w_db w) \<Longrightarrow> ?thesis"
    by (cases V t now cm w rule: start_mail_cases) (auto dest!: mark_sending_effect intro: blocked_mail)
next
  case (Finish_mail i now cm)
  then show "process_blocked sid pid (w_db w) \<Longrightarrow> ?thesis"
    using complete_job_effect [of "sv_settings V" "sv_libs V" "sv_renderers V" "sv_mailer V" i now "w_db w"]
    by (cases V i now cm w rule: finish_mail_cases) (auto intro: blocked_mail)
qed (simp_all add: exec_query_world)

lemma service_blocked:
  "process_blocked sid pid (w_db w) \<Longrightarrow> process_blocked sid pid (w_db (run_service V es w))"
  by (rule run_service_keeps [where P = "\<lambda>w. process_blocked sid pid (w_db w)"]) (simp_all add: event_blocked)

section \<open>Mail jobs\<close>

text \<open>What the machine of theory BulkMail sees of the service.\<close>

definition mail_view :: "('raw, 'fs) world \<Rightarrow> runner_state" where
  "mail_view w = (w_db w, job_ids (w_tasks w), w_running w)"

lemma memory_kept [simp]:
  "w_tasks (snd (on_db f w)) = w_tasks w" "w_tasks (snd (on_tokens g w)) = w_tasks w"
  "w_tasks (snd (on_cache h w)) = w_tasks w" "w_tasks (snd (on_company k w)) = w_tasks w"
  "w_tasks (snd (on_files l w)) = w_tasks w"
  "w_running (snd (on_db f w)) = w_running w" "w_running (snd (on_tokens g w)) = w_running w"
  "w_running (snd (on_cache h w)) = w_running w" "w_running (snd (on_company k w)) = w_running w"
  "w_running (snd (on_files l w)) = w_running w"
  by (simp_all add: on_db_def on_tokens_def on_cache_def on_company_def on_files_def Let_def
      split: prod.splits sum.splits)

lemma with_user_memory:
  "(\<And>a w. m (snd (k a w)) = m w) \<Longrightarrow> m (snd (with_user V mo hr k w)) = m w"
  by (simp add: with_user_def split: sum.splits)

lemma with_scope_memory:
  "(\<And>a sc w. m (snd (k a sc w)) = m w) \<Longrightarrow> m (snd (with_scope V mo hr k w)) = m w"
  unfolding with_scope_def by (rule with_user_memory) (simp split: sum.splits)

lemma handle_memory:
  "\<not> commits_itself req \<Longrightarrow> w_tasks (snd (handle_request V mo hr req w)) = w_tasks w"
  "w_running (snd (handle_request V mo hr req w)) = w_running w"
  by (cases req; auto simp: endpoint_defs intro!: with_user_memory with_scope_memory split: sum.splits)+

lemma bulk_jobs_kept:
  "exec_kiosk sc x d = Inr (y, d') \<Longrightarrow> bulk_jobs d' = bulk_jobs d"
  "exec_leave sc l d = Inr (z, d') \<Longrightarrow> bulk_jobs d' = bulk_jobs d"
  "exec_email_schedule sc m d = Inr (v, d') \<Longrightarrow> bulk_jobs d' = bulk_jobs d"
  "api_update_charger p i q d = Inr (r, d') \<Longrightarrow> bulk_jobs d' = bulk_jobs d"
  using arg_cong [where f = bulk_jobs, OF tt_kiosk] arg_cong [where f = bulk_jobs, OF tt_leave]
    arg_cong [where f = bulk_jobs, OF tt_email]
  by (fastforce simp: api_update_charger_def flow dest!: set_hired_effect)+

lemma handle_bulk_jobs:
  assumes "\<not> commits_itself req" and run: "fst (handle_request V mo hr req w) = Inr d'"
  shows "bulk_jobs d' = bulk_jobs (w_db w)"
proof (cases "scoped req \<or> (\<exists>i q. req = Edit_charger i q)")
  case True
  then show ?thesis using assms
    by (cases req) (auto simp: handler_Inr simp del: keep_operations dest: bulk_jobs_kept)
next
  case False
  then show ?thesis using handle_unscoped [OF _ _ run] by (simp add: tenant_tables_def)
qed

lemma exec_request_memory:
  "\<not> commits_itself req \<Longrightarrow> w_tasks (snd (exec_request V mo hr fl cm req w)) = w_tasks w
     \<and> w_running (snd (exec_request V mo hr fl cm req w)) = w_running w"
  using handle_memory [where req = req and V = V and mo = mo and hr = hr and w = w]
  by (cases "handle_request V mo hr req w") (simp add: exec_request_def Let_def split: prod.splits)

lemma api_bulk_email_effect:
  "api_bulk_email s q sc p now d = Inr (x, t, d') \<Longrightarrow>
   if st_app_read_only s
   then d' = d \<and> t = Run_inert (bq_company_id q) (bq_date q) (bq_recipient q) (bq_format q)
   else \<exists>r. create_job (bq_company_id q) (bq_date q) (bq_recipient q) (bq_format q) (Some (pr_user_id p)) now d
       = Inr (r, d') \<and> t = Run_job (jb_id r)"
  by (auto simp: api_bulk_email_def flow split: if_splits)

lemma mail_call:
  assumes "commits_itself req"
  shows "mail_view (snd (exec_request V mo hr fl cm req w)) = mail_view w
    \<or> (\<exists>c day rcp fmt who r d'. create_job c day rcp fmt who (mo_now mo) (w_db w) = Inr (r, d')
        \<and> mail_view (snd (exec_request V mo hr fl cm req w)) = (d', job_ids (w_tasks w) @ [jb_id r], w_running w))"
proof -
  from assms obtain q where req: "req = Mail_journals q" by (cases req) simp_all
  obtain r w' where h: "handle_request V mo hr req w = (r, w')" by (rule prod.exhaust)
  show ?thesis
  proof (cases "\<exists>actor sc. current_user (sv_settings V) (sv_libs V) hr (mo_secs mo) = Inr actor
      \<and> get_company_scope actor (w_db w) = Inr sc
      \<and> (\<exists>x t d. api_bulk_email (sv_settings V) q sc actor (mo_now mo) (w_db w) = Inr (x, t, d))")
    case False
    then have "\<exists>e. r = Inl e \<and> w' = w" using h unfolding req
      by (auto simp: with_scope_def with_user_def split: sum.splits prod.splits)
    then show ?thesis by (auto simp: exec_request_def h get_db_session_def)
  next
    case True
    then obtain actor sc x t d where b: "api_bulk_email (sv_settings V) q sc actor (mo_now mo) (w_db w) = Inr (x, t, d)"
      and u: "current_user (sv_settings V) (sv_libs V) hr (mo_secs mo) = Inr actor"
        "get_company_scope actor (w_db w) = Inr sc" by blast
    then have "r = Inr d" "w' = w\<lparr>w_tasks := w_tasks w @ [t]\<rparr>" using h unfolding req
      by (auto simp: with_scope_def with_user_def)
    then show ?thesis using api_bulk_email_effect [OF b]
      by (cases "st_app_read_only (sv_settings V)")
         (auto simp: exec_request_def h assms mail_view_def get_db_session_def; blast)+
  qed
qed

text \<open>Every event is a step of the machine of theory BulkMail, or none.\<close>

lemma event_refines:
  "bulk_step (sv_settings V) (sv_libs V) (sv_renderers V) (sv_mailer V) (mail_view w) (mail_view (exec_event V e w))"
proof (cases e)
  case (Call mo hr fl cm req)
  show ?thesis
  proof (cases "commits_itself req")
    case True
    from mail_call [OF True, of V mo hr fl cm w] show ?thesis
      unfolding Call exec_event.simps
      by (auto simp: mail_view_def intro: bulk_step.other_request bulk_step.requested)
  next
    case False
    then have "bulk_jobs (w_db (snd (exec_request V mo hr fl cm req w))) = bulk_jobs (w_db w)"
      by (intro exec_request_keeps [where P = "\<lambda>d. bulk_jobs d = bulk_jobs (w_db w)"]) (auto intro: handle_bulk_jobs)
    with exec_request_memory [OF False, of V mo hr fl cm w] show ?thesis
      by (simp add: Call mail_view_def bulk_step.other_request)
  qed
next
  case (Start_mail t now cm)
  then show ?thesis
    by (cases V t now cm w rule: start_mail_cases)
       (auto simp: mail_view_def intro: bulk_step.other_request bulk_step.start_failed bulk_step.started)
next
  case (Finish_mail i now cm)
  then show ?thesis
    by (cases V i now cm w rule: finish_mail_cases)
       (auto simp: mail_view_def intro: bulk_step.other_request bulk_step.completion_failed bulk_step.completed)
qed (simp_all add: mail_view_def exec_query_world bulk_step.other_request bulk_step.process_died)

lemma service_refines:
  "(bulk_step (sv_settings V) (sv_libs V) (sv_renderers V) (sv_mailer V))\<^sup>*\<^sup>* (mail_view w) (mail_view (run_service V es w))"
proof (induction es arbitrary: w)
  case (Cons e es)
  show ?case unfolding run_service.simps by (rule converse_rtranclp_into_rtranclp [OF event_refines Cons])
qed simp

section \<open>Isolation\<close>

text \<open>An event that comes from no one with a scope other than \<open>c\<close>; the runner is nobody.\<close>

fun event_within :: "('raw, 'fs) server \<Rightarrow> int \<Rightarrow> db \<Rightarrow> event \<Rightarrow> bool" where
  "event_within V c d (Call mo hr flushed commit_ok req) = scope_within V c d mo hr"
| "event_within V c d e = True"

fun runner_event :: "event \<Rightarrow> bool" where
  "runner_event (Start_mail t now commit_ok) = True"
| "runner_event (Finish_mail i now commit_ok) = True"
| "runner_event e = False"

text \<open>What was asked of a job; the runner only records its progress.\<close>

definition job_order :: "bulk_job \<Rightarrow> int \<times> string \<times> date \<times> string \<times> int option \<times> datetime" where
  "job_order j = (bj_company_id j, bj_recipient j, bj_target_date j, bj_format j, bj_requested_by j, bj_created_at j)"

definition foreign_orders :: "int \<Rightarrow> db \<Rightarrow>
    (int \<times> leave) list \<times> (int \<times> kiosk) list \<times> (int \<times> email_schedule) list
    \<times> (int \<times> int \<times> string \<times> date \<times> string \<times> int option \<times> datetime) list" where
  "foreign_orders c d =
     (let (ls, ks, es, js) = foreign_view c d in (ls, ks, es, map (\<lambda>(i, j). (i, job_order j)) js))"

lemma job_order_company: "bj_company_id j = fst (job_order j)"
  by (simp add: job_order_def)

lemma orders_tupd:
  assumes "table_ok t" and "tget t i = Some j" and "job_order j' = job_order j"
  shows "map (\<lambda>(i, j). (i, job_order j)) (foreign_rows bj_company_id c (tupd i j' t)) =
    map (\<lambda>(i, j). (i, job_order j)) (foreign_rows bj_company_id c t)"
proof -
  have "\<forall>(k, x) \<in> set xs. k = i \<longrightarrow> job_order x = job_order j' \<Longrightarrow>
    map (\<lambda>(i, j). (i, job_order j)) (filter (\<lambda>(i, r). bj_company_id r \<noteq> c)
        (map (\<lambda>(k, x). if k = i then (k, j') else (k, x)) xs)) =
      map (\<lambda>(i, j). (i, job_order j)) (filter (\<lambda>(i, r). bj_company_id r \<noteq> c) xs)" for xs
  proof (induction xs)
    case (Cons x xs)
    then show ?case by (cases x; cases "fst x = i") (simp_all add: job_order_company)
  qed simp
  moreover have "\<forall>(k, x) \<in> set (rows t). k = i \<longrightarrow> job_order x = job_order j'"
    using assms by (auto simp: tget_iff [symmetric])
  ultimately show ?thesis by (simp add: foreign_rows_def tupd_def)
qed

lemma finish_job_order [simp]: "job_order (finish_job res now j) = job_order j"
  by (cases res) (simp_all add: job_order_def)

lemma orders_runner:
  assumes "db_ok d" and "tget (bulk_jobs d) i = Some j" and "job_order j' = job_order j"
  shows "foreign_orders c (d\<lparr>bulk_jobs := tupd i j' (bulk_jobs d)\<rparr>) = foreign_orders c d"
proof -
  have "table_ok (bulk_jobs d)" using assms(1) by (simp add: db_ok_defs bulk_jobs_ok_def)
  from orders_tupd [OF this assms(2,3)] show ?thesis by (simp add: foreign_orders_def foreign_view_def)
qed

lemma foreign_view_orders: "foreign_view c d' = foreign_view c d \<Longrightarrow> foreign_orders c d' = foreign_orders c d"
  by (simp add: foreign_orders_def)

lemma runner_foreign:
  assumes "db_ok d"
  shows "mark_sending i now d = Some d' \<Longrightarrow> foreign_orders c d' = foreign_orders c d \<and> chargers d' = chargers d"
    and "foreign_orders c (complete_job s L R X i now d) = foreign_orders c d
      \<and> chargers (complete_job s L R X i now d) = chargers d"
  using complete_job_effect [of s L R X i now d] mark_sending_effect [of i now d d']
  by (auto simp: orders_runner [OF assms] orders_runner [OF assms, unfolded job_order_def])

lemma event_foreign:
  assumes "db_ok (w_db w)" and "event_within V c (w_db w) e"
  shows "foreign_orders c (w_db (exec_event V e w)) = foreign_orders c (w_db w)
    \<and> chargers (w_db (exec_event V e w)) = chargers (w_db w)
    \<and> (\<not> runner_event e \<longrightarrow> foreign_view c (w_db (exec_event V e w)) = foreign_view c (w_db w))"
proof (cases e)
  case (Call mo hr fl cm req)
  with exec_foreign [OF assms(1), of V c mo hr fl cm req] assms(2)
    foreign_view_orders [of c "w_db (exec_event V e w)" "w_db w"] show ?thesis by simp
next
  case (Start_mail t now cm)
  then show ?thesis
    by (cases V t now cm w rule: start_mail_cases) (auto dest: runner_foreign(1) [OF assms(1)])
next
  case (Finish_mail i now cm)
  then show ?thesis
    by (cases V i now cm w rule: finish_mail_cases) (simp_all add: runner_foreign(2) [OF assms(1)])
qed (simp_all add: exec_query_world)

lemma event_within_chargers: "chargers d' = chargers d \<Longrightarrow> event_within V c d' e = event_within V c d e"
  using scope_within_chargers [of d' d V c] by (cases e) simp_all

lemma run_foreign:
  "db_ok (w_db w) \<Longrightarrow> \<forall>e \<in> set es. event_within V c (w_db w) e \<Longrightarrow>
   foreign_orders c (w_db (run_service V es w)) = foreign_orders c (w_db w)
   \<and> ((\<forall>e \<in> set es. \<not> runner_event e) \<longrightarrow> foreign_view c (w_db (run_service V es w)) = foreign_view c (w_db w))"
proof (induction es arbitrary: w)
  case (Cons e es)
  have e: "event_within V c (w_db w) e" using Cons.prems(2) by simp
  note f = event_foreign [OF Cons.prems(1) e]
  have "\<forall>x \<in> set es. event_within V c (w_db (exec_event V e w)) x"
    using Cons.prems(2) f by (simp add: event_within_chargers [of "w_db (exec_event V e w)" "w_db w"])
  from Cons.IH [OF event_ok [OF Cons.prems(1)] this] f show ?case by auto
qed simp

section \<open>The read-only mode\<close>

lemma event_read_only:
  "st_app_read_only (sv_settings V) \<Longrightarrow> eg_read_only (sv_engine V) \<Longrightarrow> w_db (exec_event V e w) = w_db w"
proof (cases e)
  case (Call mo hr fl cm req)
  then show "st_app_read_only (sv_settings V) \<Longrightarrow> ?thesis" using exec_request_db [of V mo hr fl cm req w] by auto
next
  case (Start_mail t now cm)
  then show "eg_read_only (sv_engine V) \<Longrightarrow> ?thesis" by (cases V t now cm w rule: start_mail_cases) simp_all
next
  case (Finish_mail i now cm)
  then show "eg_read_only (sv_engine V) \<Longrightarrow> ?thesis" by (cases V i now cm w rule: finish_mail_cases) simp_all
qed (simp_all add: exec_query_world)

lemma run_read_only:
  assumes "st_app_read_only (sv_settings V)" and "eg_read_only (sv_engine V)"
  shows "w_db (run_service V es w) = w_db w"
  by (rule run_service_keeps [where P = "\<lambda>w'. w_db w' = w_db w"]) (simp_all add: event_read_only [OF assms])

end
