(* ===== verification/Seed.thy ===== *)
theory Seed
  imports References Sample
begin

text \<open>
  The demo data (scripts/seed\_demo.py): the script empties every table and fills it again, section by
  section, in one transaction.  The lemmas show that what it writes satisfies every constraint of the
  schema and every invariant of the services, whatever the day it runs and whatever was there before, and
  that its accounts can log in.

  \<open>datetime.now()\<close>, the salts of bcrypt and the time stamp of the transaction are arguments.  A literal
  with Hangul is given by the bytes of its UTF-8 encoding, as the database stores it (\<open>utf8\<close>).
\<close>

section \<open>Rows and tables\<close>

definition utf8 :: "nat list \<Rightarrow> string" where
  "utf8 bs = map char_of bs"

text \<open>\<open>add_all\<close> and the flush: the rows get the next keys,
  in order.  The objects a section keeps are the
  rows with their keys.\<close>

definition add_all :: "'r list \<Rightarrow> 'r table \<Rightarrow> 'r table" where
  "add_all rs t = fold tins rs t"

definition flushed :: "'r table \<Rightarrow> 'r list \<Rightarrow> (int \<times> 'r) list" where
  "flushed t rs = number_from (next_id t) rs"

text \<open>The tables by name, with how to empty and to count them, and the foreign keys between them (child,
  parent), which \<open>TRUNCATE ... CASCADE\<close> follows.\<close>

definition named_tables :: "(string \<times> (db \<Rightarrow> db) \<times> (db \<Rightarrow> nat)) list" where
  "named_tables =
     [(''journal_email_schedules'', \<lambda>d. d\<lparr>email_schedules := empty_table\<rparr>,
       \<lambda>d. length (rows (email_schedules d))),
      (''leaves'', \<lambda>d. d\<lparr>leaves := empty_table\<rparr>, \<lambda>d. length (rows (leaves d))),
      (''caregiver_document_logs'', \<lambda>d. d\<lparr>document_logs := empty_table\<rparr>,
        \<lambda>d. length (rows (document_logs d))),
      (''caregiver_documents'', \<lambda>d. d\<lparr>documents := empty_table\<rparr>,
        \<lambda>d. length (rows (documents d))),
      (''caregiver_document_types'', \<lambda>d. d\<lparr>document_types := empty_table\<rparr>,
        \<lambda>d. length (rows (document_types d))),
      (''work_process_records'', \<lambda>d. d\<lparr>process_records := empty_table\<rparr>,
        \<lambda>d. length (rows (process_records d))),
      (''work_records'', \<lambda>d. d\<lparr>records := empty_table\<rparr>, \<lambda>d. length (rows (records d))),
      (''work_schedules'', \<lambda>d. d\<lparr>schedules := empty_table\<rparr>,
        \<lambda>d. length (rows (schedules d))),
      (''job_workers'', \<lambda>d. d\<lparr>job_workers := empty_table\<rparr>,
        \<lambda>d. length (rows (job_workers d))),
      (''job_processes'', \<lambda>d. d\<lparr>processes := empty_table\<rparr>,
        \<lambda>d. length (rows (processes d))),
      (''job_standards'', \<lambda>d. d\<lparr>standards := empty_table\<rparr>,
        \<lambda>d. length (rows (standards d))),
      (''caregiver_worker_relations'', \<lambda>d. d\<lparr>relations := empty_table\<rparr>,
        \<lambda>d. length (rows (relations d))),
      (''caregivers'', \<lambda>d. d\<lparr>caregivers := empty_table\<rparr>,
        \<lambda>d. length (rows (caregivers d))),
      (''company_workers'', \<lambda>d. d\<lparr>company_workers := empty_table\<rparr>,
        \<lambda>d. length (rows (company_workers d))),
      (''challenged_workers'', \<lambda>d. d\<lparr>workers := empty_table\<rparr>,
        \<lambda>d. length (rows (workers d))),
      (''company_chargers'', \<lambda>d. d\<lparr>chargers := empty_table\<rparr>,
        \<lambda>d. length (rows (chargers d))),
      (''company_kiosks'', \<lambda>d. d\<lparr>kiosks := empty_table\<rparr>, \<lambda>d. length (rows (kiosks d))),
      (''caregiver_boards'', \<lambda>d. d\<lparr>boards := empty_table\<rparr>,
        \<lambda>d. length (rows (boards d))),
      (''companies'', \<lambda>d. d\<lparr>companies := empty_table\<rparr>, \<lambda>d. length (rows (companies d))),
      (''option_variables'', \<lambda>d. d\<lparr>option_variables := empty_table\<rparr>,
        \<lambda>d. length (rows (option_variables d))),
      (''users'', \<lambda>d. d\<lparr>users := empty_table\<rparr>, \<lambda>d. length (rows (users d))),
      (''bulk_email_jobs'', \<lambda>d. d\<lparr>bulk_jobs := empty_table\<rparr>,
        \<lambda>d. length (rows (bulk_jobs d)))]"

definition foreign_keys :: "(string \<times> string) list" where
  "foreign_keys =
     [(''company_chargers'', ''users''), (''company_chargers'', ''companies''), (''challenged_workers'', ''users''),
      (''company_workers'', ''companies''), (''company_workers'', ''challenged_workers''), (''caregivers'',
        ''users''),
      (''caregiver_worker_relations'', ''caregivers''), (''caregiver_worker_relations'', ''challenged_workers''),
      (''job_standards'', ''companies''), (''job_processes'', ''job_standards''), (''job_workers'',
        ''company_workers''),
      (''job_workers'', ''job_standards''), (''work_schedules'', ''job_workers''),
      (''work_schedules'', ''company_chargers''), (''work_schedules'', ''job_standards''),
      (''work_records'', ''work_schedules''), (''work_process_records'', ''work_schedules''),
      (''work_process_records'', ''job_processes''), (''caregiver_documents'', ''caregiver_worker_relations''),
      (''caregiver_documents'', ''caregiver_document_types''), (''caregiver_document_logs'', ''caregiver_documents''),
      (''caregiver_document_logs'', ''users''), (''caregiver_boards'', ''users''), (''company_kiosks'',
        ''companies''),
      (''leaves'', ''challenged_workers''), (''leaves'', ''companies''), (''journal_email_schedules'', ''companies''),
      (''bulk_email_jobs'', ''companies''), (''bulk_email_jobs'', ''users'')]"

text \<open>A round of the cascade adds the tables that refer to one of the list.  Each round but the last adds a
  table, so as many rounds as there are tables are enough.\<close>

definition cascade_round :: "string list \<Rightarrow> string list" where
  "cascade_round ns = ns @ remdups (map fst (filter (\<lambda>(c,
    p). p \<in> set ns \<and> c \<notin> set ns) foreign_keys))"

definition truncate_cascade :: "string list \<Rightarrow> db \<Rightarrow> db" where
  "truncate_cascade ns d =
     fold (\<lambda>n d. case map_of named_tables n of None \<Rightarrow> d | Some (clear, _) \<Rightarrow> clear d)
       ((cascade_round ^^ length named_tables) ns) d"

definition all_tables :: "string list" where
  "all_tables = [''journal_email_schedules'', ''leaves'', ''caregiver_document_logs'', ''caregiver_documents'',
     ''caregiver_document_types'', ''work_process_records'', ''work_records'', ''work_schedules'', ''job_workers'',
     ''job_processes'', ''job_standards'', ''caregiver_worker_relations'', ''caregivers'', ''company_workers'',
     ''challenged_workers'', ''company_chargers'', ''company_kiosks'', ''caregiver_boards'', ''companies'',
     ''option_variables'', ''users'']"

section \<open>Users and companies\<close>

definition mkuser :: "libs \<Rightarrow> (string \<Rightarrow> string) \<Rightarrow> string \<Rightarrow> string \<Rightarrow> user_role \<Rightarrow> user" where
  "mkuser L salt username nm role =
     \<lparr>u_username = username, u_email = Some (username @ ''@rooti.io''),
      u_password_hash = hash_password L (username @ ''1234'') (salt username), u_name = nm,
      u_phone = Some ''010-0000-0000'', u_role = role, u_enabled = True, u_last_login_at = None\<rparr>"

text \<open>The users in the order they are added, and the objects the later sections use, by their keys.\<close>

definition demo_users :: "libs \<Rightarrow> (string \<Rightarrow> string) \<Rightarrow> user list" where
  "demo_users L salt =
     [mkuser L salt ''admin'' (utf8 [234, 180, 128, 235, 166, 172, 236, 158, 144]) ADMIN,
      mkuser L salt ''charger'' (utf8 [237, 154, 140, 236, 130, 172, 32, 235, 139, 180, 235, 139, 185, 236, 158,
        144]) CHARGER,
      mkuser L salt ''caregiver'' (utf8 [235, 179, 180, 237, 152, 184, 236, 158, 144]) CAREGIVER,
      mkuser L salt ''worker'' (utf8 [234, 183, 188, 235, 161, 156, 236, 158, 144]) WORKER]
     @ map (\<lambda>i. mkuser L salt (''worker'' @ str_of_int i) ((utf8 [234, 183, 188, 235, 161, 156, 236, 158,
       144]) @ str_of_int i) WORKER) [2..6]
     @ [mkuser L salt ''caregiver2'' (utf8 [235, 179, 180, 237, 152, 184, 236, 158, 144, 50]) CAREGIVER,
        mkuser L salt ''charger2'' (utf8 [235, 139, 180, 235, 139, 185, 236, 158, 144, 50]) CHARGER,
        mkuser L salt ''charger3'' (utf8 [235, 139, 180, 235, 139, 185, 236, 158, 144, 51]) CHARGER]"

record people =
  pp_admin :: int
  pp_charger :: int
  pp_caregiver :: int
  pp_worker :: int
  pp_extra_workers :: "int list"
  pp_caregiver2 :: int
  pp_charger2 :: int
  pp_charger3 :: int

definition people_from :: "int \<Rightarrow> people" where
  "people_from n = \<lparr>pp_admin = n, pp_charger = n + 1, pp_caregiver = n + 2, pp_worker = n + 3,
     pp_extra_workers = [n + 4, n + 5, n + 6, n + 7, n + 8], pp_caregiver2 = n + 9, pp_charger2 = n + 10,
     pp_charger3 = n + 11\<rparr>"

definition seed_users :: "libs \<Rightarrow> (string \<Rightarrow> string) \<Rightarrow> db \<Rightarrow> people \<times> db" where
  "seed_users L salt d = (people_from (next_id (users d)),
    d\<lparr>users := add_all (demo_users L salt) (users d)\<rparr>)"

definition demo_companies :: "people \<Rightarrow> company list" where
  "demo_companies p =
     [\<lparr>co_name = (utf8 [235, 141, 176, 235, 170, 168, 32, 237, 154, 140, 236, 130, 172]),
       co_location = Some (utf8 [236, 132, 156, 236, 154, 184, 32, 234, 176, 149, 235, 130, 168, 234, 181, 172]),
         co_use_flag = True, co_image_path = None,
       co_template_id = Some ''tpl-default'', co_template_data = Some [(''theme'', JStr ''blue'')],
       co_created_by = Some (pp_admin p), co_updated_by = Some (pp_admin p)\<rparr>,
      \<lparr>co_name = (utf8 [236, 178, 173, 236, 163, 188, 32, 235, 176, 148, 235, 165, 184, 234, 184, 176, 236,
        164, 128, 236, 185, 152, 234, 179, 188]), co_location = Some (utf8 [236, 182, 169, 235, 182, 129, 32, 236,
        178, 173, 236, 163, 188, 236, 139, 156]), co_use_flag = True,
       co_image_path = None, co_template_id = None, co_template_data = None,
       co_created_by = Some (pp_admin p), co_updated_by = Some (pp_admin p)\<rparr>,
      \<lparr>co_name = (utf8 [236, 132, 156, 236, 154, 184, 32, 237, 150, 137, 235, 179, 181, 236, 154, 148, 236,
        150, 145, 236, 155, 144]), co_location = Some (utf8 [236, 132, 156, 236, 154, 184, 32, 236, 134, 161, 237,
        140, 140, 234, 181, 172]), co_use_flag = True,
       co_image_path = None, co_template_id = None, co_template_data = None,
       co_created_by = Some (pp_admin p), co_updated_by = Some (pp_admin p)\<rparr>]"

definition seed_companies :: "people \<Rightarrow> db \<Rightarrow> (int \<times> company) list \<times> db" where
  "seed_companies p d =
     (flushed (companies d) (demo_companies p),
       d\<lparr>companies := add_all (demo_companies p) (companies d)\<rparr>)"

definition seed_chargers :: "people \<Rightarrow> (int \<times> company) list \<Rightarrow> db \<Rightarrow> (int \<times> company_charger) list \<times> db" where
  "seed_chargers p cs d =
     (let assigned = (\<lambda>u c. \<lparr>ch_user_id = u, ch_company_id = c, ch_is_hired = True,
       ch_fcm_token = None\<rparr>);
          rs = [assigned (pp_charger p) (fst (cs ! 0)), assigned (pp_charger2 p) (fst (cs ! 1)),
                assigned (pp_charger3 p) (fst (cs ! 2))]
      in (flushed (chargers d) rs, d\<lparr>chargers := add_all rs (chargers d)\<rparr>))"

section \<open>Workers and caregivers\<close>

definition seed_workers :: "people \<Rightarrow> db \<Rightarrow> (int \<times> challenged_worker) list \<times> db" where
  "seed_workers p d =
     (let rs = map (\<lambda>u. \<lparr>w_user_id = u, w_fcm_token = None,
       w_retired_at = None\<rparr>) (pp_worker p # pp_extra_workers p)
      in (flushed (workers d) rs, d\<lparr>workers := add_all rs (workers d)\<rparr>))"

text \<open>\<open>companies[idx % len(companies)]\<close>: the workers are hired by the companies in turn.\<close>

definition seed_employments ::
    "(int \<times> company) list \<Rightarrow> (int \<times> challenged_worker) list \<Rightarrow> db \<Rightarrow> (int \<times> company_worker) list \<times> db" where
  "seed_employments cs ws d =
     (let rs = map (\<lambda>(k, w). \<lparr>cw_company_id = fst (cs ! (k mod length cs)), cw_worker_id = fst w,
       cw_is_hired = True\<rparr>)
                 (enumerate 0 ws)
      in (flushed (company_workers d) rs, d\<lparr>company_workers := add_all rs (company_workers d)\<rparr>))"

definition seed_caregivers :: "people \<Rightarrow> (int \<times> challenged_worker) list \<Rightarrow> db \<Rightarrow> db" where
  "seed_caregivers p ws d =
     (let n = next_id (caregivers d);
          rs = [\<lparr>rel_caregiver_id = n, rel_worker_id = fst (ws ! 0)\<rparr>, \<lparr>rel_caregiver_id = n,
            rel_worker_id = fst (ws ! 1)\<rparr>,
                \<lparr>rel_caregiver_id = n + 1, rel_worker_id = fst (ws ! 2)\<rparr>]
      in d\<lparr>caregivers := add_all [\<lparr>cg_user_id = pp_caregiver p\<rparr>,
        \<lparr>cg_user_id = pp_caregiver2 p\<rparr>] (caregivers d),
           relations := add_all rs (relations d)\<rparr>)"

section \<open>Standards and assignments\<close>

definition demo_standard :: "int \<times> company \<Rightarrow> int \<Rightarrow> job_standard" where
  "demo_standard = (\<lambda>(i, c) n.
     \<lparr>js_company_id = i, js_name = co_name c @ (utf8 [32, 236, 151, 133, 235, 172, 180, 237, 145, 156, 236,
       164, 128, 32]) @ str_of_int n, js_use_flag = True,
      js_routine_start_time = Some (9 * hour_us), js_work_time = 8 * 3600, js_rest_time = 3600,
      js_start_message = Some (utf8 [236, 151, 133, 235, 172, 180, 235, 165, 188, 32, 236, 139, 156, 236, 158, 145,
        237, 149, 169, 235, 139, 136, 235, 139, 164, 46]),
      js_end_message = Some (utf8 [236, 136, 152, 234, 179, 160, 237, 149, 152, 236, 133, 168, 236, 138, 181, 235,
        139, 136, 235, 139, 164, 46]),
      js_context = Some [(''category'', JStr (if n = 1 then ''care'' else ''clean''))],
        js_for_journal = True\<rparr>)"

definition demo_processes :: "int \<Rightarrow> job_process list" where
  "demo_processes standard_id = map (\<lambda>sq.
     \<lparr>jp_standard_id = standard_id, jp_name = (utf8 [234, 179, 181, 236, 160, 149, 32]) @ str_of_int sq,
       jp_sequence = sq, jp_video_path = None,
      jp_start_message = Some ((utf8 [234, 179, 181, 236, 160, 149, 32]) @ str_of_int sq @ (utf8 [32, 236, 139,
        156, 236, 158, 145])),
      jp_end_message = Some ((utf8 [234, 179, 181, 236, 160, 149, 32]) @ str_of_int sq @ (utf8 [32, 236, 162, 133,
        235, 163, 140])),
      jp_context = Some [(''step'', JNum sq)], jp_process_time = 1800\<rparr>) [1..3]"

text \<open>The objects of the standards and of the processes; \<open>js.processes\<close> are those that name \<open>js\<close>.\<close>

definition seed_standards ::
    "(int \<times> company) list \<Rightarrow> db \<Rightarrow> (int \<times> job_standard) list \<times> (int \<times> job_process) list \<times> db" where
  "seed_standards cs d =
     (let ss = concat (map (\<lambda>c. map (demo_standard c) [1..2]) cs);
          objs = flushed (standards d) ss;
          ps = concat (map (\<lambda>(i, s). demo_processes i) objs)
      in (objs, flushed (processes d) ps,
          d\<lparr>standards := add_all ss (standards d), processes := add_all ps (processes d)\<rparr>))"

text \<open>\<open>std_by_company.setdefault\<close>: the first standard of a company.  A company without one is skipped.\<close>

definition std_by_company :: "(int \<times> job_standard) list \<Rightarrow> int \<Rightarrow> int option" where
  "std_by_company ss c = map_of (map (\<lambda>(i, s). (js_company_id s, i)) ss) c"

definition seed_job_workers ::
    "(int \<times> job_standard) list \<Rightarrow> (int \<times> company_worker) list \<Rightarrow> db \<Rightarrow> (int \<times> job_worker) list \<times> db" where
  "seed_job_workers ss cws d =
     (let rs = List.map_filter (\<lambda>(k, cw). map_option (\<lambda>i. \<lparr>jw_company_worker_id = k,
       jw_standard_id = i,
                 jw_use_flag = True, jw_context = None\<rparr>) (std_by_company ss (cw_company_id cw))) cws
      in (flushed (job_workers d) rs, d\<lparr>job_workers := add_all rs (job_workers d)\<rparr>))"

section \<open>Schedules and records\<close>

text \<open>The records of a day: the whole day when it is over, otherwise the arrival and the work going on.\<close>

definition day_records :: "int \<Rightarrow> datetime \<Rightarrow> datetime option \<Rightarrow> work_record list" where
  "day_records sid start_at end_at =
     (let rec = (\<lambda>ty a b. \<lparr>wr_schedule_id = sid, wr_type = ty, wr_start_at = a, wr_end_at = b\<rparr>)
      in case end_at of
           Some e \<Rightarrow>
             [rec ON start_at (Some (start_at + 5 * minute_us)),
              rec WORK (start_at + 5 * minute_us) (Some (start_at + 4 * hour_us)),
              rec REST (start_at + 4 * hour_us) (Some (start_at + 5 * hour_us)),
              rec WORK (start_at + 5 * hour_us) (Some e),
              rec OFF e (Some e)]
         | None \<Rightarrow>
             [rec ON start_at (Some (start_at + 5 * minute_us)),
              rec WORK (start_at + 5 * minute_us) None])"

definition day_process :: "int \<Rightarrow> int \<Rightarrow> datetime \<Rightarrow> datetime option \<Rightarrow> work_process_record" where
  "day_process sid pid start_at end_at =
     \<lparr>wp_schedule_id = sid, wp_process_id = pid, wp_type = ''PROCESS'',
      wp_start_at = Some (start_at + 10 * minute_us),
      wp_end_at = (if end_at \<noteq> None then Some (start_at + 40 * minute_us) else None),
      wp_start_condition = Some 1, wp_end_condition = (if end_at \<noteq> None then Some 1 else None),
      wp_start_answer = Some (utf8 [236, 160, 149, 236, 131, 129]), wp_end_answer = None, wp_start_voice = None,
        wp_end_voice = None,
      wp_process = Some [(''note'', JStr (utf8 [235, 141, 176, 235, 170, 168]))]\<rparr>"

definition first_process :: "(int \<times> job_process) list \<Rightarrow> int \<Rightarrow> int option" where
  "first_process ps sid = map_option fst (find (\<lambda>(i, p). jp_standard_id p = sid \<and> jp_sequence p = 1) ps)"

text \<open>One round of the two loops: the schedule of an assignment \<open>k\<close> days ago, flushed,
  and its records.\<close>

definition seed_day ::
    "datetime \<Rightarrow> (int \<Rightarrow> int option) \<Rightarrow> (int \<times> job_process) list \<Rightarrow> int \<times> job_worker \<Rightarrow> int \<Rightarrow> db \<Rightarrow> db" where
  "seed_day today charger_of ps jw k d =
     (let day = today - k * day_us;
          start_at = day + 9 * hour_us;
          end_at = (if 0 < k then Some (day + 18 * hour_us) else None);
          sid = next_id (schedules d);
          d1 = d\<lparr>schedules := tins \<lparr>ws_job_worker_id = fst jw,
            ws_charger_id = charger_of (jw_company_worker_id (snd jw)),
                  ws_standard_id = jw_standard_id (snd jw), ws_start_at = start_at, ws_end_at = end_at,
                  ws_doc_path = None, ws_make_doc = True\<rparr> (schedules d)\<rparr>;
          d2 = d1\<lparr>records := add_all (day_records sid start_at end_at) (records d1)\<rparr>
      in case first_process ps (jw_standard_id (snd jw)) of
           None \<Rightarrow> d2
         | Some pid \<Rightarrow> d2\<lparr>process_records := tins (day_process sid pid start_at end_at) (process_records d2)\<rparr>)"

text \<open>\<open>charger_by_company.get(cw_company.get(...))\<close>: a later charger of a company replaces an earlier one.\<close>

definition charger_of_employment ::
    "(int \<times> company_charger) list \<Rightarrow> (int \<times> company_worker) list \<Rightarrow> int \<Rightarrow> int option" where
  "charger_of_employment chs cws i =
     Option.bind (map_of (map (\<lambda>(k, cw). (k, cw_company_id cw)) cws) i)
       (map_of (rev (map (\<lambda>(k, ch). (ch_company_id ch, k)) chs)))"

definition seed_schedules ::
    "datetime \<Rightarrow> (int \<Rightarrow> int option) \<Rightarrow> (int \<times> job_process) list \<Rightarrow> (int \<times> job_worker) list \<Rightarrow> db \<Rightarrow> db" where
  "seed_schedules today charger_of ps jws d =
     fold (\<lambda>jw. fold (seed_day today charger_of ps jw) [0..4]) jws d"

section \<open>Documents, boards and kiosks\<close>

definition demo_types :: "document_type list" where
  "demo_types =
     [\<lparr>dt_name = (utf8 [236, 139, 160, 235, 182, 132, 236, 166, 157]), dt_description = Some (utf8 [236,
       139, 160, 235, 182, 132, 32, 237, 153, 149, 236, 157, 184, 236, 154, 169]), dt_request_on = REGISTER\<rparr>,
      \<lparr>dt_name = (utf8 [236, 158, 144, 234, 178, 169, 236, 166, 157]), dt_description = Some (utf8 [236,
        154, 148, 236, 150, 145, 235, 179, 180, 237, 152, 184, 236, 130, 172, 32, 236, 158, 144, 234, 178, 169,
        236, 166, 157]), dt_request_on = NOTHING\<rparr>,
      \<lparr>dt_name = (utf8 [234, 179, 132, 236, 149, 189, 236, 132, 156]), dt_description = Some (utf8 [234,
        183, 188, 235, 161, 156, 32, 234, 179, 132, 236, 149, 189, 236, 132, 156]), dt_request_on = NOTHING\<rparr>]"

definition demo_document :: "people \<Rightarrow> datetime \<Rightarrow> int \<Rightarrow> int \<Rightarrow> string \<Rightarrow> int \<Rightarrow> string \<Rightarrow> document" where
  "demo_document p at rel ty fname sz ctype =
     \<lparr>d_relation_id = rel, d_type_id = ty, d_filename = fname, d_file_size = Some sz,
       d_content_type = Some ctype,
      d_created_at = at, d_created_by = Some (pp_caregiver p), d_updated_by = Some (pp_caregiver p)\<rparr>"

text \<open>\<open>ORDER BY id LIMIT 1\<close> and \<open>scalar_one()\<close>.\<close>

definition first_relation :: "db \<Rightarrow> exn + int" where
  "first_relation d = (case rows (relations d) of [] \<Rightarrow> Inl (External ''NoResultFound'') | (i,
    _) # _ \<Rightarrow> Inr i)"

definition seed_documents :: "people \<Rightarrow> datetime \<Rightarrow> db \<Rightarrow> exn + db" where
  "seed_documents p at d =
     let_ok (first_relation d) (\<lambda>rel.
     (let tys = flushed (document_types d) demo_types;
          docs = [demo_document p at rel (fst (tys ! 0)) ''caregiver-documents/demo/id-card.pdf'' 204800 ''application/pdf'',
                  demo_document p at rel (fst (tys ! 1)) ''caregiver-documents/demo/license.jpg'' 512000 ''image/jpeg''];
          logs = map (\<lambda>(i, x). \<lparr>dl_document_id = i, dl_user_id = pp_caregiver p, dl_action = UPLOAD,
            dl_at = at\<rparr>)
                   (flushed (documents d) docs)
      in Inr (d\<lparr>document_types := add_all demo_types (document_types d),
        documents := add_all docs (documents d),
                document_logs := add_all logs (document_logs d)\<rparr>)))"

definition demo_board :: "datetime \<Rightarrow> int \<Rightarrow> string \<Rightarrow> string \<Rightarrow> bool \<Rightarrow> board" where
  "demo_board at author title body published =
     \<lparr>b_author_id = author, b_title = title, b_body = body, b_published = published, b_created_at = at,
      b_updated_at = at, b_created_by = Some author, b_updated_by = Some author\<rparr>"

definition seed_boards :: "people \<Rightarrow> datetime \<Rightarrow> db \<Rightarrow> db" where
  "seed_boards p at d =
     d\<lparr>boards := add_all
        [demo_board at (pp_admin p) (utf8 [234, 179, 181, 236, 167, 128, 58, 32, 53, 236, 155, 148, 32, 234, 183,
          188, 235, 172, 180, 236, 157, 188, 236, 167, 128, 32, 236, 160, 156, 236, 182, 156, 32, 236, 149, 136,
          235, 130, 180])
           (utf8 [236, 157, 180, 235, 178, 136, 32, 235, 139, 172, 32, 234, 183, 188, 235, 172, 180, 236, 157, 188,
             236, 167, 128, 235, 138, 148, 32, 235, 167, 144, 236, 157, 188, 234, 185, 140, 236, 167, 128, 32, 236,
             160, 156, 236, 182, 156, 237, 149, 180, 32, 236, 163, 188, 236, 132, 184, 236, 154, 148, 46]) True,
         demo_board at (pp_admin p) (utf8 [236, 139, 156, 236, 138, 164, 237, 133, 156, 32, 236, 160, 144, 234,
           178, 128, 32, 236, 149, 136, 235, 130, 180])
           (utf8 [236, 163, 188, 235, 167, 144, 32, 236, 131, 136, 235, 178, 189, 32, 236, 160, 149, 234, 184, 176,
             32, 236, 160, 144, 234, 178, 128, 236, 157, 180, 32, 236, 158, 136, 236, 138, 181, 235, 139, 136, 235,
             139, 164, 46]) True,
         demo_board at (pp_caregiver p) (utf8 [236, 167, 136, 235, 172, 184, 236, 158, 136, 236, 150, 180, 236,
           154, 148])
           (utf8 [236, 158, 144, 234, 178, 169, 236, 166, 157, 236, 157, 128, 32, 236, 150, 180, 235, 148, 148,
             236, 151, 144, 32, 236, 152, 172, 235, 166, 172, 235, 130, 152, 236, 154, 148, 63]) True,
         demo_board at (pp_admin p) (utf8 [40, 236, 158, 132, 236, 139, 156, 236, 160, 128, 236, 158, 165, 41, 32,
           235, 175, 184, 235, 176, 156, 237, 150, 137, 32, 234, 184, 128])
           (utf8 [236, 149, 132, 236, 167, 129, 32, 235, 176, 156, 237, 150, 137, 32, 236, 160, 132, 236, 158, 133,
             235, 139, 136, 235, 139, 164, 46]) False] (boards d)\<rparr>"

text \<open>An f-string prints a missing location as \<open>None\<close>.\<close>

definition demo_kiosk :: "datetime \<Rightarrow> nat \<Rightarrow> int \<times> company \<Rightarrow> kiosk" where
  "demo_kiosk today k = (\<lambda>(i, c).
     \<lparr>k_company_id = i, k_kiosk_id = ''KIOSK-'' @ zero_pad 3 (int k + 1),
       k_name = Some (co_name c @ (utf8 [32, 237, 130, 164, 236, 152, 164, 236, 138, 164, 237, 129, 172])),
      k_location = Some ((case co_location c of Some l \<Rightarrow> l | None \<Rightarrow> ''None'') @ (utf8 [32,
        49, 236, 184, 181, 32, 235, 161, 156, 235, 185, 132])),
      k_capacity = 10, k_current = [3, 10, 0] ! (k mod 3), k_status = [''IN_USE'', ''FULL'', ''OFFLINE''] ! (k mod 3),
      k_assignee = [Some (utf8 [234, 185, 128, 235, 139, 180, 235, 139, 185]), Some (utf8 [236, 157, 180, 235, 139,
        180, 235, 139, 185]), None] ! (k mod 3),
      k_last_reported_at = Some (today + 8 * hour_us + 30 * minute_us)\<rparr>)"

definition seed_kiosks :: "datetime \<Rightarrow> (int \<times> company) list \<Rightarrow> db \<Rightarrow> db" where
  "seed_kiosks today cs d =
     d\<lparr>kiosks := add_all (map (\<lambda>(k, c). demo_kiosk today k c) (enumerate 0 cs)) (kiosks d)\<rparr>"

definition seed_options :: "db \<Rightarrow> db" where
  "seed_options d =
     d\<lparr>option_variables := add_all
        [\<lparr>ov_name = ''journal.autoemail'', ov_for_what = Some ''document'', ov_value = Some ''true''\<rparr>,
         \<lparr>ov_name = ''kiosk.idle_timeout_sec'', ov_for_what = Some ''kiosk'', ov_value = Some ''120''\<rparr>,
         \<lparr>ov_name = ''app.maintenance'', ov_for_what = Some ''system'',
           ov_value = Some ''false''\<rparr>] (option_variables d)\<rparr>"

section \<open>Leaves and mail schedules\<close>

definition demo_leave :: "people \<Rightarrow> datetime \<Rightarrow> datetime \<Rightarrow> (int \<times> company) list \<Rightarrow> nat \<Rightarrow> int \<Rightarrow> leave" where
  "demo_leave p at today cs k worker_id =
     (let start = date_of (today - (3 * int k + 1) * day_us);
          end = start + int (k mod 3)
      in \<lparr>lv_worker_id = worker_id, lv_company_id = fst (cs ! (k mod length cs)),
          lv_type = [ANNUAL, SICK, leave_type.MONTHLY, OTHER] ! (k mod 4), lv_start = start, lv_end = end,
          lv_days = end - start + 1, lv_status = [APPROVED, PENDING, REJECTED] ! (k mod 3),
          lv_reason = [Some (utf8 [234, 176, 156, 236, 157, 184, 32, 236, 130, 172, 236, 160, 149]),
            Some (utf8 [235, 179, 145, 236, 155, 144, 32, 235, 176, 169, 235, 172, 184]), Some (utf8 [234, 176,
              128, 236, 161, 177, 32, 237, 150, 137, 236, 130, 172]), None] ! (k mod 4),
          lv_created_by = Some (pp_admin p), lv_created_at = at\<rparr>)"

definition seed_leaves ::
    "people \<Rightarrow> datetime \<Rightarrow> datetime \<Rightarrow> (int \<times> company) list \<Rightarrow> (int \<times> challenged_worker) list \<Rightarrow> db \<Rightarrow> db" where
  "seed_leaves p at today cs ws d =
     d\<lparr>leaves := add_all (map (\<lambda>(k,
       w). demo_leave p at today cs k (fst w)) (enumerate 0 ws)) (leaves d)\<rparr>"

definition demo_mail :: "datetime \<Rightarrow> datetime \<Rightarrow> nat \<Rightarrow> int \<Rightarrow> email_schedule" where
  "demo_mail at today k company_id =
     (let freq = [''DAILY'', ''WEEKLY'', ''MONTHLY''] ! (k mod 3)
      in \<lparr>es_company_id = company_id, es_recipient = ''charger'' @ str_of_int (int k + 1) @ ''@rooti.io'',
          es_frequency = freq, es_weekday = (if freq = ''WEEKLY'' then Some ''MON'' else None),
          es_day_of_month = (if freq = ''MONTHLY'' then Some 1 else None), es_send_time = ''08:00'',
          es_format = ''PDF'', es_enabled = even k, es_next_run_at = Some (today + 8 * hour_us),
          es_last_run_at = None, es_created_at = at\<rparr>)"

definition seed_mail :: "datetime \<Rightarrow> datetime \<Rightarrow> (int \<times> company) list \<Rightarrow> db \<Rightarrow> db" where
  "seed_mail at today cs d =
     d\<lparr>email_schedules := add_all (map (\<lambda>(k,
       c). demo_mail at today k (fst c)) (enumerate 0 cs)) (email_schedules d)\<rparr>"

section \<open>The script\<close>

text \<open>The sections in order, from the tables the script has emptied.\<close>

definition seed_rows :: "libs \<Rightarrow> (string \<Rightarrow> string) \<Rightarrow> datetime \<Rightarrow> datetime \<Rightarrow> db \<Rightarrow> exn + db" where
  "seed_rows L salt now at d =
     (let (p, d) = seed_users L salt d;
          (cs, d) = seed_companies p d;
          (chs, d) = seed_chargers p cs d;
          (ws, d) = seed_workers p d;
          (cws, d) = seed_employments cs ws d;
          d = seed_caregivers p ws d;
          (ss, ps, d) = seed_standards cs d;
          (jws, d) = seed_job_workers ss cws d;
          today = day_start (date_of now);
          d = seed_schedules today (charger_of_employment chs cws) ps jws d
      in let_ok (seed_documents p at d) (\<lambda>d.
           Inr (seed_mail at today cs (seed_leaves p at today cs ws (seed_options (seed_kiosks today cs
                 (seed_boards p at d)))))))"

text \<open>The guard, the transaction and the summary.  An exception leaves the session without a commit.\<close>

datatype seed_exit = System_exit string | Raised exn

definition seed_summary :: "db \<Rightarrow> (string \<times> nat) list" where
  "seed_summary d = map (\<lambda>n. (n, case map_of named_tables n of None \<Rightarrow> 0 | Some (_,
    counted) \<Rightarrow> counted d)) all_tables"

definition seed ::
    "settings \<Rightarrow> libs \<Rightarrow> (string \<Rightarrow> string) \<Rightarrow> datetime \<Rightarrow> datetime \<Rightarrow> db \<Rightarrow> (seed_exit + (string \<times> nat) list) \<times> db" where
  "seed s L salt now at d =
     (if st_app_env s = Env_prod
      then (Inl (System_exit ((utf8 [234, 177, 176, 235, 182, 128, 58, 32, 112, 114, 111, 100, 32, 237, 153, 152,
        234, 178, 189, 236, 151, 144, 236, 132, 156, 235, 138, 148, 32, 235, 141, 176, 235, 170, 168, 32, 236, 139,
        156, 235, 147, 156, 235, 165, 188, 32, 236, 139, 164, 237, 150, 137, 237, 149, 152, 236, 167, 128, 32, 236,
        149, 138, 236, 138, 181, 235, 139, 136, 235, 139, 164, 46]))), d)
      else case seed_rows L salt now at (truncate_cascade all_tables d) of
             Inl e \<Rightarrow> (Inl (Raised e), d)
           | Inr d' \<Rightarrow> (Inr (seed_summary d'), d'))"

section \<open>Lemmas\<close>

lemma add_all_rows: "rows (add_all rs t) = rows t @ flushed t rs" "next_id (add_all rs t) = next_id t + int (length rs)"
proof (induction rs arbitrary: t)
  case (Cons r rs)
  { case 1 from Cons.IH(1) [of "tins r t"] show ?case by (simp add: add_all_def flushed_def tins_def) }
  { case 2 from Cons.IH(2) [of "tins r t"] show ?case by (simp add: add_all_def tins_def) }
qed (simp_all add: add_all_def flushed_def)

lemma table_ok_add_all [simp]: "table_ok t \<Longrightarrow> table_ok (add_all rs t)"
  unfolding add_all_def by (induction rs arbitrary: t) auto

lemma flushed_length [simp]: "length (flushed t rs) = length rs"
  by (metis flushed_def length_map map_snd_number_from)

lemma flushed_in: "x \<in> set (flushed t rs) \<Longrightarrow> snd x \<in> set rs"
  unfolding flushed_def by (metis imageI list.set_map map_snd_number_from)

lemma flushed_nth: "k < length rs \<Longrightarrow> flushed t rs ! k = (next_id t + int k, rs ! k)"
proof -
  have "k < length rs \<Longrightarrow> number_from n rs ! k = (n + int k, rs ! k)" for n
    by (induction rs arbitrary: n k) (auto simp: nth_Cons split: nat.splits)
  then show "k < length rs \<Longrightarrow> ?thesis" by (simp add: flushed_def)
qed

lemma add_all_length [simp]: "length (rows (add_all rs t)) = length (rows t) + length rs"
  by (simp add: add_all_rows)

lemma keys_flushed: "fst ` set (flushed t rs) = {next_id t..<next_id t + int (length rs)}"
proof -
  have "fst ` set (number_from n rs) = {n..<n + int (length rs)}" for n
    by (induction rs arbitrary: n) (auto simp: image_iff)
  then show ?thesis by (simp add: flushed_def)
qed

lemma keys_add_all [simp]: "keys (add_all rs t) = keys t \<union> {next_id t..<next_id t + int (length rs)}"
  using keys_flushed [of t rs] by (simp add: keys_def add_all_rows image_Un)

lemma new_table [simp]: "keys empty_table = {}" "next_id empty_table = 1" "fk f empty_table p" "rows empty_table = []"
  by (simp_all add: keys_def fk_def empty_table_def)

lemma fk_add_all [simp]: "fk f (add_all rs t) p \<longleftrightarrow> fk f t p \<and> (\<forall>r \<in> set rs. f r \<subseteq> keys p)"
proof -
  have "set rs = snd ` set (flushed t rs)"
    unfolding flushed_def by (metis list.set_map map_snd_number_from)
  then show ?thesis by (auto simp: fk_def add_all_rows; fastforce)
qed

lemma fk_parent_add_all [simp]: "fk f t p \<Longrightarrow> fk f t (add_all rs p)"
  by (fastforce simp: fk_def)

lemma unique_on_add_all:
  assumes "unique_on q key t" "distinct (map key (filter q rs))"
    and "\<And>i s. (i, s) \<in> set (rows t) \<Longrightarrow> q s \<Longrightarrow> key s \<notin> key ` set (filter q rs)"
  shows "unique_on q key (add_all rs t)"
  using assms
proof (induction rs arbitrary: t)
  case (Cons r rs)
  then have "unique_on q key (tins r t)" by (intro unique_on_tins) auto
  then have "unique_on q key (add_all rs (tins r t))"
    by (rule Cons.IH) (use Cons.prems in \<open>auto simp: rows_tins split: if_splits\<close>)
  then show ?case by (simp add: add_all_def)
qed (simp add: add_all_def)

lemma unique_on_new:
  "distinct (map key (filter q rs)) \<Longrightarrow> unique_on q key (add_all rs empty_table)"
  by (rule unique_on_add_all) (simp, simp, simp add: empty_table_def)

lemma all_rows_add_all [simp]: "all_rows (\<lambda>_. P) (add_all rs t) \<longleftrightarrow> all_rows (\<lambda>_. P) t \<and> (\<forall>r \<in> set rs. P r)"
proof -
  have "set rs = snd ` set (flushed t rs)"
    unfolding flushed_def by (metis list.set_map map_snd_number_from)
  then show ?thesis by (auto simp: all_rows_def add_all_rows)
qed

text \<open>The tables the script names, with the mail jobs the cascade adds, are all tables.\<close>

lemma cascade_all: "cascade_round all_tables = map fst named_tables"
  by (simp add: all_tables_def cascade_round_def foreign_keys_def named_tables_def)

lemma cascade_done: "cascade_round (map fst named_tables) = map fst named_tables"
  by (simp add: cascade_round_def foreign_keys_def named_tables_def)

lemma cascade_rounds: "(cascade_round ^^ Suc n) all_tables = map fst named_tables"
  by (induction n) (simp_all add: cascade_all cascade_done)

lemma named_tables_distinct: "distinct (map fst named_tables)"
  by (simp add: named_tables_def)

lemma named_lookup: "x \<in> set named_tables \<Longrightarrow> map_of named_tables (fst x) = Some (snd x)"
  using named_tables_distinct by simp

lemma truncate_all: "truncate_cascade all_tables d = empty_db"
proof -
  have "length named_tables = Suc 21" by (simp add: named_tables_def)
  then have "truncate_cascade all_tables d =
      fold (\<lambda>n d. case map_of named_tables n of None \<Rightarrow> d | Some (clear, _) \<Rightarrow> clear d) (map fst named_tables) d"
    unfolding truncate_cascade_def by (simp only: cascade_rounds)
  also have "\<dots> = fold (\<lambda>x. fst (snd x)) named_tables d"
    unfolding fold_map by (rule fold_cong) (auto simp: fun_eq_iff named_lookup split: prod.splits)
  also have "\<dots> = empty_db" by (simp add: named_tables_def empty_db_def)
  finally show ?thesis .
qed

section \<open>A day of work\<close>

definition sound :: "db \<Rightarrow> bool" where
  "sound d \<longleftrightarrow> db_ok d \<and> refs_ok d \<and> one_open_record d \<and> schedules_consistent d"

text \<open>The base \<open>b\<close>: everything but the schedules and their records.\<close>

definition same_base :: "db \<Rightarrow> db \<Rightarrow> bool" where
  "same_base b d \<longleftrightarrow> (\<exists>ss rs ps. d = b\<lparr>schedules := ss, records := rs, process_records := ps\<rparr>)"

lemma same_base_refl: "same_base b b"
  by (cases b) (auto simp: same_base_def)

lemma same_base_parts:
  assumes "same_base b d"
  shows "job_workers d = job_workers b" "chargers d = chargers b" "processes d = processes b"
  using assms by (auto simp: same_base_def)

lemma same_base_upd:
  assumes "same_base b d"
  shows "same_base b (d\<lparr>schedules := ss, records := rs\<rparr>)"
    "same_base b (d\<lparr>schedules := ss, records := rs, process_records := ps\<rparr>)"
  using assms by (cases b; auto simp: same_base_def)+

lemma first_process_in:
  assumes "first_process ps sid = Some pid"
  shows "pid \<in> fst ` set ps"
proof -
  from assms obtain x where "find (\<lambda>(i, p). jp_standard_id p = sid \<and> jp_sequence p = 1) ps = Some x" "fst x = pid"
    by (auto simp: first_process_def)
  moreover from this(1) have "x \<in> set ps" by (auto simp: find_Some_iff) (metis nth_mem)
  ultimately show ?thesis by force
qed

lemma day_records_schedule: "r \<in> set (day_records sid a e) \<Longrightarrow> wr_schedule_id r = sid"
  by (auto simp: day_records_def Let_def split: option.splits)

lemma day_records_open: "distinct (map f (filter record_is_open (day_records sid a e)))"
  by (auto simp: day_records_def record_is_open_def Let_def split: option.splits)

lemma record_keys_old:
  assumes "refs_ok d" "db_ok d" "(i, r) \<in> set (rows (records d))"
  shows "wr_schedule_id r \<noteq> next_id (schedules d)"
proof -
  have "wr_schedule_id r \<in> keys (schedules d)"
    using assms(1,3) fk_row [of "\<lambda>r. {wr_schedule_id r}" "records d" "schedules d"] by (auto simp: refs_ok_def)
  then show ?thesis using assms(2) by (auto simp: keys_def db_ok_defs table_ok_def)
qed

lemma seed_day_sound:
  assumes d: "sound d" and b: "same_base b d" and jw: "tget (job_workers d) (fst jw) = Some (snd jw)"
    and ch: "\<And>k. set_option (charger_of k) \<subseteq> keys (chargers d)" and ps: "fst ` set ps \<subseteq> keys (processes d)"
  shows "sound (seed_day today charger_of ps jw k d) \<and> same_base b (seed_day today charger_of ps jw k d)"
proof -
  let ?rs = "\<lambda>x. day_records (next_id (schedules d)) (ws_start_at x) (ws_end_at x)"
  obtain x where d2: "seed_day today charger_of ps jw k d =
      (case first_process ps (jw_standard_id (snd jw)) of
         None \<Rightarrow> d\<lparr>schedules := tins x (schedules d), records := add_all (?rs x) (records d)\<rparr>
       | Some pid \<Rightarrow> d\<lparr>schedules := tins x (schedules d), records := add_all (?rs x) (records d),
           process_records := tins (day_process (next_id (schedules d)) pid (ws_start_at x) (ws_end_at x)) (process_records d)\<rparr>)"
    and x: "ws_job_worker_id x = fst jw" "ws_standard_id x = jw_standard_id (snd jw)"
      "ws_charger_id x = charger_of (jw_company_worker_id (snd jw))"
    by (rule that [of "\<lparr>ws_job_worker_id = fst jw, ws_charger_id = charger_of (jw_company_worker_id (snd jw)),
          ws_standard_id = jw_standard_id (snd jw), ws_start_at = today - k * day_us + 9 * hour_us,
          ws_end_at = (if 0 < k then Some (today - k * day_us + 18 * hour_us) else None), ws_doc_path = None,
          ws_make_doc = True\<rparr>"]) (simp_all add: seed_day_def Let_def split: option.split)
  let ?d = "d\<lparr>schedules := tins x (schedules d), records := add_all (?rs x) (records d)\<rparr>"
  have ok: "db_ok d" and refs: "refs_ok d" and one: "one_open_record d" and con: "schedules_consistent d"
    using d by (simp_all add: sound_def)
  have std: "jw_standard_id (snd jw) \<in> keys (standards d)" using job_worker_standard [OF refs jw] .
  have refs1: "refs_ok (d\<lparr>schedules := tins x (schedules d)\<rparr>)"
    using refs x ch std keys_get [OF jw] by (intro refs_insert) simp_all
  have refs2: "refs_ok ?d" using refs1 by (simp add: refs_ok_def day_records_schedule)
  have ok2: "db_ok ?d" using ok one by (simp add: db_ok_defs)
  have "unique_on record_is_open (\<lambda>r. (wr_schedule_id r, wr_type r)) (add_all (?rs x) (records d))"
  proof (rule unique_on_add_all)
    fix i s assume "(i, s) \<in> set (rows (records d))"
    then have "wr_schedule_id s \<noteq> next_id (schedules d)" by (rule record_keys_old [OF refs ok])
    then show "(wr_schedule_id s, wr_type s) \<notin> (\<lambda>r. (wr_schedule_id r, wr_type r)) ` set (filter record_is_open (?rs x))"
      by (auto simp: day_records_schedule)
  qed (use one day_records_open in \<open>simp_all add: one_open_record_def\<close>)
  then have one2: "one_open_record ?d" using one by (simp add: one_open_record_def)
  have con2: "schedules_consistent ?d"
    using con jw x by (auto simp: schedules_consistent_def all_rows_def rows_tins)
  have s: "sound ?d" using refs2 ok2 one2 con2 by (simp add: sound_def)
  have sp: "sound (?d\<lparr>process_records := tins (day_process (next_id (schedules d)) pid a e) (process_records d)\<rparr>)"
    if "pid \<in> fst ` set ps" for pid a e
    using s that ps by (auto simp: sound_def db_ok_defs one_open_record_def schedules_consistent_def refs_ok_def day_process_def)
  have "same_base b ?d" "same_base b (?d\<lparr>process_records := t\<rparr>)" for t
    by (rule same_base_upd [OF b])+
  then show ?thesis using s sp [OF first_process_in] by (simp add: d2 split: option.split)
qed

lemma seed_schedules_sound:
  assumes "sound d" "same_base b d" and jws: "\<And>jw. jw \<in> set jws \<Longrightarrow> tget (job_workers b) (fst jw) = Some (snd jw)"
    and ch: "\<And>k. set_option (charger_of k) \<subseteq> keys (chargers b)" and ps: "fst ` set ps \<subseteq> keys (processes b)"
  shows "sound (seed_schedules today charger_of ps jws d) \<and> same_base b (seed_schedules today charger_of ps jws d)"
proof -
  have day: "sound (seed_day today charger_of ps jw k d) \<and> same_base b (seed_day today charger_of ps jw k d)"
    if "jw \<in> set jws" "sound d \<and> same_base b d" for jw k d
    by (rule seed_day_sound) (use that jws ch ps in \<open>auto simp: same_base_parts [of b d]\<close>)
  then have "sound (fold (seed_day today charger_of ps jw) ks d) \<and> same_base b (fold (seed_day today charger_of ps jw) ks d)"
    if "jw \<in> set jws" "sound d \<and> same_base b d" for jw ks d
    using that by (intro fold_invariant [where Q = "\<lambda>_. True" and P = "\<lambda>d. sound d \<and> same_base b d"]) auto
  then show ?thesis
    unfolding seed_schedules_def using assms(1,2)
    by (intro fold_invariant [where Q = "\<lambda>jw. jw \<in> set jws" and P = "\<lambda>d. sound d \<and> same_base b d"]) auto
qed

section \<open>The sections before the schedules\<close>

text \<open>What they write, evaluated: the rows with their keys.\<close>

definition base_chargers :: "(int \<times> company_charger) list" where
  "base_chargers = map (\<lambda>(k, u). (k, \<lparr>ch_user_id = u, ch_company_id = k, ch_is_hired = True, ch_fcm_token = None\<rparr>))
     [(1, 2), (2, 11), (3, 12)]"

definition base_workers :: "(int \<times> challenged_worker) list" where
  "base_workers = map (\<lambda>k. (k, \<lparr>w_user_id = k + 3, w_fcm_token = None, w_retired_at = None\<rparr>)) [1, 2, 3, 4, 5, 6]"

definition base_employments :: "(int \<times> company_worker) list" where
  "base_employments = map (\<lambda>(k, c). (k, \<lparr>cw_company_id = c, cw_worker_id = k, cw_is_hired = True\<rparr>))
     [(1, 1), (2, 2), (3, 3), (4, 1), (5, 2), (6, 3)]"

definition base_standards :: "company list \<Rightarrow> (int \<times> job_standard) list" where
  "base_standards cs = [(1, demo_standard (1, cs ! 0) 1), (2, demo_standard (1, cs ! 0) 2),
     (3, demo_standard (2, cs ! 1) 1), (4, demo_standard (2, cs ! 1) 2),
     (5, demo_standard (3, cs ! 2) 1), (6, demo_standard (3, cs ! 2) 2)]"

definition base_process_rows :: "job_process list" where
  "base_process_rows = concat (map demo_processes [1, 2, 3, 4, 5, 6])"

definition base_job_workers :: "(int \<times> job_worker) list" where
  "base_job_workers = map (\<lambda>(k, s). (k, \<lparr>jw_company_worker_id = k, jw_standard_id = s, jw_use_flag = True,
     jw_context = None\<rparr>)) [(1, 1), (2, 3), (3, 5), (4, 1), (5, 3), (6, 5)]"

definition base_relations :: "caregiver_relation list" where
  "base_relations = [\<lparr>rel_caregiver_id = 1, rel_worker_id = 1\<rparr>, \<lparr>rel_caregiver_id = 1, rel_worker_id = 2\<rparr>,
     \<lparr>rel_caregiver_id = 2, rel_worker_id = 3\<rparr>]"

definition base_db :: "user list \<Rightarrow> company list \<Rightarrow> db" where
  "base_db us cs = empty_db\<lparr>users := add_all us empty_table, companies := add_all cs empty_table,
     chargers := add_all (map snd base_chargers) empty_table, workers := add_all (map snd base_workers) empty_table,
     company_workers := add_all (map snd base_employments) empty_table,
     caregivers := add_all [\<lparr>cg_user_id = 3\<rparr>, \<lparr>cg_user_id = 10\<rparr>] empty_table,
     relations := add_all base_relations empty_table, standards := add_all (map snd (base_standards cs)) empty_table,
     processes := add_all base_process_rows empty_table, job_workers := add_all (map snd base_job_workers) empty_table\<rparr>"

lemmas base_defs = base_chargers_def base_workers_def base_employments_def base_standards_def base_job_workers_def
  base_relations_def

lemma demo_standard_company [simp]: "js_company_id (demo_standard (i, c) n) = i"
  by (simp add: demo_standard_def)

lemma flushed_empty: "flushed empty_table rs = number_from 1 rs"
  by (simp add: flushed_def empty_table_def)

lemma demo_companies_three: "\<exists>c1 c2 c3. demo_companies p = [c1, c2, c3]"
  by (simp add: demo_companies_def)

lemma three_flushed:
  "length (flushed empty_table [a, b, c]) = 3" "flushed empty_table [a, b, c] ! 0 = (1, a)"
  "flushed empty_table [a, b, c] ! Suc 0 = (2, b)" "flushed empty_table [a, b, c] ! Suc (Suc 0) = (3, c)"
  "flushed empty_table [a, b, c] ! 2 = (3, c)"
  by (simp_all add: flushed_empty)

lemma empty_db_tables:
  "chargers empty_db = empty_table" "workers empty_db = empty_table" "company_workers empty_db = empty_table"
  "caregivers empty_db = empty_table" "relations empty_db = empty_table" "standards empty_db = empty_table"
  "processes empty_db = empty_table" "job_workers empty_db = empty_table"
  by (simp_all add: empty_db_def)

lemma seed_rows_base:
  assumes "cs = demo_companies (people_from 1)"
  shows "seed_rows L salt now at empty_db =
    (let today = day_start (date_of now); p = people_from 1;
         d = seed_schedules today (charger_of_employment base_chargers base_employments)
               (flushed empty_table base_process_rows) base_job_workers (base_db (demo_users L salt) cs)
     in let_ok (seed_documents p at d) (\<lambda>d. Inr (seed_mail at today (flushed empty_table cs)
          (seed_leaves p at today (flushed empty_table cs) base_workers
            (seed_options (seed_kiosks today (flushed empty_table cs) (seed_boards p at d)))))))"
proof -
  let ?us = "add_all (demo_users L salt) empty_table"
  obtain c1 c2 c3 where C: "demo_companies (people_from 1) = [c1, c2, c3]" using demo_companies_three by blast
  have 1: "seed_users L salt empty_db = (people_from 1, empty_db\<lparr>users := ?us\<rparr>)"
    by (simp add: seed_users_def empty_db_def empty_table_def)
  let ?cs = "flushed empty_table [c1, c2, c3]"
  have 2: "seed_companies (people_from 1) (empty_db\<lparr>users := ?us\<rparr>) =
      (?cs, empty_db\<lparr>users := ?us, companies := add_all [c1, c2, c3] empty_table\<rparr>)"
    by (simp add: seed_companies_def C) (simp add: empty_db_def)
  have 3: "seed_chargers (people_from 1) ?cs d = (base_chargers, d\<lparr>chargers := add_all (map snd base_chargers) empty_table\<rparr>)"
    if "chargers d = empty_table" for d
    using that by (simp add: seed_chargers_def people_from_def three_flushed base_defs) (simp add: flushed_empty)
  have 4: "seed_workers (people_from 1) d = (base_workers, d\<lparr>workers := add_all (map snd base_workers) empty_table\<rparr>)"
    if "workers d = empty_table" for d
    using that by (simp add: seed_workers_def people_from_def flushed_empty base_defs)
  have 5: "seed_employments ?cs base_workers d =
      (base_employments, d\<lparr>company_workers := add_all (map snd base_employments) empty_table\<rparr>)"
    if "company_workers d = empty_table" for d
    using that by (simp add: seed_employments_def three_flushed base_defs) (simp add: flushed_empty)
  have 6: "seed_caregivers (people_from 1) base_workers d =
      d\<lparr>caregivers := add_all [\<lparr>cg_user_id = 3\<rparr>, \<lparr>cg_user_id = 10\<rparr>] empty_table, relations := add_all base_relations empty_table\<rparr>"
    if "caregivers d = empty_table" "relations d = empty_table" for d
    using that by (simp add: seed_caregivers_def people_from_def base_defs Let_def)
  have ss: "concat (map (\<lambda>c. map (demo_standard c) [1..2]) ?cs) = map snd (base_standards [c1, c2, c3])"
    by (simp add: flushed_empty base_standards_def upto_rec1)
  have "flushed empty_table (map snd (base_standards [c1, c2, c3])) = base_standards [c1, c2, c3]"
    by (simp add: flushed_empty base_standards_def)
  then have 7: "seed_standards ?cs d = (base_standards [c1, c2, c3], flushed empty_table base_process_rows,
      d\<lparr>standards := add_all (map snd (base_standards [c1, c2, c3])) empty_table,
        processes := add_all base_process_rows empty_table\<rparr>)"
    if "standards d = empty_table" "processes d = empty_table" for d
    using that unfolding seed_standards_def Let_def ss by (simp add: base_standards_def base_process_rows_def)
  have 8: "seed_job_workers (base_standards [c1, c2, c3]) base_employments d =
      (base_job_workers, d\<lparr>job_workers := add_all (map snd base_job_workers) empty_table\<rparr>)"
    if "job_workers d = empty_table" for d
    using that by (simp add: seed_job_workers_def std_by_company_def List.map_filter_simps base_defs) (simp add: flushed_empty)
  show ?thesis
    unfolding seed_rows_def 1 assms C
    by (simp add: 2 3 4 5 6 7 8 empty_db_tables base_db_def Let_def)
qed

lemma digit_strings: "str_of_nat 2 = ''2''" "str_of_nat 3 = ''3''" "str_of_nat 4 = ''4''" "str_of_nat 5 = ''5''" "str_of_nat 6 = ''6''"
  by code_simp+

lemma demo_usernames:
  "map u_username (demo_users L salt) =
   [''admin'', ''charger'', ''caregiver'', ''worker'', ''worker2'', ''worker3'', ''worker4'', ''worker5'', ''worker6'',
    ''caregiver2'', ''charger2'', ''charger3'']"
  by (simp add: demo_users_def mkuser_def upto_rec1 str_of_int_def digit_strings)

lemma demo_users_length [simp]: "length (demo_users L salt) = 12"
  using arg_cong [OF demo_usernames, of length] by simp

lemma process_rows: "map (\<lambda>r. (jp_standard_id r, jp_sequence r)) base_process_rows =
    [(1, 1), (1, 2), (1, 3), (2, 1), (2, 2), (2, 3), (3, 1), (3, 2), (3, 3), (4, 1), (4, 2), (4, 3), (5, 1), (5, 2), (5, 3),
     (6, 1), (6, 2), (6, 3)]"
  by (simp add: base_process_rows_def demo_processes_def upto_rec1)

lemma base_db_ok: "db_ok (base_db (demo_users L salt) cs)"
proof -
  have "users_ok (add_all (demo_users L salt) empty_table)"
    by (auto simp: users_ok_def demo_usernames intro!: unique_on_new)
  moreover have "processes_ok (add_all base_process_rows empty_table)"
    by (auto simp: processes_ok_def process_rows intro!: unique_on_new)
  moreover have "chargers_ok (add_all (map snd base_chargers) empty_table)"
    "workers_ok (add_all (map snd base_workers) empty_table)"
    "company_workers_ok (add_all (map snd base_employments) empty_table)"
    "caregivers_ok (add_all [\<lparr>cg_user_id = 3\<rparr>, \<lparr>cg_user_id = 10\<rparr>] empty_table)"
    "relations_ok (add_all base_relations empty_table)"
    "job_workers_ok (add_all (map snd base_job_workers) empty_table)"
    by (auto simp: table_constraint_defs base_defs intro!: unique_on_new)
  ultimately show ?thesis
    using schema_ok_empty
    by (simp add: db_ok_defs base_db_def add_all_rows(2) leaves_inv_def empty_db_def) (simp add: base_defs)
qed

lemma base_refs_ok:
  assumes "length cs = 3"
  shows "refs_ok (base_db (demo_users L salt) cs)"
proof -
  have p: "jp_standard_id r \<in> {1..<7}" if "r \<in> set base_process_rows" for r
  proof -
    have "(jp_standard_id r, jp_sequence r) \<in> set (map (\<lambda>r. (jp_standard_id r, jp_sequence r)) base_process_rows)"
      using that by simp
    then show ?thesis unfolding process_rows by auto
  qed
  then show ?thesis by (simp add: refs_ok_def base_db_def add_all_rows(2) assms empty_db_def base_defs)
qed

lemma base_sound: "length cs = 3 \<Longrightarrow> sound (base_db (demo_users L salt) cs)"
  by (simp add: sound_def base_db_ok base_refs_ok one_open_record_def schedules_consistent_def)
     (simp add: base_db_def empty_db_def)

section \<open>The sections after the schedules\<close>

lemma sound_documents:
  assumes "sound d" "documents d = empty_table" "document_types d = empty_table" "document_logs d = empty_table"
    and r: "first_relation d = Inr rel" and p: "pp_caregiver p \<in> keys (users d)"
  shows "\<exists>d'. seed_documents p at d = Inr d' \<and> sound d'
    \<and> (\<exists>ts xs ls. d' = d\<lparr>document_types := ts, documents := xs, document_logs := ls\<rparr>
         \<and> length (rows ts) = 3 \<and> length (rows xs) = 2 \<and> length (rows ls) = 2)"
proof -
  have rel: "rel \<in> keys (relations d)"
    using r by (auto simp: first_relation_def keys_def split: list.splits)
  let ?doc = "\<lambda>ty. demo_document p at rel ty"
  let ?xs = "[?doc 1 ''caregiver-documents/demo/id-card.pdf'' 204800 ''application/pdf'',
      ?doc 2 ''caregiver-documents/demo/license.jpg'' 512000 ''image/jpeg'']"
  let ?ls = "map (\<lambda>i. \<lparr>dl_document_id = i, dl_user_id = pp_caregiver p, dl_action = UPLOAD, dl_at = at\<rparr>) [1, 2]"
  let ?d = "d\<lparr>document_types := add_all demo_types empty_table, documents := add_all ?xs empty_table,
      document_logs := add_all ?ls empty_table\<rparr>"
  have three: "length demo_types = 3" "distinct (map dt_name demo_types)" by (simp_all add: demo_types_def utf8_def)
  have 1: "seed_documents p at d = Inr ?d"
    using assms(2-4) by (simp add: seed_documents_def r flushed_nth three) (simp add: flushed_empty)
  have "document_types_ok (add_all demo_types empty_table)"
    using three by (simp add: document_types_ok_def unique_on_new)
  then have 2: "sound ?d"
    using assms rel three
    by (simp add: sound_def db_ok_defs refs_ok_def demo_document_def one_open_record_def schedules_consistent_def)
  have 3: "length (rows (add_all demo_types empty_table)) = 3" "length (rows (add_all ?xs empty_table)) = 2"
    "length (rows (add_all ?ls empty_table)) = 2" using three by simp_all
  show ?thesis by (rule exI [of _ ?d], intro conjI, rule 1, rule 2, intro exI conjI, rule refl) (use 3 in simp_all)
qed

lemma sound_boards:
  assumes "sound d" "pp_admin p \<in> keys (users d)" "pp_caregiver p \<in> keys (users d)"
  shows "sound (seed_boards p at d)"
  using assms by (simp add: sound_def seed_boards_def db_ok_defs refs_ok_def one_open_record_def schedules_consistent_def
      demo_board_def)

lemma enumerate_in: "(k, x) \<in> set (enumerate 0 xs) \<Longrightarrow> x \<in> set xs"
  by (auto simp: in_set_enumerate_eq)

lemma nth_mod_3: "[a, b, c] ! (k mod 3) \<in> {a, b, c}"
proof -
  have "k mod 3 < length [a, b, c]" by simp
  then have "[a, b, c] ! (k mod 3) \<in> set [a, b, c]" by (rule nth_mem)
  then show ?thesis by simp
qed

lemma sound_add_kiosks:
  assumes "sound d" "kiosks d = empty_table" "distinct (map k_company_id ks)"
    and "\<And>k. k \<in> set ks \<Longrightarrow> k_status k \<in> set kiosk_statuses \<and> k_company_id k \<in> keys (companies d)"
  shows "sound (d\<lparr>kiosks := add_all ks (kiosks d)\<rparr>)"
proof -
  have "distinct (map (\<lambda>k. (k_company_id k, k_kiosk_id k)) ks)"
    using assms(3) by (auto simp: distinct_map inj_on_def)
  then have "unique_on (\<lambda>_. True) (\<lambda>k. (k_company_id k, k_kiosk_id k)) (add_all ks empty_table)"
    by (intro unique_on_new) simp
  then show ?thesis
    using assms by (simp add: sound_def db_ok_defs refs_ok_def one_open_record_def schedules_consistent_def kiosks_ok_def)
qed

lemma sound_kiosks:
  assumes "sound d" "kiosks d = empty_table" "fst ` set cs \<subseteq> keys (companies d)" "distinct (map fst cs)"
  shows "sound (seed_kiosks today cs d)"
  unfolding seed_kiosks_def
proof (rule sound_add_kiosks [OF assms(1,2)])
  have company: "k_company_id (demo_kiosk today k c) = fst c" for k c by (simp add: demo_kiosk_def split_def)
  have "map k_company_id (map (\<lambda>(k, c). demo_kiosk today k c) (enumerate n cs)) = map fst cs" for n
    by (induction cs arbitrary: n) (simp_all add: company)
  then show "distinct (map k_company_id (map (\<lambda>(k, c). demo_kiosk today k c) (enumerate 0 cs)))" using assms(4) by simp
  fix x assume "x \<in> set (map (\<lambda>(k, c). demo_kiosk today k c) (enumerate 0 cs))"
  then obtain k c where x: "x = demo_kiosk today k c" and c: "c \<in> set cs" by (auto dest: enumerate_in)
  show "k_status x \<in> set kiosk_statuses \<and> k_company_id x \<in> keys (companies d)"
    using c assms(3) nth_mod_3 [of "''IN_USE''" "''FULL''" "''OFFLINE''" k] company
    by (auto simp: x kiosk_statuses_def) (auto simp: demo_kiosk_def split_def)
qed

lemma sound_options: "sound d \<Longrightarrow> option_variables d = empty_table \<Longrightarrow> sound (seed_options d)"
  by (auto simp: sound_def seed_options_def db_ok_defs refs_ok_def one_open_record_def schedules_consistent_def
      option_variables_ok_def intro!: unique_on_new)

lemma sound_add_leaves:
  assumes "sound d"
    and "\<And>l. l \<in> set ls \<Longrightarrow> lv_start l \<le> lv_end l \<and> lv_days l = lv_end l - lv_start l + 1
      \<and> lv_worker_id l \<in> keys (workers d) \<and> lv_company_id l \<in> keys (companies d)"
  shows "sound (d\<lparr>leaves := add_all ls (leaves d)\<rparr>)"
  using assms by (simp add: sound_def db_ok_defs refs_ok_def one_open_record_def schedules_consistent_def
      leaves_inv_def leaves_ok_def)

lemma sound_leaves:
  assumes "sound d" "fst ` set cs \<subseteq> keys (companies d)" "cs \<noteq> []" "fst ` set ws \<subseteq> keys (workers d)"
  shows "sound (seed_leaves p at today cs ws d)"
  unfolding seed_leaves_def
proof (rule sound_add_leaves [OF assms(1)])
  fix l assume "l \<in> set (map (\<lambda>(k, w). demo_leave p at today cs k (fst w)) (enumerate 0 ws))"
  then obtain k w where l: "l = demo_leave p at today cs k (fst w)" and w: "w \<in> set ws" by (auto dest: enumerate_in)
  have "fst (cs ! (k mod length cs)) \<in> fst ` set cs" using assms(3) by simp
  then have "lv_company_id l \<in> keys (companies d)" using assms(2) by (auto simp: l demo_leave_def Let_def)
  moreover have "lv_worker_id l \<in> keys (workers d)" using w assms(4) by (auto simp: l demo_leave_def Let_def)
  ultimately show "lv_start l \<le> lv_end l \<and> lv_days l = lv_end l - lv_start l + 1
      \<and> lv_worker_id l \<in> keys (workers d) \<and> lv_company_id l \<in> keys (companies d)"
    by (simp add: l demo_leave_def Let_def)
qed

lemma sound_add_mail:
  assumes "sound d"
    and "\<And>e. e \<in> set es \<Longrightarrow> es_frequency e \<in> set frequencies \<and> es_format e \<in> set formats
      \<and> (\<forall>w \<in> set_option (es_weekday e). w \<in> set weekdays) \<and> es_company_id e \<in> keys (companies d)"
  shows "sound (d\<lparr>email_schedules := add_all es (email_schedules d)\<rparr>)"
  using assms by (simp add: sound_def db_ok_defs refs_ok_def one_open_record_def schedules_consistent_def
      email_schedules_ok_def)

lemma sound_mail:
  assumes "sound d" "fst ` set cs \<subseteq> keys (companies d)"
  shows "sound (seed_mail at today cs d)"
  unfolding seed_mail_def
proof (rule sound_add_mail [OF assms(1)])
  fix e assume "e \<in> set (map (\<lambda>(k, c). demo_mail at today k (fst c)) (enumerate 0 cs))"
  then obtain k c where e: "e = demo_mail at today k (fst c)" and c: "c \<in> set cs" by (auto dest: enumerate_in)
  show "es_frequency e \<in> set frequencies \<and> es_format e \<in> set formats
      \<and> (\<forall>w \<in> set_option (es_weekday e). w \<in> set weekdays) \<and> es_company_id e \<in> keys (companies d)"
    using c assms(2) nth_mod_3 [of "''DAILY''" "''WEEKLY''" "''MONTHLY''" k]
    by (auto simp: e demo_mail_def Let_def frequencies_def formats_def weekdays_def)
qed

section \<open>The script as a whole\<close>

lemma charger_of_in: "set_option (charger_of_employment chs cws i) \<subseteq> fst ` set chs"
proof
  fix k assume "k \<in> set_option (charger_of_employment chs cws i)"
  then obtain c where "map_of (rev (map (\<lambda>(k, ch). (ch_company_id ch, k)) chs)) c = Some k"
    by (auto simp: charger_of_employment_def bind_eq_Some_conv)
  then have "(c, k) \<in> set (map (\<lambda>(k, ch). (ch_company_id ch, k)) chs)" by (auto dest: map_of_SomeD)
  then show "k \<in> fst ` set chs" by force
qed

lemma seed_day_counts:
  "length (rows (schedules (seed_day today ch ps jw k d))) = Suc (length (rows (schedules d)))"
  "length (rows (records (seed_day today ch ps jw k d))) = length (rows (records d)) + (if 0 < k then 5 else 2)"
  "first_process ps (jw_standard_id (snd jw)) \<noteq> None \<Longrightarrow>
   length (rows (process_records (seed_day today ch ps jw k d))) = Suc (length (rows (process_records d)))"
  by (auto simp: seed_day_def Let_def add_all_rows day_records_def tins_def split: option.splits)

lemma week_counts:
  "length (rows (schedules (fold (seed_day today ch ps jw) [0..4] d))) = length (rows (schedules d)) + 5"
  "length (rows (records (fold (seed_day today ch ps jw) [0..4] d))) = length (rows (records d)) + 22"
  "first_process ps (jw_standard_id (snd jw)) \<noteq> None \<Longrightarrow>
   length (rows (process_records (fold (seed_day today ch ps jw) [0..4] d))) = length (rows (process_records d)) + 5"
  by (simp_all add: upto_rec1 seed_day_counts del: not_None_eq)

lemma first_process_base: "sid \<in> {1, 3, 5} \<Longrightarrow> first_process (flushed empty_table base_process_rows) sid \<noteq> None"
  by (auto simp: first_process_def base_process_rows_def demo_processes_def flushed_empty upto_rec1)

lemma schedules_counts:
  assumes "schedules d = empty_table" "records d = empty_table" "process_records d = empty_table"
  shows "length (rows (schedules (seed_schedules today ch (flushed empty_table base_process_rows) base_job_workers d))) = 30"
    "length (rows (records (seed_schedules today ch (flushed empty_table base_process_rows) base_job_workers d))) = 132"
    "length (rows (process_records (seed_schedules today ch (flushed empty_table base_process_rows) base_job_workers d))) = 30"
  using assms by (simp_all add: seed_schedules_def base_job_workers_def week_counts first_process_base del: not_None_eq)

lemma base_job_worker: "jw \<in> set base_job_workers \<Longrightarrow>
  tget (job_workers (base_db us cs)) (fst jw) = Some (snd jw)"
  by (auto simp: base_job_workers_def base_db_def tget_def add_all_rows flushed_empty)

lemma base_tables:
  "documents (base_db us cs) = empty_table" "document_types (base_db us cs) = empty_table"
  "document_logs (base_db us cs) = empty_table" "kiosks (base_db us cs) = empty_table"
  "option_variables (base_db us cs) = empty_table" "users (base_db us cs) = add_all us empty_table"
  by (simp_all add: base_db_def empty_db_def)

lemma base_keys:
  assumes "length cs = 3"
  shows "fst ` set (flushed empty_table cs) \<subseteq> keys (companies (base_db us cs))" "flushed empty_table cs \<noteq> []"
    "fst ` set base_workers \<subseteq> keys (workers (base_db us cs))" "first_relation (base_db us cs) = Inr 1"
    "distinct (map fst (flushed empty_table cs))"
proof -
  obtain c1 c2 c3 where "cs = [c1, c2, c3]" using assms by (auto simp: length_Suc_conv numeral_3_eq_3)
  then show "fst ` set (flushed empty_table cs) \<subseteq> keys (companies (base_db us cs))" "flushed empty_table cs \<noteq> []"
    "fst ` set base_workers \<subseteq> keys (workers (base_db us cs))" "first_relation (base_db us cs) = Inr 1"
    "distinct (map fst (flushed empty_table cs))"
    by (simp_all add: base_db_def base_defs first_relation_def add_all_rows flushed_empty)
qed

text \<open>The summary the script prints.\<close>

definition demo_counts :: "(string \<times> nat) list" where
  "demo_counts = [(''journal_email_schedules'', 3), (''leaves'', 6), (''caregiver_document_logs'', 2),
     (''caregiver_documents'', 2), (''caregiver_document_types'', 3), (''work_process_records'', 30),
     (''work_records'', 132), (''work_schedules'', 30), (''job_workers'', 6), (''job_processes'', 18),
     (''job_standards'', 6), (''caregiver_worker_relations'', 3), (''caregivers'', 2), (''company_workers'', 6),
     (''challenged_workers'', 6), (''company_chargers'', 3), (''company_kiosks'', 3), (''caregiver_boards'', 4),
     (''companies'', 3), (''option_variables'', 3), (''users'', 12)]"

lemma summary_of_counts:
  assumes "length (rows (email_schedules d)) = 3" "length (rows (leaves d)) = 6" "length (rows (document_logs d)) = 2"
    "length (rows (documents d)) = 2" "length (rows (document_types d)) = 3" "length (rows (process_records d)) = 30"
    "length (rows (records d)) = 132" "length (rows (schedules d)) = 30" "length (rows (job_workers d)) = 6"
    "length (rows (processes d)) = 18" "length (rows (standards d)) = 6" "length (rows (relations d)) = 3"
    "length (rows (caregivers d)) = 2" "length (rows (company_workers d)) = 6" "length (rows (workers d)) = 6"
    "length (rows (chargers d)) = 3" "length (rows (kiosks d)) = 3" "length (rows (boards d)) = 4"
    "length (rows (companies d)) = 3" "length (rows (option_variables d)) = 3" "length (rows (users d)) = 12"
  shows "seed_summary d = demo_counts"
  using assms by (simp add: seed_summary_def all_tables_def named_tables_def demo_counts_def)

lemma base_counts:
  assumes "length cs = 3" "length us = 12"
  shows "length (rows (job_workers (base_db us cs))) = 6"
    "length (rows (processes (base_db us cs))) = 18" "length (rows (standards (base_db us cs))) = 6"
    "length (rows (relations (base_db us cs))) = 3" "length (rows (caregivers (base_db us cs))) = 2"
    "length (rows (company_workers (base_db us cs))) = 6" "length (rows (workers (base_db us cs))) = 6"
    "length (rows (chargers (base_db us cs))) = 3" "length (rows (companies (base_db us cs))) = 3"
    "boards (base_db us cs) = empty_table" "leaves (base_db us cs) = empty_table"
    "email_schedules (base_db us cs) = empty_table" "schedules (base_db us cs) = empty_table"
    "records (base_db us cs) = empty_table" "process_records (base_db us cs) = empty_table"
  using arg_cong [OF process_rows, of length] assms by (simp_all add: base_db_def base_defs) (simp_all add: empty_db_def)

lemma seed_sound:
  "\<exists>d'. seed_rows L salt now at empty_db = Inr d' \<and> sound d' \<and> users d' = add_all (demo_users L salt) empty_table
     \<and> seed_summary d' = demo_counts"
proof -
  define p where "p = people_from 1"
  define cs where "cs = demo_companies p"
  define b where "b = base_db (demo_users L salt) cs"
  define today where "today = day_start (date_of now)"
  let ?cs = "flushed empty_table cs"
  let ?d = "seed_schedules today (charger_of_employment base_chargers base_employments)
       (flushed empty_table base_process_rows) base_job_workers b"
  have cs: "length cs = 3" using demo_companies_three [of p] by (auto simp: cs_def)
  have 1: "sound ?d \<and> same_base b ?d"
  proof (rule seed_schedules_sound)
    show "sound b" unfolding b_def by (rule base_sound [OF cs])
    show "same_base b b" by (rule same_base_refl)
    show "set_option (charger_of_employment base_chargers base_employments k) \<subseteq> keys (chargers b)" for k
      using charger_of_in [of base_chargers base_employments k] by (auto simp: b_def base_db_def base_chargers_def)
    show "fst ` set (flushed empty_table base_process_rows) \<subseteq> keys (processes b)"
      by (simp add: b_def base_db_def keys_flushed)
  qed (simp add: b_def base_job_worker)
  then obtain ss rs ps where d: "?d = b\<lparr>schedules := ss, records := rs, process_records := ps\<rparr>" (is "_ = ?b")
    by (auto simp: same_base_def)
  have b: "documents b = empty_table" "document_types b = empty_table" "document_logs b = empty_table"
    "kiosks b = empty_table" "option_variables b = empty_table" "users b = add_all (demo_users L salt) empty_table"
    "fst ` set ?cs \<subseteq> keys (companies b)" "fst ` set base_workers \<subseteq> keys (workers b)"
    "first_relation b = Inr 1" "?cs \<noteq> []" "distinct (map fst ?cs)"
    unfolding b_def by (fact base_tables base_keys [OF cs])+
  have P: "pp_admin p \<in> keys (users b)" "pp_caregiver p \<in> keys (users b)"
    by (simp_all add: b p_def people_from_def)
  have "sound ?b" using 1 d by simp
  moreover have "first_relation ?b = Inr 1" using b by (simp add: first_relation_def)
  ultimately obtain d1 ts xs ls where d1: "seed_documents p at ?b = Inr d1" "sound d1"
    "d1 = ?b\<lparr>document_types := ts, documents := xs, document_logs := ls\<rparr>"
    "length (rows ts) = 3" "length (rows xs) = 2" "length (rows ls) = 2"
    using sound_documents [of ?b 1 p at] b P by auto
  let ?r = "seed_mail at today ?cs (seed_leaves p at today ?cs base_workers (seed_options (seed_kiosks today ?cs
      (seed_boards p at d1))))"
  have 2: "sound (seed_boards p at d1)" using sound_boards [OF d1(2)] P by (simp add: d1(3))
  have 3: "sound (seed_kiosks today ?cs (seed_boards p at d1))"
    using sound_kiosks [OF 2] b by (simp add: d1(3) seed_boards_def)
  have 4: "sound (seed_options (seed_kiosks today ?cs (seed_boards p at d1)))"
    using sound_options [OF 3] b by (simp add: d1(3) seed_boards_def seed_kiosks_def)
  have 5: "sound (seed_leaves p at today ?cs base_workers (seed_options (seed_kiosks today ?cs (seed_boards p at d1))))"
    using sound_leaves [OF 4] b by (simp add: d1(3) seed_boards_def seed_kiosks_def seed_options_def)
  have 6: "sound ?r"
    using sound_mail [OF 5] b by (simp add: d1(3) seed_boards_def seed_kiosks_def seed_options_def seed_leaves_def)
  have "seed_rows L salt now at empty_db = Inr ?r"
    using seed_rows_base [of cs L salt now at] d d1(1)
    by (simp add: cs_def [symmetric] p_def [symmetric] today_def [symmetric] b_def [symmetric] Let_def)
  moreover have "seed_summary ?r = demo_counts"
    using schedules_counts [of b today "charger_of_employment base_chargers base_employments"] d1(4-6) cs d
    by (intro summary_of_counts)
       (simp_all add: d1(3) b base_counts [OF cs demo_users_length, of L salt, folded b_def] base_workers_def
          seed_boards_def seed_kiosks_def seed_options_def seed_leaves_def seed_mail_def)
  moreover have "users ?r = add_all (demo_users L salt) empty_table"
    by (simp add: d1(3) b seed_boards_def seed_kiosks_def seed_options_def seed_leaves_def seed_mail_def)
  ultimately show ?thesis using 6 by blast
qed

lemma seed_prod: "st_app_env s = Env_prod \<Longrightarrow> \<exists>m. seed s L salt now at d = (Inl (System_exit m), d)"
  by (simp add: seed_def)

text \<open>The database the script leaves behind does not depend on the one it found.\<close>

definition demo_db :: "libs \<Rightarrow> (string \<Rightarrow> string) \<Rightarrow> datetime \<Rightarrow> datetime \<Rightarrow> db" where
  "demo_db L salt now at = (case seed_rows L salt now at empty_db of Inr d \<Rightarrow> d | Inl _ \<Rightarrow> empty_db)"

lemma seed_db: "st_app_env s \<noteq> Env_prod \<Longrightarrow>
  seed s L salt now at d = (Inr (seed_summary (demo_db L salt now at)), demo_db L salt now at)"
  using seed_sound [of L salt now at] by (auto simp: seed_def demo_db_def truncate_all)

lemma demo_db_sound: "sound (demo_db L salt now at)"
  "users (demo_db L salt now at) = add_all (demo_users L salt) empty_table"
  "seed_summary (demo_db L salt now at) = demo_counts"
  using seed_sound [of L salt now at] by (auto simp: demo_db_def)

text \<open>The accounts of the script's documentation.\<close>

definition demo_accounts :: "(string \<times> user_role) list" where
  "demo_accounts = [(''admin'', ADMIN), (''charger'', CHARGER), (''caregiver'', CAREGIVER), (''worker'', WORKER)]"

lemma demo_account_user: "(n, role) \<in> set demo_accounts \<Longrightarrow> \<exists>nm. mkuser L salt n nm role \<in> set (demo_users L salt)"
  by (auto simp: demo_accounts_def demo_users_def intro: exI disjI1 disjI2)

lemma demo_account:
  assumes "(n, role) \<in> set demo_accounts"
  shows "\<exists>uid u. fetch_by_username n (demo_db L salt now at) = Inr (Some (uid, u))
    \<and> tget (users (demo_db L salt now at)) uid = Some u
    \<and> u_username u = n \<and> u_role u = role \<and> u_enabled u \<and> u_password_hash u = hash_password L (n @ ''1234'') (salt n)"
proof -
  from demo_account_user [OF assms, of L salt] obtain nm where u: "mkuser L salt n nm role \<in> set (demo_users L salt)" (is "?u \<in> _")
    by blast
  have "set (demo_users L salt) = snd ` set (flushed empty_table (demo_users L salt))"
    unfolding flushed_def by (metis list.set_map map_snd_number_from)
  with u obtain uid where r: "(uid, ?u) \<in> set (rows (users (demo_db L salt now at)))"
    by (auto simp: demo_db_sound add_all_rows)
  have ok: "users_ok (users (demo_db L salt now at))"
    using demo_db_sound(1) [of L salt now at] by (simp add: sound_def db_ok_defs)
  then have "tget (users (demo_db L salt now at)) uid = Some ?u" using r by (simp add: tget_iff users_ok_def)
  moreover from this have "fetch_by_username n (demo_db L salt now at) = Inr (Some (uid, ?u))"
    by (intro fetch_by_username_Some [OF ok]) (simp_all add: mkuser_def)
  ultimately show ?thesis by (auto simp: mkuser_def)
qed

section \<open>Properties\<close>

text \<open>The demo script refuses to run in production and then leaves the database as it was.  Everywhere
  else it ends, on any day and whatever the tables held before, with one and the same database: the printed
  numbers of rows, every constraint and foreign key of the schema satisfied, at most one open record of a type
  in a schedule, and every schedule for the standard of its assignment.\<close>

lemma seed_fills_database:
  "if st_app_env s = Env_prod then \<exists>m. \<forall>d. seed s L salt now at d = (Inl (System_exit m), d)
   else \<exists>d'. (\<forall>d. seed s L salt now at d = (Inr demo_counts, d'))
          \<and> db_ok d' \<and> schema_ok d' \<and> refs_ok d' \<and> one_open_record d' \<and> schedules_consistent d'"
proof (cases "st_app_env s = Env_prod")
  case True
  then show ?thesis by (simp add: seed_def)
next
  case False
  then have "seed s L salt now at d = (Inr demo_counts, demo_db L salt now at)" for d
    by (simp add: seed_db demo_db_sound(3))
  moreover have "sound (demo_db L salt now at)" by (rule demo_db_sound(1))
  ultimately show ?thesis using False by (auto simp: sound_def db_ok_def)
qed
end
