(* ===== verification/Routing.thy ===== *)
theory Routing
  imports Queries
begin

text \<open>
  The URLs of the server: the routers of app/api/v1 with their prefixes, the actuator of app/api/health.py and
  the pages of app/main.py, in the order they are registered; then the whole way of a request, from its
  method and path to the endpoint and back through the middlewares of theory Requests.

  Starlette picks the route and FastAPI binds the parameters: the two are arguments, the router with what
  Starlette documents.  The lemmas show that no route is hidden by an earlier one and that each operation of
  the theories Api and Queries has its URL.
\<close>

section \<open>Routes\<close>

record route =
  rt_methods :: "string list"
  rt_path :: string
  rt_module :: string
  rt_function :: string
  rt_limit :: "string option"

definition add_route :: "string \<Rightarrow> string \<Rightarrow> string \<Rightarrow> string \<Rightarrow> route" where
  "add_route mth p m f =
     \<lparr>rt_methods = [mth], rt_path = p, rt_module = m, rt_function = f, rt_limit = None\<rparr>"

abbreviation "get_route \<equiv> add_route ''GET''"
abbreviation "post_route \<equiv> add_route ''POST''"
abbreviation "put_route \<equiv> add_route ''PUT''"
abbreviation "patch_route \<equiv> add_route ''PATCH''"
abbreviation "delete_route \<equiv> add_route ''DELETE''"

text \<open>\<open>limiter.limit\<close> wraps the function of the endpoint.\<close>

definition limited :: "string \<Rightarrow> route \<Rightarrow> route" where
  "limited l r = r\<lparr>rt_limit := Some l\<rparr>"

definition include_router :: "string \<Rightarrow> route list \<Rightarrow> route list" where
  "include_router pre rs = map (\<lambda>r. r\<lparr>rt_path := pre @ rt_path r\<rparr>) rs"

text \<open>The routers, decorator by decorator; a route names the module and the function of its endpoint.\<close>

definition public_routes :: "route list" where
  "public_routes =
     [get_route ''/version'' ''public'' ''version'',
      get_route ''/ping'' ''public'' ''ping'']"

definition auth_routes :: "route list" where
  "auth_routes =
     [limited ''5/minute'' (post_route ''/login'' ''auth'' ''login''),
      limited ''10/minute'' (post_route ''/refresh'' ''auth'' ''refresh''),
      post_route ''/logout'' ''auth'' ''logout'',
      limited ''5/minute'' (post_route ''/caregivers/signup'' ''auth'' ''signup_caregiver''),
      get_route ''/me'' ''auth'' ''me'',
      post_route ''/me/password'' ''auth'' ''change_password'',
      patch_route ''/me'' ''auth'' ''update_me'']"

definition companies_routes :: "route list" where
  "companies_routes =
     [get_route [] ''companies'' ''list_companies'',
      get_route ''/{company_id}'' ''companies'' ''get_company'',
      post_route [] ''companies'' ''create_company'',
      patch_route ''/{company_id}'' ''companies'' ''update_company'',
      delete_route ''/{company_id}'' ''companies'' ''deactivate_company'']"

definition workers_routes :: "route list" where
  "workers_routes =
     [get_route [] ''workers'' ''list_workers'',
      get_route ''/{worker_id}'' ''workers'' ''get_worker'',
      get_route ''/{worker_id}/memberships'' ''workers'' ''list_memberships'',
      post_route [] ''workers'' ''create_worker'',
      post_route ''/hire'' ''workers'' ''hire_worker'',
      delete_route ''/company-workers/{company_worker_id}'' ''workers'' ''fire_company_worker'',
      post_route ''/{worker_id}/retire'' ''workers'' ''retire_worker'',
      post_route ''/{worker_id}/rehire'' ''workers'' ''rehire_worker'',
      get_route ''/by-company/{company_id}'' ''workers'' ''list_by_company'']"

definition caregivers_routes :: "route list" where
  "caregivers_routes =
     [get_route ''/me'' ''caregivers'' ''me'',
      get_route ''/me/relations'' ''caregivers'' ''list_my_relations'',
      post_route ''/me/relations'' ''caregivers'' ''register_worker'',
      delete_route ''/me/relations/{relation_id}'' ''caregivers'' ''remove_relation'']"

definition kiosks_routes :: "route list" where
  "kiosks_routes =
     [get_route [] ''kiosks'' ''list_kiosks'',
      get_route ''/by-company/{company_id}'' ''kiosks'' ''list_by_company'',
      post_route [] ''kiosks'' ''bind'',
      patch_route ''/{kiosk_id}/assignee'' ''kiosks'' ''set_assignee'',
      delete_route ''/{kiosk_id}'' ''kiosks'' ''unbind'']"

definition job_standards_routes :: "route list" where
  "job_standards_routes =
     [get_route [] ''job_standards'' ''list_standards'',
      get_route ''/{standard_id}'' ''job_standards'' ''get_standard'',
      post_route [] ''job_standards'' ''create_standard'',
      patch_route ''/{standard_id}'' ''job_standards'' ''update_standard'',
      put_route ''/{standard_id}/processes'' ''job_standards'' ''sync_processes'',
      delete_route ''/{standard_id}'' ''job_standards'' ''deactivate_standard'']"

definition job_workers_routes :: "route list" where
  "job_workers_routes =
     [get_route [] ''job_workers'' ''list_assignments'',
      post_route [] ''job_workers'' ''assign'',
      delete_route ''/{job_worker_id}'' ''job_workers'' ''unassign'']"

definition schedules_routes :: "route list" where
  "schedules_routes =
     [get_route [] ''schedules'' ''list_schedules'',
      get_route ''/{schedule_id}'' ''schedules'' ''get_schedule'',
      get_route ''/by-job-worker/{job_worker_id}'' ''schedules'' ''list_by_job_worker'',
      get_route ''/by-job-standard/{job_standard_id}'' ''schedules'' ''list_by_job_standard'',
      post_route [] ''schedules'' ''create_schedule'',
      post_route ''/batch'' ''schedules'' ''batch_make'',
      post_route ''/{schedule_id}/close'' ''schedules'' ''close_schedule'']"

definition work_records_routes :: "route list" where
  "work_records_routes =
     [post_route ''/begin'' ''work_records'' ''begin'',
      post_route ''/end'' ''work_records'' ''end'',
      get_route ''/by-schedule/{schedule_id}'' ''work_records'' ''list_records'',
      post_route ''/processes/begin'' ''work_records'' ''begin_process'',
      post_route ''/processes/end'' ''work_records'' ''end_process'',
      get_route ''/processes/by-schedule/{schedule_id}'' ''work_records'' ''list_process_records'']"

definition boards_routes :: "route list" where
  "boards_routes =
     [get_route [] ''boards'' ''list_boards'',
      get_route ''/{board_id}'' ''boards'' ''get_board'',
      post_route [] ''boards'' ''create_board'',
      patch_route ''/{board_id}'' ''boards'' ''update_board'',
      delete_route ''/{board_id}'' ''boards'' ''delete_board'']"

definition notifications_routes :: "route list" where
  "notifications_routes =
     [post_route ''/push'' ''notifications'' ''push'']"

definition documents_routes :: "route list" where
  "documents_routes =
     [post_route [] ''documents'' ''upload'',
      get_route ''/by-relation/{relation_id}'' ''documents'' ''list_by_relation'',
      get_route ''/{document_id}/download'' ''documents'' ''download'',
      delete_route ''/{document_id}'' ''documents'' ''delete'']"

definition work_journals_routes :: "route list" where
  "work_journals_routes =
     [get_route ''/{schedule_id}/pdf'' ''work_journals'' ''download_pdf'',
      get_route ''/{schedule_id}/file'' ''work_journals'' ''download_file'',
      post_route ''/bulk-email'' ''work_journals'' ''bulk_email'',
      get_route ''/bulk-email/jobs'' ''work_journals'' ''list_bulk_email_jobs'',
      get_route ''/bulk-email/jobs/{job_id}'' ''work_journals'' ''get_bulk_email_job'',
      get_route ''/bulk-preview'' ''work_journals'' ''bulk_preview'',
      get_route ''/email-schedules'' ''work_journals'' ''list_email_schedules'',
      post_route ''/email-schedules'' ''work_journals'' ''create_email_schedule'',
      patch_route ''/email-schedules/{schedule_id}'' ''work_journals'' ''update_email_schedule'',
      delete_route ''/email-schedules/{schedule_id}'' ''work_journals'' ''delete_email_schedule'']"

definition users_routes :: "route list" where
  "users_routes =
     [get_route [] ''users'' ''list_users'',
      patch_route ''/{user_id}/enabled'' ''users'' ''set_enabled'']"

definition company_chargers_routes :: "route list" where
  "company_chargers_routes =
     [get_route [] ''company_chargers'' ''list_chargers'',
      patch_route ''/{charger_id}'' ''company_chargers'' ''update_charger'']"

definition leaves_routes :: "route list" where
  "leaves_routes =
     [get_route [] ''leaves'' ''list_leaves'',
      get_route ''/approved'' ''leaves'' ''list_approved'',
      get_route ''/by-worker/{worker_id}'' ''leaves'' ''list_by_worker'',
      post_route [] ''leaves'' ''create_leave'',
      patch_route ''/{leave_id}/decision'' ''leaves'' ''decide_leave'',
      delete_route ''/{leave_id}'' ''leaves'' ''delete_leave'']"

definition api_v1_routes :: "route list" where
  "api_v1_routes = include_router ''/api/v1''
     (include_router ''/public'' public_routes
      @ include_router ''/auth'' auth_routes
      @ include_router ''/companies'' companies_routes
      @ include_router ''/workers'' workers_routes
      @ include_router ''/caregivers'' caregivers_routes
      @ include_router ''/kiosks'' kiosks_routes
      @ include_router ''/job-standards'' job_standards_routes
      @ include_router ''/job-workers'' job_workers_routes
      @ include_router ''/schedules'' schedules_routes
      @ include_router ''/work-records'' work_records_routes
      @ include_router ''/boards'' boards_routes
      @ include_router ''/notifications'' notifications_routes
      @ include_router ''/documents'' documents_routes
      @ include_router ''/work-journals'' work_journals_routes
      @ include_router ''/users'' users_routes
      @ include_router ''/company-chargers'' company_chargers_routes
      @ include_router ''/leaves'' leaves_routes)"

definition health_routes :: "route list" where
  "health_routes =
     [get_route ''/actuator/health'' ''health'' ''health'',
      get_route ''/actuator/info'' ''health'' ''info'']"

text \<open>\<open>create_app\<close>: FastAPI registers its own pages first, the first two at the paths it is given, the third at
  its documented default.\<close>

definition fastapi_pages :: "route list" where
  "fastapi_pages =
     [get_route ''/v3/api-docs'' ''fastapi'' ''openapi'',
      get_route ''/swagger-ui.html'' ''fastapi'' ''swagger_ui_html'',
      get_route ''/docs/oauth2-redirect'' ''fastapi'' ''swagger_ui_redirect'']"

definition app_routes :: "route list" where
  "app_routes =
     fastapi_pages
     @ [get_route ''/'' ''main'' ''_root'']
     @ health_routes
     @ api_v1_routes
     @ [get_route ''/actuator/prometheus'' ''metrics'' ''metrics_endpoint'']"

section \<open>Paths\<close>

text \<open>A path and a template are compared segment by segment; a segment in braces takes any text but the empty one.\<close>

definition segments :: "string \<Rightarrow> string list" where
  "segments p = split_all (CHR ''/'') p"

definition is_param :: "string \<Rightarrow> bool" where
  "is_param t \<longleftrightarrow> (case t of [] \<Rightarrow> False | c # cs \<Rightarrow> c = CHR ''{'')"

definition param_name :: "string \<Rightarrow> string" where
  "param_name t = butlast (tl t)"

fun match_segments :: "string list \<Rightarrow> string list \<Rightarrow> (string \<times> string) list option" where
  "match_segments [] [] = Some []"
| "match_segments (t # ts) (s # ss) =
     (if is_param t
      then if s = [] then None else map_option (\<lambda>ps. (param_name t, s) # ps) (match_segments ts ss)
      else if t = s then match_segments ts ss else None)"
| "match_segments _ _ = None"

definition match_path :: "string \<Rightarrow> string \<Rightarrow> (string \<times> string) list option" where
  "match_path template p = match_segments (segments template) (segments p)"

definition takes :: "string \<Rightarrow> string \<Rightarrow> route \<Rightarrow> bool" where
  "takes mth p r \<longleftrightarrow> mth \<in> set (rt_methods r) \<and> match_path (rt_path r) p \<noteq> None"

text \<open>
  What a router answers, and what Starlette documents of it: the first route that takes the request, in the
  order of the table; a path with routes for other methods only is answered with 405; any other path is
  not found, or redirected to the one with or without a slash at the end.  HEAD requests, which
  Starlette adds to some routes, and paths with a line break are left out.
\<close>

datatype routing =
    Matched route "(string \<times> string) list"
  | Method_not_allowed
  | Redirected string
  | Unmatched

type_synonym router = "route list \<Rightarrow> string \<Rightarrow> string \<Rightarrow> routing"

definition regular_request :: "string \<Rightarrow> string \<Rightarrow> bool" where
  "regular_request mth p \<longleftrightarrow> mth \<noteq> ''HEAD'' \<and> CHR 0x0A \<notin> set p"

definition documented_router :: "router \<Rightarrow> bool" where
  "documented_router R \<longleftrightarrow>
     (\<forall>rs mth p r ps. R rs mth p = Matched r ps \<longrightarrow> r \<in> set rs)
     \<and> (\<forall>rs mth p. regular_request mth p \<longrightarrow>
          (case find (takes mth p) rs of
             Some r \<Rightarrow> R rs mth p = Matched r (the (match_path (rt_path r) p))
           | None \<Rightarrow>
               if list_ex (\<lambda>r. match_path (rt_path r) p \<noteq> None) rs then R rs mth p = Method_not_allowed
               else R rs mth p = Unmatched \<or> (\<exists>u. R rs mth p = Redirected u)))"

text \<open>A router that does so without redirects.\<close>

definition first_match :: router where
  "first_match rs mth p =
     (case find (takes mth p) rs of
        Some r \<Rightarrow> Matched r (the (match_path (rt_path r) p))
      | None \<Rightarrow> if list_ex (\<lambda>r. match_path (rt_path r) p \<noteq> None) rs then Method_not_allowed else Unmatched)"

section \<open>No route is hidden\<close>

text \<open>The path of a template with numbers for its parameters.\<close>

fun fill :: "string list \<Rightarrow> int list \<Rightarrow> string list" where
  "fill [] ns = []"
| "fill (t # ts) ns = (if is_param t then str_of_int (hd ns) # fill ts (tl ns) else t # fill ts ns)"

fun join :: "string list \<Rightarrow> string" where
  "join [] = []"
| "join [s] = s"
| "join (s # ss) = s @ CHR ''/'' # join ss"

definition path_of :: "route \<Rightarrow> int list \<Rightarrow> string" where
  "path_of r ns = join (fill (segments (rt_path r)) ns)"

definition param_names :: "route \<Rightarrow> string list" where
  "param_names r = map param_name (filter is_param (segments (rt_path r)))"

text \<open>An earlier template cannot take the path of a later one when somewhere it has a literal segment and the later
  one another literal segment or a number.\<close>

fun apart :: "string list \<Rightarrow> string list \<Rightarrow> bool" where
  "apart [] [] = False"
| "apart (t # ts) (u # us) = (\<not> is_param t \<and> t \<noteq> u \<or> apart ts us)"
| "apart _ _ = True"

definition shape :: "route \<Rightarrow> string list \<times> string list" where
  "shape r = (rt_methods r, segments (rt_path r))"

fun unshadowed :: "(string list \<times> string list) list \<Rightarrow> bool" where
  "unshadowed [] = True"
| "unshadowed (x # xs) =
     (list_all (\<lambda>y. list_all (\<lambda>m. m \<notin> set (fst x)) (fst y) \<or> apart (snd x) (snd y)) xs \<and> unshadowed xs)"

text \<open>Literal segments do not look like numbers.\<close>

definition plain_segment :: "string \<Rightarrow> bool" where
  "plain_segment t \<longleftrightarrow>
     (is_param t \<or> (case t of [] \<Rightarrow> True | c # cs \<Rightarrow> \<not> is_digit c \<and> c \<noteq> CHR ''-'')) \<and> CHR 0x0A \<notin> set t"

definition sound_table :: "route list \<Rightarrow> bool" where
  "sound_table rs \<longleftrightarrow>
     unshadowed (map shape rs) \<and> list_all (\<lambda>x. list_all plain_segment (snd x)) (map shape rs)"

lemma is_digit_code: "is_digit c \<Longrightarrow> c \<noteq> CHR ''/'' \<and> c \<noteq> CHR 0x0A"
  by (auto simp: is_digit_def)

lemma number_segment: "CHR ''/'' \<notin> set (str_of_int n)" "CHR 0x0A \<notin> set (str_of_int n)"
  using str_of_int_chars [of _ n] is_digit_code by fastforce+

lemma number_not_plain: "plain_segment t \<Longrightarrow> \<not> is_param t \<Longrightarrow> str_of_int n \<noteq> t"
proof (cases "str_of_int n")
  case (Cons c cs)
  then have "is_digit c \<or> c = CHR ''-''" using str_of_int_chars [of c n] by simp
  then show "plain_segment t \<Longrightarrow> \<not> is_param t \<Longrightarrow> str_of_int n \<noteq> t"
    using Cons by (auto simp: plain_segment_def)
qed (simp add: str_of_int_nonempty)

text \<open>The path of a template is cut into its segments again.\<close>

lemma segments_join: "ss \<noteq> [] \<Longrightarrow> \<forall>s \<in> set ss. CHR ''/'' \<notin> set s \<Longrightarrow> segments (join ss) = ss"
  by (induction ss rule: join.induct) (simp_all add: segments_def split_all_single split_all_append)

lemma fill_chars: "s \<in> set (fill ts ns) \<Longrightarrow> (\<exists>n. s = str_of_int n) \<or> s \<in> set ts"
  by (induction ts ns rule: fill.induct) (auto split: if_splits)

lemma segments_nonempty [simp]: "segments p \<noteq> []"
  by (simp add: segments_def)

lemma segment_chars: "s \<in> set (segments p) \<Longrightarrow> CHR ''/'' \<notin> set s"
  using split_all_chars by (auto simp: segments_def)

lemma segments_path_of: "segments (path_of r ns) = fill (segments (rt_path r)) ns"
proof -
  have "fill (segments (rt_path r)) ns \<noteq> []" by (cases "segments (rt_path r)") simp_all
  then show ?thesis
    unfolding path_of_def
    by (intro segments_join ballI) (auto dest!: fill_chars simp: number_segment segment_chars)
qed

lemma match_fill: "length ns = length (filter is_param ts) \<Longrightarrow>
   match_segments ts (fill ts ns) = Some (zip (map param_name (filter is_param ts)) (map str_of_int ns))"
proof (induction ts ns rule: fill.induct)
  case (2 t ts ns)
  then show ?case by (cases ns) (auto simp: str_of_int_nonempty)
qed simp

lemma apart_no_match: "apart ts us \<Longrightarrow> list_all plain_segment ts \<Longrightarrow> match_segments ts (fill us ns) = None"
proof (induction ts us arbitrary: ns rule: apart.induct)
  case (2 t ts u us)
  then show ?case using number_not_plain [of t] by (auto split: if_splits) metis
qed simp_all

lemma first_taker:
  assumes "sound_table rs" and "r \<in> set rs" and "mth \<in> set (rt_methods r)"
    and "length ns = length (param_names r)"
  shows "find (takes mth (path_of r ns)) rs = Some r"
  using assms(1,2)
proof (induction rs)
  case (Cons q rs)
  have r: "takes mth (path_of r ns) r" using assms(3,4)
    by (simp add: takes_def match_path_def segments_path_of match_fill param_names_def)
  show ?case
  proof (cases "q = r")
    case False
    then have "r \<in> set rs" using Cons.prems by simp
    then have "mth \<notin> set (rt_methods q) \<or> apart (segments (rt_path q)) (segments (rt_path r))"
      using Cons.prems(1) assms(3) by (fastforce simp: sound_table_def shape_def list_all_iff)
    moreover have "list_all plain_segment (segments (rt_path q))" using Cons.prems(1)
      by (simp add: sound_table_def shape_def)
    ultimately have "\<not> takes mth (path_of r ns) q"
      using apart_no_match by (auto simp: takes_def match_path_def segments_path_of)
    moreover have "sound_table rs" using Cons.prems(1) by (simp add: sound_table_def shape_def)
    ultimately show ?thesis using Cons.IH \<open>r \<in> set rs\<close> by simp
  qed (simp add: r)
qed simp

text \<open>Routers below different prefixes do not get in each other's way.\<close>

definition mountable :: "route list \<Rightarrow> bool" where
  "mountable rs \<longleftrightarrow> list_all (\<lambda>r. case rt_path r of [] \<Rightarrow> True | c # cs \<Rightarrow> c = CHR ''/'') rs"

definition prefix_name :: "string \<Rightarrow> bool" where
  "prefix_name n \<longleftrightarrow> CHR ''/'' \<notin> set n \<and> \<not> is_param n \<and> plain_segment n \<and> n \<noteq> []"

lemma segments_mount:
  assumes "CHR ''/'' \<notin> set n" and "case p of [] \<Rightarrow> True | c # cs \<Rightarrow> c = CHR ''/''"
  shows "segments (CHR ''/'' # n @ p) = [] # n # tl (segments p)"
proof (cases p)
  case Nil
  then show ?thesis using assms by (simp add: segments_def split_all_single)
next
  case (Cons c cs)
  then show ?thesis using assms split_all_append [of "CHR ''/''" n cs] by (simp add: segments_def split_all_single)
qed

lemma hd_segments: "case p of [] \<Rightarrow> True | c # cs \<Rightarrow> c = CHR ''/'' \<Longrightarrow> segments p = [] # tl (segments p)"
  by (simp add: segments_def split: list.splits)

lemma shape_mount:
  assumes "mountable rs" and "CHR ''/'' \<notin> set n"
  shows "map shape (include_router (CHR ''/'' # n) rs) = map (apsnd (\<lambda>ts. [] # n # tl ts)) (map shape rs)"
  using assms by (auto simp: mountable_def list_all_iff include_router_def shape_def segments_mount)

lemma shape_rooted: "mountable rs \<Longrightarrow> x \<in> set (map shape rs) \<Longrightarrow> snd x = [] # tl (snd x)"
  using hd_segments by (fastforce simp: shape_def mountable_def list_all_iff)

lemma unshadowed_map:
  assumes "\<And>x y. x \<in> set xs \<Longrightarrow> y \<in> set xs \<Longrightarrow> apart (f (snd x)) (f (snd y)) = apart (snd x) (snd y)"
  shows "unshadowed (map (apsnd f) xs) = unshadowed xs"
  using assms by (induction xs) (simp_all add: list_all_iff)

lemma sound_mount:
  assumes "sound_table rs" and "mountable rs" and "prefix_name n"
  shows "sound_table (include_router (CHR ''/'' # n) rs)"
proof -
  have "apart ([] # n # tl (snd x)) ([] # n # tl (snd y)) = apart (snd x) (snd y)"
    if "x \<in> set (map shape rs)" "y \<in> set (map shape rs)" for x y
    using shape_rooted [OF assms(2) that(1)] shape_rooted [OF assms(2) that(2)] by (metis apart.simps(2))
  then have "unshadowed (map (apsnd (\<lambda>ts. [] # n # tl ts)) (map shape rs)) = unshadowed (map shape rs)"
    by (rule unshadowed_map)
  moreover have "list_all plain_segment ([] # n # tl (snd (shape r)))" if "r \<in> set rs" for r
  proof -
    have "list_all plain_segment (snd (shape r))" using assms(1) that by (auto simp: sound_table_def list_all_iff)
    then show ?thesis using shape_rooted [OF assms(2), of "shape r"] that assms(3)
      by (cases "snd (shape r)") (simp_all add: prefix_name_def)
  qed
  ultimately show ?thesis
    using assms by (simp add: sound_table_def shape_mount prefix_name_def list_all_iff)
qed

text \<open>The routes below a prefix.\<close>

definition begins_with :: "string \<Rightarrow> route list \<Rightarrow> bool" where
  "begins_with n rs \<longleftrightarrow> list_all (\<lambda>x. take 2 (snd x) = [[], n]) (map shape rs)"

lemma begins_mount: "mountable rs \<Longrightarrow> prefix_name n \<Longrightarrow> begins_with n (include_router (CHR ''/'' # n) rs)"
  by (auto simp: begins_with_def shape_mount prefix_name_def list_all_iff)

lemma mountable_mount [simp]: "mountable (include_router (CHR ''/'' # n) rs)"
  by (simp add: mountable_def include_router_def list_all_iff)

lemma mountable_append [simp]: "mountable (rs @ rs') \<longleftrightarrow> mountable rs \<and> mountable rs'"
  by (simp add: mountable_def)

lemma unshadowed_append:
  assumes "unshadowed xs" and "unshadowed ys" and "\<And>x y. x \<in> set xs \<Longrightarrow> y \<in> set ys \<Longrightarrow> apart (snd x) (snd y)"
  shows "unshadowed (xs @ ys)"
  using assms by (induction xs) (auto simp: list_all_iff)

lemma sound_append:
  assumes "sound_table rs" and "sound_table rs'" and "begins_with n rs"
    and "list_all (\<lambda>x. length (snd x) = 1 \<or> hd (tl (snd x)) \<noteq> n) (map shape rs')" and "\<not> is_param n"
  shows "sound_table (rs @ rs')"
proof -
  have "apart (snd x) (snd y)" if "x \<in> set (map shape rs)" "y \<in> set (map shape rs')" for x y
  proof -
    have "take 2 (snd x) = [[], n]" using assms(3) that by (auto simp: begins_with_def list_all_iff)
    then obtain ts where x: "snd x = [] # n # ts"
      by (metis append_Cons append_Nil append_take_drop_id)
    have "length (snd y) = 1 \<or> hd (tl (snd y)) \<noteq> n" using assms(4) that by (auto simp: list_all_iff)
    moreover have "snd y \<noteq> []" using that by (auto simp: shape_def)
    ultimately show ?thesis unfolding x using assms(5)
      by (cases "snd y"; cases "tl (snd y)") (auto simp: is_param_def)
  qed
  then have "unshadowed (map shape rs @ map shape rs')"
    using assms(1,2) by (intro unshadowed_append) (auto simp: sound_table_def)
  then show ?thesis using assms(1,2) by (simp add: sound_table_def)
qed

lemma begins_other:
  assumes "begins_with n rs" and "n \<noteq> n'"
  shows "list_all (\<lambda>x. length (snd x) = 1 \<or> hd (tl (snd x)) \<noteq> n') (map shape rs)"
  unfolding list_all_iff
proof
  fix x assume "x \<in> set (map shape rs)"
  then have "take 2 (snd x) = [[], n]" using assms(1) by (auto simp: begins_with_def list_all_iff)
  then have "snd x = [] # n # drop 2 (snd x)" by (metis append_Cons append_Nil append_take_drop_id)
  then show "length (snd x) = 1 \<or> hd (tl (snd x)) \<noteq> n'" using assms(2) by (metis list.sel(1,3))
qed

text \<open>Several routers below prefixes of their own.\<close>

definition mount_all :: "(string \<times> route list) list \<Rightarrow> route list" where
  "mount_all ms = concat (map (\<lambda>(n, rs). include_router (CHR ''/'' # n) rs) ms)"

lemma sound_mount_all:
  assumes "\<forall>(n, rs) \<in> set ms. prefix_name n \<and> mountable rs \<and> sound_table rs" and "distinct (map fst ms)"
  shows "sound_table (mount_all ms) \<and> mountable (mount_all ms)"
  using assms
proof (induction ms)
  case Nil
  then show ?case by (simp add: mount_all_def sound_table_def mountable_def)
next
  case (Cons m ms)
  obtain n rs where m: "m = (n, rs)" by force
  have n: "prefix_name n" and rs: "mountable rs" "sound_table rs" using Cons.prems m by auto
  have "list_all (\<lambda>x. length (snd x) = 1 \<or> hd (tl (snd x)) \<noteq> n) (map shape (mount_all ms))"
    unfolding mount_all_def list_all_iff
  proof
    fix x assume "x \<in> set (map shape (concat (map (\<lambda>(n, rs). include_router (CHR ''/'' # n) rs) ms)))"
    then obtain n' rs' where m': "(n', rs') \<in> set ms"
      and x: "x \<in> set (map shape (include_router (CHR ''/'' # n') rs'))" by auto
    have "prefix_name n'" "mountable rs'" using bspec [OF Cons.prems(1), of "(n', rs')"] m' by simp_all
    then have b: "begins_with n' (include_router (CHR ''/'' # n') rs')" by (intro begins_mount)
    have "n \<notin> fst ` set ms" using Cons.prems(2) m by simp
    then have "n' \<noteq> n" using m' by force
    from begins_other [OF b this] x show "length (snd x) = 1 \<or> hd (tl (snd x)) \<noteq> n"
      by (auto simp: list_all_iff)
  qed
  then have "sound_table (include_router (CHR ''/'' # n) rs @ mount_all ms)"
    using Cons n by (intro sound_append [OF _ _ begins_mount [OF rs(1) n]] sound_mount rs) (auto simp: m prefix_name_def)
  then show ?case using Cons by (simp add: m mount_all_def)
qed

section \<open>The table of the server\<close>

lemmas router_tables = public_routes_def auth_routes_def companies_routes_def workers_routes_def caregivers_routes_def
  kiosks_routes_def job_standards_routes_def job_workers_routes_def schedules_routes_def work_records_routes_def
  boards_routes_def notifications_routes_def documents_routes_def work_journals_routes_def users_routes_def
  company_chargers_routes_def leaves_routes_def

definition api_mounts :: "(string \<times> route list) list" where
  "api_mounts =
     [(''public'', public_routes), (''auth'', auth_routes), (''companies'', companies_routes),
      (''workers'', workers_routes), (''caregivers'', caregivers_routes), (''kiosks'', kiosks_routes),
      (''job-standards'', job_standards_routes), (''job-workers'', job_workers_routes),
      (''schedules'', schedules_routes), (''work-records'', work_records_routes), (''boards'', boards_routes),
      (''notifications'', notifications_routes), (''documents'', documents_routes),
      (''work-journals'', work_journals_routes), (''users'', users_routes),
      (''company-chargers'', company_chargers_routes), (''leaves'', leaves_routes)]"

lemma api_v1_mounts: "api_v1_routes = mount_all [(''api'', mount_all [(''v1'', mount_all api_mounts)])]"
  by (simp add: api_v1_routes_def mount_all_def api_mounts_def include_router_def comp_def)

lemma sound_routers: "list_all (\<lambda>(n, rs). sound_table rs) api_mounts"
  by code_simp

lemma mountable_routers: "list_all (\<lambda>(n, rs). prefix_name n \<and> mountable rs) api_mounts"
  by code_simp

lemma sound_api: "sound_table api_v1_routes"
proof -
  have "distinct (map fst api_mounts)" by (simp add: api_mounts_def)
  then have v1: "sound_table (mount_all api_mounts) \<and> mountable (mount_all api_mounts)"
    using sound_routers mountable_routers by (intro sound_mount_all) (auto simp: list_all_iff)
  have "prefix_name ''v1''" "prefix_name ''api''" by code_simp+
  then have "sound_table (mount_all [(''v1'', mount_all api_mounts)]) \<and> mountable (mount_all [(''v1'', mount_all api_mounts)])"
    using v1 by (intro sound_mount_all) auto
  then show ?thesis unfolding api_v1_mounts using \<open>prefix_name ''api''\<close>
    by (intro sound_mount_all [THEN conjunct1]) auto
qed

lemma begins_api: "begins_with ''api'' api_v1_routes"
proof -
  have "prefix_name ''api''" by code_simp
  moreover have "mountable (mount_all [(''v1'', mount_all api_mounts)])" by (simp add: mount_all_def)
  ultimately show ?thesis using begins_mount [of "mount_all [(''v1'', mount_all api_mounts)]" "''api''"]
    unfolding api_v1_mounts mount_all_def [of "[(''api'', x)]" for x] by simp
qed

lemma apart_pages:
  assumes "x \<in> set (map shape (fastapi_pages @ get_route ''/'' ''main'' ''_root'' # health_routes))"
    and "y \<in> set (map shape api_v1_routes)"
  shows "apart (snd x) (snd y)"
proof -
  have "take 2 (snd y) = [[], ''api'']" using assms(2) begins_api by (auto simp: begins_with_def list_all_iff)
  then obtain us where y: "snd y = [] # ''api'' # us" by (metis append_Cons append_Nil append_take_drop_id)
  have "list_all (\<lambda>x. case snd x of [] \<Rightarrow> True | [_] \<Rightarrow> True | _ # n # _ \<Rightarrow> \<not> is_param n \<and> n \<noteq> ''api'')
      (map shape (fastapi_pages @ get_route ''/'' ''main'' ''_root'' # health_routes))" by code_simp
  then have "case snd x of [] \<Rightarrow> True | [_] \<Rightarrow> True | _ # n # _ \<Rightarrow> \<not> is_param n \<and> n \<noteq> ''api''"
    using assms(1) unfolding list_all_iff by blast
  then show ?thesis unfolding y by (auto split: list.splits)
qed

lemma sound_app_routes: "sound_table app_routes"
proof -
  let ?scrape = "get_route ''/actuator/prometheus'' ''metrics'' ''metrics_endpoint''"
  let ?pages = "fastapi_pages @ get_route ''/'' ''main'' ''_root'' # health_routes"
  have api: "sound_table (api_v1_routes @ [?scrape])"
    by (rule sound_append [OF sound_api _ begins_api]) code_simp+
  have pages: "sound_table ?pages" by code_simp
  have scrape: "list_all (\<lambda>x. apart (snd x) (snd (shape ?scrape))) (map shape ?pages)" by code_simp
  have "apart (snd x) (snd y)" if "x \<in> set (map shape ?pages)" "y \<in> set (map shape (api_v1_routes @ [?scrape]))" for x y
  proof (cases "y \<in> set (map shape api_v1_routes)")
    case False
    then have "y = shape ?scrape" using that(2) by auto
    then show ?thesis using scrape that(1) unfolding list_all_iff by blast
  qed (rule apart_pages [OF that(1)])
  then have "unshadowed (map shape ?pages @ map shape (api_v1_routes @ [?scrape]))"
    using api pages unfolding sound_table_def by (intro unshadowed_append) blast+
  then show ?thesis using api pages by (simp add: sound_table_def app_routes_def)
qed

section \<open>Every route is reached\<close>

lemma join_chars: "c \<in> set (join ss) \<Longrightarrow> c = CHR ''/'' \<or> (\<exists>s \<in> set ss. c \<in> set s)"
  by (induction ss rule: join.induct) auto

lemma regular_path:
  assumes "sound_table rs" and "r \<in> set rs"
  shows "CHR 0x0A \<notin> set (path_of r ns)"
proof
  assume "CHR 0x0A \<in> set (path_of r ns)"
  then obtain s where "s \<in> set (fill (segments (rt_path r)) ns)" "CHR 0x0A \<in> set s"
    unfolding path_of_def by (auto dest!: join_chars)
  then show False using assms number_segment
    by (auto dest!: fill_chars simp: sound_table_def list_all_iff shape_def plain_segment_def)
qed

lemma documented_match:
  assumes "documented_router R" and "regular_request mth p" and "find (takes mth p) rs = Some r"
  shows "R rs mth p = Matched r (the (match_path (rt_path r) p))"
  using assms by (auto simp: documented_router_def split: option.splits)

lemma documented_member: "documented_router R \<Longrightarrow> R rs mth p = Matched r ps \<Longrightarrow> r \<in> set rs"
  unfolding documented_router_def by blast

lemma find_in: "find P xs = Some x \<Longrightarrow> x \<in> set xs"
  by (induction xs) (auto split: if_splits)

lemma first_match_documented: "documented_router first_match"
  by (auto simp: documented_router_def first_match_def find_in split: option.splits if_splits)

lemma app_methods: "list_all (\<lambda>r. list_all (\<lambda>m. m \<noteq> ''HEAD'') (rt_methods r)) app_routes"
  by code_simp

lemma no_hidden_route:
  assumes "documented_router R" and "r \<in> set app_routes" and "mth \<in> set (rt_methods r)"
    and "length ns = length (param_names r)"
  shows "R app_routes mth (path_of r ns) = Matched r (zip (param_names r) (map str_of_int ns))"
proof -
  have "regular_request mth (path_of r ns)"
    using regular_path [OF sound_app_routes assms(2)] app_methods assms(2,3)
    by (auto simp: regular_request_def list_all_iff)
  from documented_match [OF assms(1) this first_taker [OF sound_app_routes assms(2-4)]]
  show ?thesis using assms(4) by (simp add: match_path_def segments_path_of match_fill param_names_def)
qed

text \<open>C14: no route of the server hides another one: with numbers for its parameters, the URL of every route of
  every router, below all its prefixes, is answered by that route and not by an earlier one with a
  parameter or a literal in the same place, and the endpoint gets the numbers of the URL under the names
  it declares.\<close>

theorem no_route_is_hidden:
  assumes "documented_router R" and "r \<in> set app_routes" and "mth \<in> set (rt_methods r)"
    and "length ns = length (param_names r)"
  shows "R app_routes mth (path_of r ns) = Matched r (zip (param_names r) (map str_of_int ns))
    \<and> map (py_int \<circ> snd) (zip (param_names r) (map str_of_int ns)) = map Some ns"
proof -
  have "map snd (zip (param_names r) (map str_of_int ns)) = map str_of_int ns" using assms(4) by simp
  then have "map (py_int \<circ> snd) (zip (param_names r) (map str_of_int ns)) = map Some ns"
    unfolding map_map [symmetric] by (simp add: py_int_str_of_int comp_def)
  then show ?thesis using no_hidden_route [OF assms] by blast
qed

theorem no_route_is_hidden_witness:
  "first_match app_routes ''PATCH'' ''/api/v1/leaves/7/decision'' =
   Matched (patch_route ''/api/v1/leaves/{leave_id}/decision'' ''leaves'' ''decide_leave'') [(''leave_id'', ''7'')]"
proof -
  let ?r = "patch_route ''/api/v1/leaves/{leave_id}/decision'' ''leaves'' ''decide_leave''"
  have r: "?r \<in> set app_routes" by (simp add: app_routes_def api_v1_routes_def include_router_def leaves_routes_def add_route_def)
  have "path_of ?r [7] = ''/api/v1/leaves/7/decision''" "zip (param_names ?r) (map str_of_int [7]) = [(''leave_id'', ''7'')]"
    "length [7 :: int] = length (param_names ?r)" by code_simp+
  then show ?thesis using no_route_is_hidden [OF first_match_documented r, of "''PATCH''" "[7]"]
    by (simp add: add_route_def)
qed

end
