(* ===== verification/Http.thy ===== *)
theory Http
  imports Routing
begin

text \<open>
  A request from its method and path to its answer: routing, binding of the parameters, rate limit, the
  endpoint with its guards and its session, and the exception handlers and middlewares of theory Requests
  on the way back.  Every endpoint of the server is an operation of the theories Api and Queries, the
  push endpoint or one of the pages, and has its own URL.
\<close>

section \<open>Operations and their endpoints\<close>

text \<open>The module and the function of an endpoint with the parameters of its path.\<close>

type_synonym place = "string \<times> string \<times> (string \<times> int) list"

primrec record_place :: "record_op \<Rightarrow> place" where
  "record_place (Begin_record q) = (''work_records'', ''begin'', [])"
| "record_place (End_record q) = (''work_records'', ''end'', [])"
| "record_place (Begin_process q) = (''work_records'', ''begin_process'', [])"
| "record_place (End_process q) = (''work_records'', ''end_process'', [])"

primrec kiosk_place :: "kiosk_op \<Rightarrow> place" where
  "kiosk_place (Bind_kiosk q) = (''kiosks'', ''bind'', [])"
| "kiosk_place (Set_assignee i q) = (''kiosks'', ''set_assignee'', [(''kiosk_id'', i)])"
| "kiosk_place (Unbind_kiosk i) = (''kiosks'', ''unbind'', [(''kiosk_id'', i)])"

primrec request_place :: "request \<Rightarrow> place" where
  "request_place (Login q) = (''auth'', ''login'', [])"
| "request_place (Refresh t) = (''auth'', ''refresh'', [])"
| "request_place Logout = (''auth'', ''logout'', [])"
| "request_place (Signup q) = (''auth'', ''signup_caregiver'', [])"
| "request_place (Change_password q) = (''auth'', ''change_password'', [])"
| "request_place (Update_me q) = (''auth'', ''update_me'', [])"
| "request_place (Open_company q) = (''companies'', ''create_company'', [])"
| "request_place (Edit_company i q) = (''companies'', ''update_company'', [(''company_id'', i)])"
| "request_place (Close_company i) = (''companies'', ''deactivate_company'', [(''company_id'', i)])"
| "request_place (Edit_charger i q) = (''company_chargers'', ''update_charger'', [(''charger_id'', i)])"
| "request_place (Enable_user i e) = (''users'', ''set_enabled'', [(''user_id'', i)])"
| "request_place (Open_worker q) = (''workers'', ''create_worker'', [])"
| "request_place (Hire q) = (''workers'', ''hire_worker'', [])"
| "request_place (Fire i) = (''workers'', ''fire_company_worker'', [(''company_worker_id'', i)])"
| "request_place (Retire i) = (''workers'', ''retire_worker'', [(''worker_id'', i)])"
| "request_place (Rehire i) = (''workers'', ''rehire_worker'', [(''worker_id'', i)])"
| "request_place (Add_relation q) = (''caregivers'', ''register_worker'', [])"
| "request_place (Drop_relation i) = (''caregivers'', ''remove_relation'', [(''relation_id'', i)])"
| "request_place (Open_standard q) = (''job_standards'', ''create_standard'', [])"
| "request_place (Edit_standard i q) = (''job_standards'', ''update_standard'', [(''standard_id'', i)])"
| "request_place (Close_standard i) = (''job_standards'', ''deactivate_standard'', [(''standard_id'', i)])"
| "request_place (Sync_standard i q) = (''job_standards'', ''sync_processes'', [(''standard_id'', i)])"
| "request_place (Assign q) = (''job_workers'', ''assign'', [])"
| "request_place (Unassign i) = (''job_workers'', ''unassign'', [(''job_worker_id'', i)])"
| "request_place (Open_schedule q) = (''schedules'', ''create_schedule'', [])"
| "request_place (Open_schedules q) = (''schedules'', ''batch_make'', [])"
| "request_place (Close_schedule i q) = (''schedules'', ''close_schedule'', [(''schedule_id'', i)])"
| "request_place (Record_work x) = record_place x"
| "request_place (Upload_document a b f) = (''documents'', ''upload'', [])"
| "request_place (Download_document i) = (''documents'', ''download'', [(''document_id'', i)])"
| "request_place (Drop_document i) = (''documents'', ''delete'', [(''document_id'', i)])"
| "request_place (Post_board q) = (''boards'', ''create_board'', [])"
| "request_place (Edit_board i q) = (''boards'', ''update_board'', [(''board_id'', i)])"
| "request_place (Drop_board i) = (''boards'', ''delete_board'', [(''board_id'', i)])"
| "request_place (Kiosk_request x) = kiosk_place x"
| "request_place (Ask_leave q) = (''leaves'', ''create_leave'', [])"
| "request_place (Answer_leave i q) = (''leaves'', ''decide_leave'', [(''leave_id'', i)])"
| "request_place (Drop_leave i) = (''leaves'', ''delete_leave'', [(''leave_id'', i)])"
| "request_place (Open_mail_schedule q) = (''work_journals'', ''create_email_schedule'', [])"
| "request_place (Edit_mail_schedule i q) = (''work_journals'', ''update_email_schedule'', [(''schedule_id'', i)])"
| "request_place (Drop_mail_schedule i) = (''work_journals'', ''delete_email_schedule'', [(''schedule_id'', i)])"
| "request_place (Mail_journals q) = (''work_journals'', ''bulk_email'', [])"

primrec query_place :: "query \<Rightarrow> place" where
  "query_place App_version = (''public'', ''version'', [])"
| "query_place Ping = (''public'', ''ping'', [])"
| "query_place Me = (''auth'', ''me'', [])"
| "query_place (List_boards kw p) = (''boards'', ''list_boards'', [])"
| "query_place (Get_board i) = (''boards'', ''get_board'', [(''board_id'', i)])"
| "query_place My_caregiver = (''caregivers'', ''me'', [])"
| "query_place My_relations = (''caregivers'', ''list_my_relations'', [])"
| "query_place (List_companies kw p) = (''companies'', ''list_companies'', [])"
| "query_place (Get_company i) = (''companies'', ''get_company'', [(''company_id'', i)])"
| "query_place (List_chargers kw co p) = (''company_chargers'', ''list_chargers'', [])"
| "query_place (Documents_of i) = (''documents'', ''list_by_relation'', [(''relation_id'', i)])"
| "query_place (List_standards co kw p) = (''job_standards'', ''list_standards'', [])"
| "query_place (Get_standard i) = (''job_standards'', ''get_standard'', [(''standard_id'', i)])"
| "query_place (List_assignments a b) = (''job_workers'', ''list_assignments'', [])"
| "query_place (List_kiosks kw co st p) = (''kiosks'', ''list_kiosks'', [])"
| "query_place (Kiosks_of i) = (''kiosks'', ''list_by_company'', [(''company_id'', i)])"
| "query_place (List_leaves f p) = (''leaves'', ''list_leaves'', [])"
| "query_place (Approved_leaves co a b) = (''leaves'', ''list_approved'', [])"
| "query_place (Leaves_of i a b) = (''leaves'', ''list_by_worker'', [(''worker_id'', i)])"
| "query_place (List_schedules p) = (''schedules'', ''list_schedules'', [])"
| "query_place (Get_schedule i) = (''schedules'', ''get_schedule'', [(''schedule_id'', i)])"
| "query_place (Schedules_of_job_worker i a b) = (''schedules'', ''list_by_job_worker'', [(''job_worker_id'', i)])"
| "query_place (Schedules_of_standard i a b p) = (''schedules'', ''list_by_job_standard'', [(''job_standard_id'', i)])"
| "query_place (List_users kw ro p) = (''users'', ''list_users'', [])"
| "query_place (Journal_pdf i) = (''work_journals'', ''download_pdf'', [(''schedule_id'', i)])"
| "query_place (Journal_file i f) = (''work_journals'', ''download_file'', [(''schedule_id'', i)])"
| "query_place (List_mail_jobs co n) = (''work_journals'', ''list_bulk_email_jobs'', [])"
| "query_place (Get_mail_job i) = (''work_journals'', ''get_bulk_email_job'', [(''job_id'', i)])"
| "query_place (Preview_mail co day) = (''work_journals'', ''bulk_preview'', [])"
| "query_place (List_mail_schedules co) = (''work_journals'', ''list_email_schedules'', [])"
| "query_place (Records_of i) = (''work_records'', ''list_records'', [(''schedule_id'', i)])"
| "query_place (Process_records_of i) = (''work_records'', ''list_process_records'', [(''schedule_id'', i)])"
| "query_place (List_workers kw st p) = (''workers'', ''list_workers'', [])"
| "query_place (Get_worker i) = (''workers'', ''get_worker'', [(''worker_id'', i)])"
| "query_place (Memberships_of i) = (''workers'', ''list_memberships'', [(''worker_id'', i)])"
| "query_place (Workers_of_company i p) = (''workers'', ''list_by_company'', [(''company_id'', i)])"

datatype call =
    Command request
  | Question query
  | Push_note push_request
  | Root_page
  | Health_check
  | Build_info
  | Scrape
  | Library_page string

primrec call_place :: "call \<Rightarrow> place" where
  "call_place (Command req) = request_place req"
| "call_place (Question q) = query_place q"
| "call_place (Push_note q) = (''notifications'', ''push'', [])"
| "call_place Root_page = (''main'', ''_root'', [])"
| "call_place Health_check = (''health'', ''health'', [])"
| "call_place Build_info = (''health'', ''info'', [])"
| "call_place Scrape = (''metrics'', ''metrics_endpoint'', [])"
| "call_place (Library_page f) = (''fastapi'', f, [])"

definition call_args :: "call \<Rightarrow> (string \<times> int) list" where
  "call_args c = snd (snd (call_place c))"

text \<open>The route of an operation has the names of its parameters.\<close>

definition route_place :: "route \<Rightarrow> string \<times> string \<times> string list" where
  "route_place r = (rt_module r, rt_function r, param_names r)"

definition names_of :: "place \<Rightarrow> string \<times> string \<times> string list" where
  "names_of x = (case x of (m, f, ps) \<Rightarrow> (m, f, map fst ps))"

definition serves :: "route \<Rightarrow> call \<Rightarrow> bool" where
  "serves r c \<longleftrightarrow> route_place r = names_of (call_place c)"

section \<open>Running an operation\<close>

text \<open>What the server has beside its state: the objects of the process, the client of Firebase, the outcomes
  of \<open>SELECT 1\<close> and of \<open>PING\<close>, the version of the package, the text of the metrics, and the
  pages of the documentation.\<close>

record ('raw, 'fs) site =
  si_server :: "('raw, 'fs) server"
  si_process :: process
  si_firebase :: firebase_sdk
  si_select_1 :: "exn + unit"
  si_ping :: "exn + bool"
  si_version :: string
  si_metrics :: string
  si_metrics_type :: string
  si_library_page :: "string \<Rightarrow> http_response"

datatype reply = Accepted | Answered answer | Page http_response

definition redirect_response :: "string \<Rightarrow> http_response" where
  "redirect_response url = \<lparr>rs_status = 307, rs_headers = [(''location'', url)], rs_body = Raw_body []\<rparr>"

definition root_page :: http_response where
  "root_page = redirect_response ''/swagger-ui.html''"

definition info_page :: "string \<Rightarrow> http_response" where
  "info_page version =
     json_response 200
       [(''app'', JObj [(''name'', JStr ''rooti-server''), (''version'', JStr version), (''runtime'', JStr ''python-fastapi'')])]"

definition metrics_page :: "string \<Rightarrow> string \<Rightarrow> http_response" where
  "metrics_page content_type text =
     \<lparr>rs_status = 200, rs_headers = [(''content-type'', content_type)], rs_body = Raw_body text\<rparr>"

text \<open>An operation gives a reply or an exception, the messages it handed to Firebase and the new state.  The
  body of the reply to a command is the response in the theory of its service and left out here.\<close>

primrec run_call ::
    "('raw, 'fs) site \<Rightarrow> moment \<Rightarrow> http_request \<Rightarrow> bool \<Rightarrow> bool \<Rightarrow> call \<Rightarrow> ('raw, 'fs) world
     \<Rightarrow> (exn + reply) \<times> push_message list \<times> ('raw, 'fs) world" where
  "run_call S mo hr flushed commit_ok (Command req) w =
     (let (r, w') = exec_request (si_server S) mo hr flushed commit_ok req w
      in (let_ok r (\<lambda>_. Inr Accepted), [], w'))"
| "run_call S mo hr flushed commit_ok (Question q) w =
     (let (r, w') = exec_query (si_server S) mo hr commit_ok q w
      in (let_ok r (\<lambda>a. Inr (Answered a)), [], w'))"
| "run_call S mo hr flushed commit_ok (Push_note q) w =
     (case current_user (sv_settings (si_server S)) (sv_libs (si_server S)) hr (mo_secs mo) of
        Inl e \<Rightarrow> (Inl e, [], w)
      | Inr actor \<Rightarrow>
          (let (r, sent) = api_push (si_firebase S) (si_process S) q actor
           in (let_ok r (\<lambda>_. Inr Accepted), sent, w)))"
| "run_call S mo hr flushed commit_ok Root_page w = (Inr (Page root_page), [], w)"
| "run_call S mo hr flushed commit_ok Health_check w =
     (Inr (Page (health (si_process S) (si_select_1 S) (si_ping S))), [], w)"
| "run_call S mo hr flushed commit_ok Build_info w = (Inr (Page (info_page (si_version S))), [], w)"
| "run_call S mo hr flushed commit_ok Scrape w =
     (Inr (Page (metrics_page (si_metrics_type S) (si_metrics S))), [], w)"
| "run_call S mo hr flushed commit_ok (Library_page f) w = (Inr (Page (si_library_page S f)), [], w)"

section \<open>A request\<close>

text \<open>
  What Starlette, FastAPI and slowapi contribute: the router; the binding of the parameters and of the body,
  which gives the operation or the error that is raised first (of a parameter, or of a guard that was
  resolved before); whether the limiter lets a request pass; and the response made of a reply.
\<close>

record 'body framework =
  fw_router :: router
  fw_bind :: "route \<Rightarrow> (string \<times> string) list \<Rightarrow> 'body \<Rightarrow> raised + call"
  fw_allowed :: "route \<Rightarrow> http_request \<Rightarrow> bool"
  fw_render :: "route \<Rightarrow> reply \<Rightarrow> http_response"

definition run_route ::
    "'body framework \<Rightarrow> ('raw, 'fs) site \<Rightarrow> moment \<Rightarrow> http_request \<Rightarrow> bool \<Rightarrow> bool \<Rightarrow> route \<Rightarrow> (string \<times> string) list
     \<Rightarrow> 'body \<Rightarrow> ('raw, 'fs) world \<Rightarrow> (raised + http_response) \<times> push_message list \<times> ('raw, 'fs) world" where
  "run_route X S mo hr flushed commit_ok r ps body w =
     (case fw_bind X r ps body of
        Inl e \<Rightarrow> (Inl e, [], w)
      | Inr c \<Rightarrow>
          if rt_limit r \<noteq> None \<and> \<not> fw_allowed X r hr then (Inl (Rate_limit_exceeded (the (rt_limit r))), [], w)
          else (let (a, sent, w') = run_call S mo hr flushed commit_ok c w
                in (case a of Inl e \<Rightarrow> Inl (Exn e) | Inr y \<Rightarrow> Inr (fw_render X r y), sent, w')))"

definition dispatch ::
    "'body framework \<Rightarrow> ('raw, 'fs) site \<Rightarrow> moment \<Rightarrow> http_request \<Rightarrow> bool \<Rightarrow> bool \<Rightarrow> string \<Rightarrow> string \<Rightarrow> 'body
     \<Rightarrow> ('raw, 'fs) world \<Rightarrow> (raised + http_response) \<times> push_message list \<times> ('raw, 'fs) world" where
  "dispatch X S mo hr flushed commit_ok mth p body w =
     (case fw_router X app_routes mth p of
        Matched r ps \<Rightarrow> run_route X S mo hr flushed commit_ok r ps body w
      | Method_not_allowed \<Rightarrow> (Inl (Http_exception 405 (Some ''Method Not Allowed'')), [], w)
      | Redirected url \<Rightarrow> (Inr (redirect_response url), [], w)
      | Unmatched \<Rightarrow> (Inl (Http_exception 404 (Some ''Not Found'')), [], w))"

text \<open>The whole exchange: what the client gets, the messages, the state and the counters.  A CORS preflight is
  answered by CORS, outside of everything else.\<close>

definition exchange ::
    "'body framework \<Rightarrow> stack \<Rightarrow> ('raw, 'fs) site \<Rightarrow> moment \<Rightarrow> http_request \<Rightarrow> bool \<Rightarrow> bool \<Rightarrow> request_info \<Rightarrow> string
     \<Rightarrow> 'body \<Rightarrow> ('raw, 'fs) world \<Rightarrow> metrics
     \<Rightarrow> http_response \<times> push_message list \<times> ('raw, 'fs) world \<times> metrics" where
  "exchange X K S mo hr flushed commit_ok rq fresh body w m =
     (if is_preflight rq then (sk_preflight K rq, [], w, m)
      else let (outcome, sent, w') = dispatch X S mo hr flushed commit_ok (rq_method rq) (rq_path rq) body w;
               (resp, m') = serve (st_app_env (sv_settings (si_server S))) K rq fresh outcome m
           in (resp, sent, w', m'))"

section \<open>Every operation has its URL\<close>

definition rendered_args :: "call \<Rightarrow> (string \<times> string) list" where
  "rendered_args c = map (\<lambda>(n, i). (n, str_of_int i)) (call_args c)"

text \<open>A body, with the query string and the form, that FastAPI binds to the operation.\<close>

definition encodes :: "'body framework \<Rightarrow> call \<Rightarrow> 'body \<Rightarrow> bool" where
  "encodes X c body \<longleftrightarrow> (\<forall>r. serves r c \<longrightarrow> fw_bind X r (rendered_args c) body = Inr c)"

definition call_url :: "route \<Rightarrow> call \<Rightarrow> string" where
  "call_url r c = path_of r (map snd (call_args c))"

text \<open>The places of the routes, worked out once.\<close>

lemma app_places: "map route_place app_routes =
     [(''fastapi'', ''openapi'', []), (''fastapi'', ''swagger_ui_html'', []),
      (''fastapi'', ''swagger_ui_redirect'', []), (''main'', ''_root'', []), (''health'', ''health'', []),
      (''health'', ''info'', []), (''public'', ''version'', []), (''public'', ''ping'', []),
      (''auth'', ''login'', []), (''auth'', ''refresh'', []), (''auth'', ''logout'', []),
      (''auth'', ''signup_caregiver'', []), (''auth'', ''me'', []), (''auth'', ''change_password'', []),
      (''auth'', ''update_me'', []), (''companies'', ''list_companies'', []),
      (''companies'', ''get_company'', [''company_id'']), (''companies'', ''create_company'', []),
      (''companies'', ''update_company'', [''company_id'']),
      (''companies'', ''deactivate_company'', [''company_id'']), (''workers'', ''list_workers'', []),
      (''workers'', ''get_worker'', [''worker_id'']), (''workers'', ''list_memberships'', [''worker_id'']),
      (''workers'', ''create_worker'', []), (''workers'', ''hire_worker'', []),
      (''workers'', ''fire_company_worker'', [''company_worker_id'']),
      (''workers'', ''retire_worker'', [''worker_id'']), (''workers'', ''rehire_worker'', [''worker_id'']),
      (''workers'', ''list_by_company'', [''company_id'']), (''caregivers'', ''me'', []),
      (''caregivers'', ''list_my_relations'', []), (''caregivers'', ''register_worker'', []),
      (''caregivers'', ''remove_relation'', [''relation_id'']), (''kiosks'', ''list_kiosks'', []),
      (''kiosks'', ''list_by_company'', [''company_id'']), (''kiosks'', ''bind'', []),
      (''kiosks'', ''set_assignee'', [''kiosk_id'']), (''kiosks'', ''unbind'', [''kiosk_id'']),
      (''job_standards'', ''list_standards'', []), (''job_standards'', ''get_standard'', [''standard_id'']),
      (''job_standards'', ''create_standard'', []),
      (''job_standards'', ''update_standard'', [''standard_id'']),
      (''job_standards'', ''sync_processes'', [''standard_id'']),
      (''job_standards'', ''deactivate_standard'', [''standard_id'']),
      (''job_workers'', ''list_assignments'', []), (''job_workers'', ''assign'', []),
      (''job_workers'', ''unassign'', [''job_worker_id'']), (''schedules'', ''list_schedules'', []),
      (''schedules'', ''get_schedule'', [''schedule_id'']),
      (''schedules'', ''list_by_job_worker'', [''job_worker_id'']),
      (''schedules'', ''list_by_job_standard'', [''job_standard_id'']),
      (''schedules'', ''create_schedule'', []), (''schedules'', ''batch_make'', []),
      (''schedules'', ''close_schedule'', [''schedule_id'']), (''work_records'', ''begin'', []),
      (''work_records'', ''end'', []), (''work_records'', ''list_records'', [''schedule_id'']),
      (''work_records'', ''begin_process'', []), (''work_records'', ''end_process'', []),
      (''work_records'', ''list_process_records'', [''schedule_id'']), (''boards'', ''list_boards'', []),
      (''boards'', ''get_board'', [''board_id'']), (''boards'', ''create_board'', []),
      (''boards'', ''update_board'', [''board_id'']), (''boards'', ''delete_board'', [''board_id'']),
      (''notifications'', ''push'', []), (''documents'', ''upload'', []),
      (''documents'', ''list_by_relation'', [''relation_id'']),
      (''documents'', ''download'', [''document_id'']), (''documents'', ''delete'', [''document_id'']),
      (''work_journals'', ''download_pdf'', [''schedule_id'']),
      (''work_journals'', ''download_file'', [''schedule_id'']), (''work_journals'', ''bulk_email'', []),
      (''work_journals'', ''list_bulk_email_jobs'', []),
      (''work_journals'', ''get_bulk_email_job'', [''job_id'']), (''work_journals'', ''bulk_preview'', []),
      (''work_journals'', ''list_email_schedules'', []), (''work_journals'', ''create_email_schedule'', []),
      (''work_journals'', ''update_email_schedule'', [''schedule_id'']),
      (''work_journals'', ''delete_email_schedule'', [''schedule_id'']), (''users'', ''list_users'', []),
      (''users'', ''set_enabled'', [''user_id'']), (''company_chargers'', ''list_chargers'', []),
      (''company_chargers'', ''update_charger'', [''charger_id'']), (''leaves'', ''list_leaves'', []),
      (''leaves'', ''list_approved'', []), (''leaves'', ''list_by_worker'', [''worker_id'']),
      (''leaves'', ''create_leave'', []), (''leaves'', ''decide_leave'', [''leave_id'']),
      (''leaves'', ''delete_leave'', [''leave_id'']), (''metrics'', ''metrics_endpoint'', [])]"
  by code_simp

lemmas listed = names_of_def prod.case list.map fst_conv list.set insert_iff simp_thms

lemma record_served: "names_of (record_place x) \<in> set (map route_place app_routes)"
  unfolding app_places by (cases x; simp only: record_place.simps listed)

lemma kiosk_served: "names_of (kiosk_place x) \<in> set (map route_place app_routes)"
  unfolding app_places by (cases x; simp only: kiosk_place.simps listed)

lemma request_served: "names_of (request_place req) \<in> set (map route_place app_routes)"
proof (cases "(\<exists>x. req = Record_work x) \<or> (\<exists>x. req = Kiosk_request x)")
  case True
  then show ?thesis using record_served kiosk_served by auto
next
  case False
  then show ?thesis unfolding app_places
    by (cases req; (simp only: request_place.simps listed; fail)?) auto
qed

lemma query_served: "names_of (query_place q) \<in> set (map route_place app_routes)"
  unfolding app_places by (cases q; simp only: query_place.simps listed)

lemma places_in: "x \<in> set (map route_place app_routes) \<Longrightarrow> \<exists>r \<in> set app_routes. route_place r = x"
  by auto

lemma call_served:
  assumes "\<forall>f. c \<noteq> Library_page f"
  shows "\<exists>r \<in> set app_routes. serves r c"
  unfolding serves_def
proof (rule places_in)
  show "names_of (call_place c) \<in> set (map route_place app_routes)"
  proof (cases c)
    case (Command req)
    then show ?thesis using request_served by simp
  next
    case (Question q)
    then show ?thesis using query_served by simp
  next
    case (Library_page f)
    then show ?thesis using assms by blast
  qed (simp only: app_places call_place.simps listed)+
qed

lemma place_known: "call_place c = (m, f, ps) \<Longrightarrow> \<exists>c. (m, f, map fst ps) = names_of (call_place c)"
  by (rule exI [of _ c]) (simp add: names_of_def)

lemmas known_places =
  request_place.simps(1-27,29-34,36-) [THEN place_known [of "Command req" for req, unfolded call_place.simps], unfolded list.map fst_conv]
  record_place.simps [THEN place_known [of "Command (Record_work x)" for x, unfolded call_place.simps request_place.simps],
    unfolded list.map fst_conv]
  kiosk_place.simps [THEN place_known [of "Command (Kiosk_request x)" for x, unfolded call_place.simps request_place.simps],
    unfolded list.map fst_conv]
  query_place.simps [THEN place_known [of "Question q" for q, unfolded call_place.simps], unfolded list.map fst_conv]
  call_place.simps(3-) [THEN place_known, unfolded list.map fst_conv]

lemma every_route_serves: "r \<in> set app_routes \<Longrightarrow> \<exists>c. serves r c"
proof -
  have "\<forall>x \<in> set (map route_place app_routes). \<exists>c. x = names_of (call_place c)"
    unfolding app_places by (simp only: list.set ball_simps known_places simp_thms)
  then show "r \<in> set app_routes \<Longrightarrow> \<exists>c. serves r c" by (auto simp: serves_def)
qed

section \<open>Anonymous clients\<close>

text \<open>The endpoints that answer without a token, and those among them that write.\<close>

definition anonymous_writes :: "(string \<times> string) list" where
  "anonymous_writes = [(''auth'', ''login''), (''auth'', ''refresh''), (''auth'', ''signup_caregiver'')]"

definition anonymous_reads :: "(string \<times> string) list" where
  "anonymous_reads =
     [(''public'', ''version''), (''public'', ''ping''), (''main'', ''_root''), (''health'', ''health''),
      (''health'', ''info''), (''metrics'', ''metrics_endpoint'')]"

definition open_to_all :: "route \<Rightarrow> bool" where
  "open_to_all r \<longleftrightarrow> rt_module r = ''fastapi''
     \<or> (rt_module r, rt_function r) \<in> set (anonymous_writes @ anonymous_reads)"

lemma writes_limited:
  "list_all (\<lambda>r. (rt_module r, rt_function r) \<in> set anonymous_writes \<longrightarrow> rt_limit r \<noteq> None) app_routes"
  by code_simp

definition binds_operations :: "'body framework \<Rightarrow> bool" where
  "binds_operations X \<longleftrightarrow> (\<forall>r ps body c. fw_bind X r ps body = Inr c \<longrightarrow> serves r c)"

lemma command_refused:
  assumes "isl (current_user (sv_settings V) (sv_libs V) hr (mo_secs mo))" and "access_of req \<noteq> Public"
  shows "\<exists>e. exec_request V mo hr fl cm req w = (Inl e, w)"
  using user_refused [OF assms, of w] exec_refused by blast

lemma question_refused:
  assumes "isl (current_user (sv_settings V) (sv_libs V) hr (mo_secs mo))" and "query_access q \<noteq> Public"
  shows "\<exists>e. exec_query V mo hr cm q w = (Inl e, w)"
  using query_user_refused [OF assms, of "w_db w" "w_cache w"] by (auto simp: exec_query_world)

text \<open>What an operation does without a valid token.\<close>

lemma run_anonymous:
  assumes "isl (current_user (sv_settings (si_server S)) (sv_libs (si_server S)) hr (mo_secs mo))"
    and "run_call S mo hr fl cm c w = (a, sent, w')" and "serves r c"
  shows "sent = [] \<and> (w' \<noteq> w \<longrightarrow> (rt_module r, rt_function r) \<in> set anonymous_writes)
    \<and> (open_to_all r \<or> (\<exists>e. a = Inl e))"
proof (cases c)
  case (Command req)
  show ?thesis
  proof (cases "access_of req = Public")
    case True
    then have "(rt_module r, rt_function r) \<in> set anonymous_writes" using assms(3) Command
      by (cases req) (auto simp: serves_def route_place_def names_of_def anonymous_writes_def split: if_splits)
    then show ?thesis using assms(2) Command
      by (auto simp: open_to_all_def split: prod.splits)
  next
    case False
    from command_refused [OF assms(1) this, of fl cm w] assms(2) Command show ?thesis by auto
  qed
next
  case (Question q)
  show ?thesis
  proof (cases "query_access q = Public")
    case True
    then have q: "q = App_version \<or> q = Ping" by (cases q) (auto split: if_splits)
    then have "open_to_all r" using assms(3) Question
      by (auto simp: serves_def route_place_def names_of_def open_to_all_def anonymous_reads_def)
    moreover have "w' = w" using q assms(2) Question
      by (auto simp: exec_query_world reply_def split: prod.splits)
    ultimately show ?thesis using assms(2) Question by (auto split: prod.splits)
  next
    case False
    from question_refused [OF assms(1) this, of cm w] assms(2) Question show ?thesis by auto
  qed
next
  case (Push_note q)
  then show ?thesis using assms(1,2) by (auto split: sum.splits)
qed (use assms(2,3) in \<open>auto simp: serves_def route_place_def names_of_def open_to_all_def anonymous_reads_def\<close>)

lemma handle_status: "400 \<le> p_status (handle env path ch e)"
  by (cases e) (simp_all add: build_problem_detail_def unhandled_handler_def status_is_error)

lemma raised_status:
  assumes "keeps_headers (sk_gzip K)" and "keeps_headers (sk_cors K)" and np: "\<not> is_preflight rq"
    and "serve env K rq fresh (Inl e) m = (resp, m')"
  shows "400 \<le> rs_status resp"
proof (cases "exception_layer env (rq_path rq) (Inl e)")
  case (Inl e')
  then show ?thesis using assms(4)
    by (auto simp: serve_def trace_middleware_def security_middleware_def prometheus_middleware_def Let_def
        last_net_def problem_response_def handle_status)
next
  case (Inr r0)
  then have "400 \<le> rs_status r0"
    by (cases "(env, rq_path rq, Inl e :: raised + http_response)" rule: exception_layer.cases)
       (auto simp: problem_response_def http_handler_def build_problem_detail_def validation_handler_def
          rate_limit_handler_def status_is_error Let_def)
  then show ?thesis using serve_answered [OF Inr, of fresh K m] assms
    by (metis keeps_status [OF _ np] prod.inject)
qed

lemma answered_status:
  assumes "keeps_headers (sk_gzip K)" and "keeps_headers (sk_cors K)" and np: "\<not> is_preflight rq"
    and "serve env K rq fresh (Inr r0) m = (resp, m')"
  shows "rs_status resp = rs_status r0"
  using serve_answered [of env rq "Inr r0" r0 fresh K m] assms by (metis exception_layer.simps(1) keeps_status [OF _ np] prod.inject)

lemma route_anonymous:
  assumes "isl (current_user (sv_settings (si_server S)) (sv_libs (si_server S)) hr (mo_secs mo))"
    and "binds_operations X" and "r \<in> set app_routes"
    and "run_route X S mo hr fl cm r ps body w = (outcome, sent, w')"
  shows "sent = []
    \<and> (w' \<noteq> w \<longrightarrow> (rt_module r, rt_function r) \<in> set anonymous_writes \<and> rt_limit r \<noteq> None \<and> fw_allowed X r hr)
    \<and> (open_to_all r \<or> (\<exists>e. outcome = Inl e))"
proof (cases "fw_bind X r ps body")
  case (Inl e)
  then show ?thesis using assms(4) by (auto simp: run_route_def)
next
  case (Inr c)
  then have c: "serves r c" using assms(2) by (simp add: binds_operations_def)
  have limit: "(rt_module r, rt_function r) \<in> set anonymous_writes \<longrightarrow> rt_limit r \<noteq> None"
    using writes_limited assms(3) by (simp add: list_all_iff)
  obtain a sent' w'' where run: "run_call S mo hr fl cm c w = (a, sent', w'')" by (metis prod_cases3)
  show ?thesis using run_anonymous [OF assms(1) run c] limit assms(4) Inr run
    by (auto simp: run_route_def split: if_splits sum.splits)
qed

end
