(* ===== verification/Platform.thy ===== *)
theory Platform
  imports Requests Paging
begin

text \<open>
  The set-up of the process: logging (app/core/logging.py), the defaults of the router class
  (app/core/router.py), the options of the rate limiter (app/core/rate_limit.py) and the clock
  (app/core/time.py).  structlog, FastAPI and slowapi only get these values; the levels of the
  standard library's loggers are modelled.
\<close>

section \<open>Logging\<close>

definition level_debug :: int where "level_debug = 10"
definition level_info :: int where "level_info = 20"
definition level_warning :: int where "level_warning = 30"

datatype processor =
    Merge_contextvars
  | Add_log_level
  | Time_stamper
  | Stack_info
  | Format_exc_info
  | Json_renderer
  | Console_renderer

text \<open>\<open>configure_logging\<close>: the processors and the lowest level of structlog, the level of the root logger of the
  standard library, and the levels set on single loggers.\<close>

record logging_config =
  lg_processors :: "processor list"
  lg_bound_level :: int
  lg_root_level :: int
  lg_levels :: "(string \<times> int) list"

definition configure_logging :: "app_env \<Rightarrow> logging_config" where
  "configure_logging env =
     (let is_prod = (env = Env_prod);
          shared = [Merge_contextvars, Add_log_level, Time_stamper, Stack_info]
      in \<lparr>lg_processors =
            (if is_prod then shared @ [Format_exc_info] @ [Json_renderer] else shared @ [Console_renderer]),
          lg_bound_level = (if is_prod then level_info else level_debug),
          lg_root_level = (if is_prod then level_warning else level_info),
          lg_levels =
            [(''sqlalchemy.engine'', if is_prod then level_warning else level_info),
             (''uvicorn.access'', level_info),
             (''botocore'', level_warning),
             (''aiobotocore'', level_warning),
             (''urllib3'', level_warning)]\<rparr>)"

text \<open>\<open>get_logger\<close>: what a logger binds.\<close>

definition get_logger :: "string option \<Rightarrow> (string \<times> string) list" where
  "get_logger name = (if truthy name then [(''logger'', the name)] else [])"

text \<open>
  \<open>Logger.getEffectiveLevel\<close> of the standard library: the level of the nearest logger with a level, going
  up the dotted name.
\<close>

definition parent_logger :: "string \<Rightarrow> string option" where
  "parent_logger name =
     (case dropWhile (\<lambda>c. c \<noteq> CHR ''.'') (rev name) of [] \<Rightarrow> None | _ # up \<Rightarrow> Some (rev up))"

lemma parent_logger_shorter: "parent_logger name = Some up \<Longrightarrow> length up < length name"
proof -
  assume "parent_logger name = Some up"
  then have "Suc (length up) = length (dropWhile (\<lambda>c. c \<noteq> CHR ''.'') (rev name))"
    by (auto simp: parent_logger_def split: list.splits)
  then show "length up < length name" using length_dropWhile_le [of "\<lambda>c. c \<noteq> CHR ''.''" "rev name"] by simp
qed

function effective_level :: "logging_config \<Rightarrow> string \<Rightarrow> int" where
  "effective_level cfg name =
     (case map_of (lg_levels cfg) name of
        Some l \<Rightarrow> l
      | None \<Rightarrow> (case parent_logger name of None \<Rightarrow> lg_root_level cfg | Some up \<Rightarrow> effective_level cfg up))"
  by pat_completeness auto
termination by (relation "measure (\<lambda>(cfg, name). length name)") (auto dest: parent_logger_shorter)

declare effective_level.simps [simp del]

definition emits :: "logging_config \<Rightarrow> string \<Rightarrow> int \<Rightarrow> bool" where
  "emits cfg name level \<longleftrightarrow> effective_level cfg name \<le> level"

text \<open>A record of a library that production writes is written everywhere else too.\<close>

lemma effective_level_prod: "effective_level (configure_logging env) name \<le> effective_level (configure_logging Env_prod) name"
proof (induction "configure_logging env" name rule: effective_level.induct)
  case (1 name)
  then show ?case
    by (subst (1 2) effective_level.simps)
       (auto simp: configure_logging_def Let_def level_info_def level_warning_def split: option.splits)
qed

lemma effective_level_from:
  "map_of (lg_levels cfg) name = Some l \<Longrightarrow> effective_level cfg name = l"
  by (subst effective_level.simps) simp

text \<open>The loggers whose records of level INFO reach the output of production are those below \<open>uvicorn.access\<close>.\<close>

definition below :: "string \<Rightarrow> string \<Rightarrow> bool" where
  "below logger name \<longleftrightarrow> name = logger \<or> (\<exists>rest. name = logger @ ''.'' @ rest)"

lemma parent_logger_Some: "parent_logger name = Some up \<Longrightarrow> \<exists>last. name = up @ ''.'' @ last"
proof -
  assume p: "parent_logger name = Some up"
  then have "rev name = takeWhile (\<lambda>c. c \<noteq> CHR ''.'') (rev name) @ CHR ''.'' # rev up"
    by (auto simp: parent_logger_def split: list.splits dest: dropWhile_eq_Cons_conv [THEN iffD1])
  then have "name = up @ CHR ''.'' # rev (takeWhile (\<lambda>c. c \<noteq> CHR ''.'') (rev name))"
    by (metis append.assoc append_Cons append_Nil rev.simps(2) rev_append rev_rev_ident)
  then show ?thesis by auto
qed

lemma below_parent: "parent_logger name = Some up \<Longrightarrow> below logger up \<Longrightarrow> below logger name"
  by (drule parent_logger_Some) (auto simp: below_def)

lemma info_in_production:
  "emits (configure_logging Env_prod) name level_info \<Longrightarrow> below ''uvicorn.access'' name"
proof (induction "configure_logging Env_prod" name rule: effective_level.induct)
  case (1 name)
  show ?case
  proof (cases "map_of (lg_levels (configure_logging Env_prod)) name")
    case None
    from 1(2) None obtain up where "parent_logger name = Some up"
        "emits (configure_logging Env_prod) up level_info"
      unfolding emits_def by (subst (asm) effective_level.simps)
        (auto simp: configure_logging_def level_info_def level_warning_def split: option.splits)
    then show ?thesis using 1(1) [OF None] below_parent by blast
  next
    case (Some l)
    with 1(2) show ?thesis unfolding emits_def by (subst (asm) effective_level.simps)
        (auto simp: configure_logging_def level_info_def level_warning_def below_def split: if_splits)
  qed
qed

section \<open>The router class\<close>

text \<open>\<open>RootiRouter.add_api_route\<close> on the keyword arguments of a route.\<close>

type_synonym kwargs = "string \<Rightarrow> bool option"

definition kw_setdefault :: "string \<Rightarrow> bool \<Rightarrow> kwargs \<Rightarrow> kwargs" where
  "kw_setdefault k v kw = (case kw k of None \<Rightarrow> kw(k \<mapsto> v) | Some _ \<Rightarrow> kw)"

definition exclude_none :: string where "exclude_none = ''response_model_exclude_none''"
definition by_alias :: string where "by_alias = ''response_model_by_alias''"

definition add_api_route :: "kwargs \<Rightarrow> kwargs" where
  "add_api_route kw = kw_setdefault by_alias True (kw_setdefault exclude_none True kw)"

text \<open>
  The decorators of FastAPI (\<open>router.get\<close> and the others) have both as parameters, with the defaults \<open>False\<close>
  and \<open>True\<close>, and pass them on to \<open>add_api_route\<close>.
\<close>

definition passes_defaults :: "(kwargs \<Rightarrow> kwargs) \<Rightarrow> bool" where
  "passes_defaults verb \<longleftrightarrow> (\<forall>kw.
     verb kw exclude_none = Some (case kw exclude_none of None \<Rightarrow> False | Some b \<Rightarrow> b)
     \<and> verb kw by_alias = Some (case kw by_alias of None \<Rightarrow> True | Some b \<Rightarrow> b))"

text \<open>The JSON of an envelope, with the fields in the order of the model.\<close>

definition envelope_json :: "bool \<Rightarrow> bool \<Rightarrow> json option \<Rightarrow> string \<Rightarrow> jobject" where
  "envelope_json excl success data timestamp =
     [(''success'', JBool success)]
     @ (case data of Some v \<Rightarrow> [(''data'', v)] | None \<Rightarrow> if excl then [] else [(''data'', JNull)])
     @ [(''timestamp'', JStr timestamp)]"

text \<open>A route declared by a decorator never gets the default of the router class, so an envelope without data
  is sent with \<open>data: null\<close>.\<close>

lemma router_defaults_unused:
  assumes "passes_defaults verb" and "kw exclude_none = None"
  shows "add_api_route (verb kw) = verb kw"
    and "(''data'', JNull) \<in> set (envelope_json (the (add_api_route (verb kw) exclude_none)) True None timestamp)"
proof -
  show *: "add_api_route (verb kw) = verb kw"
    using assms(1) by (simp add: add_api_route_def kw_setdefault_def passes_defaults_def split: option.splits)
  have "verb kw exclude_none = Some False" using assms by (simp add: passes_defaults_def)
  then show "(''data'', JNull) \<in> set (envelope_json (the (add_api_route (verb kw) exclude_none)) True None timestamp)"
    by (simp add: * envelope_json_def)
qed

section \<open>The limiter and the clock\<close>

record limiter_options =
  lo_default_limits :: "string list"
  lo_storage_uri :: string
  lo_strategy :: string
  lo_in_memory_fallback :: bool
  lo_swallow_errors :: bool

definition build_limiter :: "settings \<Rightarrow> limiter_options" where
  "build_limiter s =
     \<lparr>lo_default_limits = [''200/minute''],
      lo_storage_uri = (if st_app_env s = Env_test then ''memory://'' else or_str (Some (redis_url s)) ''memory://''),
      lo_strategy = ''fixed-window'', lo_in_memory_fallback = True, lo_swallow_errors = True\<rparr>"

text \<open>\<open>KST\<close> and \<open>now_kst\<close>, in microseconds.\<close>

definition kst_offset :: int where
  "kst_offset = 9 * 60 * 60 * 1000000"

definition now_kst :: "int \<Rightarrow> int" where
  "now_kst utc = utc + kst_offset"

end
