(* ===== verification/Spec2Isabelle.thy ===== *)
theory Spec2Isabelle
  imports Service Seed Http Platform
begin

text \<open>
  A model of the Rooti server (Python, FastAPI, SQLAlchemy, Redis), the service behind the work of people
  with disabilities in companies: accounts, companies and their staff, job standards, work schedules and
  records, leaves, kiosks, a caregiver board, caregiver documents, work journals and their mail.

  \<^bold>\<open>How the program works and how it is modelled.\<close>  A request passes the middlewares of app/main.py, its
  endpoint in app/api/v1 resolves the guards of app/api/deps.py (the bearer token gives a principal, the
  principal its company scope), and a service of app/services reads and writes the database through the
  session of the request; the session commits when the handler returned and rolls back when it raised.
  Refresh tokens and cached rows are in Redis, files on a disk or in S3, and bulk mail runs in background
  tasks with a session of their own.

  The state of the database is the record \<open>db\<close> of theory Schema: one table per model of app/models, a
  table being the list of its rows by key with the next key of its sequence (Prelude).  An operation is a
  function from its arguments and the database to \<open>exn + (response \<times> db)\<close>: \<open>Inl\<close> is the exception the
  code raises, \<open>Inr\<close> the response and the new database.  Operations that also touch Redis or files take
  and return them, outside the sum where their effect survives an exception.  The clock, salts and
  ULIDs are arguments.  Integers are Python's (\<open>int\<close>), dates and times are numbers of days and
  microseconds since 0001-01-01, strings are lists of characters below U+0100, and Korean texts are
  their UTF-8 bytes or named constructors of \<open>message\<close>.

  \<^bold>\<open>The theories and the code.\<close>

  \<^item> Prelude: results and their flow (\<open>raise_if\<close>, \<open>some_or\<close>, \<open>let_ok\<close> with the collection \<open>flow\<close>), tables
    and constraints, the locale \<open>keyed_store\<close> of a table.
  \<^item> Text: the string operations of Python's library.
  \<^item> Errors: app/core/exceptions.py.
  \<^item> Schema: app/models with the UNIQUE and CHECK constraints (\<open>schema_ok\<close>), results of a query.
    Sample: the database of the witnesses.
  \<^item> Paging: app/core/pagination.py, app/core/response.py.
  \<^item> Tenant: app/core/tenant.py and the guards of app/api/deps.py; the locale \<open>tenant_resource\<close> of a table
    whose rows belong to companies or authors.
  \<^item> Security: app/core/config.py, app/core/security.py, the key of app/core/rate_limit.py; bcrypt and PyJWT
    are the record \<open>libs\<close>.
  \<^item> Cache: app/core/cache.py; the locale \<open>cache_aside\<close>.
  \<^item> Companies, Jobs, Leaves, Schedules, WorkRecords, Kiosks, Workers, Boards, Users, Caregivers, Documents,
    EmailSchedules: the service of that name in app/services (Users also holds chargers, EmailSchedules is
    journal_schedule.py, Jobs is job.py) with its schemas and endpoints.
  \<^item> Auth: app/services/auth.py, login, refresh tokens, sign-up, passwords, profiles.
  \<^item> Uploads: app/core/upload_validation.py, app/integrations/storage.py and s3_storage.py; the locale
    \<open>document_storage\<close>.
  \<^item> Journals and BulkMail: the second half of app/services/document.py, app/integrations/email.py and
    xlsx.py, app/api/v1/work_journals.py.
  \<^item> Requests: the middlewares and their stack, the answer to every exception, the objects of the process, the session of a request, push
    notifications and the health check.
  \<^item> Integrity: every writing operation keeps the constraints, and which tables it leaves alone.
    References: it keeps the 29 foreign keys (\<open>refs_ok\<close>).  WorkInvariants: it keeps one open record of a type
    and schedules for the standards of their assignments.
  \<^item> Api: every writing endpoint as a request against the whole state, in its session.
  \<^item> Queries: every reading endpoint, and what its answer depends on.
  \<^item> Service: requests, queries, the background tasks of the mail between their commits, and restarts, in
    any order.
  \<^item> Seed: scripts/seed\_demo.py, section by section from the tables it has truncated.
  \<^item> Routing: the 91 routes of app/main.py, app/api/health.py and app/api/v1 with their prefixes and limits, decorator by
    decorator, and the check that none hides a later one.
  \<^item> Http: which operation each route serves, and a request from its method and path through routing, binding,
    limit, endpoint, exception handlers and middlewares (\<open>exchange\<close>).
  \<^item> Platform: logging, the router class, the options of the limiter, the clock.

  \<^bold>\<open>What the lemmas show.\<close>  Each service has lemmas on the effect of every operation (\<open>..._effect\<close>), on its
  invariant and on its errors, and its properties rest on them.  Four interfaces are locales with
  interpretations on the model: the table store (\<open>tbl\<close>), resources of a tenant (\<open>leave_tenant\<close>,
  \<open>kiosk_tenant\<close>, \<open>email_tenant\<close>, \<open>board_author\<close>), the cache in front of a table (\<open>company_cache\<close>) and the
  storage of documents (\<open>local_disk\<close>).  The runner of bulk mail refines a four-phase machine (BulkMail),
  employment is a step relation (Workers), work records keep at most one open record per schedule and type
  (WorkRecords).  This theory has the properties of the service as a whole, over any
  sequence of events: well-formedness of the database with its foreign keys, consistency of the work of the
  day, isolation of the tenants for writes (the rows of
  other companies stay) and for reads (answers do not depend on their contents), the guards, the
  read-only mode, the life of mail jobs as a refinement of the machine of theory BulkMail, and the process that
  can no longer be ended; and over HTTP, that
  every operation has its URL and what a client without a token can do at all.  The demo data
  (Seed) is shown to satisfy all these invariants and its accounts to log in, so it is a start state of the
  service on which the properties hold.

  \<^bold>\<open>Bounds and termination.\<close>  No definition has fuel.  The search of a chain of exceptions for a read-only
  violation ends by the number of objects not yet seen, the copy of an upload by the length of what
  is left to read; every other function is structural.  Bulk mail keeps the code's limit of 300
  schedules, pages the limit of 100 rows, date ranges the limit of 31 days.

  \<^bold>\<open>Assumptions.\<close>  Properties on tokens assume what PyJWT documents (\<open>jwt_round_trip\<close>: a token decodes to its
  claims under its secret, algorithm and issuer before it expires; \<open>jwt_compact\<close>: no white space) and
  bcrypt (\<open>bcrypt_verifies\<close>); those on documents that a ULID is a name and is not reused; those on
  headers that gzip, and CORS for a request that is not a preflight, keep the status and the other headers (Starlette's
  CORS answers a preflight itself, before any route: \<open>sk_preflight\<close>); those on URLs that Starlette takes the first route of the
  table that matches (\<open>documented_router\<close>) and FastAPI calls the function of that route (\<open>binds_operations\<close>,
  \<open>encodes\<close>).  The property on created job standards uses
  that a lazy load fails on an asyncio session (\<open>asyncio_lazy_load\<close>).  The objects behind an exception, in which the
  read-only violation is searched, are arbitrary (\<open>sk_chain\<close>).  The witnesses hold with concrete functions.

  \<^bold>\<open>Not modelled.\<close>  SQL is modelled by its result on the tables:
  isolation levels, deadlocks and concurrent transactions are not, so two requests run one after the
  other.  The service factories of app/api/deps.py only construct objects.  The JSON of the answers to
  commands is left out of \<open>exchange\<close>: the response is a value in the theory of the service.
  The counters of slowapi, the connection pools, Prometheus' text format, gzip, CORS, WeasyPrint,
  openpyxl, the ZIP format, Resend and Firebase are libraries: where the code uses their results they are
  arguments.  Code points above U+00FF in strings are outside the model.
\<close>

section \<open>A sample service\<close>

definition sample_server :: "(unit, files) server" where
  "sample_server = \<lparr>sv_settings = sample_settings, sv_libs = sample_libs,
     sv_engine = \<lparr>eg_url = ''db'', eg_read_only = False\<rparr>, sv_redis = Redis_up, sv_lazy_load = asyncio_lazy_load,
     sv_dump_company = (\<lambda>_. ()), sv_validate_company = (\<lambda>_. None), sv_dump_standard = (\<lambda>_. ()),
     sv_validate_standard = (\<lambda>_. None),
     sv_max_bytes = 100, sv_put = local_put [''var''] ''http://f'', sv_open = local_open [''var''],
     sv_remove = local_delete [''var''], sv_ilike = (=), sv_renderers = sample_renderers,
     sv_mailer = sample_mailer, sv_version_latest = ''1.0.0'', sv_version_min_supported = ''1.0.0''\<rparr>"

definition sample_world :: "(unit, files) world" where
  "sample_world = \<lparr>w_db = sample_db, w_tokens = (\<lambda>_. None), w_cache = (\<lambda>_. None), w_files = (\<lambda>_. None), w_tasks = [],
     w_running = []\<rparr>"

definition sample_moment :: moment where
  "sample_moment = \<lparr>mo_now = 5, mo_secs = 200, mo_salt = ''s'', mo_ulid = ''u'', mo_commit_error = ''closed''\<rparr>"

text \<open>A request with an access token of the given user, name and role.\<close>

definition sample_request :: "int \<Rightarrow> string \<Rightarrow> string \<Rightarrow> http_request" where
  "sample_request u n r =
     \<lparr>hr_authorization = Some (bearer_prefix @ create_token sample_settings sample_libs u n [r] ACCESS 100),
      hr_accesstoken = None, hr_cookie_access_token = None, hr_remote_address = ''1.2.3.4'', hr_path = ''/''\<rparr>"

lemma sample_request_user:
  "current_user (sv_settings sample_server) (sv_libs sample_server) (sample_request u n r) (mo_secs sample_moment) =
   Inr \<lparr>pr_user_id = u, pr_username = n, pr_roles = [r], pr_enabled = True, pr_non_locked = True\<rparr>"
  unfolding sample_server_def sample_moment_def server.simps moment.simps
  by (subst bearer_user [OF sample_jwt sample_compact, where iat = 100 and u = u and n = n
        and rs = "[r]" and t = ACCESS])
     (simp_all add: token_ttl_def sample_settings_def sample_request_def)

lemma sample_db_ok: "db_ok sample_db"
  using sample_schema_ok
  by (simp add: db_ok_def user_links_def leaves_inv_def schema_ok_def all_rows_def sample_defs)

lemma sample_refs_ok: "refs_ok sample_db"
  by (simp add: refs_ok_def fk_def keys_def sample_defs)

lemma sample_consistent: "schedules_consistent sample_db"
  by (simp add: schedules_consistent_def all_rows_def tget_def sample_defs)

section \<open>Properties of the service\<close>

text \<open>C5: whatever requests, queries, mail tasks and restarts the service goes through, in any order, with
  whatever tokens, whatever fails to flush or to commit, the database stays well-formed: every UNIQUE and
  CHECK constraint of the migrations holds (those of closed domains that are datatypes of the model by their type),
  every one of the 29 foreign keys names a row that exists, keys are
  in order and below the next key, and a leave stores the number of its days.\<close>

theorem database_stays_well_formed:
  assumes "db_ok (w_db w)" and "refs_ok (w_db w)"
  shows "db_ok (w_db (run_service V es w)) \<and> schema_ok (w_db (run_service V es w))
    \<and> refs_ok (w_db (run_service V es w))"
proof -
  have "db_ok (w_db (run_service V es w))" by (rule service_ok [OF assms(1)])
  moreover have "refs_ok (w_db (run_service V es w))" by (rule service_refs [OF assms])
  ultimately show ?thesis by (simp add: db_ok_def)
qed

theorem database_stays_well_formed_witness:
  "refs_ok (w_db (run_service sample_server
     [Call sample_moment (sample_request 1 ''admin'' ''ADMIN'') True True (Fire 1), Restart] sample_world))"
  by (rule database_stays_well_formed [THEN conjunct2, THEN conjunct2])
     (simp_all add: sample_world_def sample_db_ok sample_refs_ok)

text \<open>C3: whatever the service goes through, a schedule has at most one open record of a type, so no begin and
  no end of a record ever fails because there are several; and every schedule is for the standard its worker
  is assigned to.\<close>

theorem work_stays_consistent:
  assumes "db_ok (w_db w)" and "one_open_record (w_db w)" and "schedules_consistent (w_db w)"
  shows "one_open_record (w_db (run_service V es w)) \<and> schedules_consistent (w_db (run_service V es w))
    \<and> begin_record q now (w_db (run_service V es w)) \<noteq> Inl MultipleResultsFound
    \<and> end_record q' now (w_db (run_service V es w)) \<noteq> Inl MultipleResultsFound"
proof -
  have "work_ok (w_db (run_service V es w))" using service_work [of w V es] assms by (simp add: work_ok_def)
  then show ?thesis using one_open_no_multiple by (simp add: work_ok_def)
qed

theorem work_stays_consistent_witness:
  "schedules_consistent (w_db (run_service sample_server
     [Call sample_moment (sample_request 3 ''worker'' ''WORKER'') True True
        (Record_work (Begin_record (sample_start OFF)))] sample_world))"
  by (rule work_stays_consistent [THEN conjunct2, THEN conjunct1])
     (simp_all add: sample_world_def sample_db_ok sample_one_open sample_consistent)

text \<open>C1: the tenants are isolated.  As long as no request comes from an administrator or from a charger of a
  company other than c, whatever requests come, in whatever order, with or without a valid token, and
  whatever else happens: every leave, kiosk, mail schedule and mail job of the other companies stays as it
  was, and none is added or removed; only the runner of the mail may record the progress of a job, and it
  leaves what was asked of the job as it is.\<close>

theorem tenants_are_isolated:
  assumes "db_ok (w_db w)" and "\<forall>e \<in> set es. event_within V c (w_db w) e"
  shows "foreign_orders c (w_db (run_service V es w)) = foreign_orders c (w_db w)
    \<and> ((\<forall>e \<in> set es. \<not> runner_event e) \<longrightarrow> foreign_view c (w_db (run_service V es w)) = foreign_view c (w_db w))"
  by (rule run_foreign [OF assms])

definition sample_events :: "event list" where
  "sample_events =
     [Call sample_moment (sample_request 2 ''charger'' ''CHARGER'') True True (Drop_leave 1),
      Call sample_moment (sample_request 3 ''worker'' ''WORKER'') True True (Drop_leave 1),
      Call sample_moment (sample_request 2 ''charger'' ''CHARGER'') True True (Kiosk_request (Unbind_kiosk 1))]"

lemma sample_scopes:
  "get_company_scope \<lparr>pr_user_id = 2, pr_username = n, pr_roles = [''CHARGER''], pr_enabled = True, pr_non_locked = True\<rparr>
     sample_db = Inr (Some 1)"
  "get_company_scope \<lparr>pr_user_id = 3, pr_username = n, pr_roles = [''WORKER''], pr_enabled = True,
     pr_non_locked = True\<rparr> sample_db \<noteq> Inr sc"
  by (simp_all add: get_company_scope_def require_admin_or_charger_def require_roles_def has_role_def Let_def
      remove_prefix_def starts_with_def tsel_def sample_defs)

lemma sample_events_within: "\<forall>e \<in> set sample_events. event_within sample_server 1 (w_db sample_world) e"
  using sample_scopes
  by (auto simp: sample_events_def scope_within_def sample_request_user sample_world_def split: sum.splits)

theorem tenants_are_isolated_witness:
  "foreign_view 1 (w_db (run_service sample_server sample_events sample_world)) = foreign_view 1 sample_db"
  using tenants_are_isolated [OF _ sample_events_within] sample_db_ok
  by (simp add: sample_world_def sample_events_def)

text \<open>C12: what a charger reads says nothing about the contents of the other companies' leaves, kiosks, mail
  schedules and mail jobs: over two databases that differ only there, every query of an account without
  a scope other than c gets the same answer and leaves the same cache; and no query changes anything
  but the cache.\<close>

theorem answers_reveal_nothing_foreign:
  assumes "indistinguishable c (w_db w) d'" and "scope_within V c (w_db w) mo hr"
  shows "fst (exec_query V mo hr cm q w) = fst (exec_query V mo hr cm q (w\<lparr>w_db := d'\<rparr>))
    \<and> w_cache (snd (exec_query V mo hr cm q w)) = w_cache (snd (exec_query V mo hr cm q (w\<lparr>w_db := d'\<rparr>)))
    \<and> (\<exists>ca. snd (exec_query V mo hr cm q w) = w\<lparr>w_cache := ca\<rparr>)"
  by (auto simp: exec_query_world handle_query_indistinguishable [OF assms])

definition foreign_leave_db :: "string \<Rightarrow> db" where
  "foreign_leave_db reason = sample_db\<lparr>leaves := tins \<lparr>lv_worker_id = 1, lv_company_id = 2, lv_type = ANNUAL,
     lv_start = 0, lv_end = 1, lv_days = 2, lv_status = PENDING, lv_reason = Some reason, lv_created_by = None,
     lv_created_at = 0\<rparr> (leaves sample_db)\<rparr>"

theorem answers_reveal_nothing_foreign_witness:
  "fst (exec_query sample_server sample_moment (sample_request 2 ''charger'' ''CHARGER'') True
      (Leaves_of 1 None None) (sample_world\<lparr>w_db := foreign_leave_db ''ill''\<rparr>)) =
   fst (exec_query sample_server sample_moment (sample_request 2 ''charger'' ''CHARGER'') True
      (Leaves_of 1 None None) (sample_world\<lparr>w_db := foreign_leave_db ''tired''\<rparr>))"
proof -
  have "indistinguishable 1 (foreign_leave_db ''ill'') (foreign_leave_db ''tired'')"
    by (simp add: indistinguishable_def foreign_leave_db_def unscoped_part_def alike_rows_def tins_def
        list_all2_append list_all2_same split: prod.splits)
  moreover have "chargers (foreign_leave_db ''ill'') = chargers sample_db" by (simp add: foreign_leave_db_def)
  moreover have "scope_within sample_server 1 (foreign_leave_db ''ill'') sample_moment (sample_request 2 ''charger'' ''CHARGER'')"
    unfolding scope_within_chargers [OF \<open>chargers (foreign_leave_db ''ill'') = chargers sample_db\<close>]
    using sample_scopes(1) by (simp add: scope_within_def sample_request_user)
  ultimately show ?thesis
    using answers_reveal_nothing_foreign [of 1 "sample_world\<lparr>w_db := foreign_leave_db ''ill''\<rparr>"
        "foreign_leave_db ''tired''" sample_server sample_moment "sample_request 2 ''charger'' ''CHARGER''" True
        "Leaves_of 1 None None"] by simp
qed

text \<open>C4: from a start without tasks, every run of the service moves the mail jobs as the specification of their
  life says (queued, sending, succeeded or failed), whatever requests, failed commits and restarts come in
  between: a job that was seen in some phase is never seen in an earlier one nor disappears, and a
  finished job keeps its outcome for good.\<close>

theorem service_refines_mail_life:
  assumes "db_ok (w_db w)" and "w_tasks w = []" and "w_running w = []"
    and past: "w1 = run_service V es w" and future: "w2 = run_service V es' w1"
  shows "phase_step\<^sup>*\<^sup>* (phases (w_db w1)) (phases (w_db w2))
    \<and> (\<forall>i p. phases (w_db w1) i = Some p \<longrightarrow> (\<exists>q \<ge> p. phases (w_db w2) i = Some q)
         \<and> (p \<in> {Succeeded, Failed} \<longrightarrow> phases (w_db w2) i = Some p))"
proof -
  have "bulk_inv (mail_view w)" using assms(1-3)
    by (simp add: mail_view_def bulk_inv_start db_ok_defs bulk_jobs_ok_def)
  then have "bulk_inv (mail_view w1)" using bulk_reachable_inv [OF service_refines] past by metis
  then have "phase_step\<^sup>*\<^sup>* (phases (w_db w1)) (phases (w_db w2))"
    using bulk_reachable_inv [OF service_refines, of w1 V es'] future by (simp add: mail_view_def)
  then show ?thesis using phases_grow phase_finished_stays by blast
qed

definition sample_mail :: "event list" where
  "sample_mail = [Call sample_moment (sample_request 2 ''charger'' ''CHARGER'') True True
     (Mail_journals \<lparr>bq_company_id = 1, bq_date = 0, bq_recipient = ''a@b'', bq_format = HWP\<rparr>)]"

theorem service_refines_mail_life_witness:
  "phase_step\<^sup>*\<^sup>* (phases (w_db (run_service sample_server sample_mail sample_world)))
     (phases (w_db (run_service sample_server [Start_mail (Run_job 1) 6 True, Finish_mail 1 7 True]
        (run_service sample_server sample_mail sample_world))))"
  by (rule service_refines_mail_life [THEN conjunct1, OF _ _ _ refl refl, of sample_world])
     (simp_all add: sample_world_def sample_db_ok)

text \<open>C7: a request or a query whose bearer token does not pass the guard of its endpoint (no valid access
  token, or none of the roles) is refused and changes nothing anywhere: neither the database nor the
  refresh tokens, the cache, the stored files or the queue of background tasks.\<close>

theorem refused_requests_change_nothing:
  "(\<not> permitted V mo hr (access_of req) \<longrightarrow> (\<exists>e. exec_request V mo hr fl cm req w = (Inl e, w)))
   \<and> (\<not> permitted V mo hr (query_access q) \<longrightarrow> (\<exists>e. exec_query V mo hr cm q w = (Inl e, w)))"
  using refused [of V mo hr req w] exec_refused [of V mo hr req w _ fl cm] query_refused [of V mo hr q cm w] by blast

theorem refused_requests_change_nothing_witness:
  "(\<exists>e. exec_request sample_server sample_moment (sample_request 4 ''carer'' ''CAREGIVER'') True True (Fire 1) sample_world
      = (Inl e, sample_world))
   \<and> (\<exists>e. exec_query sample_server sample_moment (sample_request 4 ''carer'' ''CAREGIVER'') True (Journal_pdf 1) sample_world
      = (Inl e, sample_world))"
  using refused_requests_change_nothing [of sample_server sample_moment "sample_request 4 ''carer'' ''CAREGIVER''"
      "Fire 1" True True sample_world "Journal_pdf 1"]
  by (simp add: permitted_def sample_request_user)

text \<open>C11: in the read-only mode no run of the service changes the database.  A change that was sent to the
  database before the handler returned is answered with the read-only error; one that was not is answered
  with success although nothing is stored.\<close>

theorem read_only_mode:
  assumes "st_app_read_only (sv_settings V)" and "eg_read_only (sv_engine V)"
  shows "w_db (run_service V es w) = w_db w
    \<and> (\<forall>d'. fst (handle_request V mo hr req w) = Inr d' \<and> d' \<noteq> w_db w \<longrightarrow>
         fst (exec_request V mo hr True cm req w) = Inl Read_only_violation
         \<and> fst (exec_request V mo hr False cm req w) = Inr ())"
  using run_read_only [OF assms, of es w] assms
  by (auto simp: exec_request_def get_db_session_def Let_def split: prod.splits)

definition read_only_server :: "(unit, files) server" where
  "read_only_server = sample_server\<lparr>sv_settings := sample_settings\<lparr>st_app_read_only := True\<rparr>,
     sv_engine := \<lparr>eg_url = ''db'', eg_read_only = True\<rparr>\<rparr>"

theorem read_only_mode_witness:
  "w_db (run_service read_only_server
     [Call sample_moment (sample_request 1 ''admin'' ''ADMIN'') False True (Enable_user 2 False)] sample_world) = sample_db"
  using read_only_mode [of read_only_server
      "[Call sample_moment (sample_request 1 ''admin'' ''ADMIN'') False True (Enable_user 2 False)]" sample_world]
  by (simp add: read_only_server_def sample_world_def)

text \<open>C40: a second \<open>begin_process\<close> of a process that is already open succeeds, and from then on nothing the service
  goes through, no requests, no mail tasks and no restarts, can end that process: its end fails on several open
  records for good.\<close>

theorem double_begin_process_blocks:
  assumes "table_ok (process_records d)"
    and "tget (schedules d) (ps_schedule_id q) \<noteq> None" and "tget (processes d) (ps_process_id q) \<noteq> None"
    and "ps_schedule_id q2 = ps_schedule_id q" and "ps_process_id q2 = ps_process_id q"
    and "pe_schedule_id e = ps_schedule_id q" and "pe_process_id e = ps_process_id q"
  shows "\<exists>r1 d1 r2 d2. begin_process q now d = Inr (r1, d1) \<and> begin_process q2 now2 d1 = Inr (r2, d2)
    \<and> (\<forall>w. w_db w = d2 \<longrightarrow> end_process e now3 (w_db (run_service V es w)) = Inl MultipleResultsFound)"
proof -
  from begin_process_twice [OF assms(1-5), of now now2] obtain r1 d1 r2 d2 where
    b: "begin_process q now d = Inr (r1, d1)" "begin_process q2 now2 d1 = Inr (r2, d2)"
    and blocked: "process_blocked (ps_schedule_id q) (ps_process_id q) d2" by blast
  have "end_process e now3 (w_db (run_service V es w)) = Inl MultipleResultsFound" if "w_db w = d2" for w
  proof (rule blocked_end)
    show "process_blocked (pe_schedule_id e) (pe_process_id e) (w_db (run_service V es w))"
      unfolding assms(6,7) by (rule service_blocked) (simp add: blocked that)
  qed
  then show ?thesis using b by blast
qed

theorem double_begin_process_blocks_witness:
  "\<exists>d2. end_process sample_process_end 3
     (w_db (run_service sample_server [Call sample_moment (sample_request 3 ''worker'' ''WORKER'') True True
        (Record_work (End_process sample_process_end)), Restart] (sample_world\<lparr>w_db := d2\<rparr>))) = Inl MultipleResultsFound"
proof -
  have "table_ok (process_records sample_db)"
    "tget (schedules sample_db) (ps_schedule_id sample_process_start) \<noteq> None"
    "tget (processes sample_db) (ps_process_id sample_process_start) \<noteq> None"
    "pe_schedule_id sample_process_end = ps_schedule_id sample_process_start"
    "pe_process_id sample_process_end = ps_process_id sample_process_start"
    by (simp_all add: sample_defs tget_def table_ok_def sample_process_start_def sample_process_end_def)
  from double_begin_process_blocks [OF this(1-3) refl refl this(4,5), of 1 2 3 sample_server] obtain d2 where
    "\<forall>w. w_db w = d2 \<longrightarrow> end_process sample_process_end 3
       (w_db (run_service sample_server [Call sample_moment (sample_request 3 ''worker'' ''WORKER'') True True
          (Record_work (End_process sample_process_end)), Restart] w)) = Inl MultipleResultsFound" by blast
  then show ?thesis by (intro exI [of _ d2]) simp
qed

section \<open>The service over HTTP\<close>

definition sample_framework :: "call framework" where
  "sample_framework = \<lparr>fw_router = first_match,
     fw_bind = (\<lambda>r ps body. if serves r body then Inr body else Inl (Validation_error [])),
     fw_allowed = (\<lambda>r hr. True), fw_render = (\<lambda>r y. json_response 200 [])\<rparr>"

lemma sample_allowed: "fw_allowed sample_framework r hr"
  by (simp add: sample_framework_def)

definition sample_site :: "(unit, files) site" where
  "sample_site = \<lparr>si_server = sample_server, si_process = Requests.new_process,
     si_firebase = \<lparr>fb_dumps = (\<lambda>j. []), fb_send = (\<lambda>msg. Inr ''id'')\<rparr>, si_select_1 = Inr (), si_ping = Inr True,
     si_version = ''0.1.0'', si_metrics = [], si_metrics_type = ''text/plain'',
     si_library_page = (\<lambda>f. json_response 200 [])\<rparr>"

text \<open>C13: every operation of the model has a URL of its own and every endpoint of the server is an operation of the
  model.  A request to that URL, with the numbers the operation needs written into the path and a body
  that FastAPI binds to it, runs exactly that operation on the state, unless the limiter turns it away;
  it is never taken for another endpoint.\<close>

theorem every_operation_has_its_url:
  assumes "documented_router (fw_router X)" and "encodes X c body" and "\<forall>f. c \<noteq> Library_page f"
  shows "(\<exists>r \<in> set app_routes. serves r c \<and> (\<forall>mth \<in> set (rt_methods r).
      dispatch X S mo hr fl cm mth (call_url r c) body w =
        (if rt_limit r \<noteq> None \<and> \<not> fw_allowed X r hr then (Inl (Rate_limit_exceeded (the (rt_limit r))), [], w)
         else (case run_call S mo hr fl cm c w of
                 (Inl e, sent, w') \<Rightarrow> (Inl (Exn e), sent, w')
               | (Inr y, sent, w') \<Rightarrow> (Inr (fw_render X r y), sent, w')))))
    \<and> (\<forall>r \<in> set app_routes. \<exists>c. serves r c)"
proof -
  from call_served [OF assms(3)] obtain r where r: "r \<in> set app_routes" "serves r c" by blast
  have names: "param_names r = map fst (call_args c)"
    using r(2) by (auto simp: serves_def route_place_def names_of_def call_args_def split: prod.splits)
  have "fw_router X app_routes mth (call_url r c) = Matched r (rendered_args c)" if "mth \<in> set (rt_methods r)" for mth
    using no_hidden_route [OF assms(1) r(1) that, of "map snd (call_args c)"]
    by (simp add: names call_url_def rendered_args_def zip_map_map zip_same_conv_map case_prod_beta)
  then show ?thesis
    using r assms(2) every_route_serves
    by (intro conjI bexI [OF _ r(1)]) (auto simp: dispatch_def run_route_def encodes_def split: prod.splits sum.splits)
qed

theorem every_operation_has_its_url_witness:
  "\<exists>r \<in> set app_routes. serves r (Command (Drop_leave 1)) \<and> (\<forall>mth \<in> set (rt_methods r).
     dispatch sample_framework sample_site sample_moment (sample_request 1 ''admin'' ''ADMIN'') True True mth
       (call_url r (Command (Drop_leave 1))) (Command (Drop_leave 1)) sample_world =
     (case run_call sample_site sample_moment (sample_request 1 ''admin'' ''ADMIN'') True True (Command (Drop_leave 1))
         sample_world of
        (Inl e, sent, w') \<Rightarrow> (Inl (Exn e), sent, w')
      | (Inr y, sent, w') \<Rightarrow> (Inr (fw_render sample_framework r y), sent, w')))"
proof -
  have "documented_router (fw_router sample_framework)" by (simp add: sample_framework_def first_match_documented)
  moreover have "encodes sample_framework (Command (Drop_leave 1)) (Command (Drop_leave 1))"
    by (simp add: sample_framework_def encodes_def)
  ultimately show ?thesis
    using every_operation_has_its_url [THEN conjunct1, of sample_framework "Command (Drop_leave 1)" "Command (Drop_leave 1)"
        sample_site sample_moment "sample_request 1 ''admin'' ''ADMIN''" True True sample_world]
    by (simp add: sample_allowed del: run_call.simps)
qed

text \<open>C8: what a client without a valid access token can do through HTTP, whatever method, path, headers and
  body it sends.  No message goes to Firebase.  The state of the service (database, refresh tokens,
  cache, files, background tasks) stays as it is, unless the request was routed to login, refresh or
  sign-up and the limiter of that endpoint let it pass.  A CORS preflight gets the answer that CORS gives to the
  request alone, without reaching a route, the state or the counters.  Otherwise a successful answer comes only
  from the public endpoints, the root page, the actuator and the pages of the documentation; everything
  else is answered with a redirect or an error.\<close>

theorem anonymous_clients:
  assumes "documented_router (fw_router X)" and "binds_operations X"
    and "keeps_headers (sk_gzip K)" and "keeps_headers (sk_cors K)"
    and "isl (current_user (sv_settings (si_server S)) (sv_libs (si_server S)) hr (mo_secs mo))"
    and "exchange X K S mo hr fl cm rq fresh body w m = (resp, sent, w', m')"
  shows "sent = []
    \<and> (w' \<noteq> w \<longrightarrow> \<not> is_preflight rq \<and> (\<exists>r ps. fw_router X app_routes (rq_method rq) (rq_path rq) = Matched r ps
         \<and> (rt_module r, rt_function r) \<in> set anonymous_writes \<and> rt_limit r \<noteq> None \<and> fw_allowed X r hr))
    \<and> (is_preflight rq \<longrightarrow> resp = sk_preflight K rq \<and> m' = m)
    \<and> (\<not> is_preflight rq \<and> rs_status resp < 300 \<longrightarrow>
         (\<exists>r ps. fw_router X app_routes (rq_method rq) (rq_path rq) = Matched r ps \<and> open_to_all r))"
proof (cases "is_preflight rq")
  case True
  then show ?thesis using assms(6) by (simp add: exchange_def)
next
  case False
  note status = raised_status [OF assms(3,4) False] answered_status [OF assms(3,4) False]
  obtain outcome where d: "dispatch X S mo hr fl cm (rq_method rq) (rq_path rq) body w = (outcome, sent, w')"
    and s: "serve (st_app_env (sv_settings (si_server S))) K rq fresh outcome m = (resp, m')"
    using assms(6) False by (auto simp: exchange_def split: prod.splits)
  show ?thesis
  proof (cases "fw_router X app_routes (rq_method rq) (rq_path rq)")
    case (Matched r ps)
    then have r: "r \<in> set app_routes" by (rule documented_member [OF assms(1)])
    from d Matched have "run_route X S mo hr fl cm r ps body w = (outcome, sent, w')" by (simp add: dispatch_def)
    note a = route_anonymous [OF assms(5,2) r this]
    then show ?thesis using Matched False s status(1) by fastforce
  next
    case (Redirected url)
    then have "sent = [] \<and> w' = w" "outcome = Inr (redirect_response url)" using d by (auto simp: dispatch_def)
    then show ?thesis using status(2) False s by (fastforce simp: redirect_response_def)
  qed (use d s status(1) False in \<open>fastforce simp: dispatch_def\<close>)+
qed

definition sample_delete :: request_info where
  "sample_delete = \<lparr>rq_method = ''DELETE'', rq_path = ''/api/v1/leaves/1'', rq_headers = [],
     rq_route = Some ''/api/v1/leaves/{leave_id}''\<rparr>"

lemma sample_delete_route:
  "first_match app_routes ''DELETE'' ''/api/v1/leaves/1'' =
   Matched (delete_route ''/api/v1/leaves/{leave_id}'' ''leaves'' ''delete_leave'') [(''leave_id'', ''1'')]"
proof -
  let ?r = "delete_route ''/api/v1/leaves/{leave_id}'' ''leaves'' ''delete_leave''"
  have r: "?r \<in> set app_routes"
    by (simp add: app_routes_def api_v1_routes_def include_router_def leaves_routes_def add_route_def)
  have "path_of ?r [1] = ''/api/v1/leaves/1''" "zip (param_names ?r) (map str_of_int [1]) = [(''leave_id'', ''1'')]"
    "length [1 :: int] = length (param_names ?r)" by code_simp+
  then show ?thesis using no_hidden_route [OF first_match_documented r, of "''DELETE''" "[1]"]
    by (simp add: add_route_def)
qed

theorem anonymous_clients_witness:
  "\<exists>resp m'. exchange sample_framework sample_stack sample_site sample_moment
       ((sample_request 1 ''admin'' ''ADMIN'')\<lparr>hr_authorization := None\<rparr>) True True sample_delete ''f''
       (Command (Drop_leave 1)) sample_world \<lparr>mt_requests = (\<lambda>_. 0), mt_latencies = (\<lambda>_. 0)\<rparr> =
     (resp, [], sample_world, m') \<and> 300 \<le> rs_status resp"
proof -
  let ?hr = "(sample_request 1 ''admin'' ''ADMIN'')\<lparr>hr_authorization := None\<rparr>"
  obtain resp sent w' m' where e: "exchange sample_framework sample_stack sample_site sample_moment ?hr True True
      sample_delete ''f'' (Command (Drop_leave 1)) sample_world \<lparr>mt_requests = (\<lambda>_. 0), mt_latencies = (\<lambda>_. 0)\<rparr> =
      (resp, sent, w', m')" by (metis prod_cases4)
  have f: "documented_router (fw_router sample_framework)" "binds_operations sample_framework"
    by (simp_all add: sample_framework_def first_match_documented binds_operations_def)
  have "isl (current_user (sv_settings (si_server sample_site)) (sv_libs (si_server sample_site)) ?hr (mo_secs sample_moment))"
    by (simp add: current_user_def current_user_optional_def resolve_bearer_token_def legacy_token_def
        truthy_def sample_request_def)
  moreover have "\<not> is_preflight sample_delete" by (simp add: is_preflight_def sample_delete_def)
  ultimately show ?thesis using anonymous_clients [OF f sample_stack_keeps _ e] e sample_delete_route
    by (auto simp: sample_framework_def sample_delete_def add_route_def open_to_all_def anonymous_writes_def
        anonymous_reads_def not_less [symmetric])
qed

section \<open>The demo data\<close>

lemma login_issues:
  assumes "login s L q now at d st = (Inr (t, d'), st')" and "fetch_by_username (lq_username q) d = Inr (Some (uid, u))"
  shows "tr_access_token t = create_token s L uid (u_username u) [role_value (u_role u)] ACCESS now"
  using login_success [OF assms(1)] assms(2)
  by (auto simp: issue_token_pair_def create_access_token_def Let_def)

text \<open>C29: after the demo script has run, each account of its documentation logs in with its user name
  followed by 1234, on any service with a database of its own that is not in production, and the access
  token it gets is accepted at once as that user with the role the documentation gives.\<close>

theorem demo_accounts_log_in:
  assumes libs: "bcrypt_verifies L" "jwt_round_trip L" "jwt_compact L" and ttl: "0 < st_jwt_access_ttl_minutes s"
    and seeded: "seed s L salt now at d = (Inr counts, d')" and account: "(n, role) \<in> set demo_accounts"
    and q: "lq_username q = n" "lq_password q = n @ ''1234''"
  shows "\<exists>uid u t d'' st'. tget (users d') uid = Some u \<and> u_username u = n \<and> u_role u = role
    \<and> login s L q secs when d' st = (Inr (t, d''), st')
    \<and> current_user s L (r\<lparr>hr_authorization := Some (bearer_prefix @ tr_access_token t)\<rparr>) secs =
        Inr \<lparr>pr_user_id = uid, pr_username = n, pr_roles = [role_value role], pr_enabled = True, pr_non_locked = True\<rparr>"
proof -
  have "st_app_env s \<noteq> Env_prod" using seeded by (auto simp: seed_def)
  then have d': "d' = demo_db L salt now at" using seeded seed_db [of s L salt now at d] by simp
  from demo_account [OF account, of L salt now at, folded d'] obtain uid u where
    f: "fetch_by_username n d' = Inr (Some (uid, u))" and u: "tget (users d') uid = Some u" "u_username u = n"
      "u_role u = role" "u_enabled u" "u_password_hash u = hash_password L (n @ ''1234'') (salt n)" by blast
  have "workers_ok (workers d')" using demo_db_sound(1) [of L salt now at] by (simp add: d' sound_def db_ok_defs)
  then obtain d'' where w: "login_writes s uid u q when d' = Inr d''"
    using login_writes_total [of d' s uid u q "when"] by (cases "login_writes s uid u q when d'") simp_all
  obtain t st' where "issue_token_pair s L uid u secs st = (t, st')" by force
  then have l: "login s L q secs when d' st = (Inr (t, d''), st')"
    using hash_verifies [OF libs(1)] by (simp add: login_def f q u w)
  have "tr_access_token t = create_token s L uid n [role_value role] ACCESS secs"
    using login_issues [OF l] f q u by simp
  then have "current_user s L (r\<lparr>hr_authorization := Some (bearer_prefix @ tr_access_token t)\<rparr>) secs =
        Inr \<lparr>pr_user_id = uid, pr_username = n, pr_roles = [role_value role], pr_enabled = True, pr_non_locked = True\<rparr>"
    using ttl by (subst bearer_user [OF libs(2,3), where iat = secs and u = uid and n = n and rs = "[role_value role]"
          and t = ACCESS]) (simp_all add: token_ttl_def)
  then show ?thesis using u l by blast
qed

theorem demo_accounts_log_in_witness:
  "\<exists>uid u t d'' st'.
     tget (users (snd (seed sample_settings sample_libs (\<lambda>n. n) 0 0 sample_db))) uid = Some u
     \<and> u_username u = ''charger'' \<and> u_role u = CHARGER
     \<and> login sample_settings sample_libs \<lparr>lq_username = ''charger'', lq_password = ''charger1234'', lq_fcm_token = None\<rparr>
          7 7 (snd (seed sample_settings sample_libs (\<lambda>n. n) 0 0 sample_db)) (\<lambda>_. None) = (Inr (t, d''), st')
     \<and> current_user sample_settings sample_libs ((sample_request 1 ''x'' ''ADMIN'')\<lparr>hr_authorization :=
          Some (bearer_prefix @ tr_access_token t)\<rparr>) 7 =
        Inr \<lparr>pr_user_id = uid, pr_username = ''charger'', pr_roles = [role_value CHARGER], pr_enabled = True,
          pr_non_locked = True\<rparr>"
proof (rule demo_accounts_log_in [OF sample_bcrypt sample_jwt sample_compact])
  show "seed sample_settings sample_libs (\<lambda>n. n) 0 0 sample_db =
      (Inr demo_counts, snd (seed sample_settings sample_libs (\<lambda>n. n) 0 0 sample_db))"
    using seed_db [of sample_settings sample_libs "\<lambda>n. n" 0 0 sample_db]
    by (simp add: demo_db_sound(3) sample_settings_def)
qed (simp_all add: sample_settings_def demo_accounts_def)

end
